(* ===== verification/Prelude.thy ===== *)
theory Prelude
  imports "HOL-Library.Word" "HOL-Library.Sublist" "HOL-Library.Multiset"
begin

text \<open>
  Shared vocabulary of the development: the machine integers the extension uses, C strings
  inside byte strings, and the collections of facts the component proofs are closed with.
\<close>

section \<open>Machine integers\<close>

text \<open>
  \<open>zend_long\<close> and C \<open>long\<close> are 64 bit, \<open>int\<close>, \<open>uint32_t\<close> and C enums 32 bit, generations
  16 bit. A C conversion to a narrower type is \<open>ucast\<close> (truncation), a sign-extending one
  \<open>scast\<close>. A \<open>double\<close> is carried around but never computed with: it is its bit pattern.
\<close>

type_synonym zlong = "64 word"
type_synonym cint = "32 word"
type_synonym u32 = "32 word"
type_synonym u16 = "16 word"
type_synonym dbl = "64 word"

named_theorems hash_simps \<open>what a look-up in a PHP array returns after an update\<close>

section \<open>C strings\<close>

text \<open>
  PHP strings carry their length and may hold NUL bytes. A C function that takes a
  \<open>char*\<close> sees the bytes before the first NUL: \<open>strdup\<close>, \<open>strcpy\<close>, \<open>strlen\<close>.
\<close>

definition NUL :: char where
  "NUL = CHR 0x00"

definition c_str :: "string \<Rightarrow> string" where
  "c_str s = takeWhile (\<lambda>c. c \<noteq> NUL) s"

definition strlen :: "string \<Rightarrow> nat" where
  "strlen s = length (c_str s)"

definition nul_free :: "string \<Rightarrow> bool" where
  "nul_free s \<longleftrightarrow> NUL \<notin> set s"

lemma c_str_id [simp]: "nul_free s \<Longrightarrow> c_str s = s"
  by (simp add: nul_free_def c_str_def takeWhile_eq_all_conv) blast

lemma nul_free_c_str [simp]: "nul_free (c_str s)"
  by (auto simp: nul_free_def c_str_def dest: set_takeWhileD)

lemma c_str_idem [simp]: "c_str (c_str s) = c_str s"
  by simp

lemma c_str_id_iff: "c_str s = s \<longleftrightarrow> nul_free s"
  by (metis c_str_id nul_free_c_str)

lemma strlen_le [simp]: "strlen s \<le> length s"
  by (simp add: strlen_def c_str_def length_takeWhile_le)

lemma length_c_str [simp]: "length (c_str s) \<le> length s"
  using strlen_le [of s] by (simp only: strlen_def)

lemma length_c_str_less [simp]: "length s < n \<Longrightarrow> length (c_str s) < n"
  by (rule le_less_trans [OF length_c_str])

lemma strlen_nul_free [simp]: "nul_free s \<Longrightarrow> strlen s = length s"
  by (simp add: strlen_def)

text \<open>\<open>strncmp(s, t, n) == 0\<close>; the end of a list is the terminating NUL.\<close>

fun strncmp0 :: "string \<Rightarrow> string \<Rightarrow> nat \<Rightarrow> bool" where
  "strncmp0 s t 0 = True"
| "strncmp0 s t (Suc n) =
     (let a = (case s of [] \<Rightarrow> NUL | c # _ \<Rightarrow> c); b = (case t of [] \<Rightarrow> NUL | c # _ \<Rightarrow> c)
      in a = b \<and> (a = NUL \<or> strncmp0 (tl s) (tl t) n))"

lemma strncmp0_length:
  "nul_free s \<Longrightarrow> strncmp0 s t (length s) \<longleftrightarrow> prefix s t"
proof (induction s arbitrary: t)
  case Nil
  then show ?case by simp
next
  case (Cons c s)
  then have "nul_free s" and "c \<noteq> NUL" by (auto simp: nul_free_def)
  with Cons.IH show ?case by (cases t) auto
qed

text \<open>\<open>strcmp(s, t) == 0\<close> compares up to the NUL.\<close>

definition strcmp0 :: "string \<Rightarrow> string \<Rightarrow> bool" where
  "strcmp0 s t \<longleftrightarrow> c_str s = c_str t"

lemma strcmp0_refl [simp]: "strcmp0 s s"
  by (simp add: strcmp0_def)

section \<open>Association lists\<close>

lemma map_of_append_notin: "k \<notin> fst ` set xs \<Longrightarrow> map_of (xs @ [(k, v)]) k = Some v"
  by (induction xs) auto

lemma map_of_mset_eq:
  assumes "mset xs = mset ys" and "distinct (map fst xs)"
  shows "map_of xs = map_of ys"
proof -
  from assms(1) have "set xs = set ys" by (rule mset_eq_setD)
  moreover from assms have "distinct (map fst ys)"
    by (metis mset_map mset_eq_imp_distinct_iff)
  ultimately show ?thesis using assms(2) by (simp add: map_of_inject_set)
qed

lemma ucast_32_64_id [simp]: "(ucast (ucast (w :: u32) :: zlong) :: u32) = w"
  by (simp add: ucast_up_ucast_id is_up)

lemma ucast_16_64_id [simp]: "(ucast (ucast (w :: u16) :: zlong) :: u16) = w"
  by (simp add: ucast_up_ucast_id is_up)

text \<open>How \<open>pred_option\<close> is evaluated.\<close>

lemma pred_option_code [code]: "pred_option P x = (case x of None \<Rightarrow> True | Some y \<Rightarrow> P y)"
  by (cases x) simp_all

end
