(* ===== verification/Zend.thy ===== *)
theory Zend
  imports Prelude
begin

text \<open>
  PHP values and PHP arrays, the data every entry point of the extension receives and
  returns. A \<open>zval\<close> is tagged as in the Zend engine (\<open>Z_TYPE_P\<close>), and a \<open>HashTable\<close> is an
  ordered dictionary from integer or string keys: the list of its entries in iteration order,
  which is what \<open>ZEND_HASH_FOREACH_*\<close> walks over. A value behind a PHP reference is tagged
  \<open>IS_REFERENCE\<close> and the code does not look through it.
\<close>

section \<open>Values\<close>

datatype php_key = IKey zlong | SKey string

datatype zval =
    ZUndef | ZNull | ZFalse | ZTrue
  | ZLong zlong
  | ZDouble dbl
  | ZString string
  | ZArray "(php_key \<times> zval) list"
  | ZObject string "(string \<times> zval) list" \<comment> \<open>class name, properties\<close>
  | ZResource zlong
  | ZReference zval

type_synonym htab = "(php_key \<times> zval) list"

definition is_bool :: "zval \<Rightarrow> bool" where
  "is_bool z \<longleftrightarrow> z = ZTrue \<or> z = ZFalse"

fun is_array :: "zval \<Rightarrow> bool" where
  "is_array (ZArray _) = True"
| "is_array _ = False"

fun is_string :: "zval \<Rightarrow> bool" where
  "is_string (ZString _) = True"
| "is_string _ = False"

fun is_long :: "zval \<Rightarrow> bool" where
  "is_long (ZLong _) = True"
| "is_long _ = False"

lemma is_array_iff: "is_array z \<longleftrightarrow> (\<exists>h. z = ZArray h)"
  by (cases z) auto

lemma is_string_iff: "is_string z \<longleftrightarrow> (\<exists>s. z = ZString s)"
  by (cases z) auto

lemma is_long_iff: "is_long z \<longleftrightarrow> (\<exists>n. z = ZLong n)"
  by (cases z) auto

section \<open>Arrays\<close>

abbreviation hash_find :: "(php_key \<times> 'v) list \<Rightarrow> php_key \<Rightarrow> 'v option" where
  "hash_find \<equiv> map_of"

abbreviation index_find :: "(php_key \<times> 'v) list \<Rightarrow> zlong \<Rightarrow> 'v option" where
  "index_find h n \<equiv> map_of h (IKey n)"

abbreviation str_find :: "(php_key \<times> 'v) list \<Rightarrow> string \<Rightarrow> 'v option" where
  "str_find h s \<equiv> map_of h (SKey s)"

text \<open>Storing under a key overwrites in place, or appends a new entry.\<close>

fun hash_update :: "(php_key \<times> 'v) list \<Rightarrow> php_key \<Rightarrow> 'v \<Rightarrow> (php_key \<times> 'v) list" where
  "hash_update [] k v = [(k, v)]"
| "hash_update ((k', v') # h) k v =
     (if k' = k then (k, v) # h else (k', v') # hash_update h k v)"

definition wf_hash :: "(php_key \<times> 'v) list \<Rightarrow> bool" where
  "wf_hash h \<longleftrightarrow> distinct (map fst h)"

text \<open>
  The interface the conversions rely on: an array type with an empty array, an update and a
  look-up, where a look-up sees the last update of its key and the keys stay distinct.
\<close>

locale php_array =
  fixes empty :: "'h"
    and update :: "'h \<Rightarrow> 'k \<Rightarrow> 'v \<Rightarrow> 'h"
    and find :: "'h \<Rightarrow> 'k \<Rightarrow> 'v option"
    and keys :: "'h \<Rightarrow> 'k list"
  assumes find_empty: "find empty k = None"
    and find_update: "find (update h k v) = (find h)(k \<mapsto> v)"
    and keys_empty: "keys empty = []"
    and keys_update: "keys (update h k v) = (if k \<in> set (keys h) then keys h else keys h @ [k])"
    and find_dom: "find h k \<noteq> None \<longleftrightarrow> k \<in> set (keys h)"
begin

definition fill :: "('k \<times> 'v) list \<Rightarrow> 'h \<Rightarrow> 'h" where
  "fill kvs h = foldl (\<lambda>h (k, v). update h k v) h kvs"

lemma fill_Nil [simp]: "fill [] h = h"
  by (simp add: fill_def)

lemma fill_Cons [simp]: "fill ((k, v) # kvs) h = fill kvs (update h k v)"
  by (simp add: fill_def)

lemma find_fill: "find (fill kvs h) = find h ++ map_of (rev kvs)"
proof (induction kvs arbitrary: h)
  case Nil
  then show ?case by simp
next
  case (Cons kv kvs)
  obtain k v where kv: "kv = (k, v)" by (cases kv)
  have "find (fill (kv # kvs) h) = (find h)(k \<mapsto> v) ++ map_of (rev kvs)"
    by (simp only: kv fill_Cons Cons.IH find_update)
  then show ?case by (simp add: kv map_add_def fun_eq_iff split: option.splits)
qed

lemma find_fill_distinct:
  "distinct (map fst kvs) \<Longrightarrow> find (fill kvs empty) = map_of kvs"
proof -
  assume d: "distinct (map fst kvs)"
  have "map_of (rev kvs) = map_of kvs"
    by (rule map_of_mset_eq) (use d in \<open>simp_all add: rev_map [symmetric]\<close>)
  then show ?thesis by (simp add: find_fill fun_eq_iff find_empty map_add_def split: option.splits)
qed

lemma keys_fill_distinct:
  "distinct (map fst kvs) \<Longrightarrow> set (map fst kvs) \<inter> set (keys h) = {} \<Longrightarrow>
     keys (fill kvs h) = keys h @ map fst kvs"
  by (induction kvs arbitrary: h) (auto simp: keys_update)

lemma distinct_keys_update: "distinct (keys h) \<Longrightarrow> distinct (keys (update h k v))"
  by (simp add: keys_update)

lemma distinct_keys_fill: "distinct (keys h) \<Longrightarrow> distinct (keys (fill kvs h))"
  by (induction kvs arbitrary: h) (auto simp: distinct_keys_update)

end

lemma map_of_hash_update: "map_of (hash_update h k v) = (map_of h)(k \<mapsto> v)"
  by (induction h k v rule: hash_update.induct) (auto simp: fun_eq_iff)

lemma keys_hash_update:
  "map fst (hash_update h k v) = (if k \<in> set (map fst h) then map fst h else map fst h @ [k])"
  by (induction h k v rule: hash_update.induct) auto

interpretation zend: php_array "[]" hash_update map_of "map fst"
  by unfold_locales
    (simp_all add: map_of_hash_update keys_hash_update map_of_eq_None_iff)

lemma wf_hash_update [simp]: "wf_hash h \<Longrightarrow> wf_hash (hash_update h k v)"
  unfolding wf_hash_def by (rule zend.distinct_keys_update)

lemma wf_hash_Nil [simp]: "wf_hash []"
  by (simp add: wf_hash_def)

lemma hash_find_update [hash_simps]:
  "map_of (hash_update h k v) k' = (if k' = k then Some v else map_of h k')"
  by (simp add: map_of_hash_update)

lemma hash_update_new [simp]: "k \<notin> fst ` set h \<Longrightarrow> hash_update h k v = h @ [(k, v)]"
  by (induction h k v rule: hash_update.induct) auto

lemma fill_append_distinct:
  "distinct (map fst (h @ kvs)) \<Longrightarrow> zend.fill kvs h = h @ kvs"
  by (induction kvs arbitrary: h) (auto simp: image_iff)

section \<open>Lists among the arrays\<close>

text \<open>
  \<open>hashtable_is_list\<close> walks the entries with an \<open>int\<close> counter that C converts to the
  unsigned key type for the comparison.
\<close>

fun is_list_from :: "cint \<Rightarrow> (php_key \<times> 'v) list \<Rightarrow> bool" where
  "is_list_from i [] = True"
| "is_list_from i ((SKey s, v) # h) = False"
| "is_list_from i ((IKey n, v) # h) = (if scast i \<noteq> n then False else is_list_from (i + 1) h)"

definition hashtable_is_list :: "(php_key \<times> 'v) list \<Rightarrow> bool" where
  "hashtable_is_list h = is_list_from 0 h"

definition list_keys :: "nat \<Rightarrow> php_key list" where
  "list_keys n = map (\<lambda>i. IKey (of_nat i)) [0..<n]"

lemma scast_of_nat_cint: "i < 2 ^ 31 \<Longrightarrow> (scast (of_nat i :: cint) :: zlong) = of_nat i"
proof -
  assume i: "i < 2 ^ 31"
  then have "sint (of_nat i :: cint) = int i"
    by (simp add: signed_of_nat signed_take_bit_int_eq_self)
  then show ?thesis
    by (metis of_int_of_nat_eq of_int_sint scast_eq)
qed

lemma is_list_from_iff:
  "i + length h \<le> 2 ^ 31 \<Longrightarrow>
     is_list_from (of_nat i) h \<longleftrightarrow> map fst h = map (\<lambda>j. IKey (of_nat j)) [i..<i + length h]"
proof (induction h arbitrary: i)
  case Nil
  then show ?case by simp
next
  case (Cons kv h)
  have step: "[i..<Suc (i + length h)] = i # [Suc i..<Suc (i + length h)]"
    by (subst upt_conv_Cons) simp_all
  have suc: "(of_nat i + 1 :: cint) = of_nat (Suc i)" by simp
  obtain k v where kv: "kv = (k, v)" by (cases kv)
  show ?case
  proof (cases k)
    case (IKey n)
    with Cons.prems have "i < 2 ^ 31" by simp
    with IKey show ?thesis
      using Cons.IH [of "Suc i"] Cons.prems
      by (auto simp: kv step suc scast_of_nat_cint simp del: upt_Suc of_nat_Suc)
  next
    case (SKey s)
    then show ?thesis by (simp add: kv step del: upt_Suc)
  qed
qed

lemma hashtable_is_list_iff:
  "length h \<le> 2 ^ 31 \<Longrightarrow> hashtable_is_list h \<longleftrightarrow> map fst h = list_keys (length h)"
  using is_list_from_iff [of 0 h] by (simp add: hashtable_is_list_def list_keys_def)

text \<open>A list that is not an array of the code: position \<open>i\<close> under key \<open>i\<close>.\<close>

definition list_hash :: "'v list \<Rightarrow> (php_key \<times> 'v) list" where
  "list_hash vs = zip (list_keys (length vs)) vs"

lemma list_hash_simps [simp]:
  "map fst (list_hash vs) = list_keys (length vs)"
  "map snd (list_hash vs) = vs"
  "length (list_hash vs) = length vs"
  by (simp_all add: list_hash_def list_keys_def)

lemma hashtable_is_list_list_hash:
  "length vs \<le> 2 ^ 31 \<Longrightarrow> hashtable_is_list (list_hash vs)"
  by (simp add: hashtable_is_list_iff)

lemma list_keys_eq_list_hash:
  "map fst h = list_keys (length h) \<Longrightarrow> h = list_hash (map snd h)"
  unfolding list_hash_def by (metis length_map zip_map_fst_snd)

end
