(* ===== verification/ClientApi.thy ===== *)
theory ClientApi
  imports Zend
begin

text \<open>
  The C client's side of the conversions: status codes and errors, server values, keys and
  records as data, and the code outside the repository as the fields of one record. Nothing is
  assumed of those fields here; a theorem that needs a documented behaviour of one of them
  names it as a hypothesis.
\<close>

section \<open>Status codes and errors\<close>

datatype as_status =
    AEROSPIKE_OK
  | AEROSPIKE_ERR_PARAM
  | AEROSPIKE_ERR_CLIENT
  | AEROSPIKE_ERR_CLUSTER
  | AEROSPIKE_ERR_BIN_NAME
  | AEROSPIKE_ERR_RECORD_NOT_FOUND
  | AEROSPIKE_STATUS int \<comment> \<open>any other code a call to the server returns\<close>

record as_error =
  code :: as_status
  message :: string
  in_doubt :: bool

definition as_error_init :: as_error where
  "as_error_init = \<lparr>code = AEROSPIKE_OK, message = [], in_doubt = False\<rparr>"

definition as_error_update :: "as_error \<Rightarrow> as_status \<Rightarrow> string \<Rightarrow> as_error" where
  "as_error_update err c m = err\<lparr>code := c, message := m\<rparr>"

lemma code_as_error_update [simp]: "code (as_error_update err c m) = c"
  by (simp add: as_error_update_def)

lemma message_as_error_update [simp]: "message (as_error_update err c m) = m"
  by (simp add: as_error_update_def)

lemma in_doubt_as_error_update [simp]: "in_doubt (as_error_update err c m) = in_doubt err"
  by (simp add: as_error_update_def)

lemma code_as_error_init [simp]: "code as_error_init = AEROSPIKE_OK"
  by (simp add: as_error_init_def)

section \<open>Server values\<close>

text \<open>
  An \<open>as_val\<close> by its type tag; \<open>AsOther\<close> is every tag the extension has no case for. An
  \<open>as_map\<close> is the list of its entries in the order \<open>as_map_foreach\<close> visits them.
\<close>

datatype as_val =
    AsInteger zlong
  | AsDouble dbl
  | AsString string
  | AsBytes u32 string \<comment> \<open>bytes type, contents\<close>
  | AsGeojson string
  | AsList "as_val list"
  | AsMap "(as_val \<times> as_val) list"
  | AsOther nat

type_synonym as_list = "as_val list"
type_synonym as_map = "(as_val \<times> as_val) list"

record as_key =
  key_ns :: string
  key_set :: string
  key_value :: "as_val option"
  key_digest :: "string option"

record as_record =
  rec_bins :: "(string \<times> as_val) list"
  rec_gen :: u16
  rec_ttl :: u32
  rec_key :: as_key
  rec_capacity :: nat

section \<open>Code outside the repository\<close>

record conv_ext =
  \<comment> \<open>constants of the C client headers\<close>
  bin_name_max_len :: nat \<comment> \<open>\<open>AS_BIN_NAME_MAX_LEN\<close>\<close>
  namespace_max_size :: nat
  set_max_size :: nat
  digest_size :: nat \<comment> \<open>\<open>AS_DIGEST_VALUE_SIZE\<close>\<close>
  status_value :: "as_status \<Rightarrow> zlong" \<comment> \<open>the number of a status code\<close>
  bytes_blob :: u32
  bytes_php :: u32
  \<comment> \<open>the Zend engine: what \<open>Z_LVAL_P\<close> reads from a value that is no integer; the integer
     key \<open>add_assoc_*\<close> stores a decimal string under; objects, serialization, user callbacks\<close>
  raw_lval :: "zval \<Rightarrow> zlong"
  numeric_str :: "string \<Rightarrow> zlong option"
  read_property :: "zval \<Rightarrow> string \<Rightarrow> zval option"
  method_to_string :: "zval \<Rightarrow> zval option" \<comment> \<open>\<open>None\<close>: the call fails\<close>
  from_json :: "string \<Rightarrow> zval option" \<comment> \<open>\<open>Aerospike\\GeoJSON::fromJson\<close>\<close>
  var_serialize :: "zval \<Rightarrow> string option" \<comment> \<open>\<open>None\<close>: an exception is pending\<close>
  var_unserialize :: "string \<Rightarrow> zval option"
  user_serializer :: "(zval \<Rightarrow> zval option) option" \<comment> \<open>\<open>None\<close>: none registered\<close>
  user_deserializer :: "(string \<Rightarrow> zval option) option"
  lookup_class :: "string \<Rightarrow> bool"
  object_init :: "string \<Rightarrow> zval option"
  update_property :: "zval \<Rightarrow> string \<Rightarrow> string \<Rightarrow> zval"
  \<comment> \<open>the C client: containers, bytes, records, keys\<close>
  bytes_set :: "nat \<Rightarrow> string \<Rightarrow> bool \<times> string" \<comment> \<open>capacity, bytes: accepted, contents\<close>
  arraylist_new :: "nat \<Rightarrow> as_list option"
  list_append :: "as_list \<Rightarrow> as_val \<Rightarrow> as_list"
  hashmap_new :: "nat \<Rightarrow> as_map option"
  map_set :: "as_map \<Rightarrow> as_val \<Rightarrow> as_val \<Rightarrow> as_map"
  record_new :: "nat \<Rightarrow> as_record"
  record_set :: "as_record \<Rightarrow> string \<Rightarrow> as_val \<Rightarrow> as_record"
  key_init_value :: "string \<Rightarrow> string \<Rightarrow> as_val \<Rightarrow> as_key option"
  key_init_digest :: "string \<Rightarrow> string \<Rightarrow> string \<Rightarrow> as_key option"

text \<open>Documented behaviour of the containers, as hypotheses of the theorems that need it.\<close>

definition list_api :: "'e conv_ext_scheme \<Rightarrow> bool" where
  "list_api E \<longleftrightarrow> (\<forall>n. arraylist_new E n = Some []) \<and> (\<forall>l v. list_append E l v = l @ [v])"

text \<open>
  \<open>as_map_set\<close> on a key the map does not have adds one entry; the order in which
  \<open>as_map_foreach\<close> visits the entries is left open (a hash map gives none).
\<close>

definition map_api :: "'e conv_ext_scheme \<Rightarrow> bool" where
  "map_api E \<longleftrightarrow> (\<forall>n. hashmap_new E n = Some []) \<and>
     (\<forall>m k v. k \<notin> fst ` set m \<longrightarrow> mset (map_set E m k v) = add_mset (k, v) (mset m))"

definition bytes_api :: "'e conv_ext_scheme \<Rightarrow> bool" where
  "bytes_api E \<longleftrightarrow> (\<forall>s. bytes_set E (length s) s = (True, s))"

text \<open>
  \<open>as_record_set_*\<close> adds a bin of a new name while there is room for it; the key initializers
  take a namespace and a set that fit their fields, and leave the digest for later.
\<close>

definition record_api :: "'e conv_ext_scheme \<Rightarrow> bool" where
  "record_api E \<longleftrightarrow>
     (\<forall>n < 2 ^ 16. rec_bins (record_new E n) = [] \<and> rec_capacity (record_new E n) = n) \<and>
     (\<forall>r name v. length (rec_bins r) < rec_capacity r \<longrightarrow> name \<notin> fst ` set (rec_bins r) \<longrightarrow>
        strlen name \<le> bin_name_max_len E \<longrightarrow>
        record_set E r name v = r\<lparr>rec_bins := rec_bins r @ [(name, v)]\<rparr>)"

definition key_api :: "'e conv_ext_scheme \<Rightarrow> bool" where
  "key_api E \<longleftrightarrow>
     (\<forall>ns set_name v d. strlen ns < namespace_max_size E \<longrightarrow> strlen set_name < set_max_size E \<longrightarrow>
        key_init_value E ns set_name v =
          Some \<lparr>key_ns = ns, key_set = set_name, key_value = Some v, key_digest = None\<rparr> \<and>
        key_init_digest E ns set_name d =
          Some \<lparr>key_ns = ns, key_set = set_name, key_value = None, key_digest = Some d\<rparr>)"

lemma record_apiD:
  "record_api E \<Longrightarrow> n < 2 ^ 16 \<Longrightarrow> rec_bins (record_new E n) = []"
  "record_api E \<Longrightarrow> n < 2 ^ 16 \<Longrightarrow> rec_capacity (record_new E n) = n"
  "record_api E \<Longrightarrow> length (rec_bins r) < rec_capacity r \<Longrightarrow> name \<notin> fst ` set (rec_bins r) \<Longrightarrow>
     strlen name \<le> bin_name_max_len E \<Longrightarrow>
     record_set E r name v = r\<lparr>rec_bins := rec_bins r @ [(name, v)]\<rparr>"
  by (simp_all add: record_api_def)

lemma key_apiD:
  "key_api E \<Longrightarrow> strlen ns < namespace_max_size E \<Longrightarrow> strlen set_name < set_max_size E \<Longrightarrow>
     key_init_value E ns set_name v =
       Some \<lparr>key_ns = ns, key_set = set_name, key_value = Some v, key_digest = None\<rparr>"
  "key_api E \<Longrightarrow> strlen ns < namespace_max_size E \<Longrightarrow> strlen set_name < set_max_size E \<Longrightarrow>
     key_init_digest E ns set_name d =
       Some \<lparr>key_ns = ns, key_set = set_name, key_value = None, key_digest = Some d\<rparr>"
  by (simp_all add: key_api_def)

lemma list_apiD:
  "list_api E \<Longrightarrow> arraylist_new E n = Some []"
  "list_api E \<Longrightarrow> list_append E l v = l @ [v]"
  by (simp_all add: list_api_def)

lemma map_apiD:
  "map_api E \<Longrightarrow> hashmap_new E n = Some []"
  "map_api E \<Longrightarrow> k \<notin> fst ` set m \<Longrightarrow> mset (map_set E m k v) = add_mset (k, v) (mset m)"
  by (simp_all add: map_api_def)

lemma bytes_apiD: "bytes_api E \<Longrightarrow> bytes_set E (length s) s = (True, s)"
  by (simp add: bytes_api_def)

definition Z_LVAL :: "'e conv_ext_scheme \<Rightarrow> zval \<Rightarrow> zlong" where
  "Z_LVAL E z = (case z of ZLong n \<Rightarrow> n | _ \<Rightarrow> raw_lval E z)"

lemma Z_LVAL_long [simp]: "Z_LVAL E (ZLong n) = n"
  by (simp add: Z_LVAL_def)

text \<open>
  \<open>add_assoc_*\<close> takes a C string and stores under the integer key when it is a decimal
  number (\<open>zend_symtable_update\<close>).
\<close>

definition assoc_key :: "'e conv_ext_scheme \<Rightarrow> string \<Rightarrow> php_key" where
  "assoc_key E s = (case numeric_str E (c_str s) of Some n \<Rightarrow> IKey n | None \<Rightarrow> SKey (c_str s))"

definition add_assoc_zval :: "'e conv_ext_scheme \<Rightarrow> htab \<Rightarrow> string \<Rightarrow> zval \<Rightarrow> htab" where
  "add_assoc_zval E h s v = hash_update h (assoc_key E s) v"

definition add_index_zval :: "htab \<Rightarrow> zlong \<Rightarrow> zval \<Rightarrow> htab" where
  "add_index_zval h n v = hash_update h (IKey n) v"

text \<open>
  The literal key names of the code are no decimal numbers, so \<open>add_assoc_*\<close> keeps them.
\<close>

definition plain_key :: "'e conv_ext_scheme \<Rightarrow> string \<Rightarrow> bool" where
  "plain_key E s \<longleftrightarrow> nul_free s \<and> numeric_str E s = None"

lemma assoc_key_plain [simp]: "plain_key E s \<Longrightarrow> assoc_key E s = SKey s"
  by (simp add: assoc_key_def plain_key_def)

definition keyword_names :: "string list" where
  "keyword_names = [''ns'', ''set'', ''key'', ''digest'', ''ttl'', ''generation'', ''metadata'',
     ''bins'', ''code'', ''bin'', ''op'', ''val'', ''index_type'', ''type'', ''coordinates'']"

definition keywords_plain :: "'e conv_ext_scheme \<Rightarrow> bool" where
  "keywords_plain E \<longleftrightarrow> (\<forall>s \<in> set keyword_names. numeric_str E s = None)"

lemma keywords_plainD:
  "keywords_plain E \<Longrightarrow> s \<in> set keyword_names \<Longrightarrow> assoc_key E s = SKey s"
proof -
  assume "keywords_plain E" and s: "s \<in> set keyword_names"
  moreover from s have "nul_free s" by (auto simp: keyword_names_def nul_free_def NUL_def)
  ultimately show ?thesis by (simp add: keywords_plain_def plain_key_def)
qed

lemma assoc_keywords:
  assumes "keywords_plain E"
  shows "assoc_key E ''ns'' = SKey ''ns''" "assoc_key E ''set'' = SKey ''set''"
    "assoc_key E ''key'' = SKey ''key''" "assoc_key E ''digest'' = SKey ''digest''"
    "assoc_key E ''ttl'' = SKey ''ttl''" "assoc_key E ''generation'' = SKey ''generation''"
    "assoc_key E ''metadata'' = SKey ''metadata''" "assoc_key E ''bins'' = SKey ''bins''"
    "assoc_key E ''code'' = SKey ''code''" "assoc_key E ''bin'' = SKey ''bin''"
    "assoc_key E ''op'' = SKey ''op''" "assoc_key E ''val'' = SKey ''val''"
    "assoc_key E ''index_type'' = SKey ''index_type''" "assoc_key E ''type'' = SKey ''type''"
    "assoc_key E ''coordinates'' = SKey ''coordinates''"
  by (rule keywords_plainD [OF assms], simp add: keyword_names_def)+

text \<open>
  The serializer choices of the extension (\<open>enum Aerospike_serializer_values\<close>).
\<close>

definition SERIALIZER_NONE :: cint where "SERIALIZER_NONE = 0"

definition SERIALIZER_PHP :: cint where "SERIALIZER_PHP = 1"

definition SERIALIZER_USER :: cint where "SERIALIZER_USER = 2"

lemmas serializer_defs = SERIALIZER_NONE_def SERIALIZER_PHP_def SERIALIZER_USER_def

end
