(* ===== verification/ToServer.thy ===== *)
theory ToServer
  imports ClientApi
begin

text \<open>
  \<open>conversions.c\<close> and \<open>serializers.c\<close>, the direction from PHP to the server: serialization of
  values the server has no type for, the mutually recursive conversion of values, lists and
  maps, and the records and keys built from PHP arrays. Every function returns what the C
  function writes through its out parameters and the error structure next to its status.
\<close>

section \<open>Serialization\<close>

definition BYTES_CLASS_NAME :: string where
  "BYTES_CLASS_NAME = ''Aerospike'' @ [CHR 0x5C] @ ''Bytes''"

definition GEOJSON_CLASS_NAME :: string where
  "GEOJSON_CLASS_NAME = ''Aerospike'' @ [CHR 0x5C] @ ''GeoJSON''"

definition serialize_with_user_function ::
  "'e conv_ext_scheme \<Rightarrow> zval \<Rightarrow> as_error \<Rightarrow> cint \<Rightarrow> as_status \<times> (u32 \<times> string) option \<times> as_error"
where
  "serialize_with_user_function E z err ser =
     (if ser = SERIALIZER_NONE then
        (AEROSPIKE_ERR_PARAM, None, as_error_update err AEROSPIKE_ERR_PARAM
           ''SERIALIZER_NONE set when serialization is needed'')
      else if ser = SERIALIZER_PHP then (AEROSPIKE_OK, None, err)
      else if ser = SERIALIZER_USER then
        (case user_serializer E of
           None \<Rightarrow> (AEROSPIKE_ERR_CLIENT, None,
                    as_error_update err AEROSPIKE_ERR_CLIENT ''No serializer registered'')
         | Some f \<Rightarrow>
             (case f z of
                None \<Rightarrow> (AEROSPIKE_ERR_CLIENT, None,
                         as_error_update err AEROSPIKE_ERR_CLIENT ''Serialization failed'')
              | Some (ZString s) \<Rightarrow>
                  (AEROSPIKE_OK, Some (bytes_blob E, snd (bytes_set E (length s) s)), err)
              | Some _ \<Rightarrow> (AEROSPIKE_ERR_CLIENT, None,
                  as_error_update err AEROSPIKE_ERR_CLIENT ''Serializer must return a string'')))
      else (AEROSPIKE_OK, None, err))"

definition serialize_php_object ::
  "'e conv_ext_scheme \<Rightarrow> zval \<Rightarrow> as_error \<Rightarrow> cint \<Rightarrow> as_status \<times> (u32 \<times> string) option \<times> as_error"
where
  "serialize_php_object E z err ser =
     (if ser = SERIALIZER_USER then
        (case serialize_with_user_function E z err ser of
           (_, b, e) \<Rightarrow> (code e, if code e \<noteq> AEROSPIKE_OK then None else b, e))
      else if ser = SERIALIZER_PHP then
        (case var_serialize E z of
           None \<Rightarrow> (AEROSPIKE_ERR_PARAM, None,
                    as_error_update err AEROSPIKE_ERR_PARAM ''Failed to serialize object'')
         | Some s \<Rightarrow>
             (case bytes_set E (length s) s of
                (True, c) \<Rightarrow> (AEROSPIKE_OK, Some (bytes_php E, c), err)
              | (False, c) \<Rightarrow> (AEROSPIKE_ERR_PARAM, None,
                  as_error_update err AEROSPIKE_ERR_PARAM ''Failed to serialize object'')))
      else (AEROSPIKE_ERR_PARAM, None,
              as_error_update err AEROSPIKE_ERR_PARAM ''Serialization failed''))"

section \<open>Values that are neither scalars nor arrays\<close>

definition bytes_object_to_as_val ::
  "'e conv_ext_scheme \<Rightarrow> zval \<Rightarrow> as_error \<Rightarrow> as_status \<times> as_val option \<times> as_error" where
  "bytes_object_to_as_val E z err =
     (case read_property E z ''s'' of
        None \<Rightarrow> (AEROSPIKE_ERR_PARAM, None,
                 as_error_update err AEROSPIKE_ERR_PARAM ''Unable to convert value to as type'')
      | Some (ZString s) \<Rightarrow>
          (code err, Some (AsBytes (bytes_blob E) (snd (bytes_set E (length s) s))), err)
      | Some _ \<Rightarrow> (AEROSPIKE_ERR_PARAM, None,
                 as_error_update err AEROSPIKE_ERR_PARAM ''Type of bytes is non string''))"

definition geojson_object_to_as_val ::
  "'e conv_ext_scheme \<Rightarrow> zval \<Rightarrow> as_error \<Rightarrow> as_status \<times> as_val option \<times> as_error" where
  "geojson_object_to_as_val E z err =
     (case method_to_string E z of
        Some (ZString s) \<Rightarrow> (code err, Some (AsGeojson s), err)
      | _ \<Rightarrow> (AEROSPIKE_ERR_PARAM, None,
               as_error_update err AEROSPIKE_ERR_PARAM ''Failed to convert geojson''))"

definition serialized_to_as_val ::
  "'e conv_ext_scheme \<Rightarrow> zval \<Rightarrow> as_error \<Rightarrow> cint \<Rightarrow> as_status \<times> as_val option \<times> as_error" where
  "serialized_to_as_val E z err ser =
     (case serialize_php_object E z err ser of
        (_, Some (t, s), e) \<Rightarrow> (AEROSPIKE_OK, Some (AsBytes t s), e)
      | (_, None, e) \<Rightarrow> (AEROSPIKE_ERR_PARAM, None,
          as_error_update e AEROSPIKE_ERR_PARAM ''Unable to convert value to as type''))"

definition other_to_as_val ::
  "'e conv_ext_scheme \<Rightarrow> zval \<Rightarrow> as_error \<Rightarrow> cint \<Rightarrow> as_status \<times> as_val option \<times> as_error" where
  "other_to_as_val E z err ser =
     (case z of
        ZObject class_name _ \<Rightarrow>
          if strncmp0 class_name BYTES_CLASS_NAME (length class_name) then
            bytes_object_to_as_val E z err
          else if strncmp0 class_name GEOJSON_CLASS_NAME (length class_name) then
            geojson_object_to_as_val E z err
          else serialized_to_as_val E z err ser
      | _ \<Rightarrow> serialized_to_as_val E z err ser)"

section \<open>Values, lists and maps\<close>

definition key_to_as_val :: "php_key \<Rightarrow> as_val" where
  "key_to_as_val k = (case k of SKey s \<Rightarrow> AsString (c_str s) | IKey n \<Rightarrow> AsInteger n)"

text \<open>The size of the entries, which every call makes smaller, or keeps one loop further in.\<close>

abbreviation (input) entries_size :: "htab \<Rightarrow> nat" where
  "entries_size h \<equiv> size_list (size_prod (\<lambda>_. 0) size) h"

text \<open>
  The loops over the entries are \<open>list_entries\<close> and \<open>map_entries\<close>. Leaving the loop early,
  \<open>list_entries\<close> goes to the clean-up, \<open>map_entries\<close> returns from the function.
\<close>

function (sequential) zval_to_as_val ::
    "'e conv_ext_scheme \<Rightarrow> zval \<Rightarrow> as_error \<Rightarrow> cint \<Rightarrow> as_status \<times> as_val option \<times> as_error"
and z_hashtable_to_as_list ::
    "'e conv_ext_scheme \<Rightarrow> htab \<Rightarrow> as_list option \<Rightarrow> as_error \<Rightarrow> cint \<Rightarrow>
       as_status \<times> as_list option \<times> as_error"
and z_hashtable_to_as_map ::
    "'e conv_ext_scheme \<Rightarrow> htab \<Rightarrow> as_error \<Rightarrow> cint \<Rightarrow> as_status \<times> as_map option \<times> as_error"
and list_entries ::
    "'e conv_ext_scheme \<Rightarrow> htab \<Rightarrow> as_list \<Rightarrow> as_error \<Rightarrow> cint \<Rightarrow> as_list \<times> as_error"
and map_entries ::
    "'e conv_ext_scheme \<Rightarrow> htab \<Rightarrow> as_map \<Rightarrow> as_error \<Rightarrow> cint \<Rightarrow> as_map \<times> as_error \<times> bool"
where
  "zval_to_as_val E (ZLong n) err ser = (code err, Some (AsInteger n), err)"
| "zval_to_as_val E (ZString s) err ser = (code err, Some (AsString (c_str s)), err)"
| "zval_to_as_val E (ZDouble d) err ser = (code err, Some (AsDouble d), err)"
| "zval_to_as_val E (ZArray h) err ser =
     (if hashtable_is_list h then
        (case z_hashtable_to_as_list E h None err ser of
           (st, l, e) \<Rightarrow>
             (code e, if st = AEROSPIKE_OK then map_option AsList l else None, e))
      else
        (case z_hashtable_to_as_map E h err ser of
           (st, m, e) \<Rightarrow>
             (code e, if st = AEROSPIKE_OK then map_option AsMap m else None, e)))"
| "zval_to_as_val E z err ser = other_to_as_val E z err ser"
| "z_hashtable_to_as_list E h lst err ser =
     (case (case lst of None \<Rightarrow> arraylist_new E (length h) | Some l \<Rightarrow> Some l) of
        None \<Rightarrow> (AEROSPIKE_OK, None,
          as_error_update err AEROSPIKE_ERR_CLIENT ''Failed to allocate memory for list'')
      | Some l \<Rightarrow>
          (case list_entries E h l err ser of
             (l', e) \<Rightarrow> (AEROSPIKE_OK, if code e \<noteq> AEROSPIKE_OK then None else Some l', e)))"
| "z_hashtable_to_as_map E h err ser =
     (case hashmap_new E (length h) of
        None \<Rightarrow> (AEROSPIKE_ERR_CLIENT, None,
          as_error_update err AEROSPIKE_ERR_CLIENT ''Failed to allocate memory for as_map'')
      | Some m \<Rightarrow>
          (case map_entries E h m err ser of
             (m', e, done) \<Rightarrow>
               (code e, if done \<and> code e \<noteq> AEROSPIKE_OK then None else Some m', e)))"
| "list_entries E [] l err ser = (l, err)"
| "list_entries E ((k, z) # h) l err ser =
     (case zval_to_as_val E z err ser of
        (_, None, e) \<Rightarrow>
          (l, as_error_update e AEROSPIKE_ERR_PARAM ''Failed to convert item to a list'')
      | (_, Some v, e) \<Rightarrow>
          if code e \<noteq> AEROSPIKE_OK then
            (l, as_error_update e AEROSPIKE_ERR_PARAM ''Failed to convert item to a list'')
          else list_entries E h (list_append E l v) e ser)"
| "map_entries E [] m err ser = (m, err, True)"
| "map_entries E ((k, z) # h) m err ser =
     (case zval_to_as_val E z err ser of
        (_, None, e) \<Rightarrow>
          (m, as_error_update e AEROSPIKE_ERR_PARAM ''Failed to convert value to aerospike map'',
             False)
      | (_, Some v, e) \<Rightarrow>
          if code e \<noteq> AEROSPIKE_OK then
            (m, as_error_update e AEROSPIKE_ERR_PARAM ''Failed to convert value to aerospike map'',
               False)
          else map_entries E h (map_set E m (key_to_as_val k) v) e ser)"
  by pat_completeness auto

termination
  by (relation "measure (case_sum (case_sum (\<lambda>(E, z, err, ser). 2 * size z)
      (\<lambda>(E, h, l, err, ser). 2 * entries_size h + 1))
     (case_sum (\<lambda>(E, h, err, ser). 2 * entries_size h + 1)
      (case_sum (\<lambda>(E, h, l, err, ser). 2 * entries_size h)
        (\<lambda>(E, h, m, err, ser). 2 * entries_size h))))") auto

end
