(* ===== verification/ToServerSpec.thy ===== *)
theory ToServerSpec
  imports ToServer
begin

text \<open>
  What the conversion to the server promises, without error structures, out parameters or
  loops: a partial function from PHP values to server values, and the proof that the C code
  computes it.
\<close>

definition other_value :: "'e conv_ext_scheme \<Rightarrow> cint \<Rightarrow> zval \<Rightarrow> as_val option" where
  "other_value E ser z = fst (snd (other_to_as_val E z as_error_init ser))"

definition build_map ::
  "'e conv_ext_scheme \<Rightarrow> as_map \<Rightarrow> (php_key \<times> as_val) list \<Rightarrow> as_map" where
  "build_map E m kvs = foldl (\<lambda>m (k, v). map_set E m (key_to_as_val k) v) m kvs"

lemma build_map_simps [simp]:
  "build_map E m [] = m"
  "build_map E m ((k, v) # kvs) = build_map E (map_set E m (key_to_as_val k) v) kvs"
  by (simp_all add: build_map_def)

lemma size_entry [termination_simp]:
  "kv \<in> set h \<Longrightarrow> size (snd kv) < Suc (size_list (size_prod (\<lambda>_. 0) size) h)"
  by (induction h) auto

fun server_value :: "'e conv_ext_scheme \<Rightarrow> cint \<Rightarrow> zval \<Rightarrow> as_val option" where
  "server_value E ser (ZLong n) = Some (AsInteger n)"
| "server_value E ser (ZString s) = Some (AsString (c_str s))"
| "server_value E ser (ZDouble d) = Some (AsDouble d)"
| "server_value E ser (ZArray h) =
     (case those (map (\<lambda>kv. server_value E ser (snd kv)) h) of
        None \<Rightarrow> None
      | Some vs \<Rightarrow>
          if hashtable_is_list h then Some (AsList vs)
          else Some (AsMap (build_map E [] (zip (map fst h) vs))))"
| "server_value E ser z = other_value E ser z"

section \<open>The result of one conversion step\<close>

text \<open>
  On success the value and the error structure as it was; on failure no value and
  \<open>AEROSPIKE_ERR_PARAM\<close> with some message.
\<close>

definition yields ::
  "as_error \<Rightarrow> as_val option \<Rightarrow> as_status \<times> as_val option \<times> as_error \<Rightarrow> bool" where
  "yields err r x \<longleftrightarrow>
     (case r of
        Some v \<Rightarrow> x = (AEROSPIKE_OK, Some v, err)
      | None \<Rightarrow> \<exists>m. x = (AEROSPIKE_ERR_PARAM, None, as_error_update err AEROSPIKE_ERR_PARAM m))"

lemma yields_Some [simp]: "yields err (Some v) x \<longleftrightarrow> x = (AEROSPIKE_OK, Some v, err)"
  by (simp add: yields_def)

lemma yields_None [simp]:
  "yields err None x \<longleftrightarrow>
     (\<exists>m. x = (AEROSPIKE_ERR_PARAM, None, as_error_update err AEROSPIKE_ERR_PARAM m))"
  by (simp add: yields_def)

lemma as_error_update_twice [simp]:
  "as_error_update (as_error_update err c m) c' m' = as_error_update err c' m'"
  by (simp add: as_error_update_def)

lemma serialized_yields:
  assumes "code err = AEROSPIKE_OK"
  shows "yields err (fst (snd (serialized_to_as_val E z as_error_init ser)))
           (serialized_to_as_val E z err ser)"
  using assms
  by (auto simp: serialized_to_as_val_def serialize_php_object_def
        serialize_with_user_function_def yields_def serializer_defs
      split: option.splits zval.splits prod.splits bool.splits if_splits)

lemma other_yields:
  assumes "code err = AEROSPIKE_OK"
  shows "yields err (other_value E ser z) (other_to_as_val E z err ser)"
proof -
  have b: "yields err (fst (snd (bytes_object_to_as_val E z as_error_init)))
      (bytes_object_to_as_val E z err)"
    using assms by (auto simp: bytes_object_to_as_val_def split: option.splits zval.splits)
  have g: "yields err (fst (snd (geojson_object_to_as_val E z as_error_init)))
      (geojson_object_to_as_val E z err)"
    using assms by (auto simp: geojson_object_to_as_val_def split: option.splits zval.splits)
  from b g serialized_yields [OF assms, of E z ser] show ?thesis
    by (cases z) (simp_all add: other_value_def other_to_as_val_def)
qed

text \<open>The loops: what is left of the entries, converted and added to what is there.\<close>

definition list_yields ::
  "as_error \<Rightarrow> as_list \<Rightarrow> as_val list option \<Rightarrow> as_list \<times> as_error \<Rightarrow> bool" where
  "list_yields err l r x \<longleftrightarrow>
     (case r of
        Some vs \<Rightarrow> x = (l @ vs, err)
      | None \<Rightarrow> \<exists>l' m. x = (l', as_error_update err AEROSPIKE_ERR_PARAM m))"

definition map_yields ::
  "'e conv_ext_scheme \<Rightarrow> as_error \<Rightarrow> as_map \<Rightarrow> php_key list \<Rightarrow> as_val list option \<Rightarrow>
     as_map \<times> as_error \<times> bool \<Rightarrow> bool" where
  "map_yields E err m ks r x \<longleftrightarrow>
     (case r of
        Some vs \<Rightarrow> x = (build_map E m (zip ks vs), err, True)
      | None \<Rightarrow> \<exists>m' t. x = (m', as_error_update err AEROSPIKE_ERR_PARAM t, False))"

lemmas loop_yields_defs = list_yields_def map_yields_def

abbreviation (input) entry_values ::
  "'e conv_ext_scheme \<Rightarrow> cint \<Rightarrow> htab \<Rightarrow> as_val list option" where
  "entry_values E ser h \<equiv> those (map (\<lambda>kv. server_value E ser (snd kv)) h)"

lemma conversion_yields:
  assumes "list_api E" and "\<And>n. hashmap_new E n = Some []"
  shows "code err = AEROSPIKE_OK \<Longrightarrow>
      yields err (server_value E ser z) (zval_to_as_val E z err ser)"
    and "code err = AEROSPIKE_OK \<Longrightarrow> lst = None \<Longrightarrow>
      (case entry_values E ser h of
         Some vs \<Rightarrow> z_hashtable_to_as_list E h lst err ser = (AEROSPIKE_OK, Some vs, err)
       | None \<Rightarrow> \<exists>m. z_hashtable_to_as_list E h lst err ser =
           (AEROSPIKE_OK, None, as_error_update err AEROSPIKE_ERR_PARAM m))"
    and "code err = AEROSPIKE_OK \<Longrightarrow>
      (case entry_values E ser h of
         Some vs \<Rightarrow> z_hashtable_to_as_map E h err ser =
           (AEROSPIKE_OK, Some (build_map E [] (zip (map fst h) vs)), err)
       | None \<Rightarrow> \<exists>m' m. z_hashtable_to_as_map E h err ser =
           (AEROSPIKE_ERR_PARAM, Some m', as_error_update err AEROSPIKE_ERR_PARAM m))"
    and "code err = AEROSPIKE_OK \<Longrightarrow>
      list_yields err l (entry_values E ser h) (list_entries E h l err ser)"
    and "code err = AEROSPIKE_OK \<Longrightarrow>
      map_yields E err m (map fst h) (entry_values E ser h) (map_entries E h m err ser)"
  using assms
proof (induction E z err ser and E h lst err ser and E h err ser and E h l err ser
    and E h m err ser rule: zval_to_as_val_z_hashtable_to_as_list_z_hashtable_to_as_map_list_entries_map_entries.induct)
  case (4 E h err ser)
  then show ?case
    by (cases "entry_values E ser h"; cases "hashtable_is_list h") (auto simp: yields_def)
next
  case (6 E h lst err ser)
  then show ?case
    by (cases "entry_values E ser h") (auto simp: list_apiD loop_yields_defs)
next
  case (7 E h err ser)
  then show ?case
    by (cases "entry_values E ser h") (auto simp: loop_yields_defs)
next
  case (9 E k z h l err ser)
  then show ?case
    by (cases "server_value E ser z"; cases "entry_values E ser h")
      (fastforce simp: loop_yields_defs list_apiD)+
next
  case (11 E k z h m err ser)
  then show ?case
    by (cases "server_value E ser z"; cases "entry_values E ser h")
      (fastforce simp: loop_yields_defs)+
qed (auto simp: other_yields loop_yields_defs)

end
