(* ===== verification/FromServer.thy ===== *)
theory FromServer
  imports ClientApi
begin

text \<open>
  \<open>conversions.c\<close> and \<open>serializers.c\<close>, the direction from the server to PHP: bytes and GeoJSON
  values, the mutually recursive conversion of values, lists and maps, and the arrays that
  records, keys, privileges and roles become. The PHP 8 branch of the version conditionals is
  the one modelled (in the PHP 7 branch the calls have a status that is always success).
\<close>

section \<open>Bytes and GeoJSON\<close>

definition BYTES_CLASS :: string where
  "BYTES_CLASS = ''Aerospike'' @ [CHR 0x5C] @ ''Bytes''"

text \<open>The argument \<open>rv\<close> is what the caller's result variable holds before the call.\<close>

definition as_bytes_to_zval_bytes ::
  "'e conv_ext_scheme \<Rightarrow> string \<Rightarrow> zval \<Rightarrow> as_error \<Rightarrow> as_status \<times> zval \<times> as_error" where
  "as_bytes_to_zval_bytes E s rv err =
     (if \<not> lookup_class E BYTES_CLASS then
        (AEROSPIKE_ERR_CLIENT, rv, as_error_update err AEROSPIKE_ERR_CLIENT
           ''Failed to find class Aerospike Bytes class'')
      else
        (case object_init E BYTES_CLASS of
           None \<Rightarrow> (AEROSPIKE_ERR_CLIENT, rv,
             as_error_update err AEROSPIKE_ERR_CLIENT ''Failed to create Bytes object'')
         | Some obj \<Rightarrow> (code err, update_property E obj ''s'' s, err)))"

definition unserialize_with_user_function ::
  "'e conv_ext_scheme \<Rightarrow> string \<Rightarrow> zval \<Rightarrow> as_error \<Rightarrow> as_status \<times> zval \<times> as_error" where
  "unserialize_with_user_function E s rv err =
     (case user_deserializer E of
        None \<Rightarrow> (AEROSPIKE_ERR_CLIENT, rv,
          as_error_update err AEROSPIKE_ERR_CLIENT ''No deserializer registered'')
      | Some f \<Rightarrow>
          (case f s of
             None \<Rightarrow> (AEROSPIKE_ERR_PARAM, rv,
               as_error_update err AEROSPIKE_ERR_CLIENT ''Deserialization failed'')
           | Some z \<Rightarrow> (AEROSPIKE_OK, z, err)))"

definition unserialize_as_bytes ::
  "'e conv_ext_scheme \<Rightarrow> u32 \<Rightarrow> string \<Rightarrow> zval \<Rightarrow> as_error \<Rightarrow> as_status \<times> zval \<times> as_error" where
  "unserialize_as_bytes E t s rv err =
     (if t = bytes_blob E then
        (if user_deserializer E = None then as_bytes_to_zval_bytes E s rv err
         else unserialize_with_user_function E s rv err)
      else if t \<noteq> bytes_php E then
        (AEROSPIKE_ERR_CLIENT, rv,
           as_error_update err AEROSPIKE_ERR_CLIENT ''Unsupported bytes type'')
      else
        (case var_unserialize E s of
           None \<Rightarrow> (AEROSPIKE_ERR_CLIENT, rv,
             as_error_update err AEROSPIKE_ERR_CLIENT ''PHP deserialization failed'')
         | Some z \<Rightarrow> (AEROSPIKE_OK, z, err)))"

definition as_geojson_to_zval ::
  "'e conv_ext_scheme \<Rightarrow> string \<Rightarrow> zval \<Rightarrow> as_error \<Rightarrow> as_status \<times> zval \<times> as_error" where
  "as_geojson_to_zval E s rv err =
     (case from_json E s of
        None \<Rightarrow> (AEROSPIKE_ERR_CLIENT, rv,
          as_error_update err AEROSPIKE_ERR_CLIENT ''Failed to deserialize GeoJSON'')
      | Some z \<Rightarrow> (code err, z, err))"

section \<open>Values, lists and maps\<close>

text \<open>The key a converted map key is stored under; \<open>None\<close>: neither string nor integer.\<close>

definition store_key :: "'e conv_ext_scheme \<Rightarrow> zval \<Rightarrow> php_key option" where
  "store_key E z = (case z of
     ZString s \<Rightarrow> Some (assoc_key E s) | ZLong n \<Rightarrow> Some (IKey n) | _ \<Rightarrow> None)"

text \<open>
  \<open>list_converter\<close> and \<open>map_converter\<close> are \<open>as_list_foreach\<close> and \<open>as_map_foreach\<close> with the
  callbacks of the code, which stop the iteration by returning false.
\<close>

function (sequential) as_val_to_zval ::
    "'e conv_ext_scheme \<Rightarrow> as_val \<Rightarrow> zval \<Rightarrow> as_error \<Rightarrow> as_status \<times> zval \<times> as_error"
and as_list_to_zval ::
    "'e conv_ext_scheme \<Rightarrow> as_list \<Rightarrow> as_error \<Rightarrow> as_status \<times> zval \<times> as_error"
and as_map_to_zval ::
    "'e conv_ext_scheme \<Rightarrow> as_map \<Rightarrow> as_error \<Rightarrow> as_status \<times> zval \<times> as_error"
and list_converter ::
    "'e conv_ext_scheme \<Rightarrow> as_list \<Rightarrow> htab \<Rightarrow> zlong \<Rightarrow> as_error \<Rightarrow> htab \<times> as_error"
and map_converter ::
    "'e conv_ext_scheme \<Rightarrow> as_map \<Rightarrow> htab \<Rightarrow> as_error \<Rightarrow> htab \<times> as_error"
where
  "as_val_to_zval E (AsString s) rv err = (code err, ZString (c_str s), err)"
| "as_val_to_zval E (AsInteger n) rv err = (code err, ZLong n, err)"
| "as_val_to_zval E (AsDouble d) rv err = (code err, ZDouble d, err)"
| "as_val_to_zval E (AsList l) rv err =
     (case as_list_to_zval E l err of (_, z, e) \<Rightarrow> (code e, z, e))"
| "as_val_to_zval E (AsMap m) rv err =
     (case as_map_to_zval E m err of (_, z, e) \<Rightarrow> (code e, z, e))"
| "as_val_to_zval E (AsBytes t s) rv err =
     (case unserialize_as_bytes E t s rv err of (_, z, e) \<Rightarrow> (code e, z, e))"
| "as_val_to_zval E (AsGeojson s) rv err =
     (case as_geojson_to_zval E s rv err of (_, z, e) \<Rightarrow> (code e, z, e))"
| "as_val_to_zval E (AsOther t) rv err = (code err, ZUndef, err)"
| "as_list_to_zval E l err =
     (case list_converter E l [] 0 err of (h, e) \<Rightarrow> (code e, ZArray h, e))"
| "as_map_to_zval E m err =
     (case map_converter E m [] err of
        (h, e) \<Rightarrow> if code e \<noteq> AEROSPIKE_OK then (code e, ZUndef, e)
                 else (AEROSPIKE_OK, ZArray h, e))"
| "list_converter E [] h i err = (h, err)"
| "list_converter E (v # l) h i err =
     (case as_val_to_zval E v ZUndef err of
        (_, z, e) \<Rightarrow>
          if code e \<noteq> AEROSPIKE_OK then (h, e)
          else list_converter E l (add_index_zval h i z) (i + 1) e)"
| "map_converter E [] h err = (h, err)"
| "map_converter E ((k, v) # m) h err =
     (case as_val_to_zval E k ZNull err of
        (_, zk, e) \<Rightarrow>
          (case store_key E zk of
             None \<Rightarrow> (h, as_error_update e AEROSPIKE_ERR_CLIENT
                        ''Hashtable keys must be strings or integers'')
           | Some key \<Rightarrow>
               (case as_val_to_zval E v ZUndef e of
                  (_, z, e') \<Rightarrow>
                    if code e' \<noteq> AEROSPIKE_OK then (h, e')
                    else map_converter E m (hash_update h key z) e')))"
  by pat_completeness auto

termination
  by (relation "measure (case_sum (case_sum (\<lambda>(E, v, rv, err). 2 * size v)
      (\<lambda>(E, l, err). 2 * size_list size l + 1))
     (case_sum (\<lambda>(E, m, err). 2 * size_list (size_prod size size) m + 1)
      (case_sum (\<lambda>(E, l, h, i, err). 2 * size_list size l)
        (\<lambda>(E, m, h, err). 2 * size_list (size_prod size size) m))))") auto

section \<open>Records and keys\<close>

text \<open>The loop of \<open>as_bins_to_zval\<close>: bins in order, each stored under its name.\<close>

fun bins_entries ::
  "'e conv_ext_scheme \<Rightarrow> (string \<times> as_val) list \<Rightarrow> htab \<Rightarrow> as_error \<Rightarrow> htab \<times> as_error" where
  "bins_entries E [] h err = (h, err)"
| "bins_entries E ((name, v) # bins) h err =
     (case as_val_to_zval E v ZNull err of
        (st, z, e) \<Rightarrow>
          if st \<noteq> AEROSPIKE_OK then (h, e)
          else bins_entries E bins (add_assoc_zval E h name z) e)"

definition as_bins_to_zval ::
  "'e conv_ext_scheme \<Rightarrow> as_record \<Rightarrow> as_error \<Rightarrow> as_status \<times> zval \<times> as_error" where
  "as_bins_to_zval E r err =
     (case bins_entries E (rec_bins r) [] err of
        (h, e) \<Rightarrow> (code e, if code e \<noteq> AEROSPIKE_OK then ZNull else ZArray h, e))"

definition as_record_to_z_metadata ::
  "'e conv_ext_scheme \<Rightarrow> as_record \<Rightarrow> zval \<Rightarrow> as_error \<Rightarrow> as_status \<times> zval \<times> as_error" where
  "as_record_to_z_metadata E r z_meta err =
     (case z_meta of
        ZArray h \<Rightarrow> (AEROSPIKE_OK,
          ZArray (add_assoc_zval E (add_assoc_zval E h ''ttl'' (ZLong (ucast (rec_ttl r))))
            ''generation'' (ZLong (ucast (rec_gen r)))), err)
      | _ \<Rightarrow> (AEROSPIKE_ERR_CLIENT, z_meta, as_error_update err AEROSPIKE_ERR_CLIENT
                ''zval passed as metadata is not an array''))"

definition pk_entry :: "'e conv_ext_scheme \<Rightarrow> as_key \<Rightarrow> bool \<Rightarrow> htab \<Rightarrow> htab" where
  "pk_entry E k show_pk h =
     (case key_value k of
        Some v \<Rightarrow>
          if show_pk then
            (case v of
               AsString s \<Rightarrow> add_assoc_zval E h ''key'' (ZString (c_str s))
             | AsInteger n \<Rightarrow> add_assoc_zval E h ''key'' (ZLong n)
             | AsBytes t s \<Rightarrow> add_assoc_zval E h ''key'' (ZString s)
             | _ \<Rightarrow> h)
          else add_assoc_zval E h ''key'' ZNull
      | None \<Rightarrow> add_assoc_zval E h ''key'' ZNull)"

definition as_key_to_zval ::
  "'e conv_ext_scheme \<Rightarrow> as_key option \<Rightarrow> bool \<Rightarrow> as_error \<Rightarrow> as_status \<times> zval \<times> as_error" where
  "as_key_to_zval E key show_pk err =
     (case key of
        None \<Rightarrow> (AEROSPIKE_ERR_CLIENT, ZUndef,
          as_error_update err AEROSPIKE_ERR_CLIENT ''Can not convert null key'')
      | Some k \<Rightarrow>
          if strlen (key_ns k) = 0 then
            (AEROSPIKE_ERR_CLIENT, ZUndef,
               as_error_update err AEROSPIKE_ERR_CLIENT ''Key has no namespace'')
          else
            (let h = add_assoc_zval E [] ''ns'' (ZString (c_str (key_ns k)));
                 h = add_assoc_zval E h ''set'' (ZString (c_str (key_set k)));
                 h = pk_entry E k show_pk h;
                 h = (case key_digest k of
                        Some d \<Rightarrow> add_assoc_zval E h ''digest'' (ZString d)
                      | None \<Rightarrow> h)
             in (AEROSPIKE_OK, ZArray h, err)))"

definition as_record_to_zval ::
  "'e conv_ext_scheme \<Rightarrow> as_record \<Rightarrow> as_key option \<Rightarrow> bool \<Rightarrow> as_error \<Rightarrow>
     as_status \<times> zval \<times> as_error" where
  "as_record_to_zval E r record_key show_pk err =
     (case as_bins_to_zval E r err of
        (st, z_bins, e1) \<Rightarrow>
          if st \<noteq> AEROSPIKE_OK then (code e1, ZNull, e1)
          else
            (case as_record_to_z_metadata E r (ZArray []) e1 of
               (_, z_meta, e2) \<Rightarrow>
                 if code e2 \<noteq> AEROSPIKE_OK then (code e2, ZNull, e2)
                 else
                   (case as_key_to_zval E
                       (Some (case record_key of Some k \<Rightarrow> k | None \<Rightarrow> rec_key r)) show_pk e2 of
                      (_, z_key, e3) \<Rightarrow>
                        if code e3 \<noteq> AEROSPIKE_OK then (code e3, ZNull, e3)
                        else
                          (code e3,
                           ZArray (add_assoc_zval E (add_assoc_zval E
                             (add_assoc_zval E [] ''key'' z_key) ''metadata'' z_meta)
                             ''bins'' z_bins), e3))))"

text \<open>
  \<open>add_next_index_*\<close> on an array filled by it alone: the next key is the number of entries.
\<close>

definition add_next_index :: "htab \<Rightarrow> zval \<Rightarrow> htab" where
  "add_next_index h z = h @ [(IKey (of_nat (length h)), z)]"

fun operate_bins ::
  "'e conv_ext_scheme \<Rightarrow> (string \<times> as_val) list \<Rightarrow> htab \<Rightarrow> as_error \<Rightarrow> htab \<times> as_error" where
  "operate_bins E [] h err = (h, err)"
| "operate_bins E ((name, v) # bins) h err =
     (case as_val_to_zval E v ZUndef err of
        (st, z, e) \<Rightarrow>
          if st \<noteq> AEROSPIKE_OK then (h, e)
          else operate_bins E bins
            (add_next_index h (ZArray (add_next_index (add_next_index [] (ZString (c_str name))) z))) e)"

definition as_operate_record_to_zval ::
  "'e conv_ext_scheme \<Rightarrow> as_record option \<Rightarrow> zval \<Rightarrow> as_error \<Rightarrow> as_status \<times> zval \<times> as_error" where
  "as_operate_record_to_zval E r rv err =
     (case r of
        None \<Rightarrow> (AEROSPIKE_ERR_CLIENT, rv, as_error_update err AEROSPIKE_ERR_CLIENT
                   ''NULL record in as_operate_record_to_zval'')
      | Some r \<Rightarrow>
          (case operate_bins E (rec_bins r) [] err of
             (h, e) \<Rightarrow> (code e, if code e \<noteq> AEROSPIKE_OK then ZNull else ZArray h, e)))"

section \<open>Privileges and roles\<close>

record as_privilege =
  priv_code :: u32
  priv_ns :: string
  priv_set :: string

record as_role =
  role_name :: string
  role_privileges :: "as_privilege list"

definition as_privilege_to_zval :: "'e conv_ext_scheme \<Rightarrow> as_privilege \<Rightarrow> zval" where
  "as_privilege_to_zval E p =
     ZArray (add_assoc_zval E (add_assoc_zval E (add_assoc_zval E []
       ''ns'' (ZString (c_str (priv_ns p)))) ''set'' (ZString (c_str (priv_set p))))
       ''code'' (ZLong (ucast (priv_code p))))"

definition as_role_to_zval ::
  "'e conv_ext_scheme \<Rightarrow> as_role option \<Rightarrow> zval \<Rightarrow> as_error \<Rightarrow> as_status \<times> zval \<times> as_error" where
  "as_role_to_zval E role rv err =
     (case role of
        None \<Rightarrow> (AEROSPIKE_ERR_CLIENT, rv,
          as_error_update err AEROSPIKE_ERR_CLIENT ''NULL role'')
      | Some r \<Rightarrow>
          (code err,
           if code err \<noteq> AEROSPIKE_OK then ZNull
           else ZArray (foldl (\<lambda>h p. add_next_index h (as_privilege_to_zval E p)) []
                          (role_privileges r)), err))"

fun roles_entries ::
  "'e conv_ext_scheme \<Rightarrow> as_role option list \<Rightarrow> zval \<Rightarrow> htab \<Rightarrow> as_error \<Rightarrow> htab \<times> as_error" where
  "roles_entries E [] cur h err = (h, err)"
| "roles_entries E (r # rs) cur h err =
     (case as_role_to_zval E r cur err of
        (st, z, e) \<Rightarrow>
          if st \<noteq> AEROSPIKE_OK then (h, e)
          else (case r of
                  None \<Rightarrow> (h, e)
                | Some role \<Rightarrow> roles_entries E rs z (add_assoc_zval E h (role_name role) z) e))"

definition as_roles_to_zval ::
  "'e conv_ext_scheme \<Rightarrow> as_role option list option \<Rightarrow> nat \<Rightarrow> zval \<Rightarrow> as_error \<Rightarrow>
     as_status \<times> zval \<times> as_error" where
  "as_roles_to_zval E roles roles_size rv err =
     (case roles of
        None \<Rightarrow>
          if roles_size \<noteq> 0 then
            (AEROSPIKE_ERR_CLIENT, rv, as_error_update err AEROSPIKE_ERR_CLIENT
               ''NULL roles provided to roles_to_zval'')
          else (code err, if code err \<noteq> AEROSPIKE_OK then ZNull else ZArray [], err)
      | Some rs \<Rightarrow>
          (case roles_entries E (take roles_size rs) ZNull [] err of
             (h, e) \<Rightarrow> (code e, if code e \<noteq> AEROSPIKE_OK then ZNull else ZArray h, e)))"

end
