(* ===== verification/FromServerSpec.thy ===== *)
theory FromServerSpec
  imports FromServer
begin

text \<open>
  What the conversion from the server promises: a partial function from server values to PHP
  values, and the proof that the C code with its callbacks computes it.
\<close>

definition bytes_value :: "'e conv_ext_scheme \<Rightarrow> u32 \<Rightarrow> string \<Rightarrow> zval option" where
  "bytes_value E t s =
     (case unserialize_as_bytes E t s ZUndef as_error_init of
        (_, z, e) \<Rightarrow> if code e = AEROSPIKE_OK then Some z else None)"

definition index_keys :: "zlong \<Rightarrow> nat \<Rightarrow> php_key list" where
  "index_keys i n = map (\<lambda>j. IKey (i + of_nat j)) [0..<n]"

lemma index_keys_0 [simp]: "index_keys i 0 = []"
  by (simp add: index_keys_def)

lemma index_keys_Suc [simp]: "index_keys i (Suc n) = IKey i # index_keys (i + 1) n"
  by (simp add: index_keys_def upt_conv_Cons map_Suc_upt [symmetric] add.assoc
      del: upt_Suc)

lemma index_keys_list_keys: "index_keys 0 n = list_keys n"
  by (simp add: index_keys_def list_keys_def)

fun php_value :: "'e conv_ext_scheme \<Rightarrow> as_val \<Rightarrow> zval option" where
  "php_value E (AsString s) = Some (ZString (c_str s))"
| "php_value E (AsInteger n) = Some (ZLong n)"
| "php_value E (AsDouble d) = Some (ZDouble d)"
| "php_value E (AsList l) =
     (case those (map (php_value E) l) of
        None \<Rightarrow> None
      | Some zs \<Rightarrow> Some (ZArray (zend.fill (zip (index_keys 0 (length zs)) zs) [])))"
| "php_value E (AsMap m) =
     (case (those (map (\<lambda>kv. Option.bind (php_value E (fst kv)) (store_key E)) m),
            those (map (\<lambda>kv. php_value E (snd kv)) m)) of
        (Some ks, Some zs) \<Rightarrow> Some (ZArray (zend.fill (zip ks zs) []))
      | _ \<Rightarrow> None)"
| "php_value E (AsBytes t s) = bytes_value E t s"
| "php_value E (AsGeojson s) = from_json E s"
| "php_value E (AsOther t) = Some ZUndef"

text \<open>
  On failure the error code is set, it is what the function returns, and the result variable
  holds nothing that could pass for an array key.
\<close>

definition returns ::
  "'e conv_ext_scheme \<Rightarrow> as_error \<Rightarrow> zval option \<Rightarrow> as_status \<times> zval \<times> as_error \<Rightarrow> bool" where
  "returns E err r x \<longleftrightarrow>
     (case r of
        Some z \<Rightarrow> x = (AEROSPIKE_OK, z, err)
      | None \<Rightarrow> \<exists>c z e. x = (c, z, e) \<and> c = code e \<and> c \<noteq> AEROSPIKE_OK \<and> store_key E z = None)"

lemma returns_Some [simp]: "returns E err (Some z) x \<longleftrightarrow> x = (AEROSPIKE_OK, z, err)"
  by (simp add: returns_def)

lemma returns_None [simp]:
  "returns E err None x \<longleftrightarrow>
     (\<exists>c z e. x = (c, z, e) \<and> c = code e \<and> c \<noteq> AEROSPIKE_OK \<and> store_key E z = None)"
  by (simp add: returns_def)

lemma store_key_none [simp]:
  "store_key E ZNull = None" "store_key E ZUndef = None" "store_key E (ZArray h) = None"
  by (simp_all add: store_key_def)

lemma bytes_returns:
  assumes "code err = AEROSPIKE_OK" and "store_key E rv = None"
  shows "returns E err (bytes_value E t s)
     (case unserialize_as_bytes E t s rv err of (_, z, e) \<Rightarrow> (code e, z, e))"
  using assms
  by (auto simp: bytes_value_def unserialize_as_bytes_def as_bytes_to_zval_bytes_def
        unserialize_with_user_function_def returns_def split: option.splits if_splits)

lemma geojson_returns:
  assumes "code err = AEROSPIKE_OK" and "store_key E rv = None"
  shows "returns E err (from_json E s)
     (case as_geojson_to_zval E s rv err of (_, z, e) \<Rightarrow> (code e, z, e))"
  using assms by (auto simp: as_geojson_to_zval_def split: option.splits)

definition fills ::
  "as_error \<Rightarrow> htab \<Rightarrow> (php_key \<times> zval) list option \<Rightarrow> htab \<times> as_error \<Rightarrow> bool" where
  "fills err h r x \<longleftrightarrow>
     (case r of
        Some kvs \<Rightarrow> x = (zend.fill kvs h, err)
      | None \<Rightarrow> \<exists>h' e. x = (h', e) \<and> code e \<noteq> AEROSPIKE_OK)"

lemma fills_simps [simp]:
  "fills err h (Some kvs) x \<longleftrightarrow> x = (zend.fill kvs h, err)"
  "fills err h None x \<longleftrightarrow> (\<exists>h' e. x = (h', e) \<and> code e \<noteq> AEROSPIKE_OK)"
  by (simp_all add: fills_def)

definition map_entries_value ::
  "'e conv_ext_scheme \<Rightarrow> as_map \<Rightarrow> (php_key \<times> zval) list option" where
  "map_entries_value E m =
     (case (those (map (\<lambda>kv. Option.bind (php_value E (fst kv)) (store_key E)) m),
            those (map (\<lambda>kv. php_value E (snd kv)) m)) of
        (Some ks, Some zs) \<Rightarrow> Some (zip ks zs)
      | _ \<Rightarrow> None)"

lemma map_entries_value_Nil [simp]: "map_entries_value E [] = Some []"
  by (simp add: map_entries_value_def)

lemma map_entries_value_Cons:
  "map_entries_value E ((k, v) # m) =
     (case Option.bind (php_value E k) (store_key E) of
        None \<Rightarrow> None
      | Some key \<Rightarrow>
          (case php_value E v of
             None \<Rightarrow> None
           | Some z \<Rightarrow> map_option (\<lambda>kvs. (key, z) # kvs) (map_entries_value E m)))"
  by (auto simp: map_entries_value_def split: option.splits)

lemma php_value_AsMap:
  "php_value E (AsMap m) = map_option (\<lambda>kvs. ZArray (zend.fill kvs [])) (map_entries_value E m)"
  by (auto simp: map_entries_value_def split: option.splits)

lemma as_val_returns:
  shows "code err = AEROSPIKE_OK \<Longrightarrow> store_key E rv = None \<Longrightarrow>
      returns E err (php_value E v) (as_val_to_zval E v rv err)"
    and "code err = AEROSPIKE_OK \<Longrightarrow>
      returns E err (php_value E (AsList l)) (as_list_to_zval E l err)"
    and "code err = AEROSPIKE_OK \<Longrightarrow>
      returns E err (php_value E (AsMap m)) (as_map_to_zval E m err)"
    and "code err = AEROSPIKE_OK \<Longrightarrow>
      fills err h (map_option (\<lambda>zs. zip (index_keys i (length zs)) zs) (those (map (php_value E) l)))
        (list_converter E l h i err)"
    and "code err = AEROSPIKE_OK \<Longrightarrow>
      fills err h (map_entries_value E m) (map_converter E m h err)"
proof (induction E v rv err and E l err and E m err and E l h i err and E m h err
    rule: as_val_to_zval_as_list_to_zval_as_map_to_zval_list_converter_map_converter.induct)
  case (4 E l rv err)
  then show ?case
    by (cases "php_value E (AsList l)") (auto simp del: php_value.simps)
next
  case (5 E m rv err)
  then show ?case
    by (cases "php_value E (AsMap m)") (auto simp del: php_value.simps)
next
  case (6 E t s rv err)
  then show ?case using bytes_returns [of err E rv t s] by simp
next
  case (7 E s rv err)
  then show ?case using geojson_returns [of err E rv s] by simp
next
  case (9 E l err)
  then show ?case by (cases "those (map (php_value E) l)") auto
next
  case (10 E m err)
  then show ?case
    by (cases "map_entries_value E m") (auto simp: php_value_AsMap simp del: php_value.simps)
next
  case (12 E v l h i err)
  then show ?case
    by (cases "php_value E v"; cases "those (map (php_value E) l)")
      (fastforce simp: add_index_zval_def)+
next
  case (14 E k v m h err)
  note prems = "14.prems" and kIH = "14.IH"(1) and vIH = "14.IH"(2) and mIH = "14.IH"(3)
  show ?case
  proof (cases "Option.bind (php_value E k) (store_key E)")
    case None
    then show ?thesis
      using kIH prems by (cases "php_value E k") (auto simp: map_entries_value_Cons)
  next
    case (Some key)
    then obtain zk where zk: "php_value E k = Some zk" "store_key E zk = Some key"
      by (auto simp: bind_eq_Some_conv)
    with kIH prems have k: "as_val_to_zval E k ZNull err = (AEROSPIKE_OK, zk, err)" by simp
    have v: "returns E err (php_value E v) (as_val_to_zval E v ZUndef err)"
      using vIH [OF k [symmetric] refl _ _] zk prems by simp
    show ?thesis
    proof (cases "php_value E v")
      case None
      with v zk k show ?thesis by (auto simp: map_entries_value_Cons)
    next
      case (Some z)
      with v have z: "as_val_to_zval E v ZUndef err = (AEROSPIKE_OK, z, err)" by simp
      have "fills err (hash_update h key z) (map_entries_value E m)
              (map_converter E m (hash_update h key z) err)"
        using mIH [OF k [symmetric] refl zk(2) z [symmetric]] prems by simp
      with Some zk k z prems show ?thesis
        by (cases "map_entries_value E m") (auto simp: map_entries_value_Cons)
    qed
  qed
qed simp_all

end
