(* ===== verification/Records.thy ===== *)
theory Records
  imports ToServerSpec FromServerSpec
begin

text \<open>
  The arrays with a fixed shape: records, keys, privileges and role names built from PHP arrays
  (\<open>conversions.c\<close>), and the key arrays \<open>Aerospike::initKey\<close> makes (\<open>aerospike_class.c\<close>).
  Where the C code would dereference a null pointer the result is \<open>None\<close>.
\<close>

section \<open>Records\<close>

definition add_zval_to_record ::
  "'e conv_ext_scheme \<Rightarrow> zval \<Rightarrow> as_record \<Rightarrow> string \<Rightarrow> as_error \<Rightarrow> cint \<Rightarrow>
     (as_status \<times> as_record \<times> as_error) option" where
  "add_zval_to_record E z r bin err ser =
     (case zval_to_as_val E z err ser of
        (st, v, e) \<Rightarrow>
          if st \<noteq> AEROSPIKE_OK then Some (code e, r, e)
          else
            (case v of
               None \<Rightarrow> None
             | Some (AsOther t) \<Rightarrow>
                 Some (AEROSPIKE_ERR_PARAM, r,
                   as_error_update e AEROSPIKE_ERR_PARAM ''Unsupported type'')
             | Some v \<Rightarrow> Some (code e, record_set E r (c_str bin) v, e)))"

text \<open>The loop of \<open>z_hashtable_to_as_record\<close> over the entries of the array.\<close>

fun record_entries ::
  "'e conv_ext_scheme \<Rightarrow> htab \<Rightarrow> as_record \<Rightarrow> as_error \<Rightarrow> cint \<Rightarrow>
     (as_status \<times> as_record \<times> as_error) option" where
  "record_entries E [] r err ser = Some (code err, r, err)"
| "record_entries E ((SKey name, z) # h) r err ser =
     (if bin_name_max_len E < length name then
        Some (AEROSPIKE_ERR_BIN_NAME, r,
          as_error_update err AEROSPIKE_ERR_BIN_NAME ''Bin name too long'')
      else
        (case add_zval_to_record E z r name err ser of
           None \<Rightarrow> None
         | Some (_, r', e) \<Rightarrow>
             if code e \<noteq> AEROSPIKE_OK then Some (code e, r', e)
             else record_entries E h r' e ser))"
| "record_entries E ((IKey n, z) # h) r err ser =
     Some (AEROSPIKE_ERR_PARAM, r,
       as_error_update err AEROSPIKE_ERR_PARAM ''Only string names are valid for bins'')"

definition z_hashtable_to_as_record ::
  "'e conv_ext_scheme \<Rightarrow> htab \<Rightarrow> as_error \<Rightarrow> cint \<Rightarrow> (as_status \<times> as_record \<times> as_error) option"
where
  "z_hashtable_to_as_record E h err ser =
     record_entries E h (record_new E (length h)) err ser"

text \<open>The bins a PHP array stands for, or why it stands for none.\<close>

datatype bins_result = Bins "(string \<times> as_val) list" | BadBins as_status

fun server_bins :: "'e conv_ext_scheme \<Rightarrow> cint \<Rightarrow> htab \<Rightarrow> bins_result" where
  "server_bins E ser [] = Bins []"
| "server_bins E ser ((IKey n, z) # h) = BadBins AEROSPIKE_ERR_PARAM"
| "server_bins E ser ((SKey name, z) # h) =
     (if bin_name_max_len E < length name then BadBins AEROSPIKE_ERR_BIN_NAME
      else
        (case server_value E ser z of
           None \<Rightarrow> BadBins AEROSPIKE_ERR_PARAM
         | Some v \<Rightarrow>
             (case server_bins E ser h of
                Bins bs \<Rightarrow> Bins ((c_str name, v) # bs)
              | BadBins c \<Rightarrow> BadBins c)))"

definition bin_keys :: "htab \<Rightarrow> string list" where
  "bin_keys h = map (\<lambda>kv. case fst kv of SKey s \<Rightarrow> c_str s | IKey n \<Rightarrow> []) h"

lemma bin_keys_simps [simp]:
  "bin_keys [] = []"
  "bin_keys ((SKey s, z) # h) = c_str s # bin_keys h"
  by (simp_all add: bin_keys_def)

text \<open>No conversion of a PHP value ends in a server value of a type without a case.\<close>

lemma server_value_not_other: "server_value E ser z \<noteq> Some (AsOther t)"
  by (cases "(E, ser, z)" rule: server_value.cases)
    (auto simp: other_value_def other_to_as_val_def serialized_to_as_val_def
        bytes_object_to_as_val_def geojson_object_to_as_val_def
      split: option.splits zval.splits prod.splits if_splits)

lemma add_zval_to_record_eq:
  assumes "list_api E" and "\<And>n. hashmap_new E n = Some []" and ok: "code err = AEROSPIKE_OK"
  shows "case server_value E ser z of
      Some v \<Rightarrow> add_zval_to_record E z r bin err ser =
        Some (AEROSPIKE_OK, record_set E r (c_str bin) v, err)
    | None \<Rightarrow> \<exists>m. add_zval_to_record E z r bin err ser =
        Some (AEROSPIKE_ERR_PARAM, r, as_error_update err AEROSPIKE_ERR_PARAM m)"
proof -
  have "yields err (server_value E ser z) (zval_to_as_val E z err ser)"
    by (rule conversion_yields(1)) (use assms in auto)
  with ok server_value_not_other [of E ser z] show ?thesis
    by (cases "server_value E ser z")
      (auto simp: add_zval_to_record_def split: as_val.splits)
qed

lemma record_entries_eq:
  assumes "list_api E" "\<And>n. hashmap_new E n = Some []" "record_api E" "code err = AEROSPIKE_OK"
  shows "length (rec_bins r) + length h \<le> rec_capacity r \<Longrightarrow>
    distinct (bin_keys h) \<Longrightarrow> set (bin_keys h) \<inter> fst ` set (rec_bins r) = {} \<Longrightarrow>
    (case server_bins E ser h of
       Bins bs \<Rightarrow> record_entries E h r err ser =
         Some (AEROSPIKE_OK, r\<lparr>rec_bins := rec_bins r @ bs\<rparr>, err)
     | BadBins c \<Rightarrow> \<exists>r' m. c \<noteq> AEROSPIKE_OK \<and>
         record_entries E h r err ser = Some (c, r', as_error_update err c m))"
proof (induction h arbitrary: r)
  case Nil
  then show ?case using assms(4) by simp
next
  case (Cons kv h)
  obtain k z where kv: "kv = (k, z)" by (cases kv)
  show ?case
  proof (cases k)
    case (IKey n)
    then show ?thesis by (auto simp: kv)
  next
    case k: (SKey name)
    note add = add_zval_to_record_eq [OF assms(1,2,4), where z = z and ser = ser and r = r and bin = name]
    show ?thesis
    proof (cases "bin_name_max_len E < length name")
      case True
      then show ?thesis by (auto simp: kv k)
    next
      case short: False
      show ?thesis
      proof (cases "server_value E ser z")
        case None
        with add short show ?thesis by (auto simp: kv k)
      next
        case (Some v)
        let ?r = "r\<lparr>rec_bins := rec_bins r @ [(c_str name, v)]\<rparr>"
        have "strlen (c_str name) \<le> bin_name_max_len E"
          using short length_c_str [of name] by (simp add: strlen_def del: length_c_str)
        with Cons.prems have "record_set E r (c_str name) v = ?r"
          by (intro record_apiD(3) [OF assms(3)]) (auto simp: kv k)
        moreover have "case server_bins E ser h of
            Bins bs \<Rightarrow> record_entries E h ?r err ser =
              Some (AEROSPIKE_OK, ?r\<lparr>rec_bins := rec_bins ?r @ bs\<rparr>, err)
          | BadBins c \<Rightarrow> \<exists>r' m. c \<noteq> AEROSPIKE_OK \<and>
              record_entries E h ?r err ser = Some (c, r', as_error_update err c m)"
          using Cons.prems by (intro Cons.IH) (auto simp: kv k)
        ultimately show ?thesis
          using add short Some assms(4) by (simp add: kv k split: bins_result.splits)
      qed
    qed
  qed
qed

text \<open>
  The whole function: the record of the bins in the order of the array, or the status of the
  first entry that is no bin, with the error structure set to it.
\<close>

lemma z_hashtable_to_as_record_eq:
  assumes "list_api E" "\<And>n. hashmap_new E n = Some []" "record_api E" "code err = AEROSPIKE_OK"
    and "length h < 2 ^ 16" and "distinct (bin_keys h)"
  shows "case server_bins E ser h of
       Bins bs \<Rightarrow> z_hashtable_to_as_record E h err ser =
         Some (AEROSPIKE_OK, (record_new E (length h))\<lparr>rec_bins := bs\<rparr>, err)
     | BadBins c \<Rightarrow> \<exists>r' m. c \<noteq> AEROSPIKE_OK \<and>
         z_hashtable_to_as_record E h err ser = Some (c, r', as_error_update err c m)"
  using record_entries_eq [OF assms(1-4), of "record_new E (length h)" h ser] assms(5,6)
  by (cases "server_bins E ser h")
    (simp_all add: z_hashtable_to_as_record_def record_apiD [OF assms(3)])

section \<open>Keys\<close>

definition z_hashtable_to_as_key ::
  "'e conv_ext_scheme \<Rightarrow> htab \<Rightarrow> as_error \<Rightarrow> as_status \<times> as_key option \<times> as_error" where
  "z_hashtable_to_as_key E h err =
     (let fail = \<lambda>m. (AEROSPIKE_ERR_PARAM, None, as_error_update err AEROSPIKE_ERR_PARAM m);
          made = \<lambda>k. (if k = None then AEROSPIKE_ERR_CLIENT else AEROSPIKE_OK, k, err)
      in
      case str_find h ''ns'' of
        Some (ZString ns) \<Rightarrow>
          if (case str_find h ''set'' of Some z \<Rightarrow> \<not> is_string z | None \<Rightarrow> False) then
            fail ''Key entry for set must be a string''
          else
            (case (case str_find h ''key'' of
                     Some z \<Rightarrow> Some (z, False)
                   | None \<Rightarrow>
                       (case str_find h ''digest'' of
                          Some (ZString d) \<Rightarrow> Some (ZString d, True)
                        | _ \<Rightarrow> None)) of
               None \<Rightarrow> fail ''Digest must be a string''
             | Some (z_pk, is_digest) \<Rightarrow>
                 (case str_find h ''set'' of
                    Some (ZString set_name) \<Rightarrow>
                      (case z_pk of
                         ZString s \<Rightarrow>
                           if is_digest then
                             if length s \<noteq> digest_size E then fail ''Digest must be 20 bytes''
                             else made (key_init_digest E (c_str ns) (c_str set_name) s)
                           else made (key_init_value E (c_str ns) (c_str set_name)
                                  (AsString (c_str s)))
                       | ZLong n \<Rightarrow>
                           made (key_init_value E (c_str ns) (c_str set_name) (AsInteger n))
                       | _ \<Rightarrow> (AEROSPIKE_ERR_CLIENT, None, err))
                  | _ \<Rightarrow> fail ''Key must contain a string entry for set''))
      | _ \<Rightarrow> fail ''Key must contain a string entry for ns'')"

text \<open>
  \<open>Aerospike::initKey\<close> after \<open>zend_parse_parameters\<close>: the value the method returns and the
  client's error.
\<close>

definition client_error_set :: "as_status \<Rightarrow> string \<Rightarrow> bool \<Rightarrow> as_error" where
  "client_error_set c m d = \<lparr>code = c, message = m, in_doubt = d\<rparr>"

definition initKey ::
  "'e conv_ext_scheme \<Rightarrow> (string \<times> string \<times> zval \<times> bool) option \<Rightarrow> zval \<times> as_error" where
  "initKey E args =
     (case args of
        None \<Rightarrow> (ZLong (status_value E AEROSPIKE_ERR_PARAM),
          client_error_set AEROSPIKE_ERR_PARAM ''Invalid arguments for initKey'' False)
      | Some (ns, set_name, pk, is_digest) \<Rightarrow>
          (let h = add_assoc_zval E (add_assoc_zval E [] ''ns'' (ZString ns)) ''set'' (ZString set_name)
           in
           (case pk of
              ZString s \<Rightarrow>
                if is_digest then
                  if length s \<noteq> digest_size E then
                    (ZNull, client_error_set AEROSPIKE_ERR_PARAM ''Digest Must be 20 bytes'' False)
                  else (ZArray (add_assoc_zval E h ''digest'' (ZString s)), as_error_init)
                else (ZArray (add_assoc_zval E h ''key'' (ZString s)), as_error_init)
            | ZLong n \<Rightarrow>
                if is_digest then (ZNull, as_error_init)
                else (ZArray (add_assoc_zval E h ''key'' (ZLong n)), as_error_init)
            | _ \<Rightarrow> (ZNull,
                client_error_set AEROSPIKE_ERR_PARAM ''Invalid type for primary key'' False))))"

section \<open>Privileges and role names\<close>

text \<open>One privilege: the fields read from its array, or the error.\<close>

definition privilege_field ::
  "zval option \<Rightarrow> nat \<Rightarrow> string \<Rightarrow> string \<Rightarrow> string + string" where
  "privilege_field z max_size not_string too_long =
     (case z of
        None \<Rightarrow> Inr []
      | Some (ZString s) \<Rightarrow> if max_size \<le> length s then Inl too_long else Inr (c_str s)
      | Some _ \<Rightarrow> Inl not_string)"

definition privilege_entry ::
  "'e conv_ext_scheme \<Rightarrow> zval \<Rightarrow> string + as_privilege" where
  "privilege_entry E z =
     (case z of
        ZArray h \<Rightarrow>
          (case str_find h ''code'' of
             None \<Rightarrow> Inl ''privilege must contain a code entry''
           | Some (ZLong n) \<Rightarrow>
               (case privilege_field (str_find h ''ns'') (namespace_max_size E)
                       ''Namespace must be a string'' ''Namespace is too long'' of
                  Inl m \<Rightarrow> Inl m
                | Inr ns \<Rightarrow>
                    (case privilege_field (str_find h ''set'') (set_max_size E)
                            ''Set must be a string'' ''Set is too long'' of
                       Inl m \<Rightarrow> Inl m
                     | Inr set_name \<Rightarrow>
                         Inr \<lparr>priv_code = ucast n, priv_ns = ns, priv_set = set_name\<rparr>))
           | Some _ \<Rightarrow> Inl ''code must be an integer'')
      | _ \<Rightarrow> Inl ''privilege must be an array'')"

fun privileges_entries ::
  "'e conv_ext_scheme \<Rightarrow> htab \<Rightarrow> as_privilege list \<Rightarrow> as_error \<Rightarrow> as_privilege list \<times> as_error" where
  "privileges_entries E [] ps err = (ps, err)"
| "privileges_entries E ((k, z) # h) ps err =
     (case privilege_entry E z of
        Inl m \<Rightarrow> (ps, as_error_update err AEROSPIKE_ERR_PARAM m)
      | Inr p \<Rightarrow> privileges_entries E h (ps @ [p]) err)"

definition z_hashtable_to_as_privileges ::
  "'e conv_ext_scheme \<Rightarrow> htab \<Rightarrow> as_error \<Rightarrow> as_status \<times> as_privilege list \<times> as_error" where
  "z_hashtable_to_as_privileges E h err =
     (case privileges_entries E h [] err of (ps, e) \<Rightarrow> (code e, ps, e))"

text \<open>The roles are the slots of the caller's array that have been filled.\<close>

fun str_array_entries ::
  "htab \<Rightarrow> nat \<Rightarrow> nat \<Rightarrow> string list \<Rightarrow> as_error \<Rightarrow> string list \<times> as_error" where
  "str_array_entries [] max_size roles_size roles err = (roles, err)"
| "str_array_entries ((k, z) # h) max_size roles_size roles err =
     (if roles_size \<le> length roles then
        (roles, as_error_update err AEROSPIKE_ERR_CLIENT ''Unexpected number of roles'')
      else
        (case z of
           ZString s \<Rightarrow>
             if max_size \<le> length s then
               (roles, as_error_update err AEROSPIKE_ERR_PARAM ''Role name is too long'')
             else str_array_entries h max_size roles_size (roles @ [c_str s]) err
         | _ \<Rightarrow> (roles, as_error_update err AEROSPIKE_ERR_PARAM ''Role must be a string'')))"

definition z_hash_to_str_array ::
  "htab \<Rightarrow> bool \<Rightarrow> nat \<Rightarrow> nat \<Rightarrow> as_error \<Rightarrow> as_status \<times> string list \<times> as_error" where
  "z_hash_to_str_array h roles_null max_size roles_size err =
     (if roles_null then
        (AEROSPIKE_ERR_CLIENT, [], as_error_update err AEROSPIKE_ERR_CLIENT
           ''null array passed to z_hashtable_to_str_array'')
      else
        (case str_array_entries h max_size roles_size [] err of (rs, e) \<Rightarrow> (code e, rs, e)))"

end
