(* ===== verification/RoundTrip.thy ===== *)
theory RoundTrip
  imports Records
begin

text \<open>
  What is written to the server and read back: values, records and keys through both
  directions of the conversions. The order of a map's entries is the server's, so values are
  compared by \<open>php_eq\<close>, which ignores the order of the entries of arrays that are not lists.
\<close>

section \<open>Values that survive\<close>

definition plain_php_key :: "'e conv_ext_scheme \<Rightarrow> php_key \<Rightarrow> bool" where
  "plain_php_key E k = (case k of IKey n \<Rightarrow> True | SKey s \<Rightarrow> plain_key E s)"

text \<open>A value the serializer writes and the unserializer reads back.\<close>

definition serializable :: "'e conv_ext_scheme \<Rightarrow> cint \<Rightarrow> zval \<Rightarrow> bool" where
  "serializable E ser z \<longleftrightarrow> ser = SERIALIZER_PHP \<and>
     (case var_serialize E z of None \<Rightarrow> False | Some s \<Rightarrow> var_unserialize E s = Some z)"

text \<open>An object of class \<open>Aerospike\\Bytes\<close> that is what the class makes of its bytes.\<close>

definition bytes_object :: "'e conv_ext_scheme \<Rightarrow> zval \<Rightarrow> bool" where
  "bytes_object E z \<longleftrightarrow> lookup_class E BYTES_CLASS \<and> user_deserializer E = None \<and>
     (case (read_property E z ''s'', object_init E BYTES_CLASS) of
        (Some (ZString s), Some obj) \<Rightarrow> update_property E obj ''s'' s = z
      | _ \<Rightarrow> False)"

fun storable :: "'e conv_ext_scheme \<Rightarrow> cint \<Rightarrow> zval \<Rightarrow> bool" where
  "storable E ser (ZLong n) = True"
| "storable E ser (ZDouble d) = True"
| "storable E ser (ZString s) = nul_free s"
| "storable E ser (ZArray h) =
     (wf_hash h \<and> length h \<le> 2 ^ 31 \<and> (\<forall>k \<in> set (map fst h). plain_php_key E k) \<and>
      list_all (\<lambda>kv. storable E ser (snd kv)) h)"
| "storable E ser (ZObject c ps) =
     (if c = BYTES_CLASS_NAME then bytes_object E (ZObject c ps)
      else \<not> prefix c BYTES_CLASS_NAME \<and> \<not> prefix c GEOJSON_CLASS_NAME \<and> nul_free c \<and>
        serializable E ser (ZObject c ps))"
| "storable E ser z = serializable E ser z"

inductive php_eq :: "zval \<Rightarrow> zval \<Rightarrow> bool" where
  scalar: "\<not> is_array z \<Longrightarrow> php_eq z z"
| array: "\<lbrakk>length h = length h'; \<And>k. (map_of h k = None) = (map_of h' k = None);
    \<And>k z z'. map_of h k = Some z \<Longrightarrow> map_of h' k = Some z' \<Longrightarrow> php_eq z z';
    hashtable_is_list h \<Longrightarrow> map fst h' = map fst h\<rbrakk> \<Longrightarrow> php_eq (ZArray h) (ZArray h')"

inductive_simps php_eq_simps:
  "php_eq (ZLong n) z" "php_eq (ZString s) z" "php_eq (ZDouble d) z" "php_eq ZNull z"
  "php_eq ZUndef z" "php_eq ZTrue z" "php_eq ZFalse z" "php_eq (ZArray h) z"
  "php_eq (ZObject c ps) z" "php_eq (ZResource n) z" "php_eq (ZReference y) z"

section \<open>Options in lists\<close>

lemma those_eq_Some: "those xs = Some ys \<longleftrightarrow> xs = map Some ys"
  by (induction xs arbitrary: ys) (auto split: option.splits simp: Cons_eq_map_conv)

lemma those_map_Some: "(\<And>x. x \<in> set xs \<Longrightarrow> f x = Some (g x)) \<Longrightarrow> those (map f xs) = Some (map g xs)"
  by (simp add: those_eq_Some)

lemma those_map_mset:
  assumes "mset xs = mset ys" and "those (map f ys) = Some bs"
  shows "\<exists>as. those (map f xs) = Some as \<and> mset as = mset bs"
proof (intro exI conjI)
  from assms(2) have f: "f y = Some (the (f y))" if "y \<in> set ys" for y
    using that by (auto simp: those_eq_Some map_eq_conv in_set_conv_nth list_eq_iff_nth_eq)
  from assms(1) have "set xs = set ys" by (rule mset_eq_setD)
  with f show "those (map f xs) = Some (map (\<lambda>x. the (f x)) xs)"
    by (intro those_map_Some) auto
  from assms(2) have "bs = map (\<lambda>x. the (f x)) ys"
    by (auto simp: those_eq_Some list_eq_iff_nth_eq)
  with assms(1) show "mset (map (\<lambda>x. the (f x)) xs) = mset bs" by simp
qed

section \<open>Maps\<close>

lemma key_to_as_val_inj:
  "plain_php_key E k \<Longrightarrow> plain_php_key E k' \<Longrightarrow> key_to_as_val k = key_to_as_val k' \<longleftrightarrow> k = k'"
  by (auto simp: key_to_as_val_def plain_php_key_def plain_key_def split: php_key.splits)

lemma build_map_mset:
  assumes "map_api E"
  shows "distinct (map (\<lambda>kv. key_to_as_val (fst kv)) kvs) \<Longrightarrow>
    (\<lambda>kv. key_to_as_val (fst kv)) ` set kvs \<inter> fst ` set m = {} \<Longrightarrow>
    mset (build_map E m kvs) = mset m + mset (map (\<lambda>kv. (key_to_as_val (fst kv), snd kv)) kvs)"
proof (induction kvs arbitrary: m)
  case Nil
  then show ?case by simp
next
  case (Cons kv kvs)
  obtain k v where kv: "kv = (k, v)" by (cases kv)
  let ?m = "map_set E m (key_to_as_val k) v"
  have m: "mset ?m = add_mset (key_to_as_val k, v) (mset m)"
    using Cons.prems by (intro map_apiD(2) [OF assms]) (auto simp: kv)
  then have "set ?m = insert (key_to_as_val k, v) (set m)"
    by (metis set_mset_add_mset_insert set_mset_mset)
  with Cons.prems m show ?case by (simp add: kv Cons.IH)
qed

text \<open>One entry of a server map and the entry of the PHP array it becomes.\<close>

definition map_entry :: "'e conv_ext_scheme \<Rightarrow> as_val \<times> as_val \<Rightarrow> (php_key \<times> zval) option" where
  "map_entry E kv =
     (case Option.bind (php_value E (fst kv)) (store_key E) of
        None \<Rightarrow> None
      | Some k \<Rightarrow> map_option (Pair k) (php_value E (snd kv)))"

lemma map_entries_value_those: "map_entries_value E m = those (map (map_entry E) m)"
  by (induction m) (auto simp: map_entries_value_Cons map_entry_def split: option.splits)

lemma map_entry_plain:
  "plain_php_key E k \<Longrightarrow> php_value E v = Some z \<Longrightarrow> map_entry E (key_to_as_val k, v) = Some (k, z)"
  by (auto simp: map_entry_def key_to_as_val_def store_key_def plain_php_key_def plain_key_def
      assoc_key_def split: php_key.splits)

lemma php_eq_array_map:
  assumes "wf_hash h" and "\<And>k z. (k, z) \<in> set h \<Longrightarrow> php_eq z (g (k, z))"
    and "mset h' = mset (map (\<lambda>kv. (fst kv, g kv)) h)"
    and "hashtable_is_list h \<Longrightarrow> map fst h' = map fst h"
  shows "php_eq (ZArray h) (ZArray h')"
proof (rule php_eq.array)
  let ?g = "map (\<lambda>kv. (fst kv, g kv)) h"
  have d: "distinct (map fst ?g)" using assms(1) by (simp add: wf_hash_def o_def)
  with assms(3) have m: "map_of h' = map_of ?g" by (metis map_of_mset_eq)
  have find: "map_of ?g k = map_option (\<lambda>z. g (k, z)) (map_of h k)" for k
    by (induction h) auto
  show "length h = length h'" using assms(3) by (metis length_map size_mset)
  show "(map_of h k = None) = (map_of h' k = None)" for k by (simp add: m find)
  show "php_eq z z'" if "map_of h k = Some z" "map_of h' k = Some z'" for k z z'
    using that assms(2) by (auto simp: m find dest: map_of_SomeD)
  show "hashtable_is_list h \<Longrightarrow> map fst h' = map fst h" by (rule assms(4))
qed

lemma distinct_list_keys: "n \<le> 2 ^ 31 \<Longrightarrow> distinct (list_keys n)"
proof -
  assume n: "n \<le> 2 ^ 31"
  have "inj_on (\<lambda>i. IKey (of_nat i)) {0..<n}"
    using n by (intro inj_onI) (simp add: word_of_nat_eq_iff take_bit_nat_eq_self)
  then show ?thesis by (simp add: list_keys_def distinct_map)
qed

section \<open>The round trip of a value\<close>

lemma array_round_trip:
  assumes E: "map_api E" and st: "storable E ser (ZArray h)"
    and v: "\<And>kv. kv \<in> set h \<Longrightarrow> server_value E ser (snd kv) = Some (val kv)"
    and b: "\<And>kv. kv \<in> set h \<Longrightarrow> php_value E (val kv) = Some (ret kv)"
    and same: "\<And>kv. kv \<in> set h \<Longrightarrow> php_eq (snd kv) (ret kv)"
  shows "\<exists>v z'. server_value E ser (ZArray h) = Some v \<and> php_value E v = Some z' \<and>
    php_eq (ZArray h) z'"
proof -
  from st have wf: "wf_hash h" and len: "length h \<le> 2 ^ 31"
    and plain: "\<And>k z. (k, z) \<in> set h \<Longrightarrow> plain_php_key E k" by force+
  let ?ret = "map (\<lambda>kv. (fst kv, ret kv)) h"
  have vs: "those (map (\<lambda>kv. server_value E ser (snd kv)) h) = Some (map val h)"
    by (rule those_map_Some) (rule v)
  have zs: "those (map (php_value E) (map val h)) = Some (map ret h)"
    using those_map_Some [of h "\<lambda>kv. php_value E (val kv)" ret] b by (simp add: o_def)
  show ?thesis
  proof (cases "hashtable_is_list h")
    case True
    then have keys: "map fst h = list_keys (length h)" using len by (simp add: hashtable_is_list_iff)
    have keyed: "zip (list_keys (length h)) (map ret h) = ?ret"
      by (simp only: keys [symmetric] zip_map_map zip_same_conv_map map_map o_def split fst_conv)
    have "zend.fill ?ret [] = ?ret"
      using wf by (subst fill_append_distinct) (simp_all add: wf_hash_def o_def)
    with keyed zs have "php_value E (AsList (map val h)) = Some (ZArray ?ret)"
      by (simp add: index_keys_list_keys)
    moreover have "php_eq (ZArray h) (ZArray ?ret)"
      by (rule php_eq_array_map [where g = ret]) (use wf same in \<open>auto simp: o_def\<close>)
    ultimately show ?thesis using True vs by auto
  next
    case False
    let ?kvs = "zip (map fst h) (map val h)"
    have kvs: "?kvs = map (\<lambda>kv. (fst kv, val kv)) h" by (simp add: zip_map_map zip_same_conv_map)
    from wf have d: "distinct h" and inj: "inj_on fst (set h)"
      by (simp_all add: wf_hash_def distinct_map)
    have "inj_on (\<lambda>kv. key_to_as_val (fst kv)) (set h)"
    proof (rule inj_onI)
      fix x y
      assume x: "x \<in> set h" and y: "y \<in> set h"
        and "key_to_as_val (fst x) = key_to_as_val (fst y)"
      with plain [of "fst x" "snd x"] plain [of "fst y" "snd y"] have "fst x = fst y"
        by (simp add: key_to_as_val_inj)
      with inj x y show "x = y" by (auto dest: inj_onD)
    qed
    with d have "distinct (map (\<lambda>kv. key_to_as_val (fst kv)) h)" by (simp add: distinct_map)
    then have mk: "mset (build_map E [] ?kvs) = mset (map (\<lambda>kv. (key_to_as_val (fst kv), val kv)) h)"
      by (subst build_map_mset [OF E]) (simp_all add: kvs o_def)
    have "those (map (map_entry E) (map (\<lambda>kv. (key_to_as_val (fst kv), val kv)) h)) =
        Some ?ret"
      unfolding map_map o_def
    proof (rule those_map_Some)
      fix kv
      assume kv: "kv \<in> set h"
      then have "plain_php_key E (fst kv)" using plain [of "fst kv" "snd kv"] by simp
      from map_entry_plain [OF this b [OF kv]]
      show "map_entry E (key_to_as_val (fst kv), val kv) = Some (fst kv, ret kv)" .
    qed
    from those_map_mset [OF mk this] obtain r
      where r: "map_entries_value E (build_map E [] ?kvs) = Some r" and mr: "mset r = mset ?ret"
      by (auto simp: map_entries_value_those)
    have "distinct (map fst ?ret)" using wf by (simp add: wf_hash_def o_def)
    with mr have "distinct (map fst r)" by (metis mset_map mset_eq_imp_distinct_iff)
    then have "zend.fill r [] = r" by (simp add: fill_append_distinct)
    with r have "php_value E (AsMap (build_map E [] ?kvs)) = Some (ZArray r)"
      unfolding php_value_AsMap by simp
    moreover have "php_eq (ZArray h) (ZArray r)"
      by (rule php_eq_array_map [where g = ret]) (use wf same mr False in auto)
    ultimately show ?thesis using False vs by (auto simp del: php_value.simps)
  qed
qed


text \<open>Values the server has no type for travel as serialized bytes, or as the bytes they hold.\<close>

lemma serializable_round_trip:
  assumes "serializable E ser z" and "bytes_api E" and "bytes_php E \<noteq> bytes_blob E"
    and "\<And>c ps. z = ZObject c ps \<Longrightarrow>
      nul_free c \<and> \<not> prefix c BYTES_CLASS_NAME \<and> \<not> prefix c GEOJSON_CLASS_NAME"
  shows "\<exists>v. other_value E ser z = Some v \<and> php_value E v = Some z"
  using assms
  by (cases z)
    (auto simp: serializable_def other_value_def other_to_as_val_def serialized_to_as_val_def
        serialize_php_object_def serializer_defs bytes_apiD bytes_value_def
        unserialize_as_bytes_def strncmp0_length split: option.splits)

lemma class_names_nul_free: "nul_free BYTES_CLASS_NAME" "nul_free GEOJSON_CLASS_NAME"
  by (simp_all add: BYTES_CLASS_NAME_def GEOJSON_CLASS_NAME_def nul_free_def NUL_def)

lemma bytes_object_round_trip:
  assumes "bytes_object E (ZObject BYTES_CLASS_NAME ps)" and "bytes_api E"
  shows "\<exists>v. (\<forall>ser. other_value E ser (ZObject BYTES_CLASS_NAME ps) = Some v) \<and>
    php_value E v = Some (ZObject BYTES_CLASS_NAME ps)"
  using assms
  by (auto simp: bytes_object_def other_value_def other_to_as_val_def strncmp0_length
        class_names_nul_free bytes_object_to_as_val_def bytes_apiD bytes_value_def
        unserialize_as_bytes_def as_bytes_to_zval_bytes_def split: option.splits zval.splits)

lemma value_round_trip:
  assumes "map_api E" "bytes_api E" "bytes_php E \<noteq> bytes_blob E"
  shows "storable E ser z \<Longrightarrow>
    \<exists>v z'. server_value E ser z = Some v \<and> php_value E v = Some z' \<and> php_eq z z'"
  using assms
proof (induction E ser z rule: server_value.induct)
  case (4 E ser h)
  let ?val = "\<lambda>kv. the (server_value E ser (snd kv))"
  have "\<exists>v z'. server_value E ser (snd kv) = Some v \<and> php_value E v = Some z' \<and> php_eq (snd kv) z'"
    if "kv \<in> set h" for kv
    using 4 that by (auto simp: list_all_iff)
  then show ?case
    by (intro array_round_trip [OF "4.prems"(2,1), where val = ?val and
          ret = "\<lambda>kv. the (php_value E (?val kv))"]) fastforce+
qed (auto simp: php_eq_simps intro: php_eq.scalar
  dest!: serializable_round_trip bytes_object_round_trip split: if_splits)


section \<open>The round trip of a record\<close>

definition bin_name_ok :: "'e conv_ext_scheme \<Rightarrow> php_key \<Rightarrow> bool" where
  "bin_name_ok E k =
     (case k of SKey s \<Rightarrow> plain_key E s \<and> length s \<le> bin_name_max_len E | IKey n \<Rightarrow> False)"

definition storable_record :: "'e conv_ext_scheme \<Rightarrow> cint \<Rightarrow> htab \<Rightarrow> bool" where
  "storable_record E ser h \<longleftrightarrow> wf_hash h \<and> length h < 2 ^ 16 \<and>
     (\<forall>kv \<in> set h. bin_name_ok E (fst kv) \<and> storable E ser (snd kv))"

text \<open>The same bins in the same order, with values that agree.\<close>

definition bins_eq :: "htab \<Rightarrow> htab \<Rightarrow> bool" where
  "bins_eq h h' \<longleftrightarrow> map fst h' = map fst h \<and> list_all2 php_eq (map snd h) (map snd h')"

lemma bins_eq_simps [simp]:
  "bins_eq [] []"
  "bins_eq ((k, z) # h) ((k', z') # h') \<longleftrightarrow> k' = k \<and> php_eq z z' \<and> bins_eq h h'"
  by (auto simp: bins_eq_def)

lemma bin_name_okE:
  assumes "bin_name_ok E k"
  obtains s where "k = SKey s" "nul_free s" "numeric_str E s = None" "length s \<le> bin_name_max_len E"
  using assms by (cases k) (auto simp: bin_name_ok_def plain_key_def)

lemma bin_keys_distinct: "storable_record E ser h \<Longrightarrow> distinct (bin_keys h)"
proof -
  assume h: "storable_record E ser h"
  then have "map fst h = map SKey (bin_keys h)"
    by (auto simp: storable_record_def bin_keys_def elim!: bin_name_okE)
  with h show ?thesis by (metis storable_record_def wf_hash_def distinct_map)
qed

lemma server_bins_round_trip:
  assumes "map_api E" "bytes_api E" "bytes_php E \<noteq> bytes_blob E"
  shows "\<forall>kv \<in> set h. bin_name_ok E (fst kv) \<and> storable E ser (snd kv) \<Longrightarrow>
    \<exists>bs h'. server_bins E ser h = Bins bs \<and> bins_eq h h' \<and>
      those (map (\<lambda>b. map_option (Pair (assoc_key E (fst b))) (php_value E (snd b))) bs) = Some h'"
proof (induction h)
  case Nil
  then show ?case by (auto intro: bins_eq_simps(1))
next
  case (Cons kv h)
  obtain k z where kv: "kv = (k, z)" by (cases kv)
  from Cons.prems obtain s where k: "k = SKey s" "nul_free s" "numeric_str E s = None"
      "length s \<le> bin_name_max_len E" by (auto simp: kv elim!: bin_name_okE)
  from Cons.prems obtain v z' where v: "server_value E ser z = Some v" "php_value E v = Some z'"
      "php_eq z z'" using value_round_trip [OF assms, of ser z] by (auto simp: kv)
  from Cons obtain bs h' where b: "server_bins E ser h = Bins bs" "bins_eq h h'"
      "those (map (\<lambda>b. map_option (Pair (assoc_key E (fst b))) (php_value E (snd b))) bs) = Some h'"
    by auto
  show ?case
    by (intro exI [of _ "(c_str s, v) # bs"] exI [of _ "(k, z') # h'"])
      (use k v b in \<open>simp add: kv assoc_key_def\<close>)
qed

lemma bins_entries_eq:
  assumes ok: "code err = AEROSPIKE_OK"
  shows "those (map (\<lambda>b. map_option (Pair (assoc_key E (fst b))) (php_value E (snd b))) bs) = Some kvs \<Longrightarrow>
    bins_entries E bs h err = (zend.fill kvs h, err)"
proof (induction bs arbitrary: h kvs)
  case Nil
  then show ?case by simp
next
  case (Cons b bs)
  obtain n v where b: "b = (n, v)" by (cases b)
  from Cons.prems b obtain z kvs' where z: "php_value E v = Some z"
      and kvs: "kvs = (assoc_key E n, z) # kvs'"
      and r: "those (map (\<lambda>b. map_option (Pair (assoc_key E (fst b))) (php_value E (snd b))) bs) = Some kvs'"
    by (auto split: option.splits)
  have "as_val_to_zval E v ZNull err = (AEROSPIKE_OK, z, err)"
    using as_val_returns(1) [OF ok, of E ZNull v] z by simp
  with Cons.IH [OF r] show ?case by (simp add: b kvs add_assoc_zval_def)
qed

lemma stored_bins_back:
  assumes "map_api E" "bytes_api E" "bytes_php E \<noteq> bytes_blob E" and h: "storable_record E ser h"
  shows "\<exists>bs h'. server_bins E ser h = Bins bs \<and> bins_eq h h' \<and>
    (\<forall>r err. rec_bins r = bs \<longrightarrow> code err = AEROSPIKE_OK \<longrightarrow>
       as_bins_to_zval E r err = (AEROSPIKE_OK, ZArray h', err))"
proof -
  from h have "\<forall>kv \<in> set h. bin_name_ok E (fst kv) \<and> storable E ser (snd kv)"
    and wf: "wf_hash h" by (auto simp: storable_record_def)
  from server_bins_round_trip [OF assms(1-3) this(1)] obtain bs h' where
      b: "server_bins E ser h = Bins bs" and h': "bins_eq h h'" and
      t: "those (map (\<lambda>b. map_option (Pair (assoc_key E (fst b))) (php_value E (snd b))) bs) = Some h'"
    by auto
  have "zend.fill h' [] = h'"
    using h' wf by (subst fill_append_distinct) (simp_all add: bins_eq_def wf_hash_def)
  with bins_entries_eq [OF _ t, of _ "[]"] b h' show ?thesis
    by (intro exI [of _ bs] exI [of _ h']) (simp add: as_bins_to_zval_def)
qed

lemma record_bins_round_trip:
  assumes E: "list_api E" "map_api E" "bytes_api E" "bytes_php E \<noteq> bytes_blob E" "record_api E"
    and ok: "code err = AEROSPIKE_OK" and h: "storable_record E ser h"
  shows "\<exists>r h'. z_hashtable_to_as_record E h err ser = Some (AEROSPIKE_OK, r, err) \<and>
    as_bins_to_zval E r err = (AEROSPIKE_OK, ZArray h', err) \<and> bins_eq h h'"
proof -
  from stored_bins_back [OF E(2,3,4) h] obtain bs h' where b: "server_bins E ser h = Bins bs"
      "bins_eq h h'" "\<And>r. rec_bins r = bs \<Longrightarrow> as_bins_to_zval E r err = (AEROSPIKE_OK, ZArray h', err)"
    using ok by blast
  from h have len: "length h < 2 ^ 16" by (simp add: storable_record_def)
  show ?thesis
    using z_hashtable_to_as_record_eq [OF E(1) map_apiD(1) [OF E(2)] E(5) ok len
        bin_keys_distinct [OF h], of ser] b by auto
qed

text \<open>
  The array \<open>get\<close> and the callbacks return for a record whose bins convert: key, metadata, bins.
\<close>

lemma record_to_zval_shape:
  assumes kw: "keywords_plain E" and ok: "code err = AEROSPIKE_OK"
    and bins: "as_bins_to_zval E r err = (AEROSPIKE_OK, ZArray h, err)"
    and ns: "nul_free (key_ns k)" "key_ns k \<noteq> []"
  shows "\<exists>zk. as_record_to_zval E r (Some k) show_pk err =
      (AEROSPIKE_OK, ZArray [(SKey ''key'', ZArray zk),
         (SKey ''metadata'', ZArray [(SKey ''ttl'', ZLong (ucast (rec_ttl r))),
                                     (SKey ''generation'', ZLong (ucast (rec_gen r)))]),
         (SKey ''bins'', ZArray h)], err) \<and>
    str_find zk ''ns'' = Some (ZString (key_ns k))"
proof -
  obtain zk where zk: "as_key_to_zval E (Some k) show_pk err = (AEROSPIKE_OK, ZArray zk, err)"
      "str_find zk ''ns'' = Some (ZString (key_ns k))"
    using ns by (auto simp: as_key_to_zval_def Let_def add_assoc_zval_def assoc_keywords [OF kw]
        pk_entry_def hash_simps strlen_def split: option.splits as_val.splits)
  show ?thesis
    by (rule exI [of _ zk])
      (use bins zk ok in \<open>simp add: as_record_to_zval_def as_record_to_z_metadata_def
          add_assoc_zval_def assoc_keywords [OF kw]\<close>)
qed

end
