(* ===== verification/SampleApi.thy ===== *)
theory SampleApi
  imports RoundTrip "HOL-Library.AList"
begin

text \<open>
  One concrete instance of the code outside the repository, on which the theorems with
  hypotheses about it are applied: containers that behave as documented, in the simplest way.
\<close>

definition digit_value :: "char \<Rightarrow> nat option" where
  "digit_value c = (let n = of_char c :: nat in if 48 \<le> n \<and> n \<le> 57 then Some (n - 48) else None)"

fun digits_value :: "nat \<Rightarrow> string \<Rightarrow> nat option" where
  "digits_value acc [] = Some acc"
| "digits_value acc (c # s) =
     (case digit_value c of None \<Rightarrow> None | Some d \<Rightarrow> digits_value (10 * acc + d) s)"

definition sample_numeric :: "string \<Rightarrow> zlong option" where
  "sample_numeric s = (if s = [] then None else map_option of_nat (digits_value 0 s))"

definition sample_record_set :: "as_record \<Rightarrow> string \<Rightarrow> as_val \<Rightarrow> as_record" where
  "sample_record_set r n v =
     (if 15 < strlen n then r
      else if n \<in> fst ` set (rec_bins r) then r\<lparr>rec_bins := AList.update n v (rec_bins r)\<rparr>
      else if length (rec_bins r) < rec_capacity r then r\<lparr>rec_bins := rec_bins r @ [(n, v)]\<rparr>
      else r)"

definition sample_key :: "string \<Rightarrow> string \<Rightarrow> as_val option \<Rightarrow> string option \<Rightarrow> as_key option" where
  "sample_key ns s v d =
     (if strlen ns < 32 \<and> strlen s < 64
      then Some \<lparr>key_ns = ns, key_set = s, key_value = v, key_digest = d\<rparr> else None)"

definition sample_ext :: conv_ext where
  "sample_ext = \<lparr>
     bin_name_max_len = 15, namespace_max_size = 32, set_max_size = 64, digest_size = 20,
     status_value = (\<lambda>c. case c of AEROSPIKE_OK \<Rightarrow> 0 | AEROSPIKE_ERR_PARAM \<Rightarrow> -2
       | AEROSPIKE_ERR_CLIENT \<Rightarrow> -1 | AEROSPIKE_ERR_CLUSTER \<Rightarrow> 11 | AEROSPIKE_ERR_BIN_NAME \<Rightarrow> 21
       | AEROSPIKE_ERR_RECORD_NOT_FOUND \<Rightarrow> 2 | AEROSPIKE_STATUS n \<Rightarrow> of_int n),
     bytes_blob = 4, bytes_php = 10,
     raw_lval = (\<lambda>_. 0),
     numeric_str = sample_numeric,
     read_property = (\<lambda>z p. case z of ZObject c ps \<Rightarrow> map_of ps p | _ \<Rightarrow> None),
     method_to_string = (\<lambda>z. None), from_json = (\<lambda>s. None),
     var_serialize = (\<lambda>z. case z of ZNull \<Rightarrow> Some ''N;'' | ZTrue \<Rightarrow> Some ''b:1;''
       | ZFalse \<Rightarrow> Some ''b:0;'' | _ \<Rightarrow> None),
     var_unserialize = (\<lambda>s. if s = ''N;'' then Some ZNull else if s = ''b:1;'' then Some ZTrue
       else if s = ''b:0;'' then Some ZFalse else None),
     user_serializer = None, user_deserializer = None,
     lookup_class = (\<lambda>c. c = BYTES_CLASS),
     object_init = (\<lambda>c. Some (ZObject c [])),
     update_property = (\<lambda>z p s. case z of ZObject c ps \<Rightarrow> ZObject c (AList.update p (ZString s) ps)
       | _ \<Rightarrow> z),
     bytes_set = (\<lambda>n s. (length s \<le> n, take n s)),
     arraylist_new = (\<lambda>n. Some []), list_append = (\<lambda>l v. l @ [v]),
     hashmap_new = (\<lambda>n. Some []),
     map_set = (\<lambda>m k v. if k \<in> fst ` set m then AList.update k v m else (k, v) # m),
     record_new = (\<lambda>n. \<lparr>rec_bins = [], rec_gen = 0, rec_ttl = 0,
       rec_key = \<lparr>key_ns = [], key_set = [], key_value = None, key_digest = None\<rparr>,
       rec_capacity = n\<rparr>),
     record_set = sample_record_set,
     key_init_value = (\<lambda>ns s v. sample_key ns s (Some v) None),
     key_init_digest = (\<lambda>ns s d. sample_key ns s None (Some d))\<rparr>"

lemma sample_list_api [simp]: "list_api sample_ext"
  by (simp add: list_api_def sample_ext_def)

lemma sample_map_api [simp]: "map_api sample_ext"
  by (simp add: map_api_def sample_ext_def)

lemma sample_bytes_api [simp]: "bytes_api sample_ext"
  by (simp add: bytes_api_def sample_ext_def)

lemma sample_record_api [simp]: "record_api sample_ext"
  by (simp add: record_api_def sample_ext_def sample_record_set_def)

lemma sample_key_api [simp]: "key_api sample_ext"
  by (simp add: key_api_def sample_ext_def sample_key_def)

lemma sample_hashmap_new [simp]: "hashmap_new sample_ext n = Some []"
  by (simp add: sample_ext_def)

lemma sample_bytes_types [simp]: "bytes_php sample_ext \<noteq> bytes_blob sample_ext"
  by (simp add: sample_ext_def)

lemma sample_keywords [simp]: "keywords_plain sample_ext"
  unfolding keywords_plain_def keyword_names_def by code_simp

lemma sample_sizes [simp]:
  "bin_name_max_len sample_ext = 15" "namespace_max_size sample_ext = 32"
  "set_max_size sample_ext = 64" "digest_size sample_ext = 20"
  by (simp_all add: sample_ext_def)

lemma sample_numeric_str [simp]: "numeric_str sample_ext = sample_numeric"
  by (simp add: sample_ext_def)

end
