(* ===== verification/ConversionProps.thy ===== *)
theory ConversionProps
  imports SampleApi
begin

text \<open>
  The properties of the conversions of values and records, each with an application to concrete
  values.
\<close>

definition sample_value :: zval where
  "sample_value = ZArray [(IKey 0, ZLong 7), (IKey 1, ZArray [(SKey ''a'', ZString ''x''),
     (IKey 5, ZDouble 3), (SKey ''b'', ZArray [])]), (IKey 2, ZNull)]"

definition sample_bins :: htab where
  "sample_bins = [(SKey ''name'', ZString ''x''), (SKey ''v'', sample_value)]"

lemma sample_hash_lists [simp]:
  "hashtable_is_list [(SKey ''a'', ZString ''x''), (IKey 5, ZDouble 3), (SKey ''b'', ZArray [])] = False"
  by (simp add: hashtable_is_list_def)

text \<open>
  C1. \<open>zval_to_as_val\<close> converts a PHP value, arrays nested to any depth included, to the server
  value that \<open>server_value\<close> describes and leaves the error structure alone; when some part of
  the value has no server value it reports \<open>AEROSPIKE_ERR_PARAM\<close> and hands out nothing.
\<close>

theorem zval_to_as_val_correct:
  assumes "list_api E" and "\<forall>n. hashmap_new E n = Some []" and "code err = AEROSPIKE_OK"
  shows "case server_value E ser z of
      Some v \<Rightarrow> zval_to_as_val E z err ser = (AEROSPIKE_OK, Some v, err)
    | None \<Rightarrow> \<exists>m. zval_to_as_val E z err ser =
        (AEROSPIKE_ERR_PARAM, None, as_error_update err AEROSPIKE_ERR_PARAM m)"
proof -
  have "yields err (server_value E ser z) (zval_to_as_val E z err ser)"
    by (rule conversion_yields(1)) (use assms in auto)
  then show ?thesis by (cases "server_value E ser z") simp_all
qed

theorem zval_to_as_val_correct_witness:
  "case server_value sample_ext SERIALIZER_PHP sample_value of
      Some v \<Rightarrow> zval_to_as_val sample_ext sample_value as_error_init SERIALIZER_PHP =
        (AEROSPIKE_OK, Some v, as_error_init)
    | None \<Rightarrow> \<exists>m. zval_to_as_val sample_ext sample_value as_error_init SERIALIZER_PHP =
        (AEROSPIKE_ERR_PARAM, None, as_error_update as_error_init AEROSPIKE_ERR_PARAM m)"
  by (rule zval_to_as_val_correct) simp_all

text \<open>
  C8. \<open>as_val_to_zval\<close> converts a server value, with its nested lists and maps and its bytes
  and GeoJSON values, to the PHP value that \<open>php_value\<close> describes; when there is none, it
  returns a status that is an error and is the one in the error structure.
\<close>

theorem as_val_to_zval_correct:
  assumes "code err = AEROSPIKE_OK"
  shows "case php_value E v of
      Some z \<Rightarrow> as_val_to_zval E v ZUndef err = (AEROSPIKE_OK, z, err)
    | None \<Rightarrow> \<exists>c z e. as_val_to_zval E v ZUndef err = (c, z, e) \<and> c = code e \<and> c \<noteq> AEROSPIKE_OK"
proof -
  have "returns E err (php_value E v) (as_val_to_zval E v ZUndef err)"
    by (rule as_val_returns(1)) (use assms in auto)
  then show ?thesis by (cases "php_value E v") auto
qed

theorem as_val_to_zval_correct_witness:
  "as_val_to_zval sample_ext (AsMap [(AsString ''a'', AsList [AsInteger 1, AsBytes 10 ''N;''])])
     ZUndef as_error_init =
   (AEROSPIKE_OK, ZArray [(SKey ''a'', ZArray [(IKey 0, ZLong 1), (IKey 1, ZNull)])], as_error_init)"
  using as_val_to_zval_correct [of as_error_init sample_ext
      "AsMap [(AsString ''a'', AsList [AsInteger 1, AsBytes 10 ''N;''])]"]
  by (simp add: sample_ext_def bytes_value_def unserialize_as_bytes_def store_key_def assoc_key_def
      sample_numeric_def digit_value_def nul_free_def NUL_def)

text \<open>
  C9. A PHP value of storable parts (integers, floats, NUL-free strings, serializable scalars
  and objects, \<open>Aerospike\\Bytes\<close> objects, lists and maps of these) converted to the server
  and back is the same value: every array has the same keys with the same values, and a list
  keeps its order.
\<close>

theorem value_survives_round_trip:
  assumes "list_api E" "map_api E" "bytes_api E" "bytes_php E \<noteq> bytes_blob E"
    and "code err = AEROSPIKE_OK" and "storable E ser z"
  shows "\<exists>v z'. zval_to_as_val E z err ser = (AEROSPIKE_OK, Some v, err) \<and>
    as_val_to_zval E v ZUndef err = (AEROSPIKE_OK, z', err) \<and> php_eq z z'"
proof -
  obtain v z' where v: "server_value E ser z = Some v" "php_value E v = Some z'" "php_eq z z'"
    using value_round_trip [OF assms(2-4,6)] by auto
  have "yields err (Some v) (zval_to_as_val E z err ser)"
    unfolding v(1) [symmetric] by (rule conversion_yields(1)) (use assms map_apiD in auto)
  moreover have "returns E err (Some z') (as_val_to_zval E v ZUndef err)"
    unfolding v(2) [symmetric] by (rule as_val_returns(1)) (use assms in auto)
  ultimately show ?thesis using v(3) by auto
qed

lemma sample_storable: "storable sample_ext SERIALIZER_PHP sample_value"
  by (simp add: sample_value_def wf_hash_def plain_php_key_def plain_key_def sample_numeric_def
      digit_value_def nul_free_def NUL_def serializable_def sample_ext_def)

theorem value_survives_round_trip_witness:
  "\<exists>v z'. zval_to_as_val sample_ext sample_value as_error_init SERIALIZER_PHP =
      (AEROSPIKE_OK, Some v, as_error_init) \<and>
    as_val_to_zval sample_ext v ZUndef as_error_init = (AEROSPIKE_OK, z', as_error_init) \<and>
    php_eq sample_value z'"
  by (rule value_survives_round_trip) (simp_all add: sample_storable)

text \<open>
  C11. What \<open>put\<close> converts and \<open>get\<close> converts back: an array of storable bins becomes a
  record, and the record read back is the array with the entries \<open>key\<close>, \<open>metadata\<close> (the
  generation and time to live of the record) and \<open>bins\<close>, whose bins have the same names in
  the same order and the same values.
\<close>

theorem record_survives_round_trip:
  assumes E: "list_api E" "map_api E" "bytes_api E" "bytes_php E \<noteq> bytes_blob E" "record_api E"
    and kw: "keywords_plain E" and ok: "code err = AEROSPIKE_OK"
    and h: "storable_record E ser h" and ns: "nul_free ns" "ns \<noteq> []"
  shows "\<exists>r h' zk. z_hashtable_to_as_record E h err ser = Some (AEROSPIKE_OK, r, err) \<and>
    as_record_to_zval E (r\<lparr>rec_gen := g, rec_ttl := t\<rparr>)
      (Some \<lparr>key_ns = ns, key_set = s, key_value = v, key_digest = d\<rparr>) show_pk err =
      (AEROSPIKE_OK, ZArray [(SKey ''key'', ZArray zk),
         (SKey ''metadata'', ZArray [(SKey ''ttl'', ZLong (ucast t)),
                                     (SKey ''generation'', ZLong (ucast g))]),
         (SKey ''bins'', ZArray h')], err) \<and>
    str_find zk ''ns'' = Some (ZString ns) \<and> bins_eq h h'"
proof -
  obtain r h' where r: "z_hashtable_to_as_record E h err ser = Some (AEROSPIKE_OK, r, err)"
      "as_bins_to_zval E r err = (AEROSPIKE_OK, ZArray h', err)" "bins_eq h h'"
    using record_bins_round_trip [OF E ok h] by auto
  have b: "as_bins_to_zval E (r\<lparr>rec_gen := g, rec_ttl := t\<rparr>) err = (AEROSPIKE_OK, ZArray h', err)"
    using r(2) by (simp add: as_bins_to_zval_def)
  show ?thesis
    using record_to_zval_shape [OF kw ok b, of "\<lparr>key_ns = ns, key_set = s, key_value = v, key_digest = d\<rparr>"
        show_pk] ns r by auto
qed

theorem record_survives_round_trip_witness:
  "\<exists>r h' zk. z_hashtable_to_as_record sample_ext sample_bins as_error_init SERIALIZER_PHP =
      Some (AEROSPIKE_OK, r, as_error_init) \<and>
    as_record_to_zval sample_ext (r\<lparr>rec_gen := 3, rec_ttl := 100\<rparr>)
      (Some \<lparr>key_ns = ''test'', key_set = ''users'', key_value = Some (AsInteger 1), key_digest = None\<rparr>)
      True as_error_init =
      (AEROSPIKE_OK, ZArray [(SKey ''key'', ZArray zk),
         (SKey ''metadata'', ZArray [(SKey ''ttl'', ZLong (ucast (100 :: u32))),
                                     (SKey ''generation'', ZLong (ucast (3 :: u16)))]),
         (SKey ''bins'', ZArray h')], as_error_init) \<and>
    str_find zk ''ns'' = Some (ZString ''test'') \<and> bins_eq sample_bins h'"
  by (rule record_survives_round_trip)
    (simp_all add: storable_record_def sample_bins_def wf_hash_def sample_storable bin_name_ok_def
      plain_key_def sample_numeric_def digit_value_def nul_free_def NUL_def)

text \<open>
  C15. \<open>z_hashtable_to_as_record\<close> on every array of distinct bin names: the record of the bins
  in the order of the array; or, at the first entry that is no bin, \<open>AEROSPIKE_ERR_BIN_NAME\<close>
  for a name over the limit and \<open>AEROSPIKE_ERR_PARAM\<close> for an integer key or a value without a
  server value. It never converts a value to one it has no case for, and dereferences no null
  pointer.
\<close>

theorem z_hashtable_to_as_record_correct:
  assumes "list_api E" "\<forall>n. hashmap_new E n = Some []" "record_api E" "code err = AEROSPIKE_OK"
    and "length h < 2 ^ 16" and "distinct (bin_keys h)"
  shows "case server_bins E ser h of
       Bins bs \<Rightarrow> z_hashtable_to_as_record E h err ser =
         Some (AEROSPIKE_OK, (record_new E (length h))\<lparr>rec_bins := bs\<rparr>, err)
     | BadBins c \<Rightarrow> c \<noteq> AEROSPIKE_OK \<and> (\<exists>r' m.
         z_hashtable_to_as_record E h err ser = Some (c, r', as_error_update err c m))"
  using z_hashtable_to_as_record_eq [of E err h ser] assms by (auto split: bins_result.splits)

theorem z_hashtable_to_as_record_correct_witness:
  "\<exists>r m. z_hashtable_to_as_record sample_ext
      [(SKey ''a'', ZLong 1), (SKey ''a_name_over_the_limit'', ZLong 2)] as_error_init SERIALIZER_PHP =
     Some (AEROSPIKE_ERR_BIN_NAME, r, as_error_update as_error_init AEROSPIKE_ERR_BIN_NAME m)"
  using z_hashtable_to_as_record_correct [of sample_ext as_error_init
      "[(SKey ''a'', ZLong 1), (SKey ''a_name_over_the_limit'', ZLong 2)]" SERIALIZER_PHP]
  by (simp add: nul_free_def NUL_def)

end
