(* ===== verification/KeyProps.thy ===== *)
theory KeyProps
  imports SampleApi
begin

text \<open>
  The properties of keys, privileges and role names: the round trips between the arrays PHP
  code handles and the C client's structures, what is refused, and that what is accepted fits
  the fixed-size fields it is copied to.
\<close>

section \<open>Keys\<close>

text \<open>The primary keys \<open>initKey\<close> and the conversions agree on.\<close>

fun pk_value :: "zval \<Rightarrow> as_val option" where
  "pk_value (ZString s) = (if nul_free s then Some (AsString s) else None)"
| "pk_value (ZLong n) = Some (AsInteger n)"
| "pk_value _ = None"

text \<open>
  C37. A key array made by \<open>initKey\<close> from a NUL-free namespace and set that fit the client's
  fields and an integer or NUL-free string key is accepted by every operation that takes a key,
  names that namespace, set and value, and converting the key back (as \<open>get\<close> does with the key
  sent) gives the same array.
\<close>

theorem key_round_trip:
  assumes "key_api E" and kw: "keywords_plain E" and "nul_free ns" "ns \<noteq> []" "nul_free s"
    and "length ns < namespace_max_size E" "length s < set_max_size E" and "pk_value pk = Some v"
  shows "\<exists>h k. initKey E (Some (ns, s, pk, False)) = (ZArray h, as_error_init) \<and>
    z_hashtable_to_as_key E h err = (AEROSPIKE_OK, Some k, err) \<and>
    key_ns k = ns \<and> key_set k = s \<and> key_value k = Some v \<and>
    as_key_to_zval E (Some k) True err = (AEROSPIKE_OK, ZArray h, err)"
proof (cases pk)
  case (ZString p)
  with assms show ?thesis
    by (auto simp: initKey_def z_hashtable_to_as_key_def Let_def add_assoc_zval_def
        assoc_keywords [OF kw] key_apiD as_key_to_zval_def pk_entry_def split: if_splits)
next
  case (ZLong p)
  with assms show ?thesis
    by (auto simp: initKey_def z_hashtable_to_as_key_def Let_def add_assoc_zval_def
        assoc_keywords [OF kw] key_apiD as_key_to_zval_def pk_entry_def)
qed (use assms in auto)

theorem key_round_trip_witness:
  "\<exists>h k. initKey sample_ext (Some (''test'', ''users'', ZString ''u1'', False)) =
      (ZArray h, as_error_init) \<and>
    z_hashtable_to_as_key sample_ext h as_error_init = (AEROSPIKE_OK, Some k, as_error_init) \<and>
    key_ns k = ''test'' \<and> key_set k = ''users'' \<and> key_value k = Some (AsString ''u1'') \<and>
    as_key_to_zval sample_ext (Some k) True as_error_init = (AEROSPIKE_OK, ZArray h, as_error_init)"
  by (rule key_round_trip) (simp_all add: nul_free_def NUL_def)

text \<open>
  A key array made by \<open>initKey\<close> from a digest of the right length names that digest, bytes
  and NULs included. Converted back it has an entry \<open>key\<close> that is null beside the digest, and
  that array is refused where a key is expected: with \<open>AEROSPIKE_ERR_CLIENT\<close>, and without any
  error in the error structure.
\<close>

theorem digest_key_round_trip:
  assumes "key_api E" and kw: "keywords_plain E" and "nul_free ns" "ns \<noteq> []" "nul_free s"
    and "length ns < namespace_max_size E" "length s < set_max_size E"
    and "length d = digest_size E" and ok: "code err = AEROSPIKE_OK"
  shows "\<exists>h k h'. initKey E (Some (ns, s, ZString d, True)) = (ZArray h, as_error_init) \<and>
    z_hashtable_to_as_key E h err = (AEROSPIKE_OK, Some k, err) \<and>
    key_ns k = ns \<and> key_set k = s \<and> key_digest k = Some d \<and>
    as_key_to_zval E (Some k) show_pk err = (AEROSPIKE_OK, ZArray h', err) \<and>
    str_find h' ''digest'' = Some (ZString d) \<and> str_find h' ''key'' = Some ZNull \<and>
    (\<exists>e. z_hashtable_to_as_key E h' err = (AEROSPIKE_ERR_CLIENT, None, e) \<and> code e = AEROSPIKE_OK)"
  using assms
  by (auto simp: initKey_def z_hashtable_to_as_key_def Let_def add_assoc_zval_def
      assoc_keywords [OF kw] key_apiD as_key_to_zval_def pk_entry_def)

definition sample_digest :: string where
  "sample_digest = replicate 19 (CHR ''d'') @ [NUL]"

theorem digest_key_round_trip_witness:
  "\<exists>h k h'. initKey sample_ext (Some (''test'', ''users'', ZString sample_digest, True)) =
      (ZArray h, as_error_init) \<and>
    z_hashtable_to_as_key sample_ext h as_error_init = (AEROSPIKE_OK, Some k, as_error_init) \<and>
    key_ns k = ''test'' \<and> key_set k = ''users'' \<and> key_digest k = Some sample_digest \<and>
    as_key_to_zval sample_ext (Some k) False as_error_init = (AEROSPIKE_OK, ZArray h', as_error_init) \<and>
    str_find h' ''digest'' = Some (ZString sample_digest) \<and> str_find h' ''key'' = Some ZNull \<and>
    (\<exists>e. z_hashtable_to_as_key sample_ext h' as_error_init = (AEROSPIKE_ERR_CLIENT, None, e) \<and>
      code e = AEROSPIKE_OK)"
  by (rule digest_key_round_trip) (simp_all add: nul_free_def NUL_def sample_digest_def)


section \<open>Privileges and role names\<close>

definition privilege_fits :: "'e conv_ext_scheme \<Rightarrow> as_privilege \<Rightarrow> bool" where
  "privilege_fits E p \<longleftrightarrow> nul_free (priv_ns p) \<and> length (priv_ns p) < namespace_max_size E \<and>
     nul_free (priv_set p) \<and> length (priv_set p) < set_max_size E"

lemma privilege_field_fits:
  "privilege_field z n a b = Inr s \<Longrightarrow> 0 < n \<Longrightarrow> nul_free s \<and> length s < n"
  by (auto simp: privilege_field_def nul_free_def [of "[]"] not_le
      split: option.splits zval.splits if_splits)

lemma privilege_entry_fits:
  assumes "0 < namespace_max_size E" "0 < set_max_size E" "privilege_entry E z = Inr p"
  shows "privilege_fits E p"
  using assms
  by (auto simp: privilege_entry_def privilege_fits_def dest!: privilege_field_fits
      split: zval.splits option.splits sum.splits)

lemma privileges_entries_fit:
  assumes "0 < namespace_max_size E" "0 < set_max_size E"
  shows "list_all (privilege_fits E) ps \<Longrightarrow>
    list_all (privilege_fits E) (fst (privileges_entries E h ps err))"
  using assms
proof (induction E h ps err rule: privileges_entries.induct)
  case (2 E k z h ps err)
  then show ?case by (auto split: sum.splits dest: privilege_entry_fits)
qed simp

text \<open>
  No array of privileges makes \<open>z_hashtable_to_as_privileges\<close> write past the fields of an
  \<open>as_privilege\<close>: every namespace and set it copies, with its terminating NUL, fits the field it
  is copied to, also when a later entry is refused.
\<close>

theorem privileges_fit:
  assumes "0 < namespace_max_size E" "0 < set_max_size E"
  shows "list_all (privilege_fits E) (fst (snd (z_hashtable_to_as_privileges E h err)))"
  using privileges_entries_fit [OF assms, of "[]" h err]
  by (simp add: z_hashtable_to_as_privileges_def case_prod_beta)

theorem privileges_fit_witness:
  "list_all (privilege_fits sample_ext) (fst (snd (z_hashtable_to_as_privileges sample_ext
     [(IKey 0, ZArray [(SKey ''code'', ZLong 10), (SKey ''ns'', ZString ''test'')]), (IKey 1, ZNull)]
     as_error_init)))"
  by (rule privileges_fit) simp_all

lemma privilege_entry_of_zval:
  assumes kw: "keywords_plain E" and "privilege_fits E p"
  shows "privilege_entry E (as_privilege_to_zval E p) = Inr p"
  using assms(2)
  by (simp add: as_privilege_to_zval_def privilege_entry_def add_assoc_zval_def
      assoc_keywords [OF kw] privilege_field_def privilege_fits_def)

lemma privileges_entries_of_zval:
  assumes kw: "keywords_plain E" and fits: "list_all (privilege_fits E) ps"
  shows "privileges_entries E (map (\<lambda>(i, p). (i, as_privilege_to_zval E p)) (zip is ps)) qs err =
    (qs @ take (length is) ps, err)"
  using fits
proof (induction ps arbitrary: "is" qs)
  case Nil
  then show ?case by simp
next
  case (Cons p ps)
  then show ?case by (cases "is") (simp_all add: privilege_entry_of_zval [OF kw])
qed

lemma add_next_index_foldl:
  "foldl (\<lambda>h p. add_next_index h (f p)) h ps =
     h @ map (\<lambda>(i, p). (i, f p)) (zip (index_keys (of_nat (length h)) (length ps)) ps)"
proof (induction ps arbitrary: h)
  case Nil
  then show ?case by simp
next
  case (Cons p ps)
  have "of_nat (length (add_next_index h (f p))) = (of_nat (length h) + 1 :: zlong)"
    by (simp add: add_next_index_def)
  with Cons.IH [of "add_next_index h (f p)"] show ?case
    by (simp add: add_next_index_def add.commute)
qed

text \<open>
  The array a role becomes is one \<open>z_hashtable_to_as_privileges\<close> reads back: the same
  privileges in the same order, code, namespace and set.
\<close>

theorem privileges_round_trip:
  assumes kw: "keywords_plain E" and "list_all (privilege_fits E) (role_privileges r)"
    and ok: "code err = AEROSPIKE_OK"
  shows "\<exists>h. as_role_to_zval E (Some r) rv err = (AEROSPIKE_OK, ZArray h, err) \<and>
    z_hashtable_to_as_privileges E h err = (AEROSPIKE_OK, role_privileges r, err)"
proof -
  let ?ps = "role_privileges r"
  have "length (index_keys 0 (length ?ps)) = length ?ps" by (simp add: index_keys_def)
  with privileges_entries_of_zval [OF kw assms(2), of "index_keys 0 (length ?ps)" "[]" err] ok
  show ?thesis
    by (simp add: as_role_to_zval_def z_hashtable_to_as_privileges_def add_next_index_foldl)
qed

theorem privileges_round_trip_witness:
  "\<exists>h. as_role_to_zval sample_ext (Some \<lparr>role_name = ''r'', role_privileges =
        [\<lparr>priv_code = 10, priv_ns = ''test'', priv_set = ''users''\<rparr>,
         \<lparr>priv_code = 0, priv_ns = [], priv_set = []\<rparr>]\<rparr>) ZNull as_error_init =
      (AEROSPIKE_OK, ZArray h, as_error_init) \<and>
    z_hashtable_to_as_privileges sample_ext h as_error_init =
      (AEROSPIKE_OK, role_privileges \<lparr>role_name = ''r'', role_privileges =
        [\<lparr>priv_code = 10, priv_ns = ''test'', priv_set = ''users''\<rparr>,
         \<lparr>priv_code = 0, priv_ns = [], priv_set = []\<rparr>]\<rparr>, as_error_init)"
  by (rule privileges_round_trip) (simp_all add: privilege_fits_def nul_free_def NUL_def)

lemma str_array_entries_bounds:
  "list_all (\<lambda>s. nul_free s \<and> length s < max_size) roles \<Longrightarrow> length roles \<le> roles_size \<Longrightarrow>
    (case str_array_entries h max_size roles_size roles err of
       (rs, e) \<Rightarrow> list_all (\<lambda>s. nul_free s \<and> length s < max_size) rs \<and> length rs \<le> roles_size)"
proof (induction h max_size roles_size roles err rule: str_array_entries.induct)
  case (2 k z h max_size roles_size roles err)
  then show ?case
    by (cases z) (auto simp: not_le)
qed simp

text \<open>
  \<open>z_hash_to_str_array\<close> never stores more names than the caller's array has slots, and
  every name it stores fits the limit it was given.
\<close>

theorem z_hash_to_str_array_bounds:
  "case z_hash_to_str_array h roles_null max_size roles_size err of
     (st, rs, e) \<Rightarrow> length rs \<le> roles_size \<and> list_all (\<lambda>s. nul_free s \<and> length s < max_size) rs"
  using str_array_entries_bounds [of max_size "[]" roles_size h err]
  by (auto simp: z_hash_to_str_array_def split: prod.splits)

end
