(* ===== verification/Types.thy ===== *)
theory Types
  imports ClientApi
begin

text \<open>
  The enumerations of \<open>php_aerospike_types.h\<close>: the operation codes PHP code names for lists and
  maps, which the code compares as \<open>int\<close>, and the option keys of policy arrays, which it looks
  up as integer keys.
\<close>

named_theorems op_codes \<open>the numbers of the operation codes\<close>
named_theorems opt_keys \<open>the numbers of the option keys\<close>

section \<open>List operations\<close>

definition OP_LIST_APPEND :: cint where [op_codes]: "OP_LIST_APPEND = 1001"
definition OP_LIST_MERGE :: cint where [op_codes]: "OP_LIST_MERGE = 1002"
definition OP_LIST_INSERT :: cint where [op_codes]: "OP_LIST_INSERT = 1003"
definition OP_LIST_INSERT_ITEMS :: cint where [op_codes]: "OP_LIST_INSERT_ITEMS = 1004"
definition OP_LIST_POP :: cint where [op_codes]: "OP_LIST_POP = 1005"
definition OP_LIST_POP_RANGE :: cint where [op_codes]: "OP_LIST_POP_RANGE = 1006"
definition OP_LIST_REMOVE :: cint where [op_codes]: "OP_LIST_REMOVE = 1007"
definition OP_LIST_REMOVE_RANGE :: cint where [op_codes]: "OP_LIST_REMOVE_RANGE = 1008"
definition OP_LIST_CLEAR :: cint where [op_codes]: "OP_LIST_CLEAR = 1009"
definition OP_LIST_SET :: cint where [op_codes]: "OP_LIST_SET = 1010"
definition OP_LIST_GET :: cint where [op_codes]: "OP_LIST_GET = 1011"
definition OP_LIST_GET_RANGE :: cint where [op_codes]: "OP_LIST_GET_RANGE = 1012"
definition OP_LIST_TRIM :: cint where [op_codes]: "OP_LIST_TRIM = 1013"
definition OP_LIST_SIZE :: cint where [op_codes]: "OP_LIST_SIZE = 1014"

section \<open>Map operations\<close>

definition OP_MAP_SET_POLICY :: cint where [op_codes]: "OP_MAP_SET_POLICY = 1101"
definition OP_MAP_PUT :: cint where [op_codes]: "OP_MAP_PUT = 1102"
definition OP_MAP_PUT_ITEMS :: cint where [op_codes]: "OP_MAP_PUT_ITEMS = 1103"
definition OP_MAP_INCREMENT :: cint where [op_codes]: "OP_MAP_INCREMENT = 1104"
definition OP_MAP_DECREMENT :: cint where [op_codes]: "OP_MAP_DECREMENT = 1105"
definition OP_MAP_SIZE :: cint where [op_codes]: "OP_MAP_SIZE = 1106"
definition OP_MAP_CLEAR :: cint where [op_codes]: "OP_MAP_CLEAR = 1107"
definition OP_MAP_REMOVE_BY_KEY :: cint where [op_codes]: "OP_MAP_REMOVE_BY_KEY = 1108"
definition OP_MAP_REMOVE_BY_KEY_LIST :: cint where [op_codes]: "OP_MAP_REMOVE_BY_KEY_LIST = 1109"
definition OP_MAP_REMOVE_BY_KEY_RANGE :: cint where [op_codes]: "OP_MAP_REMOVE_BY_KEY_RANGE = 1110"
definition OP_MAP_REMOVE_BY_VALUE :: cint where [op_codes]: "OP_MAP_REMOVE_BY_VALUE = 1111"
definition OP_MAP_REMOVE_BY_VALUE_LIST :: cint where [op_codes]: "OP_MAP_REMOVE_BY_VALUE_LIST = 1112"
definition OP_MAP_REMOVE_BY_VALUE_RANGE :: cint where [op_codes]: "OP_MAP_REMOVE_BY_VALUE_RANGE = 1113"
definition OP_MAP_REMOVE_BY_INDEX :: cint where [op_codes]: "OP_MAP_REMOVE_BY_INDEX = 1114"
definition OP_MAP_REMOVE_BY_INDEX_RANGE :: cint where [op_codes]: "OP_MAP_REMOVE_BY_INDEX_RANGE = 1115"
definition OP_MAP_REMOVE_BY_RANK :: cint where [op_codes]: "OP_MAP_REMOVE_BY_RANK = 1116"
definition OP_MAP_REMOVE_BY_RANK_RANGE :: cint where [op_codes]: "OP_MAP_REMOVE_BY_RANK_RANGE = 1117"
definition OP_MAP_GET_BY_KEY :: cint where [op_codes]: "OP_MAP_GET_BY_KEY = 1118"
definition OP_MAP_GET_BY_KEY_RANGE :: cint where [op_codes]: "OP_MAP_GET_BY_KEY_RANGE = 1119"
definition OP_MAP_GET_BY_VALUE :: cint where [op_codes]: "OP_MAP_GET_BY_VALUE = 1120"
definition OP_MAP_GET_BY_VALUE_RANGE :: cint where [op_codes]: "OP_MAP_GET_BY_VALUE_RANGE = 1121"
definition OP_MAP_GET_BY_INDEX :: cint where [op_codes]: "OP_MAP_GET_BY_INDEX = 1122"
definition OP_MAP_GET_BY_INDEX_RANGE :: cint where [op_codes]: "OP_MAP_GET_BY_INDEX_RANGE = 1123"
definition OP_MAP_GET_BY_RANK :: cint where [op_codes]: "OP_MAP_GET_BY_RANK = 1124"
definition OP_MAP_GET_BY_RANK_RANGE :: cint where [op_codes]: "OP_MAP_GET_BY_RANK_RANGE = 1125"

section \<open>Option keys\<close>

definition OPT_CONNECT_TIMEOUT :: zlong where [opt_keys]: "OPT_CONNECT_TIMEOUT = 1"
definition OPT_READ_TIMEOUT :: zlong where [opt_keys]: "OPT_READ_TIMEOUT = 2"
definition OPT_WRITE_TIMEOUT :: zlong where [opt_keys]: "OPT_WRITE_TIMEOUT = 3"
definition OPT_POLICY_RETRY :: zlong where [opt_keys]: "OPT_POLICY_RETRY = 4"
definition OPT_POLICY_EXISTS :: zlong where [opt_keys]: "OPT_POLICY_EXISTS = 5"
definition OPT_SERIALIZER :: zlong where [opt_keys]: "OPT_SERIALIZER = 6"
definition OPT_SCAN_PRIORITY :: zlong where [opt_keys]: "OPT_SCAN_PRIORITY = 7"
definition OPT_SCAN_RPS_LIMIT :: zlong where [opt_keys]: "OPT_SCAN_RPS_LIMIT = 8"
definition OPT_SCAN_PERCENTAGE :: zlong where [opt_keys]: "OPT_SCAN_PERCENTAGE = 9"
definition OPT_SCAN_CONCURRENTLY :: zlong where [opt_keys]: "OPT_SCAN_CONCURRENTLY = 10"
definition OPT_SCAN_NOBINS :: zlong where [opt_keys]: "OPT_SCAN_NOBINS = 11"
definition OPT_SCAN_INCLUDELDT :: zlong where [opt_keys]: "OPT_SCAN_INCLUDELDT = 12"
definition OPT_POLICY_KEY :: zlong where [opt_keys]: "OPT_POLICY_KEY = 13"
definition OPT_POLICY_GEN :: zlong where [opt_keys]: "OPT_POLICY_GEN = 14"
definition OPT_POLICY_REPLICA :: zlong where [opt_keys]: "OPT_POLICY_REPLICA = 15"
definition OPT_POLICY_READ_MODE_AP :: zlong where [opt_keys]: "OPT_POLICY_READ_MODE_AP = 16"
definition OPT_POLICY_READ_MODE_SC :: zlong where [opt_keys]: "OPT_POLICY_READ_MODE_SC = 17"
definition OPT_POLICY_COMMIT_LEVEL :: zlong where [opt_keys]: "OPT_POLICY_COMMIT_LEVEL = 18"
definition OPT_TTL :: zlong where [opt_keys]: "OPT_TTL = 19"
definition USE_BATCH_DIRECT :: zlong where [opt_keys]: "USE_BATCH_DIRECT = 20"
definition USE_SERVICES_ALTERNATE :: zlong where [opt_keys]: "USE_SERVICES_ALTERNATE = 21"
definition COMPRESSION_THRESHOLD :: zlong where [opt_keys]: "COMPRESSION_THRESHOLD = 22"
definition OPT_POLICY_DURABLE_DELETE :: zlong where [opt_keys]: "OPT_POLICY_DURABLE_DELETE = 23"
definition OPT_SOCKET_TIMEOUT :: zlong where [opt_keys]: "OPT_SOCKET_TIMEOUT = 24"
definition OPT_MAP_ORDER :: zlong where [opt_keys]: "OPT_MAP_ORDER = 25"
definition OPT_MAP_WRITE_MODE :: zlong where [opt_keys]: "OPT_MAP_WRITE_MODE = 26"
definition OPT_MAP_WRITE_FLAGS :: zlong where [opt_keys]: "OPT_MAP_WRITE_FLAGS = 27"
definition OPT_TOTAL_TIMEOUT :: zlong where [opt_keys]: "OPT_TOTAL_TIMEOUT = 28"
definition OPT_MAX_RETRIES :: zlong where [opt_keys]: "OPT_MAX_RETRIES = 29"
definition OPT_FAIL_ON_CLUSTER_CHANGE :: zlong where [opt_keys]: "OPT_FAIL_ON_CLUSTER_CHANGE = 30"
definition OPT_BATCH_CONCURRENT :: zlong where [opt_keys]: "OPT_BATCH_CONCURRENT = 31"
definition OPT_ALLOW_INLINE :: zlong where [opt_keys]: "OPT_ALLOW_INLINE = 32"
definition OPT_SEND_SET_NAME :: zlong where [opt_keys]: "OPT_SEND_SET_NAME = 33"
definition OPT_TLS_CONFIG :: zlong where [opt_keys]: "OPT_TLS_CONFIG = 34"
definition OPT_TLS_ENABLE :: zlong where [opt_keys]: "OPT_TLS_ENABLE = 35"
definition OPT_TLS_CAFILE :: zlong where [opt_keys]: "OPT_TLS_CAFILE = 36"
definition OPT_TLS_CAPATH :: zlong where [opt_keys]: "OPT_TLS_CAPATH = 37"
definition OPT_TLS_PROTOCOLS :: zlong where [opt_keys]: "OPT_TLS_PROTOCOLS = 38"
definition OPT_TLS_CIPHER_SUITE :: zlong where [opt_keys]: "OPT_TLS_CIPHER_SUITE = 39"
definition OPT_TLS_CRL_CHECK :: zlong where [opt_keys]: "OPT_TLS_CRL_CHECK = 40"
definition OPT_TLS_CRL_CHECK_ALL :: zlong where [opt_keys]: "OPT_TLS_CRL_CHECK_ALL = 41"
definition OPT_TLS_CERT_BLACKLIST :: zlong where [opt_keys]: "OPT_TLS_CERT_BLACKLIST = 42"
definition OPT_TLS_LOG_SESSION_INFO :: zlong where [opt_keys]: "OPT_TLS_LOG_SESSION_INFO = 43"
definition OPT_TLS_KEYFILE :: zlong where [opt_keys]: "OPT_TLS_KEYFILE = 44"
definition OPT_TLS_CERTFILE :: zlong where [opt_keys]: "OPT_TLS_CERTFILE = 45"
definition OPT_READ_DEFAULT_POL :: zlong where [opt_keys]: "OPT_READ_DEFAULT_POL = 46"
definition OPT_WRITE_DEFAULT_POL :: zlong where [opt_keys]: "OPT_WRITE_DEFAULT_POL = 47"
definition OPT_REMOVE_DEFAULT_POL :: zlong where [opt_keys]: "OPT_REMOVE_DEFAULT_POL = 48"
definition OPT_BATCH_DEFAULT_POL :: zlong where [opt_keys]: "OPT_BATCH_DEFAULT_POL = 49"
definition OPT_OPERATE_DEFAULT_POL :: zlong where [opt_keys]: "OPT_OPERATE_DEFAULT_POL = 50"
definition OPT_QUERY_DEFAULT_POL :: zlong where [opt_keys]: "OPT_QUERY_DEFAULT_POL = 51"
definition OPT_SCAN_DEFAULT_POL :: zlong where [opt_keys]: "OPT_SCAN_DEFAULT_POL = 52"
definition OPT_APPLY_DEFAULT_POL :: zlong where [opt_keys]: "OPT_APPLY_DEFAULT_POL = 53"
definition OPT_QUERY_NOBINS :: zlong where [opt_keys]: "OPT_QUERY_NOBINS = 54"

end
