(* ===== verification/Policies.thy ===== *)
theory Policies
  imports Types
begin

text \<open>
  \<open>policy_conversions.c\<close>: the policies of the C client made from PHP option arrays. Each policy
  is a record of the members the extension writes, with one more member for all the others.
  Initialization and copying are the C client's (\<open>as_policy_read_init\<close>, \<open>as_policy_read_copy\<close>
  and so on) and parameters here. The pointer every conversion stores is always the policy it
  was given, so the result is that policy.
\<close>

section \<open>The policies\<close>

record 'p policy_struct =
  pol_init :: 'p
  pol_copy :: "'p \<Rightarrow> 'p \<Rightarrow> 'p" \<comment> \<open>source, target before: target after\<close>

definition policy_api :: "'p policy_struct \<Rightarrow> bool" where
  "policy_api P \<longleftrightarrow> (\<forall>src trg. pol_copy P src trg = src)"

lemma policy_apiD: "policy_api P \<Longrightarrow> pol_copy P src trg = src"
  by (simp add: policy_api_def)

record as_policy_base =
  socket_timeout :: u32
  total_timeout :: u32
  max_retries :: u32
  sleep_between_retries :: u32
  base_rest :: nat

record as_policy_read =
  rd_base :: as_policy_base
  rd_key :: u32
  rd_replica :: u32
  rd_read_mode_ap :: u32
  rd_read_mode_sc :: u32
  rd_deserialize :: bool
  rd_rest :: nat

record as_policy_write =
  wr_base :: as_policy_base
  wr_key :: u32
  wr_replica :: u32
  wr_commit_level :: u32
  wr_gen :: u32
  wr_exists :: u32
  wr_compression_threshold :: u32
  wr_durable_delete :: bool
  wr_rest :: nat

record as_policy_remove =
  rm_base :: as_policy_base
  rm_key :: u32
  rm_replica :: u32
  rm_commit_level :: u32
  rm_gen :: u32
  rm_generation :: u16
  rm_durable_delete :: bool
  rm_rest :: nat

record as_policy_operate =
  op_base :: as_policy_base
  op_key :: u32
  op_replica :: u32
  op_read_mode_ap :: u32
  op_read_mode_sc :: u32
  op_commit_level :: u32
  op_gen :: u32
  op_exists :: u32
  op_deserialize :: bool
  op_durable_delete :: bool
  op_rest :: nat

record as_policy_apply =
  ap_base :: as_policy_base
  ap_key :: u32
  ap_replica :: u32
  ap_commit_level :: u32
  ap_durable_delete :: bool
  ap_rest :: nat

record as_policy_batch =
  ba_base :: as_policy_base
  ba_read_mode_ap :: u32
  ba_read_mode_sc :: u32
  ba_concurrent :: bool
  ba_allow_inline :: bool
  ba_send_set_name :: bool
  ba_deserialize :: bool
  ba_rest :: nat

record as_policy_query =
  qu_base :: as_policy_base
  qu_deserialize :: bool
  qu_rest :: nat

record as_policy_scan =
  sc_base :: as_policy_base
  sc_records_per_second :: u32
  sc_durable_delete :: bool
  sc_rest :: nat

record as_policy_info =
  in_timeout :: u32
  in_rest :: nat

record as_policy_admin =
  ad_timeout :: u32
  ad_rest :: nat

section \<open>One option\<close>

text \<open>Each of these returns what the target holds after the call.\<close>

definition set_uint32t_policy_value_from_hash_index :: "htab \<Rightarrow> u32 \<Rightarrow> zlong \<Rightarrow> u32" where
  "set_uint32t_policy_value_from_hash_index h target policy_index =
     (case index_find h policy_index of Some (ZLong n) \<Rightarrow> ucast n | _ \<Rightarrow> target)"

definition set_uint32t_policy_value_from_hash_key :: "htab \<Rightarrow> u32 \<Rightarrow> string \<Rightarrow> u32" where
  "set_uint32t_policy_value_from_hash_key h target policy_key =
     (case str_find h policy_key of Some (ZLong n) \<Rightarrow> ucast n | _ \<Rightarrow> target)"

definition set_bool_policy_value_from_hash_index :: "htab \<Rightarrow> bool \<Rightarrow> zlong \<Rightarrow> bool" where
  "set_bool_policy_value_from_hash_index h target policy_index =
     (case index_find h policy_index of Some ZTrue \<Rightarrow> True | Some ZFalse \<Rightarrow> False | _ \<Rightarrow> target)"

definition set_bool_policy_value_from_hash_key :: "htab \<Rightarrow> bool \<Rightarrow> string \<Rightarrow> bool" where
  "set_bool_policy_value_from_hash_key h target policy_key =
     (case str_find h policy_key of Some ZTrue \<Rightarrow> True | Some ZFalse \<Rightarrow> False | _ \<Rightarrow> target)"

definition set_key_policy_value_from_hash :: "htab \<Rightarrow> u32 \<Rightarrow> u32" where
  "set_key_policy_value_from_hash h target =
     (case index_find h OPT_POLICY_KEY of Some (ZLong n) \<Rightarrow> ucast n | _ \<Rightarrow> target)"

definition set_replica_policy_value_from_hash :: "htab \<Rightarrow> u32 \<Rightarrow> u32" where
  "set_replica_policy_value_from_hash h target =
     (case index_find h OPT_POLICY_REPLICA of Some (ZLong n) \<Rightarrow> ucast n | _ \<Rightarrow> target)"

definition set_read_mode_ap_policy_value_from_hash :: "htab \<Rightarrow> u32 \<Rightarrow> u32" where
  "set_read_mode_ap_policy_value_from_hash h target =
     (case index_find h OPT_POLICY_READ_MODE_AP of Some (ZLong n) \<Rightarrow> ucast n | _ \<Rightarrow> target)"

definition set_read_mode_sc_policy_value_from_hash :: "htab \<Rightarrow> u32 \<Rightarrow> u32" where
  "set_read_mode_sc_policy_value_from_hash h target =
     (case index_find h OPT_POLICY_READ_MODE_SC of Some (ZLong n) \<Rightarrow> ucast n | _ \<Rightarrow> target)"

definition set_exists_policy_value_from_hash :: "htab \<Rightarrow> u32 \<Rightarrow> u32" where
  "set_exists_policy_value_from_hash h target =
     (case index_find h OPT_POLICY_EXISTS of Some (ZLong n) \<Rightarrow> ucast n | _ \<Rightarrow> target)"

definition set_commit_level_policy_value_from_hash :: "htab \<Rightarrow> u32 \<Rightarrow> u32" where
  "set_commit_level_policy_value_from_hash h target =
     (case index_find h OPT_POLICY_COMMIT_LEVEL of Some (ZLong n) \<Rightarrow> ucast n | _ \<Rightarrow> target)"

section \<open>The options of one policy\<close>

definition PHP_POLICY_OPT_DESERIALIZE :: string where
  "PHP_POLICY_OPT_DESERIALIZE = ''deserialize''"

definition PHP_POLICY_OPT_SLEEP_BETWEEN_RETRIES :: string where
  "PHP_POLICY_OPT_SLEEP_BETWEEN_RETRIES = ''sleep_between_retries''"

definition set_base_policy_from_hash :: "htab \<Rightarrow> as_policy_base \<Rightarrow> as_policy_base" where
  "set_base_policy_from_hash h p = p\<lparr>
     sleep_between_retries := set_uint32t_policy_value_from_hash_key h (sleep_between_retries p)
       PHP_POLICY_OPT_SLEEP_BETWEEN_RETRIES,
     max_retries := set_uint32t_policy_value_from_hash_index h (max_retries p) OPT_MAX_RETRIES,
     total_timeout := set_uint32t_policy_value_from_hash_index h (total_timeout p) OPT_TOTAL_TIMEOUT,
     socket_timeout := set_uint32t_policy_value_from_hash_index h (socket_timeout p)
       OPT_SOCKET_TIMEOUT\<rparr>"

definition set_read_policy_from_hash :: "htab \<Rightarrow> as_policy_read \<Rightarrow> as_policy_read" where
  "set_read_policy_from_hash h p = p\<lparr>
     rd_read_mode_ap := set_read_mode_ap_policy_value_from_hash h (rd_read_mode_ap p),
     rd_deserialize := set_bool_policy_value_from_hash_key h (rd_deserialize p)
       PHP_POLICY_OPT_DESERIALIZE,
     rd_read_mode_sc := set_read_mode_sc_policy_value_from_hash h (rd_read_mode_sc p),
     rd_key := set_key_policy_value_from_hash h (rd_key p),
     rd_replica := set_replica_policy_value_from_hash h (rd_replica p),
     rd_base := set_base_policy_from_hash h (rd_base p)\<rparr>"

definition set_write_policy_from_hash :: "htab \<Rightarrow> as_policy_write \<Rightarrow> as_policy_write" where
  "set_write_policy_from_hash h p = p\<lparr>
     wr_compression_threshold := set_uint32t_policy_value_from_hash_index h
       (wr_compression_threshold p) COMPRESSION_THRESHOLD,
     wr_exists := set_exists_policy_value_from_hash h (wr_exists p),
     wr_commit_level := set_commit_level_policy_value_from_hash h (wr_commit_level p),
     wr_durable_delete := set_bool_policy_value_from_hash_index h (wr_durable_delete p)
       OPT_POLICY_DURABLE_DELETE,
     wr_key := set_key_policy_value_from_hash h (wr_key p),
     wr_replica := set_replica_policy_value_from_hash h (wr_replica p),
     wr_base := set_base_policy_from_hash h (wr_base p)\<rparr>"

definition set_remove_policy_from_hash :: "htab \<Rightarrow> as_policy_remove \<Rightarrow> as_policy_remove" where
  "set_remove_policy_from_hash h p = p\<lparr>
     rm_commit_level := set_commit_level_policy_value_from_hash h (rm_commit_level p),
     rm_durable_delete := set_bool_policy_value_from_hash_index h (rm_durable_delete p)
       OPT_POLICY_DURABLE_DELETE,
     rm_key := set_key_policy_value_from_hash h (rm_key p),
     rm_replica := set_replica_policy_value_from_hash h (rm_replica p),
     rm_base := set_base_policy_from_hash h (rm_base p)\<rparr>"

definition set_batch_policy_from_hash :: "htab \<Rightarrow> as_policy_batch \<Rightarrow> as_policy_batch" where
  "set_batch_policy_from_hash h p = p\<lparr>
     ba_concurrent := set_bool_policy_value_from_hash_index h (ba_concurrent p) OPT_BATCH_CONCURRENT,
     ba_allow_inline := set_bool_policy_value_from_hash_index h (ba_allow_inline p) OPT_ALLOW_INLINE,
     ba_send_set_name := set_bool_policy_value_from_hash_index h (ba_send_set_name p)
       OPT_SEND_SET_NAME,
     ba_read_mode_ap := set_read_mode_ap_policy_value_from_hash h (ba_read_mode_ap p),
     ba_deserialize := set_bool_policy_value_from_hash_key h (ba_deserialize p)
       PHP_POLICY_OPT_DESERIALIZE,
     ba_read_mode_sc := set_read_mode_sc_policy_value_from_hash h (ba_read_mode_sc p),
     ba_base := set_base_policy_from_hash h (ba_base p)\<rparr>"

definition set_operate_policy_from_hash :: "htab \<Rightarrow> as_policy_operate \<Rightarrow> as_policy_operate" where
  "set_operate_policy_from_hash h p = p\<lparr>
     op_read_mode_ap := set_read_mode_ap_policy_value_from_hash h (op_read_mode_ap p),
     op_deserialize := set_bool_policy_value_from_hash_key h (op_deserialize p)
       PHP_POLICY_OPT_DESERIALIZE,
     op_read_mode_sc := set_read_mode_sc_policy_value_from_hash h (op_read_mode_sc p),
     op_exists := set_exists_policy_value_from_hash h (op_exists p),
     op_commit_level := set_commit_level_policy_value_from_hash h (op_commit_level p),
     op_durable_delete := set_bool_policy_value_from_hash_index h (op_durable_delete p)
       OPT_POLICY_DURABLE_DELETE,
     op_key := set_key_policy_value_from_hash h (op_key p),
     op_replica := set_replica_policy_value_from_hash h (op_replica p),
     op_base := set_base_policy_from_hash h (op_base p)\<rparr>"

definition set_query_policy_from_hash :: "htab \<Rightarrow> as_policy_query \<Rightarrow> as_policy_query" where
  "set_query_policy_from_hash h p = p\<lparr>
     qu_deserialize := set_bool_policy_value_from_hash_key h (qu_deserialize p)
       PHP_POLICY_OPT_DESERIALIZE,
     qu_base := set_base_policy_from_hash h (qu_base p)\<rparr>"

definition set_scan_policy_from_hash :: "htab \<Rightarrow> as_policy_scan \<Rightarrow> as_policy_scan" where
  "set_scan_policy_from_hash h p = p\<lparr>
     sc_durable_delete := set_bool_policy_value_from_hash_index h (sc_durable_delete p)
       OPT_POLICY_DURABLE_DELETE,
     sc_records_per_second := set_uint32t_policy_value_from_hash_index h
       (sc_records_per_second p) OPT_SCAN_RPS_LIMIT,
     sc_base := set_base_policy_from_hash h (sc_base p)\<rparr>"

definition set_apply_policy_from_hash :: "htab \<Rightarrow> as_policy_apply \<Rightarrow> as_policy_apply" where
  "set_apply_policy_from_hash h p = p\<lparr>
     ap_commit_level := set_commit_level_policy_value_from_hash h (ap_commit_level p),
     ap_durable_delete := set_bool_policy_value_from_hash_index h (ap_durable_delete p)
       OPT_POLICY_DURABLE_DELETE,
     ap_key := set_key_policy_value_from_hash h (ap_key p),
     ap_replica := set_replica_policy_value_from_hash h (ap_replica p),
     ap_base := set_base_policy_from_hash h (ap_base p)\<rparr>"


section \<open>Policies from PHP values\<close>

text \<open>
  The argument is \<open>None\<close> when the caller passed no policy. The result is the status and the
  policy as the call leaves it.
\<close>

definition zval_to_as_policy_read ::
  "as_policy_read policy_struct \<Rightarrow> zval option \<Rightarrow> as_policy_read \<Rightarrow> as_status \<times> as_policy_read" where
  "zval_to_as_policy_read P z default_policy =
     (let p = pol_copy P default_policy (pol_init P) in
      case z of
        None \<Rightarrow> (AEROSPIKE_OK, p)
      | Some ZNull \<Rightarrow> (AEROSPIKE_OK, p)
      | Some (ZArray h) \<Rightarrow>
          (let p = p\<lparr>rd_base := (rd_base p)\<lparr>total_timeout :=
                 set_uint32t_policy_value_from_hash_index h (total_timeout (rd_base p))
                   OPT_READ_TIMEOUT\<rparr>\<rparr>
           in (AEROSPIKE_OK, set_read_policy_from_hash h p))
      | Some _ \<Rightarrow> (AEROSPIKE_ERR_PARAM, p))"

text \<open>
  The generation option of a remove policy. \<open>None\<close>: an entry of the pair is missing and the
  code reads through the null pointer the look-up returned.
\<close>

definition remove_policy_gen ::
  "'e conv_ext_scheme \<Rightarrow> htab \<Rightarrow> as_policy_remove \<Rightarrow> (as_status \<times> as_policy_remove) option" where
  "remove_policy_gen E h p =
     (case index_find h OPT_POLICY_GEN of
        Some (ZArray g) \<Rightarrow>
          if length g = 2 then
            (case index_find g 0 of
               None \<Rightarrow> None
             | Some c \<Rightarrow>
                 (let p = p\<lparr>rm_gen := ucast (Z_LVAL E c)\<rparr> in
                  case index_find g 1 of
                    None \<Rightarrow> None
                  | Some (ZLong n) \<Rightarrow> Some (AEROSPIKE_OK, p\<lparr>rm_generation := ucast n\<rparr>)
                  | Some _ \<Rightarrow> Some (AEROSPIKE_ERR_PARAM, p)))
          else Some (AEROSPIKE_OK, p)
      | _ \<Rightarrow> Some (AEROSPIKE_OK, p))"

definition zval_to_as_policy_remove ::
  "'e conv_ext_scheme \<Rightarrow> as_policy_remove policy_struct \<Rightarrow> zval option \<Rightarrow> as_policy_remove \<Rightarrow>
     (as_status \<times> as_policy_remove) option" where
  "zval_to_as_policy_remove E P z default_policy =
     (let p = pol_copy P default_policy (pol_init P) in
      case z of
        None \<Rightarrow> Some (AEROSPIKE_OK, p)
      | Some ZNull \<Rightarrow> Some (AEROSPIKE_OK, p)
      | Some (ZArray h) \<Rightarrow>
          (let p = p\<lparr>rm_base := (rm_base p)\<lparr>total_timeout :=
                 set_uint32t_policy_value_from_hash_index h (total_timeout (rm_base p))
                   OPT_WRITE_TIMEOUT\<rparr>\<rparr>
           in
           case remove_policy_gen E h p of
             None \<Rightarrow> None
           | Some (AEROSPIKE_OK, p) \<Rightarrow> Some (AEROSPIKE_OK, set_remove_policy_from_hash h p)
           | Some (st, p) \<Rightarrow> Some (st, p))
      | Some _ \<Rightarrow> Some (AEROSPIKE_ERR_PARAM, p))"

definition zval_to_as_policy_write ::
  "as_policy_write policy_struct \<Rightarrow> zval option \<Rightarrow> as_policy_write \<Rightarrow> as_status \<times> as_policy_write" where
  "zval_to_as_policy_write P z default_policy =
     (let p = pol_copy P default_policy (pol_init P) in
      case z of
        None \<Rightarrow> (AEROSPIKE_OK, p)
      | Some ZNull \<Rightarrow> (AEROSPIKE_OK, p)
      | Some (ZArray h) \<Rightarrow>
          (let p = p\<lparr>wr_base := (wr_base p)\<lparr>total_timeout :=
                 set_uint32t_policy_value_from_hash_index h (total_timeout (wr_base p))
                   OPT_WRITE_TIMEOUT\<rparr>\<rparr>;
               p = (case index_find h OPT_POLICY_GEN of
                      Some (ZArray g) \<Rightarrow>
                        if length g > 0 then
                          (case index_find g 0 of
                             Some (ZLong n) \<Rightarrow> p\<lparr>wr_gen := ucast n\<rparr>
                           | _ \<Rightarrow> p)
                        else p
                    | _ \<Rightarrow> p)
           in (AEROSPIKE_OK, set_write_policy_from_hash h p))
      | Some _ \<Rightarrow> (AEROSPIKE_ERR_PARAM, p))"

text \<open>
  The operate policy is copied in the other direction: the third component is the default
  policy after the call.
\<close>

definition zval_to_as_policy_operate ::
  "'e conv_ext_scheme \<Rightarrow> as_policy_operate policy_struct \<Rightarrow> zval option \<Rightarrow> as_policy_operate \<Rightarrow>
     as_status \<times> as_policy_operate \<times> as_policy_operate" where
  "zval_to_as_policy_operate E P z default_policy =
     (let p = pol_init P;
          default_policy = pol_copy P p default_policy
      in
      case z of
        None \<Rightarrow> (AEROSPIKE_OK, p, default_policy)
      | Some ZNull \<Rightarrow> (AEROSPIKE_OK, p, default_policy)
      | Some (ZArray h) \<Rightarrow>
          (let p = (case index_find h OPT_POLICY_GEN of
                      Some (ZArray g) \<Rightarrow>
                        (case index_find g 0 of
                           Some c \<Rightarrow> p\<lparr>op_gen := ucast (Z_LVAL E c)\<rparr>
                         | None \<Rightarrow> p)
                    | _ \<Rightarrow> p);
               p = p\<lparr>op_base := (op_base p)\<lparr>total_timeout :=
                 set_uint32t_policy_value_from_hash_index h (total_timeout (op_base p))
                   OPT_WRITE_TIMEOUT\<rparr>\<rparr>
           in (AEROSPIKE_OK, set_operate_policy_from_hash h p, default_policy))
      | Some _ \<Rightarrow> (AEROSPIKE_ERR_PARAM, p, default_policy))"

definition zval_to_as_policy_info ::
  "as_policy_info policy_struct \<Rightarrow> zval option \<Rightarrow> as_policy_info \<Rightarrow> as_status \<times> as_policy_info" where
  "zval_to_as_policy_info P z default_policy =
     (let p = pol_copy P default_policy (pol_init P) in
      case z of
        None \<Rightarrow> (AEROSPIKE_OK, p)
      | Some ZNull \<Rightarrow> (AEROSPIKE_OK, p)
      | Some (ZArray h) \<Rightarrow>
          (let p = p\<lparr>in_timeout :=
                 set_uint32t_policy_value_from_hash_index h (in_timeout p) OPT_WRITE_TIMEOUT\<rparr>;
               p = p\<lparr>in_timeout :=
                 set_uint32t_policy_value_from_hash_index h (in_timeout p) OPT_READ_TIMEOUT\<rparr>
           in (AEROSPIKE_OK, p))
      | Some _ \<Rightarrow> (AEROSPIKE_ERR_PARAM, p))"

definition zval_to_as_policy_apply ::
  "as_policy_apply policy_struct \<Rightarrow> zval option \<Rightarrow> as_policy_apply \<Rightarrow> as_status \<times> as_policy_apply" where
  "zval_to_as_policy_apply P z default_policy =
     (let p = pol_copy P default_policy (pol_init P) in
      case z of
        None \<Rightarrow> (AEROSPIKE_OK, p)
      | Some ZNull \<Rightarrow> (AEROSPIKE_OK, p)
      | Some (ZArray h) \<Rightarrow>
          (let p = p\<lparr>ap_base := (ap_base p)\<lparr>total_timeout :=
                 set_uint32t_policy_value_from_hash_index h (total_timeout (ap_base p))
                   OPT_WRITE_TIMEOUT\<rparr>\<rparr>
           in (AEROSPIKE_OK, set_apply_policy_from_hash h p))
      | Some _ \<Rightarrow> (AEROSPIKE_ERR_PARAM, p))"

text \<open>An option that must be an integer where it is given: the number, or an error.\<close>

definition scan_timeout :: "htab \<Rightarrow> as_policy_scan \<Rightarrow> as_status \<times> as_policy_scan" where
  "scan_timeout h p =
     (let set = \<lambda>n. p\<lparr>sc_base := (sc_base p)\<lparr>total_timeout := ucast (n :: zlong)\<rparr>\<rparr> in
      case index_find h OPT_READ_TIMEOUT of
        Some (ZLong n) \<Rightarrow> (AEROSPIKE_OK, set n)
      | Some _ \<Rightarrow> (AEROSPIKE_ERR_PARAM, p)
      | None \<Rightarrow>
          (case index_find h OPT_WRITE_TIMEOUT of
             Some (ZLong n) \<Rightarrow> (AEROSPIKE_OK, set n)
           | Some _ \<Rightarrow> (AEROSPIKE_ERR_PARAM, p)
           | None \<Rightarrow> (AEROSPIKE_OK, p)))"

definition scan_rps_limit :: "htab \<Rightarrow> as_policy_scan \<Rightarrow> as_status \<times> as_policy_scan" where
  "scan_rps_limit h p =
     (case index_find h OPT_SCAN_RPS_LIMIT of
        Some (ZLong n) \<Rightarrow> (AEROSPIKE_OK, p\<lparr>sc_records_per_second := ucast n\<rparr>)
      | Some _ \<Rightarrow> (AEROSPIKE_ERR_PARAM, p)
      | None \<Rightarrow> (AEROSPIKE_OK, p))"

definition zval_to_as_policy_scan ::
  "as_policy_scan policy_struct \<Rightarrow> zval option \<Rightarrow> as_policy_scan \<Rightarrow> as_status \<times> as_policy_scan" where
  "zval_to_as_policy_scan P z default_policy =
     (let p = pol_copy P default_policy (pol_init P) in
      case z of
        None \<Rightarrow> (AEROSPIKE_OK, p)
      | Some ZNull \<Rightarrow> (AEROSPIKE_OK, p)
      | Some (ZArray h) \<Rightarrow>
          (case scan_timeout h p of
             (AEROSPIKE_OK, p) \<Rightarrow>
               (case scan_rps_limit h p of
                  (AEROSPIKE_OK, p) \<Rightarrow> (AEROSPIKE_OK, set_scan_policy_from_hash h p)
                | (st, p) \<Rightarrow> (st, p))
           | (st, p) \<Rightarrow> (st, p))
      | Some _ \<Rightarrow> (AEROSPIKE_ERR_PARAM, p))"

definition zval_to_as_policy_query ::
  "as_policy_query policy_struct \<Rightarrow> zval option \<Rightarrow> as_policy_query \<Rightarrow> as_status \<times> as_policy_query" where
  "zval_to_as_policy_query P z default_policy =
     (let p = pol_copy P default_policy (pol_init P) in
      case z of
        None \<Rightarrow> (AEROSPIKE_OK, p)
      | Some ZNull \<Rightarrow> (AEROSPIKE_OK, p)
      | Some (ZArray h) \<Rightarrow>
          (case index_find h OPT_READ_TIMEOUT of
             None \<Rightarrow> (AEROSPIKE_OK, set_query_policy_from_hash h p)
           | Some (ZLong n) \<Rightarrow> (AEROSPIKE_OK, set_query_policy_from_hash h
               (p\<lparr>qu_base := (qu_base p)\<lparr>total_timeout := ucast n\<rparr>\<rparr>))
           | Some _ \<Rightarrow> (AEROSPIKE_ERR_PARAM, p))
      | Some _ \<Rightarrow> (AEROSPIKE_ERR_PARAM, p))"

definition zval_to_as_policy_batch ::
  "as_policy_batch policy_struct \<Rightarrow> zval option \<Rightarrow> as_policy_batch \<Rightarrow> as_status \<times> as_policy_batch" where
  "zval_to_as_policy_batch P z default_policy =
     (let p = pol_copy P default_policy (pol_init P) in
      case z of
        None \<Rightarrow> (AEROSPIKE_OK, p)
      | Some ZNull \<Rightarrow> (AEROSPIKE_OK, p)
      | Some (ZArray h) \<Rightarrow>
          (case index_find h OPT_READ_TIMEOUT of
             None \<Rightarrow> (AEROSPIKE_OK, set_batch_policy_from_hash h p)
           | Some (ZLong n) \<Rightarrow> (AEROSPIKE_OK, set_batch_policy_from_hash h
               (p\<lparr>ba_base := (ba_base p)\<lparr>total_timeout := ucast n\<rparr>\<rparr>))
           | Some _ \<Rightarrow> (AEROSPIKE_ERR_PARAM, p))
      | Some _ \<Rightarrow> (AEROSPIKE_ERR_PARAM, p))"

definition zval_to_as_policy_admin ::
  "as_policy_admin policy_struct \<Rightarrow> zval option \<Rightarrow> as_policy_admin \<Rightarrow> as_status \<times> as_policy_admin" where
  "zval_to_as_policy_admin P z default_policy =
     (let p = pol_copy P default_policy (pol_init P) in
      case z of
        None \<Rightarrow> (AEROSPIKE_OK, p)
      | Some ZNull \<Rightarrow> (AEROSPIKE_OK, p)
      | Some (ZArray h) \<Rightarrow>
          (case index_find h OPT_WRITE_TIMEOUT of
             None \<Rightarrow> (AEROSPIKE_OK, p)
           | Some (ZLong n) \<Rightarrow> (AEROSPIKE_OK, p\<lparr>ad_timeout := ucast n\<rparr>)
           | Some _ \<Rightarrow> (AEROSPIKE_ERR_PARAM, p))
      | Some _ \<Rightarrow> (AEROSPIKE_ERR_PARAM, p))"

section \<open>Options that are not part of a policy\<close>

record as_query_options =
  q_no_bins :: bool

text \<open>The code reads the integer payload of a boolean, which has none.\<close>

definition set_query_options_from_policy_hash ::
  "'e conv_ext_scheme \<Rightarrow> 'q as_query_options_scheme \<Rightarrow> zval option \<Rightarrow>
     as_status \<times> 'q as_query_options_scheme" where
  "set_query_options_from_policy_hash E q z =
     (case z of
        None \<Rightarrow> (AEROSPIKE_OK, q)
      | Some ZNull \<Rightarrow> (AEROSPIKE_OK, q)
      | Some (ZArray h) \<Rightarrow>
          (case index_find h OPT_QUERY_NOBINS of
             None \<Rightarrow> (AEROSPIKE_OK, q)
           | Some v \<Rightarrow>
               if is_bool v then (AEROSPIKE_OK, q\<lparr>q_no_bins := (Z_LVAL E v \<noteq> 0)\<rparr>)
               else (AEROSPIKE_ERR_PARAM, q))
      | Some _ \<Rightarrow> (AEROSPIKE_ERR_PARAM, q))"

record as_scan =
  scan_concurrent :: bool
  scan_no_bins :: bool

text \<open>In a thread-safe build (\<open>zts\<close>) the concurrency option is checked but not used.\<close>

definition set_scan_options_from_policy_hash ::
  "bool \<Rightarrow> 'q as_scan_scheme \<Rightarrow> zval option \<Rightarrow> as_status \<times> 'q as_scan_scheme" where
  "set_scan_options_from_policy_hash zts s z =
     (case z of
        None \<Rightarrow> (AEROSPIKE_OK, s)
      | Some ZNull \<Rightarrow> (AEROSPIKE_OK, s)
      | Some (ZArray h) \<Rightarrow>
          (let c = index_find h OPT_SCAN_CONCURRENTLY; n = index_find h OPT_SCAN_NOBINS in
           if \<not> pred_option is_bool c then (AEROSPIKE_ERR_PARAM, s)
           else
             (let s = (if \<not> zts \<and> c = Some ZTrue then s\<lparr>scan_concurrent := True\<rparr> else s) in
              if \<not> pred_option is_bool n then (AEROSPIKE_ERR_PARAM, s)
              else (AEROSPIKE_OK, if n = Some ZTrue then s\<lparr>scan_no_bins := True\<rparr> else s)))
      | Some _ \<Rightarrow> (AEROSPIKE_ERR_PARAM, s))"

text \<open>A generation given as the second of a pair.\<close>

definition generation_option :: "zval \<Rightarrow> as_status \<times> u16 option" where
  "generation_option gen =
     (case gen of
        ZArray g \<Rightarrow>
          if length g \<noteq> 2 then (AEROSPIKE_OK, None)
          else (case index_find g 1 of
                  Some (ZLong n) \<Rightarrow> (AEROSPIKE_OK, Some (ucast n))
                | _ \<Rightarrow> (AEROSPIKE_ERR_PARAM, None))
      | _ \<Rightarrow> (AEROSPIKE_ERR_PARAM, None))"

definition set_record_generation_from_write_policy ::
  "as_record \<Rightarrow> zval option \<Rightarrow> as_status \<times> as_record" where
  "set_record_generation_from_write_policy r z =
     (case z of
        Some (ZArray h) \<Rightarrow>
          (case index_find h OPT_POLICY_GEN of
             None \<Rightarrow> (AEROSPIKE_OK, r)
           | Some gen \<Rightarrow>
               (case generation_option gen of
                  (st, Some g) \<Rightarrow> (st, r\<lparr>rec_gen := g\<rparr>)
                | (st, None) \<Rightarrow> (st, r)))
      | _ \<Rightarrow> (AEROSPIKE_OK, r))"

record 'op as_operations =
  ops_binops :: "'op list"
  ops_capacity :: nat
  ops_gen :: u16
  ops_ttl :: u32

definition set_operations_generation_from_operate_policy ::
  "'op as_operations \<Rightarrow> zval option \<Rightarrow> as_status \<times> 'op as_operations" where
  "set_operations_generation_from_operate_policy ops z =
     (case z of
        None \<Rightarrow> (AEROSPIKE_OK, ops)
      | Some ZNull \<Rightarrow> (AEROSPIKE_OK, ops)
      | Some (ZArray h) \<Rightarrow>
          (case index_find h OPT_POLICY_GEN of
             None \<Rightarrow> (AEROSPIKE_OK, ops)
           | Some gen \<Rightarrow>
               (case generation_option gen of
                  (st, Some g) \<Rightarrow> (st, ops\<lparr>ops_gen := g\<rparr>)
                | (st, None) \<Rightarrow> (st, ops)))
      | Some _ \<Rightarrow> (AEROSPIKE_ERR_PARAM, ops))"

definition set_operations_ttl_from_operate_policy ::
  "'op as_operations \<Rightarrow> zval option \<Rightarrow> as_status \<times> 'op as_operations" where
  "set_operations_ttl_from_operate_policy ops z =
     (case z of
        None \<Rightarrow> (AEROSPIKE_OK, ops)
      | Some ZNull \<Rightarrow> (AEROSPIKE_OK, ops)
      | Some (ZArray h) \<Rightarrow>
          (case index_find h OPT_TTL of
             None \<Rightarrow> (AEROSPIKE_OK, ops)
           | Some (ZLong n) \<Rightarrow> (AEROSPIKE_OK, ops\<lparr>ops_ttl := ucast n\<rparr>)
           | Some _ \<Rightarrow> (AEROSPIKE_ERR_PARAM, ops))
      | Some _ \<Rightarrow> (AEROSPIKE_ERR_PARAM, ops))"

text \<open>\<open>ini_serializer\<close> is the ini setting \<open>aerospike.serializer\<close>.\<close>

definition set_serializer_from_policy_hash ::
  "zlong \<Rightarrow> cint \<Rightarrow> zval option \<Rightarrow> as_status \<times> cint" where
  "set_serializer_from_policy_hash ini_serializer serializer_type z =
     (case z of
        None \<Rightarrow> (AEROSPIKE_OK, ucast ini_serializer)
      | Some ZNull \<Rightarrow> (AEROSPIKE_OK, ucast ini_serializer)
      | Some (ZArray h) \<Rightarrow>
          (case index_find h OPT_SERIALIZER of
             None \<Rightarrow> (AEROSPIKE_OK, ucast ini_serializer)
           | Some (ZLong n) \<Rightarrow> (AEROSPIKE_OK, ucast n)
           | Some _ \<Rightarrow> (AEROSPIKE_ERR_PARAM, serializer_type))
      | Some _ \<Rightarrow> (AEROSPIKE_ERR_PARAM, serializer_type))"

definition set_deserializer_from_policy_hash :: "cint \<Rightarrow> zval option \<Rightarrow> as_status \<times> cint" where
  "set_deserializer_from_policy_hash deserializer_type z =
     (case z of
        None \<Rightarrow> (AEROSPIKE_OK, SERIALIZER_PHP)
      | Some ZNull \<Rightarrow> (AEROSPIKE_OK, SERIALIZER_PHP)
      | Some (ZArray h) \<Rightarrow>
          (case index_find h OPT_SERIALIZER of
             None \<Rightarrow> (AEROSPIKE_OK, SERIALIZER_PHP)
           | Some (ZLong n) \<Rightarrow> (AEROSPIKE_OK, ucast n)
           | Some _ \<Rightarrow> (AEROSPIKE_ERR_PARAM, deserializer_type))
      | Some _ \<Rightarrow> (AEROSPIKE_ERR_PARAM, deserializer_type))"

section \<open>Map policies\<close>

text \<open>The enumerators of the C client the map policy is checked against.\<close>

record map_consts =
  AS_MAP_UNORDERED :: zlong
  AS_MAP_KEY_ORDERED :: zlong
  AS_MAP_KEY_VALUE_ORDERED :: zlong
  AS_MAP_UPDATE :: zlong
  AS_MAP_UPDATE_ONLY :: zlong
  AS_MAP_CREATE_ONLY :: zlong
  AS_MAP_WRITE_DEFAULT :: zlong
  AS_MAP_WRITE_CREATE_ONLY :: zlong
  AS_MAP_WRITE_UPDATE_ONLY :: zlong
  AS_MAP_WRITE_NO_FAIL :: zlong
  AS_MAP_WRITE_PARTIAL :: zlong

text \<open>
  An \<open>as_map_policy\<close> is the call that made it: \<open>as_map_policy_init\<close>, \<open>as_map_policy_set\<close> with
  an order and a write mode, or \<open>as_map_policy_set_flags\<close> with an order and flags.
\<close>

datatype as_map_policy =
    MapPolicyInit
  | MapPolicySet u32 u32
  | MapPolicySetFlags u32 u32

definition map_order_option :: "map_consts \<Rightarrow> htab \<Rightarrow> zlong option" where
  "map_order_option K h =
     (case index_find h OPT_MAP_ORDER of
        None \<Rightarrow> Some (AS_MAP_UNORDERED K)
      | Some (ZLong n) \<Rightarrow>
          if n \<noteq> AS_MAP_UNORDERED K \<and> n \<noteq> AS_MAP_KEY_ORDERED K \<and> n \<noteq> AS_MAP_KEY_VALUE_ORDERED K
          then None else Some n
      | Some _ \<Rightarrow> None)"

definition map_flags_option :: "map_consts \<Rightarrow> htab \<Rightarrow> zlong option" where
  "map_flags_option K h =
     (case index_find h OPT_MAP_WRITE_FLAGS of
        None \<Rightarrow> Some (AS_MAP_WRITE_DEFAULT K)
      | Some (ZLong n) \<Rightarrow>
          (let chk = and (and n (not (AS_MAP_WRITE_NO_FAIL K))) (not (AS_MAP_WRITE_PARTIAL K)) in
           if chk \<noteq> AS_MAP_WRITE_DEFAULT K \<and> chk \<noteq> AS_MAP_WRITE_CREATE_ONLY K \<and>
             chk \<noteq> AS_MAP_WRITE_UPDATE_ONLY K then None else Some n)
      | Some _ \<Rightarrow> None)"

definition map_mode_option :: "map_consts \<Rightarrow> htab \<Rightarrow> zlong option" where
  "map_mode_option K h =
     (case index_find h OPT_MAP_WRITE_MODE of
        None \<Rightarrow> Some (AS_MAP_UPDATE K)
      | Some (ZLong n) \<Rightarrow>
          if n \<noteq> AS_MAP_UPDATE K \<and> n \<noteq> AS_MAP_UPDATE_ONLY K \<and> n \<noteq> AS_MAP_CREATE_ONLY K
          then None else Some n
      | Some _ \<Rightarrow> None)"

definition zval_to_as_policy_map :: "map_consts \<Rightarrow> zval option \<Rightarrow> as_status \<times> as_map_policy" where
  "zval_to_as_policy_map K z =
     (case z of
        None \<Rightarrow> (AEROSPIKE_OK, MapPolicyInit)
      | Some ZNull \<Rightarrow> (AEROSPIKE_OK, MapPolicyInit)
      | Some (ZArray h) \<Rightarrow>
          (case map_order_option K h of
             None \<Rightarrow> (AEROSPIKE_ERR_PARAM, MapPolicyInit)
           | Some map_order \<Rightarrow>
               (case map_flags_option K h of
                  None \<Rightarrow> (AEROSPIKE_ERR_PARAM, MapPolicyInit)
                | Some write_flags \<Rightarrow>
                    (case map_mode_option K h of
                       None \<Rightarrow> (AEROSPIKE_ERR_PARAM, MapPolicyInit)
                     | Some write_mode \<Rightarrow>
                         (AEROSPIKE_OK,
                          if index_find h OPT_MAP_WRITE_FLAGS \<noteq> None then
                            MapPolicySetFlags (ucast map_order) (ucast write_flags)
                          else MapPolicySet (ucast map_order) (ucast write_mode)))))
      | Some _ \<Rightarrow> (AEROSPIKE_ERR_PARAM, MapPolicyInit))"

end
