(* ===== verification/PolicySpec.thy ===== *)
theory PolicySpec
  imports Policies
begin

text \<open>
  The contracts of the policy conversions, as two interfaces: what setting options from an
  array does to a policy, and what making a policy from a PHP value does. Every setter and
  every conversion of \<open>Policies\<close> is an interpretation.
\<close>

section \<open>Setters\<close>

text \<open>
  A setter depends on the entries it reads only, changes nothing when none of them is there,
  and does the same when called twice.
\<close>

locale policy_setter =
  fixes setter :: "htab \<Rightarrow> 'p \<Rightarrow> 'p"
    and reads :: "php_key set"
  assumes setter_local: "(\<And>k. k \<in> reads \<Longrightarrow> map_of h k = map_of h' k) \<Longrightarrow> setter h p = setter h' p"
    and setter_default: "(\<And>k. k \<in> reads \<Longrightarrow> map_of h k = None) \<Longrightarrow> setter h p = p"
    and setter_idem: "setter h (setter h p) = setter h p"
begin

lemma setter_empty: "setter [] p = p"
  by (rule setter_default) simp

lemma setter_other: "k \<notin> reads \<Longrightarrow> setter (hash_update h k z) p = setter h p"
  by (rule setter_local) (auto simp: hash_find_update)

lemma setter_order: "mset h = mset h' \<Longrightarrow> wf_hash h \<Longrightarrow> setter h p = setter h' p"
  by (rule setter_local) (metis map_of_mset_eq wf_hash_def)

lemma setter_iterate: "0 < n \<Longrightarrow> (setter h ^^ n) p = setter h p"
proof (induction n)
  case (Suc n)
  then show ?case by (cases n) (simp_all add: setter_idem)
qed simp

end

definition base_reads :: "php_key set" where
  "base_reads = {SKey PHP_POLICY_OPT_SLEEP_BETWEEN_RETRIES, IKey OPT_MAX_RETRIES,
     IKey OPT_TOTAL_TIMEOUT, IKey OPT_SOCKET_TIMEOUT}"

definition read_reads :: "php_key set" where
  "read_reads = base_reads \<union> {IKey OPT_POLICY_READ_MODE_AP, SKey PHP_POLICY_OPT_DESERIALIZE,
     IKey OPT_POLICY_READ_MODE_SC, IKey OPT_POLICY_KEY, IKey OPT_POLICY_REPLICA}"

definition write_reads :: "php_key set" where
  "write_reads = base_reads \<union> {IKey COMPRESSION_THRESHOLD, IKey OPT_POLICY_EXISTS,
     IKey OPT_POLICY_COMMIT_LEVEL, IKey OPT_POLICY_DURABLE_DELETE, IKey OPT_POLICY_KEY,
     IKey OPT_POLICY_REPLICA}"

definition remove_reads :: "php_key set" where
  "remove_reads = base_reads \<union> {IKey OPT_POLICY_COMMIT_LEVEL, IKey OPT_POLICY_DURABLE_DELETE,
     IKey OPT_POLICY_KEY, IKey OPT_POLICY_REPLICA}"

definition batch_reads :: "php_key set" where
  "batch_reads = base_reads \<union> {IKey OPT_BATCH_CONCURRENT, IKey OPT_ALLOW_INLINE,
     IKey OPT_SEND_SET_NAME, IKey OPT_POLICY_READ_MODE_AP, SKey PHP_POLICY_OPT_DESERIALIZE,
     IKey OPT_POLICY_READ_MODE_SC}"

definition operate_reads :: "php_key set" where
  "operate_reads = base_reads \<union> {IKey OPT_POLICY_READ_MODE_AP, SKey PHP_POLICY_OPT_DESERIALIZE,
     IKey OPT_POLICY_READ_MODE_SC, IKey OPT_POLICY_EXISTS, IKey OPT_POLICY_COMMIT_LEVEL,
     IKey OPT_POLICY_DURABLE_DELETE, IKey OPT_POLICY_KEY, IKey OPT_POLICY_REPLICA}"

definition query_reads :: "php_key set" where
  "query_reads = base_reads \<union> {SKey PHP_POLICY_OPT_DESERIALIZE}"

definition scan_reads :: "php_key set" where
  "scan_reads = base_reads \<union> {IKey OPT_POLICY_DURABLE_DELETE, IKey OPT_SCAN_RPS_LIMIT}"

lemmas reads_defs = base_reads_def read_reads_def write_reads_def remove_reads_def batch_reads_def
  operate_reads_def query_reads_def scan_reads_def

lemmas option_defs = set_uint32t_policy_value_from_hash_index_def
  set_uint32t_policy_value_from_hash_key_def set_bool_policy_value_from_hash_index_def
  set_bool_policy_value_from_hash_key_def set_key_policy_value_from_hash_def
  set_replica_policy_value_from_hash_def set_read_mode_ap_policy_value_from_hash_def
  set_read_mode_sc_policy_value_from_hash_def set_exists_policy_value_from_hash_def
  set_commit_level_policy_value_from_hash_def

lemmas policy_setter_defs = set_base_policy_from_hash_def set_read_policy_from_hash_def
  set_write_policy_from_hash_def set_remove_policy_from_hash_def set_batch_policy_from_hash_def
  set_operate_policy_from_hash_def set_query_policy_from_hash_def set_scan_policy_from_hash_def
  set_apply_policy_from_hash_def

text \<open>The primitive setters, once for each shape of option.\<close>

lemma option_idem [simp]:
  "set_uint32t_policy_value_from_hash_index h (set_uint32t_policy_value_from_hash_index h t k) k =
     set_uint32t_policy_value_from_hash_index h t k"
  "set_uint32t_policy_value_from_hash_key h (set_uint32t_policy_value_from_hash_key h t s) s =
     set_uint32t_policy_value_from_hash_key h t s"
  "set_bool_policy_value_from_hash_index h (set_bool_policy_value_from_hash_index h b k) k =
     set_bool_policy_value_from_hash_index h b k"
  "set_bool_policy_value_from_hash_key h (set_bool_policy_value_from_hash_key h b s) s =
     set_bool_policy_value_from_hash_key h b s"
  "set_key_policy_value_from_hash h (set_key_policy_value_from_hash h t) =
     set_key_policy_value_from_hash h t"
  "set_replica_policy_value_from_hash h (set_replica_policy_value_from_hash h t) =
     set_replica_policy_value_from_hash h t"
  "set_read_mode_ap_policy_value_from_hash h (set_read_mode_ap_policy_value_from_hash h t) =
     set_read_mode_ap_policy_value_from_hash h t"
  "set_read_mode_sc_policy_value_from_hash h (set_read_mode_sc_policy_value_from_hash h t) =
     set_read_mode_sc_policy_value_from_hash h t"
  "set_exists_policy_value_from_hash h (set_exists_policy_value_from_hash h t) =
     set_exists_policy_value_from_hash h t"
  "set_commit_level_policy_value_from_hash h (set_commit_level_policy_value_from_hash h t) =
     set_commit_level_policy_value_from_hash h t"
  by (simp_all add: option_defs split: option.split zval.split)

interpretation base_set: policy_setter set_base_policy_from_hash base_reads
  by unfold_locales (simp_all add: policy_setter_defs reads_defs, simp_all add: option_defs)

interpretation read_set: policy_setter set_read_policy_from_hash read_reads
  by unfold_locales (simp_all add: policy_setter_defs reads_defs, simp_all add: option_defs)

interpretation write_set: policy_setter set_write_policy_from_hash write_reads
  by unfold_locales (simp_all add: policy_setter_defs reads_defs, simp_all add: option_defs)

interpretation remove_set: policy_setter set_remove_policy_from_hash remove_reads
  by unfold_locales (simp_all add: policy_setter_defs reads_defs, simp_all add: option_defs)

interpretation batch_set: policy_setter set_batch_policy_from_hash batch_reads
  by unfold_locales (simp_all add: policy_setter_defs reads_defs, simp_all add: option_defs)

interpretation operate_set: policy_setter set_operate_policy_from_hash operate_reads
  by unfold_locales (simp_all add: policy_setter_defs reads_defs, simp_all add: option_defs)

interpretation query_set: policy_setter set_query_policy_from_hash query_reads
  by unfold_locales (simp_all add: policy_setter_defs reads_defs, simp_all add: option_defs)

interpretation scan_set: policy_setter set_scan_policy_from_hash scan_reads
  by unfold_locales (simp_all add: policy_setter_defs reads_defs, simp_all add: option_defs)

interpretation apply_set: policy_setter set_apply_policy_from_hash remove_reads
  by unfold_locales (simp_all add: policy_setter_defs reads_defs, simp_all add: option_defs)


section \<open>Conversions\<close>

text \<open>
  A conversion starts from \<open>start\<close>, a policy made of the configured default; it returns that
  when there are no options, whichever way there are none; it refuses what is no array, and has
  no other status than success and \<open>AEROSPIKE_ERR_PARAM\<close>. The result is an option because one
  conversion can dereference a null pointer.
\<close>

locale policy_conversion =
  fixes conv :: "zval option \<Rightarrow> 'p \<Rightarrow> (as_status \<times> 'p) option"
    and start :: "'p \<Rightarrow> 'p"
  assumes conv_none: "conv None d = Some (AEROSPIKE_OK, start d)"
    and conv_null: "conv (Some ZNull) d = Some (AEROSPIKE_OK, start d)"
    and conv_empty: "conv (Some (ZArray [])) d = Some (AEROSPIKE_OK, start d)"
    and conv_other: "\<not> is_array z \<Longrightarrow> z \<noteq> ZNull \<Longrightarrow> conv (Some z) d = Some (AEROSPIKE_ERR_PARAM, start d)"
    and conv_status: "conv zo d = Some (st, p) \<Longrightarrow> st = AEROSPIKE_OK \<or> st = AEROSPIKE_ERR_PARAM"
begin

lemma conv_no_options:
  "z \<in> {None, Some ZNull, Some (ZArray [])} \<Longrightarrow> conv z d = Some (AEROSPIKE_OK, start d)"
  using conv_none conv_null conv_empty by auto

lemma conv_ok: "conv (Some z) d = Some (AEROSPIKE_OK, p) \<Longrightarrow> z = ZNull \<or> is_array z"
  using conv_other [of z d] by fastforce

lemma conv_crash: "conv z d = None \<Longrightarrow> \<exists>h. z = Some (ZArray h) \<and> h \<noteq> []"
  using conv_no_options [of z d] conv_other [of "the z" d]
  by (cases z) (auto simp: is_array_iff)

end

lemmas policy_conversion_defs = zval_to_as_policy_read_def zval_to_as_policy_write_def
  zval_to_as_policy_remove_def zval_to_as_policy_operate_def zval_to_as_policy_info_def
  zval_to_as_policy_apply_def zval_to_as_policy_scan_def zval_to_as_policy_query_def
  zval_to_as_policy_batch_def zval_to_as_policy_admin_def

lemma scan_timeout_status:
  "scan_timeout h p = (st, p') \<Longrightarrow> st = AEROSPIKE_OK \<or> st = AEROSPIKE_ERR_PARAM"
  by (auto simp: scan_timeout_def Let_def split: option.splits zval.splits)

lemma scan_rps_limit_status:
  "scan_rps_limit h p = (st, p') \<Longrightarrow> st = AEROSPIKE_OK \<or> st = AEROSPIKE_ERR_PARAM"
  by (auto simp: scan_rps_limit_def split: option.splits zval.splits)

lemma remove_policy_gen_status:
  "remove_policy_gen E h p = Some (st, p') \<Longrightarrow> st = AEROSPIKE_OK \<or> st = AEROSPIKE_ERR_PARAM"
  by (auto simp: remove_policy_gen_def Let_def split: option.splits zval.splits if_splits)

lemmas policy_status_lemmas = scan_timeout_status scan_rps_limit_status remove_policy_gen_status

text \<open>What an array with no entries sets.\<close>

lemma setters_empty [simp]:
  "set_read_policy_from_hash [] p1 = p1" "set_write_policy_from_hash [] p2 = p2"
  "set_remove_policy_from_hash [] p3 = p3" "set_batch_policy_from_hash [] p4 = p4"
  "set_operate_policy_from_hash [] p5 = p5" "set_query_policy_from_hash [] p6 = p6"
  "set_scan_policy_from_hash [] p7 = p7" "set_apply_policy_from_hash [] p8 = p8"
  by (rule read_set.setter_empty write_set.setter_empty remove_set.setter_empty
      batch_set.setter_empty operate_set.setter_empty query_set.setter_empty
      scan_set.setter_empty apply_set.setter_empty)+

lemma helpers_empty [simp]:
  "set_uint32t_policy_value_from_hash_index [] t k = t"
  "scan_timeout [] p = (AEROSPIKE_OK, p)" "scan_rps_limit [] p = (AEROSPIKE_OK, p)"
  "remove_policy_gen E [] q = Some (AEROSPIKE_OK, q)"
  by (simp_all add: option_defs scan_timeout_def scan_rps_limit_def remove_policy_gen_def)

interpretation read_conv: policy_conversion
  "\<lambda>z d. Some (zval_to_as_policy_read P z d)" "\<lambda>d. pol_copy P d (pol_init P)" for P
  by unfold_locales (auto simp: policy_conversion_defs Let_def split: option.splits zval.splits)

interpretation write_conv: policy_conversion
  "\<lambda>z d. Some (zval_to_as_policy_write P z d)" "\<lambda>d. pol_copy P d (pol_init P)" for P
  by unfold_locales (auto simp: policy_conversion_defs Let_def split: option.splits zval.splits)

interpretation remove_conv: policy_conversion
  "zval_to_as_policy_remove E P" "\<lambda>d. pol_copy P d (pol_init P)" for E P
  by unfold_locales (auto simp: policy_conversion_defs Let_def dest: policy_status_lemmas
      split: option.splits zval.splits as_status.splits)

interpretation operate_conv: policy_conversion
  "\<lambda>z d. Some (case zval_to_as_policy_operate E P z d of (st, p, _) \<Rightarrow> (st, p))"
  "\<lambda>d. pol_init P" for E P
  by unfold_locales (auto simp: policy_conversion_defs Let_def split: option.splits zval.splits)

interpretation info_conv: policy_conversion
  "\<lambda>z d. Some (zval_to_as_policy_info P z d)" "\<lambda>d. pol_copy P d (pol_init P)" for P
  by unfold_locales (auto simp: policy_conversion_defs Let_def split: option.splits zval.splits)

interpretation apply_conv: policy_conversion
  "\<lambda>z d. Some (zval_to_as_policy_apply P z d)" "\<lambda>d. pol_copy P d (pol_init P)" for P
  by unfold_locales (auto simp: policy_conversion_defs Let_def split: option.splits zval.splits)

interpretation scan_conv: policy_conversion
  "\<lambda>z d. Some (zval_to_as_policy_scan P z d)" "\<lambda>d. pol_copy P d (pol_init P)" for P
  by unfold_locales (auto simp: policy_conversion_defs Let_def dest: policy_status_lemmas
      split: option.splits zval.splits as_status.splits prod.splits)

interpretation query_conv: policy_conversion
  "\<lambda>z d. Some (zval_to_as_policy_query P z d)" "\<lambda>d. pol_copy P d (pol_init P)" for P
  by unfold_locales (auto simp: policy_conversion_defs Let_def split: option.splits zval.splits)

interpretation batch_conv: policy_conversion
  "\<lambda>z d. Some (zval_to_as_policy_batch P z d)" "\<lambda>d. pol_copy P d (pol_init P)" for P
  by unfold_locales (auto simp: policy_conversion_defs Let_def split: option.splits zval.splits)

interpretation admin_conv: policy_conversion
  "\<lambda>z d. Some (zval_to_as_policy_admin P z d)" "\<lambda>d. pol_copy P d (pol_init P)" for P
  by unfold_locales (auto simp: policy_conversion_defs Let_def split: option.splits zval.splits)

end
