(* ===== verification/PolicyProps.thy ===== *)
theory PolicyProps
  imports PolicySpec SampleApi
begin

text \<open>
  The properties of the policies made from PHP option arrays. They rest on the two interfaces
  of \<open>PolicySpec\<close>.
\<close>

section \<open>Defaults\<close>

definition no_options :: "zval option \<Rightarrow> bool" where
  "no_options z \<longleftrightarrow> z \<in> {None, Some ZNull, Some (ZArray [])}"

text \<open>
  Without options (no argument, null, or an empty array) every policy but the operate
  policy is the default configured on the client: read, write, remove, info, apply, scan,
  query, batch and admin.
\<close>

theorem policies_default_to_configuration:
  assumes "policy_api Pr" "policy_api Pw" "policy_api Pm" "policy_api Pi" "policy_api Pa"
    "policy_api Ps" "policy_api Pq" "policy_api Pb" "policy_api Pd" and z: "no_options z"
  shows "(zval_to_as_policy_read Pr z rd = (AEROSPIKE_OK, rd)) \<and>
    (zval_to_as_policy_write Pw z wr = (AEROSPIKE_OK, wr)) \<and>
    (zval_to_as_policy_remove E Pm z rm = Some (AEROSPIKE_OK, rm)) \<and>
    (zval_to_as_policy_info Pi z nf = (AEROSPIKE_OK, nf)) \<and>
    (zval_to_as_policy_apply Pa z ap = (AEROSPIKE_OK, ap)) \<and>
    (zval_to_as_policy_scan Ps z sc = (AEROSPIKE_OK, sc)) \<and>
    (zval_to_as_policy_query Pq z qu = (AEROSPIKE_OK, qu)) \<and>
    (zval_to_as_policy_batch Pb z ba = (AEROSPIKE_OK, ba)) \<and>
    (zval_to_as_policy_admin Pd z ad = (AEROSPIKE_OK, ad))"
  using read_conv.conv_no_options [of z Pr rd] write_conv.conv_no_options [of z Pw wr]
    remove_conv.conv_no_options [of z E Pm rm] info_conv.conv_no_options [of z Pi nf]
    apply_conv.conv_no_options [of z Pa ap] scan_conv.conv_no_options [of z Ps sc]
    query_conv.conv_no_options [of z Pq qu] batch_conv.conv_no_options [of z Pb ba]
    admin_conv.conv_no_options [of z Pd ad] assms
  by (simp_all add: policy_apiD no_options_def)

definition sample_struct :: "'p \<Rightarrow> 'p policy_struct" where
  "sample_struct p = \<lparr>pol_init = p, pol_copy = (\<lambda>src trg. src)\<rparr>"

lemma sample_struct_init [simp]: "pol_init (sample_struct p) = p"
  by (simp add: sample_struct_def)

lemma sample_policy_api [simp]: "policy_api (sample_struct p)"
  by (simp add: policy_api_def sample_struct_def)

definition sample_base :: "u32 \<Rightarrow> as_policy_base" where
  "sample_base t = \<lparr>socket_timeout = 30000, total_timeout = t, max_retries = 2,
     sleep_between_retries = 0, base_rest = 0\<rparr>"

definition sample_operate :: "u32 \<Rightarrow> u32 \<Rightarrow> as_policy_operate" where
  "sample_operate t k = \<lparr>op_base = sample_base t, op_key = k, op_replica = 0, op_read_mode_ap = 0,
     op_read_mode_sc = 0, op_commit_level = 0, op_gen = 0, op_exists = 0, op_deserialize = True,
     op_durable_delete = False, op_rest = 0\<rparr>"

definition sample_read :: "u32 \<Rightarrow> as_policy_read" where
  "sample_read t = \<lparr>rd_base = sample_base t, rd_key = 0, rd_replica = 0, rd_read_mode_ap = 0,
     rd_read_mode_sc = 0, rd_deserialize = True, rd_rest = 0\<rparr>"

definition sample_write :: "u32 \<Rightarrow> as_policy_write" where
  "sample_write t = \<lparr>wr_base = sample_base t, wr_key = 0, wr_replica = 0, wr_commit_level = 0,
     wr_gen = 0, wr_exists = 0, wr_compression_threshold = 0, wr_durable_delete = False,
     wr_rest = 0\<rparr>"

definition sample_remove :: "u32 \<Rightarrow> as_policy_remove" where
  "sample_remove t = \<lparr>rm_base = sample_base t, rm_key = 0, rm_replica = 0, rm_commit_level = 0,
     rm_gen = 0, rm_generation = 0, rm_durable_delete = False, rm_rest = 0\<rparr>"

definition sample_apply :: "u32 \<Rightarrow> as_policy_apply" where
  "sample_apply t = \<lparr>ap_base = sample_base t, ap_key = 0, ap_replica = 0, ap_commit_level = 0,
     ap_durable_delete = False, ap_rest = 0\<rparr>"

definition sample_scan :: "u32 \<Rightarrow> as_policy_scan" where
  "sample_scan t = \<lparr>sc_base = sample_base t, sc_records_per_second = 0,
     sc_durable_delete = False, sc_rest = 0\<rparr>"

definition sample_query :: "u32 \<Rightarrow> as_policy_query" where
  "sample_query t = \<lparr>qu_base = sample_base t, qu_deserialize = True, qu_rest = 0\<rparr>"

definition sample_batch :: "u32 \<Rightarrow> as_policy_batch" where
  "sample_batch t = \<lparr>ba_base = sample_base t, ba_read_mode_ap = 0, ba_read_mode_sc = 0,
     ba_concurrent = False, ba_allow_inline = True, ba_send_set_name = False,
     ba_deserialize = True, ba_rest = 0\<rparr>"

theorem policies_default_to_configuration_witness:
  "zval_to_as_policy_read (sample_struct (sample_read 0)) None (sample_read 500) =
     (AEROSPIKE_OK, sample_read 500)"
  by (rule policies_default_to_configuration
      [where Pw = "sample_struct (sample_write 0)" and Pm = "sample_struct (sample_remove 0)"
        and Pi = "sample_struct \<lparr>in_timeout = 0, in_rest = 0\<rparr>"
        and Pa = "sample_struct (sample_apply 0)" and Ps = "sample_struct (sample_scan 0)"
        and Pq = "sample_struct (sample_query 0)" and Pb = "sample_struct (sample_batch 0)"
        and Pd = "sample_struct \<lparr>ad_timeout = 0, ad_rest = 0\<rparr>", THEN conjunct1])
    (simp_all add: no_options_def)

text \<open>
  The operate policy is the exception, because its copy has its arguments the wrong way
  round: whatever the options are, the configured default has no part in the policy, and the
  client's configured default is overwritten with the library's initial values.
\<close>

theorem operate_policy_discards_configuration:
  assumes "policy_api P"
  shows "(zval_to_as_policy_operate E P z d = zval_to_as_policy_operate E P z d') \<and>
    (snd (snd (zval_to_as_policy_operate E P z d)) = pol_init P) \<and>
    (no_options z \<longrightarrow>
      zval_to_as_policy_operate E P z d = (AEROSPIKE_OK, pol_init P, pol_init P))"
  using assms
  by (auto simp: zval_to_as_policy_operate_def policy_apiD no_options_def Let_def
      split: option.splits zval.splits)

theorem operate_policy_discards_configuration_witness:
  "zval_to_as_policy_operate sample_ext (sample_struct (sample_operate 1000 0)) None
       (sample_operate 250 1) =
     (AEROSPIKE_OK, sample_operate 1000 0, sample_operate 1000 0)"
  using operate_policy_discards_configuration
    [of "sample_struct (sample_operate 1000 0)" sample_ext None "sample_operate 250 1"
      "sample_operate 0 0", THEN conjunct2, THEN conjunct2]
  by (simp add: no_options_def)

text \<open>
  A policy argument that is neither null nor an array is refused with
  \<open>AEROSPIKE_ERR_PARAM\<close> by every conversion, and no conversion has any other error.
\<close>

theorem policy_type_checked:
  assumes "\<not> is_array z" "z \<noteq> ZNull"
  shows "(fst (zval_to_as_policy_read Pr (Some z) rd) = AEROSPIKE_ERR_PARAM) \<and>
    (fst (zval_to_as_policy_write Pw (Some z) wr) = AEROSPIKE_ERR_PARAM) \<and>
    (map_option fst (zval_to_as_policy_remove E Pm (Some z) rm) = Some AEROSPIKE_ERR_PARAM) \<and>
    (fst (zval_to_as_policy_operate E Po (Some z) opd) = AEROSPIKE_ERR_PARAM) \<and>
    (fst (zval_to_as_policy_info Pi (Some z) nf) = AEROSPIKE_ERR_PARAM) \<and>
    (fst (zval_to_as_policy_apply Pa (Some z) ap) = AEROSPIKE_ERR_PARAM) \<and>
    (fst (zval_to_as_policy_scan Ps (Some z) sc) = AEROSPIKE_ERR_PARAM) \<and>
    (fst (zval_to_as_policy_query Pq (Some z) qu) = AEROSPIKE_ERR_PARAM) \<and>
    (fst (zval_to_as_policy_batch Pb (Some z) ba) = AEROSPIKE_ERR_PARAM) \<and>
    (fst (zval_to_as_policy_admin Pd (Some z) ad) = AEROSPIKE_ERR_PARAM) \<and>
    (fst (zval_to_as_policy_map K (Some z)) = AEROSPIKE_ERR_PARAM)"
  using read_conv.conv_other [OF assms, of Pr rd] write_conv.conv_other [OF assms, of Pw wr]
    remove_conv.conv_other [OF assms, of E Pm rm] operate_conv.conv_other [OF assms, of E Po opd]
    info_conv.conv_other [OF assms, of Pi nf] apply_conv.conv_other [OF assms, of Pa ap]
    scan_conv.conv_other [OF assms, of Ps sc] query_conv.conv_other [OF assms, of Pq qu]
    batch_conv.conv_other [OF assms, of Pb ba] admin_conv.conv_other [OF assms, of Pd ad] assms
  by (auto simp: zval_to_as_policy_map_def split: prod.splits zval.splits)

theorem policy_type_checked_witness:
  "fst (zval_to_as_policy_read (sample_struct (sample_read 0)) (Some (ZString ''x'')) (sample_read 9)) =
     AEROSPIKE_ERR_PARAM"
  by (rule policy_type_checked [THEN conjunct1]) simp_all

section \<open>Timeouts\<close>

text \<open>
  What the total timeout of a policy is: the general option where it is given, else the option
  of the kind of operation, else the default; a number wider than 32 bits is truncated.
\<close>

definition effective_timeout :: "htab \<Rightarrow> zlong \<Rightarrow> u32 \<Rightarrow> u32" where
  "effective_timeout h specific t =
     (case index_find h OPT_TOTAL_TIMEOUT of
        Some (ZLong n) \<Rightarrow> ucast n
      | _ \<Rightarrow> (case index_find h specific of Some (ZLong n) \<Rightarrow> ucast n | _ \<Rightarrow> t))"

lemma effective_timeout_eq:
  "set_uint32t_policy_value_from_hash_index h
     (set_uint32t_policy_value_from_hash_index h t specific) OPT_TOTAL_TIMEOUT =
   effective_timeout h specific t"
  by (simp add: effective_timeout_def option_defs)

lemma effective_timeout_cases:
  "index_find h k = None \<Longrightarrow>
    set_uint32t_policy_value_from_hash_index h t OPT_TOTAL_TIMEOUT = effective_timeout h k t"
  "index_find h k = Some (ZLong n) \<Longrightarrow>
    set_uint32t_policy_value_from_hash_index h (ucast n) OPT_TOTAL_TIMEOUT = effective_timeout h k t"
  by (simp_all add: effective_timeout_def option_defs split: option.split zval.split)

lemma read_timeout:
  "policy_api P \<Longrightarrow>
    total_timeout (rd_base (snd (zval_to_as_policy_read P (Some (ZArray h)) d))) =
      effective_timeout h OPT_READ_TIMEOUT (total_timeout (rd_base d))"
  by (simp add: policy_conversion_defs policy_setter_defs policy_apiD Let_def effective_timeout_eq)

lemma write_timeout:
  "policy_api P \<Longrightarrow>
    total_timeout (wr_base (snd (zval_to_as_policy_write P (Some (ZArray h)) d))) =
      effective_timeout h OPT_WRITE_TIMEOUT (total_timeout (wr_base d))"
  by (simp add: policy_conversion_defs policy_setter_defs policy_apiD Let_def effective_timeout_eq
      split: option.split zval.split)

lemma apply_timeout:
  "policy_api P \<Longrightarrow>
    total_timeout (ap_base (snd (zval_to_as_policy_apply P (Some (ZArray h)) d))) =
      effective_timeout h OPT_WRITE_TIMEOUT (total_timeout (ap_base d))"
  by (simp add: policy_conversion_defs policy_setter_defs policy_apiD Let_def effective_timeout_eq)

lemma operate_timeout:
  "total_timeout (op_base (fst (snd (zval_to_as_policy_operate E P (Some (ZArray h)) d)))) =
      effective_timeout h OPT_WRITE_TIMEOUT (total_timeout (op_base (pol_init P)))"
  by (simp add: policy_conversion_defs policy_setter_defs Let_def effective_timeout_eq
      split: option.split zval.split)

lemma batch_timeout:
  assumes "policy_api P" "zval_to_as_policy_batch P (Some (ZArray h)) d = (AEROSPIKE_OK, p)"
  shows "total_timeout (ba_base p) = effective_timeout h OPT_READ_TIMEOUT (total_timeout (ba_base d))"
  using assms
  by (cases "index_find h OPT_READ_TIMEOUT"; cases "the (index_find h OPT_READ_TIMEOUT)")
    (auto simp: policy_conversion_defs policy_setter_defs policy_apiD Let_def
      effective_timeout_cases)

lemma query_timeout:
  assumes "policy_api P" "zval_to_as_policy_query P (Some (ZArray h)) d = (AEROSPIKE_OK, p)"
  shows "total_timeout (qu_base p) = effective_timeout h OPT_READ_TIMEOUT (total_timeout (qu_base d))"
  using assms
  by (cases "index_find h OPT_READ_TIMEOUT"; cases "the (index_find h OPT_READ_TIMEOUT)")
    (auto simp: policy_conversion_defs policy_setter_defs policy_apiD Let_def
      effective_timeout_cases)

text \<open>
  In the read, write, apply and operate policies made from an option array the total
  timeout is the effective timeout, and \<open>OPT_TOTAL_TIMEOUT\<close> wins over \<open>OPT_READ_TIMEOUT\<close> and
  \<open>OPT_WRITE_TIMEOUT\<close>; in the batch and query policies too, where the option of the operation
  must be an integer if it is there.
\<close>

theorem policy_timeouts:
  assumes "policy_api Pr" "policy_api Pw" "policy_api Pa" "policy_api Pb" "policy_api Pq"
  shows "(total_timeout (rd_base (snd (zval_to_as_policy_read Pr (Some (ZArray h)) rd))) =
      effective_timeout h OPT_READ_TIMEOUT (total_timeout (rd_base rd))) \<and>
    (total_timeout (wr_base (snd (zval_to_as_policy_write Pw (Some (ZArray h)) wr))) =
      effective_timeout h OPT_WRITE_TIMEOUT (total_timeout (wr_base wr))) \<and>
    (total_timeout (ap_base (snd (zval_to_as_policy_apply Pa (Some (ZArray h)) ap))) =
      effective_timeout h OPT_WRITE_TIMEOUT (total_timeout (ap_base ap))) \<and>
    (total_timeout (op_base (fst (snd (zval_to_as_policy_operate E Po (Some (ZArray h)) opd)))) =
      effective_timeout h OPT_WRITE_TIMEOUT (total_timeout (op_base (pol_init Po)))) \<and>
    (zval_to_as_policy_batch Pb (Some (ZArray h)) ba = (AEROSPIKE_OK, ba') \<longrightarrow>
      total_timeout (ba_base ba') = effective_timeout h OPT_READ_TIMEOUT (total_timeout (ba_base ba))) \<and>
    (zval_to_as_policy_query Pq (Some (ZArray h)) qu = (AEROSPIKE_OK, qu') \<longrightarrow>
      total_timeout (qu_base qu') = effective_timeout h OPT_READ_TIMEOUT (total_timeout (qu_base qu)))"
  using assms
  by (simp add: read_timeout write_timeout apply_timeout operate_timeout batch_timeout query_timeout)

definition sample_timeouts :: htab where
  "sample_timeouts = [(IKey OPT_READ_TIMEOUT, ZLong 200), (IKey OPT_TOTAL_TIMEOUT, ZLong 900)]"

theorem policy_timeouts_witness:
  "total_timeout (rd_base (snd (zval_to_as_policy_read (sample_struct (sample_read 0))
      (Some (ZArray sample_timeouts)) (sample_read 500)))) = 900"
  using policy_timeouts [THEN conjunct1, of "sample_struct (sample_read 0)" "sample_struct (sample_write 0)"
      "sample_struct (sample_apply 0)" "sample_struct (sample_batch 0)"
      "sample_struct (sample_query 0)" sample_timeouts "sample_read 500"]
  by (simp add: effective_timeout_def sample_timeouts_def opt_keys)

section \<open>Which entries matter\<close>

text \<open>
  A write policy depends only on the options the code names: adding or changing an entry
  under any other key changes nothing, and neither does the order of the entries.
\<close>

theorem write_policy_reads:
  assumes "k \<notin> write_reads \<union> {IKey OPT_WRITE_TIMEOUT, IKey OPT_POLICY_GEN}"
  shows "(zval_to_as_policy_write P (Some (ZArray (hash_update h k z))) d =
      zval_to_as_policy_write P (Some (ZArray h)) d) \<and>
    (wf_hash h \<longrightarrow> mset h' = mset h \<longrightarrow>
      zval_to_as_policy_write P (Some (ZArray h')) d = zval_to_as_policy_write P (Some (ZArray h)) d)"
proof (intro conjI impI)
  from assms have "IKey OPT_WRITE_TIMEOUT \<noteq> k" "IKey OPT_POLICY_GEN \<noteq> k" "k \<notin> write_reads"
    by auto
  then show "zval_to_as_policy_write P (Some (ZArray (hash_update h k z))) d =
      zval_to_as_policy_write P (Some (ZArray h)) d"
    by (simp add: zval_to_as_policy_write_def Let_def write_set.setter_other option_defs
        hash_find_update)
next
  assume h: "wf_hash h" "mset h' = mset h"
  have "map_of h' = map_of h"
    by (rule sym, rule map_of_mset_eq) (use h in \<open>auto simp: wf_hash_def\<close>)
  moreover from this have "set_write_policy_from_hash h' p = set_write_policy_from_hash h p" for p
    by (intro write_set.setter_local) simp
  ultimately show "zval_to_as_policy_write P (Some (ZArray h')) d =
      zval_to_as_policy_write P (Some (ZArray h)) d"
    by (simp add: zval_to_as_policy_write_def Let_def option_defs)
qed

theorem write_policy_reads_witness:
  "zval_to_as_policy_write (sample_struct (sample_write 0))
     (Some (ZArray (hash_update sample_timeouts (IKey OPT_READ_TIMEOUT) (ZLong 1)))) (sample_write 3) =
   zval_to_as_policy_write (sample_struct (sample_write 0)) (Some (ZArray sample_timeouts))
     (sample_write 3)"
  by (rule write_policy_reads [THEN conjunct1])
    (simp add: reads_defs opt_keys PHP_POLICY_OPT_SLEEP_BETWEEN_RETRIES_def)

section \<open>Generations\<close>

lemma remove_policy_gen_None:
  "remove_policy_gen E h p = None \<longleftrightarrow>
     (\<exists>g. index_find h OPT_POLICY_GEN = Some (ZArray g) \<and> length g = 2 \<and>
       (index_find g 0 = None \<or> index_find g 1 = None))"
proof (cases "\<exists>g. index_find h OPT_POLICY_GEN = Some (ZArray g) \<and> length g = 2")
  case True
  then obtain g where "index_find h OPT_POLICY_GEN = Some (ZArray g)" "length g = 2" by blast
  then show ?thesis
    by (cases "index_find g 0"; cases "index_find g 1"; cases "the (index_find g 1)")
      (simp_all add: remove_policy_gen_def Let_def)
next
  case False
  then show ?thesis
    by (cases "index_find h OPT_POLICY_GEN"; cases "the (index_find h OPT_POLICY_GEN)")
      (simp_all add: remove_policy_gen_def)
qed

text \<open>
  The remove policy's conversion reads through a null pointer exactly when the options
  hold a generation array of two elements that does not have both the keys 0 and 1, such as a
  pair with string keys.
\<close>

theorem remove_policy_null_pointer:
  "zval_to_as_policy_remove E P z d = None \<longleftrightarrow>
     (\<exists>h g. z = Some (ZArray h) \<and> index_find h OPT_POLICY_GEN = Some (ZArray g) \<and> length g = 2 \<and>
       (index_find g 0 = None \<or> index_find g 1 = None))"
proof
  assume crash: "zval_to_as_policy_remove E P z d = None"
  then obtain h where z: "z = Some (ZArray h)" using remove_conv.conv_crash by blast
  with crash have "\<exists>p. remove_policy_gen E h p = None"
    by (auto simp: zval_to_as_policy_remove_def Let_def split: option.splits as_status.splits)
  with z show "\<exists>h g. z = Some (ZArray h) \<and> index_find h OPT_POLICY_GEN = Some (ZArray g) \<and>
      length g = 2 \<and> (index_find g 0 = None \<or> index_find g 1 = None)"
    by (simp add: remove_policy_gen_None)
next
  assume "\<exists>h g. z = Some (ZArray h) \<and> index_find h OPT_POLICY_GEN = Some (ZArray g) \<and>
      length g = 2 \<and> (index_find g 0 = None \<or> index_find g 1 = None)"
  then obtain h where z: "z = Some (ZArray h)" and "\<And>p. remove_policy_gen E h p = None"
    by (auto simp: remove_policy_gen_None)
  then show "zval_to_as_policy_remove E P z d = None"
    by (simp add: zval_to_as_policy_remove_def Let_def)
qed



section \<open>Map policies and query options\<close>


text \<open>
  The option that asks for a query without bins: the flag becomes what the engine happens
  to hold in the integer payload of a boolean value, for true and for false alike, so no value
  of the option decides it.
\<close>

theorem query_no_bins_payload:
  assumes "index_find h OPT_QUERY_NOBINS = Some v" and "is_bool v"
  shows "set_query_options_from_policy_hash E q (Some (ZArray h)) =
    (AEROSPIKE_OK, q\<lparr>q_no_bins := (raw_lval E v \<noteq> 0)\<rparr>)"
  using assms
  by (auto simp: set_query_options_from_policy_hash_def Z_LVAL_def is_bool_def)

theorem query_no_bins_payload_witness:
  "set_query_options_from_policy_hash sample_ext \<lparr>q_no_bins = False\<rparr>
     (Some (ZArray [(IKey OPT_QUERY_NOBINS, ZTrue)])) = (AEROSPIKE_OK, \<lparr>q_no_bins = False\<rparr>)"
  using query_no_bins_payload [of "[(IKey OPT_QUERY_NOBINS, ZTrue)]" ZTrue sample_ext
      "\<lparr>q_no_bins = False\<rparr>"]
  by (simp add: is_bool_def sample_ext_def)

end
