(* ===== verification/Predicates.thy ===== *)
theory Predicates
  imports Policies
begin

text \<open>
  \<open>predicate.c\<close> and the helpers of \<open>query.c\<close>: the arrays the \<open>Aerospike::predicate*\<close> methods
  build, and the where clause a query gets from such an array.
\<close>

section \<open>Queries\<close>

datatype index_kind = LIST | MAPKEYS | MAPVALUES

text \<open>The predicate macros of the C client, by their names and arguments.\<close>

datatype where_predicate =
    IntegerEquals zlong
  | StringEquals string
  | IntegerRange zlong zlong
  | ContainsNumeric index_kind zlong
  | ContainsString index_kind string
  | RangeNumeric index_kind zlong zlong
  | GeoWithin string
  | GeoContains string

record as_query = as_query_options +
  q_ns :: string
  q_set :: string
  q_select :: "string list"
  q_where_capacity :: nat
  q_where :: "(string \<times> where_predicate) list"

record query_ext = conv_ext +
  AS_INDEX_TYPE_LIST :: zlong
  AS_INDEX_TYPE_MAPKEYS :: zlong
  AS_INDEX_TYPE_MAPVALUES :: zlong
  query_where_init :: "as_query \<Rightarrow> nat \<Rightarrow> as_query"
  query_where :: "as_query \<Rightarrow> string \<Rightarrow> where_predicate \<Rightarrow> as_query option" \<comment> \<open>\<open>None\<close>: refused\<close>
  json_encode :: "zval \<Rightarrow> zval option" \<comment> \<open>\<open>None\<close>: the call fails\<close>

text \<open>
  A query whose where clause has been given room takes that many predicates on bins with
  names within the limit.
\<close>

definition query_api :: "'e query_ext_scheme \<Rightarrow> bool" where
  "query_api E \<longleftrightarrow>
     (\<forall>q n. q_where_capacity q = 0 \<longrightarrow> query_where_init E q n = q\<lparr>q_where_capacity := n\<rparr>) \<and>
     (\<forall>q bin p. length (q_where q) < q_where_capacity q \<longrightarrow> strlen bin \<le> bin_name_max_len E \<longrightarrow>
        query_where E q bin p = Some (q\<lparr>q_where := q_where q @ [(bin, p)]\<rparr>))"

lemma query_apiD:
  "query_api E \<Longrightarrow> q_where_capacity q = 0 \<Longrightarrow> query_where_init E q n = q\<lparr>q_where_capacity := n\<rparr>"
  "query_api E \<Longrightarrow> length (q_where q) < q_where_capacity q \<Longrightarrow> strlen bin \<le> bin_name_max_len E \<Longrightarrow>
     query_where E q bin p = Some (q\<lparr>q_where := q_where q @ [(bin, p)]\<rparr>)"
  by (simp_all add: query_api_def)

definition index_types_distinct :: "'e query_ext_scheme \<Rightarrow> bool" where
  "index_types_distinct E \<longleftrightarrow>
     distinct [AS_INDEX_TYPE_LIST E, AS_INDEX_TYPE_MAPKEYS E, AS_INDEX_TYPE_MAPVALUES E]"

section \<open>Building predicates\<close>

definition PHP_PREDICATE_EQUAL :: string where "PHP_PREDICATE_EQUAL = ''=''"

definition PHP_PREDICATE_BETWEEN :: string where "PHP_PREDICATE_BETWEEN = ''BETWEEN''"

definition PHP_PREDICATE_CONTAINS :: string where "PHP_PREDICATE_CONTAINS = ''CONTAINS''"

definition PHP_PREDICATE_RANGE :: string where "PHP_PREDICATE_RANGE = ''RANGE''"

definition PHP_PREDICATE_GEO_WITHIN :: string where "PHP_PREDICATE_GEO_WITHIN = ''GEOWITHIN''"

definition PHP_PREDICATE_GEO_CONTAINS :: string where
  "PHP_PREDICATE_GEO_CONTAINS = ''GEOCONTAINS''"

lemmas predicate_op_defs = PHP_PREDICATE_EQUAL_def PHP_PREDICATE_BETWEEN_def
  PHP_PREDICATE_CONTAINS_def PHP_PREDICATE_RANGE_def PHP_PREDICATE_GEO_WITHIN_def
  PHP_PREDICATE_GEO_CONTAINS_def

text \<open>
  The argument is what \<open>zend_parse_parameters\<close> read, \<open>None\<close> when it failed; the result is the
  value the method returns.
\<close>

definition add_next_long :: "htab \<Rightarrow> zlong \<Rightarrow> htab" where
  "add_next_long h n = h @ [(IKey (of_nat (length h)), ZLong n)]"

definition add_next_zval :: "htab \<Rightarrow> zval \<Rightarrow> htab" where
  "add_next_zval h z = h @ [(IKey (of_nat (length h)), z)]"

definition predicateEquals :: "'e conv_ext_scheme \<Rightarrow> (string \<times> zval) option \<Rightarrow> zval" where
  "predicateEquals E args =
     (case args of
        None \<Rightarrow> ZNull
      | Some (bin, v) \<Rightarrow>
          if bin_name_max_len E < length bin then ZNull
          else if \<not> is_string v \<and> \<not> is_long v then ZNull
          else
            (let r = add_assoc_zval E [] ''bin'' (ZString (c_str bin));
                 r = add_assoc_zval E r ''op'' (ZString PHP_PREDICATE_EQUAL);
                 r = add_assoc_zval E r ''val'' v
             in ZArray r))"

definition predicateBetween :: "'e conv_ext_scheme \<Rightarrow> (string \<times> zlong \<times> zlong) option \<Rightarrow> zval" where
  "predicateBetween E args =
     (case args of
        None \<Rightarrow> ZNull
      | Some (bin, lo, hi) \<Rightarrow>
          if bin_name_max_len E < length bin then ZNull
          else
            (let mm = add_next_long (add_next_long [] lo) hi;
                 r = add_assoc_zval E [] ''bin'' (ZString (c_str bin));
                 r = add_assoc_zval E r ''op'' (ZString PHP_PREDICATE_BETWEEN);
                 r = add_assoc_zval E r ''val'' (ZArray mm)
             in ZArray r))"

definition predicateRange ::
  "'e conv_ext_scheme \<Rightarrow> (string \<times> zlong \<times> zlong \<times> zlong) option \<Rightarrow> zval" where
  "predicateRange E args =
     (case args of
        None \<Rightarrow> ZNull
      | Some (bin, index_type, lo, hi) \<Rightarrow>
          if bin_name_max_len E < length bin then ZNull
          else
            (let mm = add_next_long (add_next_long [] lo) hi;
                 r = add_assoc_zval E [] ''bin'' (ZString (c_str bin));
                 r = add_assoc_zval E r ''index_type'' (ZLong index_type);
                 r = add_assoc_zval E r ''op'' (ZString PHP_PREDICATE_RANGE);
                 r = add_assoc_zval E r ''val'' (ZArray mm)
             in ZArray r))"

definition predicateContains :: "'e conv_ext_scheme \<Rightarrow> (string \<times> zlong \<times> zval) option \<Rightarrow> zval" where
  "predicateContains E args =
     (case args of
        None \<Rightarrow> ZNull
      | Some (bin, index_type, v) \<Rightarrow>
          if bin_name_max_len E < length bin then ZNull
          else if \<not> is_string v \<and> \<not> is_long v then ZNull
          else
            (let r = add_assoc_zval E [] ''bin'' (ZString (c_str bin));
                 r = add_assoc_zval E r ''op'' (ZString PHP_PREDICATE_CONTAINS);
                 r = add_assoc_zval E r ''index_type'' (ZLong index_type);
                 r = add_assoc_zval E r ''val'' v
             in ZArray r))"

definition predicateGeoContainsGeoJSONPoint ::
  "'e conv_ext_scheme \<Rightarrow> (string \<times> string) option \<Rightarrow> zval" where
  "predicateGeoContainsGeoJSONPoint E args =
     (case args of
        None \<Rightarrow> ZNull
      | Some (bin, json_point) \<Rightarrow>
          if bin_name_max_len E < length bin then ZNull
          else
            (let r = add_assoc_zval E [] ''bin'' (ZString (c_str bin));
                 r = add_assoc_zval E r ''op'' (ZString PHP_PREDICATE_GEO_CONTAINS);
                 r = add_assoc_zval E r ''val'' (ZString json_point)
             in ZArray r))"

definition predicateGeoWithinGeoJSONRegion ::
  "'e conv_ext_scheme \<Rightarrow> (string \<times> string) option \<Rightarrow> zval" where
  "predicateGeoWithinGeoJSONRegion E args =
     (case args of
        None \<Rightarrow> ZNull
      | Some (bin, json_region) \<Rightarrow>
          if bin_name_max_len E < length bin then ZNull
          else
            (let r = add_assoc_zval E [] ''bin'' (ZString (c_str bin));
                 r = add_assoc_zval E r ''op'' (ZString PHP_PREDICATE_GEO_WITHIN);
                 r = add_assoc_zval E r ''val'' (ZString json_region)
             in ZArray r))"

definition geo_val_to_json :: "'e query_ext_scheme \<Rightarrow> zval \<Rightarrow> as_status \<times> zval" where
  "geo_val_to_json E geo_data =
     (case json_encode E geo_data of
        None \<Rightarrow> (AEROSPIKE_ERR_PARAM, ZNull)
      | Some z \<Rightarrow> (AEROSPIKE_OK, z))"

text \<open>
  The result of \<open>json_encode\<close> is used as a string without a check; \<open>None\<close> stands for reading
  the string of a value that is none (\<open>json_encode\<close> returns false for an infinite coordinate).
\<close>

definition predicateGeoContainsPoint ::
  "'e query_ext_scheme \<Rightarrow> (string \<times> dbl \<times> dbl) option \<Rightarrow> zval option" where
  "predicateGeoContainsPoint E args =
     (case args of
        None \<Rightarrow> Some ZNull
      | Some (bin, lat, longitude) \<Rightarrow>
          if bin_name_max_len E < length bin then Some ZNull
          else
            (let pair = add_next_zval (add_next_zval [] (ZDouble lat)) (ZDouble longitude);
                 geo = add_assoc_zval E (add_assoc_zval E [] ''type'' (ZString ''Point''))
                         ''coordinates'' (ZArray pair)
             in
             case geo_val_to_json E (ZArray geo) of
               (st, json) \<Rightarrow>
                 if st \<noteq> AEROSPIKE_OK then Some ZNull
                 else
                   (case json of
                      ZString s \<Rightarrow>
                        (let r = add_assoc_zval E [] ''bin'' (ZString (c_str bin));
                             r = add_assoc_zval E r ''op'' (ZString PHP_PREDICATE_GEO_CONTAINS);
                             r = add_assoc_zval E r ''val'' (ZString s)
                         in Some (ZArray r))
                    | _ \<Rightarrow> None)))"

definition predicateGeoWithinRadius ::
  "'e query_ext_scheme \<Rightarrow> (string \<times> dbl \<times> dbl \<times> dbl) option \<Rightarrow> zval option" where
  "predicateGeoWithinRadius E args =
     (case args of
        None \<Rightarrow> Some ZNull
      | Some (bin, lat, longitude, radius) \<Rightarrow>
          if bin_name_max_len E < length bin then Some ZNull
          else
            (let pair = add_next_zval (add_next_zval [] (ZDouble lat)) (ZDouble longitude);
                 coordinates = add_next_zval (add_next_zval [] (ZArray pair)) (ZDouble radius);
                 geo = add_assoc_zval E (add_assoc_zval E [] ''type'' (ZString ''AeroCircle''))
                         ''coordinates'' (ZArray coordinates)
             in
             case geo_val_to_json E (ZArray geo) of
               (st, json) \<Rightarrow>
                 if st \<noteq> AEROSPIKE_OK then Some ZNull
                 else
                   (case json of
                      ZString s \<Rightarrow>
                        (let r = add_assoc_zval E [] ''bin'' (ZString (c_str bin));
                             r = add_assoc_zval E r ''op'' (ZString PHP_PREDICATE_GEO_CONTAINS);
                             r = add_assoc_zval E r ''val'' (ZString s)
                         in Some (ZArray r))
                    | _ \<Rightarrow> None)))"

section \<open>From the array to the where clause\<close>

text \<open>
  Every helper returns its status, the query and the error structure. A predicate the C client
  refuses leaves the query as it was.
\<close>

definition get_min_max_from_zval :: "zval \<Rightarrow> as_error \<Rightarrow> (zlong \<times> zlong) option \<times> as_error" where
  "get_min_max_from_zval v err =
     (let fail = \<lambda>m. (None, as_error_update err AEROSPIKE_ERR_PARAM m) in
      case v of
        ZArray h \<Rightarrow>
          if length h \<noteq> 2 then fail ''val entry for predicate must contain exactly 2 entries''
          else if \<not> hashtable_is_list h then fail ''val entry for predicate must be a list''
          else
            (case index_find h 0 of
               None \<Rightarrow> fail ''Failed to find min entry''
             | Some (ZLong lo) \<Rightarrow>
                 (case index_find h 1 of
                    None \<Rightarrow> fail ''Failed to find max entry''
                  | Some (ZLong hi) \<Rightarrow> (Some (lo, hi), err)
                  | Some _ \<Rightarrow> fail ''max entry must be an integer'')
             | Some _ \<Rightarrow> fail ''min entry must be an integer'')
      | _ \<Rightarrow> fail ''val entry for predicate must be an array'')"

definition add_equal_predicate_to_query ::
  "'e query_ext_scheme \<Rightarrow> as_query \<Rightarrow> string \<Rightarrow> zval \<Rightarrow> as_error \<Rightarrow> as_status \<times> as_query \<times> as_error"
where
  "add_equal_predicate_to_query E q bin v err =
     (case v of
        ZLong n \<Rightarrow>
          (case query_where E q (c_str bin) (IntegerEquals n) of
             Some q' \<Rightarrow> (AEROSPIKE_OK, q', err)
           | None \<Rightarrow> (AEROSPIKE_OK, q, as_error_update err AEROSPIKE_ERR_CLIENT
                        ''Unable to add predicate''))
      | ZString s \<Rightarrow>
          (case query_where E q (c_str bin) (StringEquals (c_str s)) of
             Some q' \<Rightarrow> (AEROSPIKE_OK, q', err)
           | None \<Rightarrow> (AEROSPIKE_OK, q, as_error_update err AEROSPIKE_ERR_CLIENT
                        ''Unable to add predicate''))
      | _ \<Rightarrow> (AEROSPIKE_OK, q, as_error_update err AEROSPIKE_ERR_PARAM
               ''Invalid value for equality predicate''))"

definition add_between_predicate_to_query ::
  "'e query_ext_scheme \<Rightarrow> as_query \<Rightarrow> string \<Rightarrow> zval \<Rightarrow> as_error \<Rightarrow> as_status \<times> as_query \<times> as_error"
where
  "add_between_predicate_to_query E q bin v err =
     (case get_min_max_from_zval v err of
        (Some (lo, hi), e) \<Rightarrow>
          if code e \<noteq> AEROSPIKE_OK then (code e, q, e)
          else
            (case query_where E q (c_str bin) (IntegerRange lo hi) of
               Some q' \<Rightarrow> (AEROSPIKE_OK, q', e)
             | None \<Rightarrow> (AEROSPIKE_ERR_PARAM, q,
                 as_error_update e AEROSPIKE_ERR_PARAM ''Unable to add predicate''))
      | (None, e) \<Rightarrow> (code e, q, e))"

text \<open>The three \<open>add_*_contains_predicate_to_query\<close> and \<open>add_*_range_predicate_to_query\<close>.\<close>

definition add_kind_contains_predicate_to_query ::
  "'e query_ext_scheme \<Rightarrow> index_kind \<Rightarrow> as_query \<Rightarrow> string \<Rightarrow> zval \<Rightarrow> as_error \<Rightarrow>
     as_status \<times> as_query \<times> as_error" where
  "add_kind_contains_predicate_to_query E kind q bin v err =
     (case v of
        ZLong n \<Rightarrow>
          (case query_where E q (c_str bin) (ContainsNumeric kind n) of
             Some q' \<Rightarrow> (AEROSPIKE_OK, q', err)
           | None \<Rightarrow> (AEROSPIKE_OK, q, as_error_update err AEROSPIKE_ERR_CLIENT
                        ''Unable to add predicate''))
      | ZString s \<Rightarrow>
          (case query_where E q (c_str bin) (ContainsString kind (c_str s)) of
             Some q' \<Rightarrow> (AEROSPIKE_OK, q', err)
           | None \<Rightarrow> (AEROSPIKE_OK, q, as_error_update err AEROSPIKE_ERR_CLIENT
                        ''Unable to add predicate''))
      | _ \<Rightarrow> (AEROSPIKE_OK, q, as_error_update err AEROSPIKE_ERR_PARAM
               ''Invalid value for equality predicate''))"

definition add_kind_range_predicate_to_query ::
  "'e query_ext_scheme \<Rightarrow> index_kind \<Rightarrow> as_query \<Rightarrow> string \<Rightarrow> zlong \<Rightarrow> zlong \<Rightarrow> as_error \<Rightarrow>
     as_status \<times> as_query \<times> as_error" where
  "add_kind_range_predicate_to_query E kind q bin lo hi err =
     (case query_where E q (c_str bin) (RangeNumeric kind lo hi) of
        Some q' \<Rightarrow> (AEROSPIKE_OK, q', err)
      | None \<Rightarrow> (AEROSPIKE_ERR_CLIENT, q, as_error_update err AEROSPIKE_ERR_CLIENT
                   ''Unable to add range predicate''))"

definition add_contains_predicate_to_query ::
  "'e query_ext_scheme \<Rightarrow> as_query \<Rightarrow> string \<Rightarrow> zlong \<Rightarrow> zval \<Rightarrow> as_error \<Rightarrow>
     as_status \<times> as_query \<times> as_error" where
  "add_contains_predicate_to_query E q bin index_type v err =
     (if index_type = AS_INDEX_TYPE_LIST E then
        add_kind_contains_predicate_to_query E LIST q bin v err
      else if index_type = AS_INDEX_TYPE_MAPKEYS E then
        add_kind_contains_predicate_to_query E MAPKEYS q bin v err
      else if index_type = AS_INDEX_TYPE_MAPVALUES E then
        add_kind_contains_predicate_to_query E MAPVALUES q bin v err
      else (AEROSPIKE_ERR_PARAM, q, as_error_update err AEROSPIKE_ERR_PARAM ''Invalid Index type''))"

definition add_range_predicate_to_query ::
  "'e query_ext_scheme \<Rightarrow> as_query \<Rightarrow> string \<Rightarrow> zlong \<Rightarrow> zval \<Rightarrow> as_error \<Rightarrow>
     as_status \<times> as_query \<times> as_error" where
  "add_range_predicate_to_query E q bin index_type v err =
     (case get_min_max_from_zval v err of
        (Some (lo, hi), e) \<Rightarrow>
          if code e \<noteq> AEROSPIKE_OK then (code e, q, e)
          else if index_type = AS_INDEX_TYPE_LIST E then
            add_kind_range_predicate_to_query E LIST q bin lo hi e
          else if index_type = AS_INDEX_TYPE_MAPKEYS E then
            add_kind_range_predicate_to_query E MAPKEYS q bin lo hi e
          else if index_type = AS_INDEX_TYPE_MAPVALUES E then
            add_kind_range_predicate_to_query E MAPVALUES q bin lo hi e
          else (AEROSPIKE_ERR_PARAM, q, as_error_update e AEROSPIKE_ERR_PARAM ''Invalid Index type'')
      | (None, e) \<Rightarrow> (code e, q, e))"

definition add_geo_within_predicate_to_query ::
  "'e query_ext_scheme \<Rightarrow> as_query \<Rightarrow> string \<Rightarrow> zval \<Rightarrow> as_error \<Rightarrow> as_status \<times> as_query \<times> as_error"
where
  "add_geo_within_predicate_to_query E q bin v err =
     (case v of
        ZString s \<Rightarrow>
          (case query_where E q (c_str bin) (GeoWithin (c_str s)) of
             Some q' \<Rightarrow> (code err, q', err)
           | None \<Rightarrow> (AEROSPIKE_ERR_CLIENT, q, as_error_update err AEROSPIKE_ERR_CLIENT
                        ''Unable to add predicate''))
      | _ \<Rightarrow> (AEROSPIKE_ERR_CLIENT, q, as_error_update err AEROSPIKE_ERR_CLIENT
               ''GeoJSON region must be a string''))"

definition add_geo_contains_predicate_to_query ::
  "'e query_ext_scheme \<Rightarrow> as_query \<Rightarrow> string \<Rightarrow> zval \<Rightarrow> as_error \<Rightarrow> as_status \<times> as_query \<times> as_error"
where
  "add_geo_contains_predicate_to_query E q bin v err =
     (case v of
        ZString s \<Rightarrow>
          (case query_where E q (c_str bin) (GeoContains (c_str s)) of
             Some q' \<Rightarrow> (code err, q', err)
           | None \<Rightarrow> (AEROSPIKE_ERR_CLIENT, q, as_error_update err AEROSPIKE_ERR_CLIENT
                        ''Unable to add predicate''))
      | _ \<Rightarrow> (AEROSPIKE_ERR_CLIENT, q, as_error_update err AEROSPIKE_ERR_CLIENT
               ''GeoJSON point must be a string''))"

text \<open>The entries of the predicate array, or the message of the first that is missing or wrong.\<close>

definition predicate_entries :: "htab \<Rightarrow> string + (string \<times> string \<times> zval)" where
  "predicate_entries h =
     (if length h < 3 then Inl ''Invalid predicate length''
      else
        (case str_find h ''bin'' of
           None \<Rightarrow> Inl ''Predicate missing bin entry''
         | Some (ZString bin) \<Rightarrow>
             (case str_find h ''op'' of
                None \<Rightarrow> Inl ''Predicate missing op entry''
              | Some (ZString op_str) \<Rightarrow>
                  (case str_find h ''val'' of
                     None \<Rightarrow> Inl ''Predicate missing val entry''
                   | Some v \<Rightarrow> Inr (bin, op_str, v))
              | Some _ \<Rightarrow> Inl ''Invalid op name'')
         | Some _ \<Rightarrow> Inl ''Bin name must be a string''))"

definition predicate_index_type :: "htab \<Rightarrow> string + zlong" where
  "predicate_index_type h =
     (case str_find h ''index_type'' of
        None \<Rightarrow> Inl ''Contains predicate requires index_type''
      | Some (ZLong n) \<Rightarrow> Inr n
      | Some _ \<Rightarrow> Inl ''Invalid index_type'')"

definition add_predicate_to_query ::
  "'e query_ext_scheme \<Rightarrow> as_query \<Rightarrow> htab \<Rightarrow> as_error \<Rightarrow> as_status \<times> as_query \<times> as_error" where
  "add_predicate_to_query E q h err =
     (let fail = \<lambda>q m. (AEROSPIKE_ERR_PARAM, q, as_error_update err AEROSPIKE_ERR_PARAM m) in
      case predicate_entries h of
        Inl m \<Rightarrow> fail q m
      | Inr (bin, op_str, v) \<Rightarrow>
          (let q = query_where_init E q 1 in
           if strcmp0 op_str PHP_PREDICATE_EQUAL then add_equal_predicate_to_query E q bin v err
           else if strcmp0 op_str PHP_PREDICATE_BETWEEN then
             add_between_predicate_to_query E q bin v err
           else if strcmp0 op_str PHP_PREDICATE_CONTAINS then
             (case predicate_index_type h of
                Inl m \<Rightarrow> fail q m
              | Inr n \<Rightarrow> add_contains_predicate_to_query E q bin n v err)
           else if strcmp0 op_str PHP_PREDICATE_RANGE then
             (case predicate_index_type h of
                Inl m \<Rightarrow> fail q m
              | Inr n \<Rightarrow> add_range_predicate_to_query E q bin n v err)
           else if strcmp0 op_str PHP_PREDICATE_GEO_CONTAINS then
             add_geo_contains_predicate_to_query E q bin v err
           else if strcmp0 op_str PHP_PREDICATE_GEO_WITHIN then
             add_geo_within_predicate_to_query E q bin v err
           else fail q ''Invalid predicate op''))"

end
