(* ===== verification/PredicateProps.thy ===== *)
theory PredicateProps
  imports Predicates SampleApi
begin

text \<open>
  The properties of predicates: what the arrays PHP code gets from the \<open>predicate*\<close> methods
  mean to a query, and which arrays are refused.
\<close>

definition fresh_query :: "as_query \<Rightarrow> bool" where
  "fresh_query q \<longleftrightarrow> q_where_capacity q = 0 \<and> q_where q = []"

definition with_where :: "as_query \<Rightarrow> string \<Rightarrow> where_predicate \<Rightarrow> as_query" where
  "with_where q bin p = q\<lparr>q_where_capacity := 1, q_where := [(bin, p)]\<rparr>"

lemma query_where_one:
  assumes "query_api E" "fresh_query q" "strlen bin \<le> bin_name_max_len E"
  shows "query_where E (query_where_init E q 1) bin p = Some (with_where q bin p)"
  using assms by (simp add: query_apiD fresh_query_def with_where_def)

lemma op_names_nul_free [simp]:
  "nul_free PHP_PREDICATE_EQUAL" "nul_free PHP_PREDICATE_BETWEEN" "nul_free PHP_PREDICATE_CONTAINS"
  "nul_free PHP_PREDICATE_RANGE" "nul_free PHP_PREDICATE_GEO_WITHIN"
  "nul_free PHP_PREDICATE_GEO_CONTAINS"
  by (simp_all add: predicate_op_defs nul_free_def NUL_def)

lemma min_max_pair [simp]:
  "get_min_max_from_zval (ZArray (add_next_long (add_next_long [] lo) hi)) err = (Some (lo, hi), err)"
  by (simp add: get_min_max_from_zval_def add_next_long_def hashtable_is_list_def Let_def)

lemma strcmp0_ops [simp]:
  "strcmp0 PHP_PREDICATE_BETWEEN PHP_PREDICATE_EQUAL = False"
  "strcmp0 PHP_PREDICATE_CONTAINS PHP_PREDICATE_EQUAL = False"
  "strcmp0 PHP_PREDICATE_CONTAINS PHP_PREDICATE_BETWEEN = False"
  "strcmp0 PHP_PREDICATE_RANGE PHP_PREDICATE_EQUAL = False"
  "strcmp0 PHP_PREDICATE_RANGE PHP_PREDICATE_BETWEEN = False"
  "strcmp0 PHP_PREDICATE_RANGE PHP_PREDICATE_CONTAINS = False"
  "strcmp0 PHP_PREDICATE_GEO_CONTAINS PHP_PREDICATE_EQUAL = False"
  "strcmp0 PHP_PREDICATE_GEO_CONTAINS PHP_PREDICATE_BETWEEN = False"
  "strcmp0 PHP_PREDICATE_GEO_CONTAINS PHP_PREDICATE_CONTAINS = False"
  "strcmp0 PHP_PREDICATE_GEO_CONTAINS PHP_PREDICATE_RANGE = False"
  "strcmp0 PHP_PREDICATE_GEO_WITHIN PHP_PREDICATE_EQUAL = False"
  "strcmp0 PHP_PREDICATE_GEO_WITHIN PHP_PREDICATE_BETWEEN = False"
  "strcmp0 PHP_PREDICATE_GEO_WITHIN PHP_PREDICATE_CONTAINS = False"
  "strcmp0 PHP_PREDICATE_GEO_WITHIN PHP_PREDICATE_RANGE = False"
  "strcmp0 PHP_PREDICATE_GEO_WITHIN PHP_PREDICATE_GEO_CONTAINS = False"
  by (simp_all add: strcmp0_def) (simp_all add: predicate_op_defs)

text \<open>
  What each builder's array makes of a query that has no where clause yet: the array, and the
  query with exactly the one predicate.
\<close>

definition builds :: "'e query_ext_scheme \<Rightarrow> as_query \<Rightarrow> string \<Rightarrow> zval \<Rightarrow> where_predicate \<Rightarrow> bool" where
  "builds E q bin z p \<longleftrightarrow>
     (\<exists>h. z = ZArray h \<and>
        (\<forall>err. code err = AEROSPIKE_OK \<longrightarrow>
           add_predicate_to_query E q h err = (AEROSPIKE_OK, with_where q bin p, err)))"

lemmas builder_simps = add_predicate_to_query_def predicate_entries_def predicate_index_type_def
  add_equal_predicate_to_query_def add_between_predicate_to_query_def
  add_contains_predicate_to_query_def add_range_predicate_to_query_def
  add_kind_contains_predicate_to_query_def add_kind_range_predicate_to_query_def
  add_geo_within_predicate_to_query_def add_geo_contains_predicate_to_query_def
  add_assoc_zval_def Let_def

fun index_type_of :: "'e query_ext_scheme \<Rightarrow> index_kind \<Rightarrow> zlong" where
  "index_type_of E LIST = AS_INDEX_TYPE_LIST E"
| "index_type_of E MAPKEYS = AS_INDEX_TYPE_MAPKEYS E"
| "index_type_of E MAPVALUES = AS_INDEX_TYPE_MAPVALUES E"

lemma builders:
  assumes E: "query_api E" "fresh_query q" and kw: "keywords_plain E"
    and bin: "nul_free bin" "length bin \<le> bin_name_max_len E"
    and kinds: "index_types_distinct E"
  shows "builds E q bin (predicateEquals E (Some (bin, ZLong n))) (IntegerEquals n)"
    "nul_free s \<Longrightarrow> builds E q bin (predicateEquals E (Some (bin, ZString s))) (StringEquals s)"
    "builds E q bin (predicateBetween E (Some (bin, lo, hi))) (IntegerRange lo hi)"
    "builds E q bin (predicateRange E (Some (bin, index_type_of E k, lo, hi))) (RangeNumeric k lo hi)"
    "builds E q bin (predicateContains E (Some (bin, index_type_of E k, ZLong n)))
       (ContainsNumeric k n)"
    "nul_free s \<Longrightarrow> builds E q bin (predicateContains E (Some (bin, index_type_of E k, ZString s)))
       (ContainsString k s)"
    "nul_free s \<Longrightarrow> builds E q bin (predicateGeoContainsGeoJSONPoint E (Some (bin, s))) (GeoContains s)"
    "nul_free s \<Longrightarrow> builds E q bin (predicateGeoWithinGeoJSONRegion E (Some (bin, s))) (GeoWithin s)"
proof -
  from kinds have k': "AS_INDEX_TYPE_MAPKEYS E \<noteq> AS_INDEX_TYPE_LIST E"
      "AS_INDEX_TYPE_MAPVALUES E \<noteq> AS_INDEX_TYPE_LIST E"
      "AS_INDEX_TYPE_MAPVALUES E \<noteq> AS_INDEX_TYPE_MAPKEYS E"
    by (auto simp: index_types_distinct_def)
  note w = query_where_one [OF E, of bin]
  note s = assoc_keywords [OF kw] builds_def builder_simps not_less
  show "builds E q bin (predicateEquals E (Some (bin, ZLong n))) (IntegerEquals n)"
    using bin w by (simp add: s predicateEquals_def)
  show "builds E q bin (predicateBetween E (Some (bin, lo, hi))) (IntegerRange lo hi)"
    using bin w by (simp add: s predicateBetween_def)
  show "builds E q bin (predicateRange E (Some (bin, index_type_of E k, lo, hi)))
      (RangeNumeric k lo hi)"
    using bin w k' by (cases k) (simp_all add: s predicateRange_def)
  show "builds E q bin (predicateContains E (Some (bin, index_type_of E k, ZLong n)))
      (ContainsNumeric k n)"
    using bin w k' by (cases k) (simp_all add: s predicateContains_def)
  assume "nul_free s"
  then show "builds E q bin (predicateEquals E (Some (bin, ZString s))) (StringEquals s)"
    using bin w by (simp add: s predicateEquals_def)
  show "builds E q bin (predicateContains E (Some (bin, index_type_of E k, ZString s)))
      (ContainsString k s)"
    using bin w k' \<open>nul_free s\<close> by (cases k) (simp_all add: s predicateContains_def)
  show "builds E q bin (predicateGeoContainsGeoJSONPoint E (Some (bin, s))) (GeoContains s)"
    using bin w \<open>nul_free s\<close> by (simp add: s predicateGeoContainsGeoJSONPoint_def)
  show "builds E q bin (predicateGeoWithinGeoJSONRegion E (Some (bin, s))) (GeoWithin s)"
    using bin w \<open>nul_free s\<close> by (simp add: s predicateGeoWithinGeoJSONRegion_def)
qed

text \<open>
  C26. The arrays of the predicate builders mean to a query what they say: on a NUL-free bin
  name within the limit, \<open>predicateEquals\<close>, \<open>predicateBetween\<close>, \<open>predicateRange\<close> and
  \<open>predicateContains\<close> (for lists, map keys and map values) and the GeoJSON builders give the
  query exactly one predicate, of that kind, on that bin, with those values.
\<close>

theorem predicates_reach_query:
  assumes "query_api E" "fresh_query q" "keywords_plain E" "index_types_distinct E"
    and "nul_free bin" "length bin \<le> bin_name_max_len E" and "nul_free s"
  shows "builds E q bin (predicateEquals E (Some (bin, ZLong n))) (IntegerEquals n) \<and>
    builds E q bin (predicateEquals E (Some (bin, ZString s))) (StringEquals s) \<and>
    builds E q bin (predicateBetween E (Some (bin, lo, hi))) (IntegerRange lo hi) \<and>
    builds E q bin (predicateRange E (Some (bin, index_type_of E k, lo, hi))) (RangeNumeric k lo hi) \<and>
    builds E q bin (predicateContains E (Some (bin, index_type_of E k, ZLong n)))
      (ContainsNumeric k n) \<and>
    builds E q bin (predicateContains E (Some (bin, index_type_of E k, ZString s)))
      (ContainsString k s) \<and>
    builds E q bin (predicateGeoContainsGeoJSONPoint E (Some (bin, s))) (GeoContains s) \<and>
    builds E q bin (predicateGeoWithinGeoJSONRegion E (Some (bin, s))) (GeoWithin s)"
  using builders [of E q bin] assms by blast

definition sample_query_ext :: query_ext where
  "sample_query_ext = conv_ext.extend sample_ext \<lparr>
     AS_INDEX_TYPE_LIST = 1, AS_INDEX_TYPE_MAPKEYS = 2, AS_INDEX_TYPE_MAPVALUES = 3,
     query_where_init = (\<lambda>q n. if q_where_capacity q = 0 then q\<lparr>q_where_capacity := n\<rparr> else q),
     query_where = (\<lambda>q bin p. if length (q_where q) < q_where_capacity q \<and> strlen bin \<le> 15
       then Some (q\<lparr>q_where := q_where q @ [(bin, p)]\<rparr>) else None),
     json_encode = (\<lambda>z. Some (ZString ''{}''))\<rparr>"

lemma sample_query_api [simp]: "query_api sample_query_ext"
  by (simp add: query_api_def sample_query_ext_def sample_ext_def conv_ext.defs)

lemma sample_query_keywords [simp]: "keywords_plain sample_query_ext"
  using sample_keywords
  by (simp add: keywords_plain_def sample_query_ext_def sample_ext_def conv_ext.defs)

lemma sample_query_fields [simp]:
  "bin_name_max_len sample_query_ext = 15" "index_types_distinct sample_query_ext"
  "json_encode sample_query_ext z = Some (ZString ''{}'')"
  by (simp_all add: index_types_distinct_def sample_query_ext_def sample_ext_def conv_ext.defs)

definition sample_new_query :: as_query where
  "sample_new_query = \<lparr>q_no_bins = False, q_ns = ''test'', q_set = ''users'', q_select = [],
     q_where_capacity = 0, q_where = []\<rparr>"

lemma sample_fresh [simp]: "fresh_query sample_new_query"
  by (simp add: fresh_query_def sample_new_query_def)

theorem predicates_reach_query_witness:
  "builds sample_query_ext sample_new_query ''age''
     (predicateEquals sample_query_ext (Some (''age'', ZLong 30))) (IntegerEquals 30)"
  by (rule predicates_reach_query [where s = "''x''", THEN conjunct1])
    (simp_all add: nul_free_def NUL_def)

text \<open>
  The predicate for the points within a radius is not that: the array
  \<open>predicateGeoWithinRadius\<close> returns asks the query for the regions that contain the circle.
\<close>

theorem within_radius_asks_contains:
  assumes "query_api E" "fresh_query q" and kw: "keywords_plain E"
    and "nul_free bin" "length bin \<le> bin_name_max_len E"
    and json: "\<forall>z. \<exists>s. json_encode E z = Some (ZString s) \<and> nul_free s"
  shows "\<exists>z s. predicateGeoWithinRadius E (Some (bin, lat, longitude, radius)) = Some z \<and>
    builds E q bin z (GeoContains s)"
proof -
  let ?pair = "add_next_zval (add_next_zval [] (ZDouble lat)) (ZDouble longitude)"
  let ?geo = "add_assoc_zval E (add_assoc_zval E [] ''type'' (ZString ''AeroCircle''))
    ''coordinates'' (ZArray (add_next_zval (add_next_zval [] (ZArray ?pair)) (ZDouble radius)))"
  obtain s where s: "json_encode E (ZArray ?geo) = Some (ZString s)" "nul_free s"
    using json by blast
  then have "predicateGeoWithinRadius E (Some (bin, lat, longitude, radius)) =
      Some (predicateGeoContainsGeoJSONPoint E (Some (bin, s)))"
    using assms(5)
    by (simp add: predicateGeoWithinRadius_def predicateGeoContainsGeoJSONPoint_def
        geo_val_to_json_def Let_def not_less)
  moreover have "builds E q bin (predicateGeoContainsGeoJSONPoint E (Some (bin, s))) (GeoContains s)"
    using assms(1-5) s query_where_one [OF assms(1,2), of bin]
    by (simp add: builds_def assoc_keywords [OF kw] builder_simps not_less
        predicateGeoContainsGeoJSONPoint_def)
  ultimately show ?thesis by blast
qed

theorem within_radius_asks_contains_witness:
  "\<exists>z s. predicateGeoWithinRadius sample_query_ext (Some (''loc'', 1, 2, 3)) = Some z \<and>
    builds sample_query_ext sample_new_query ''loc'' z (GeoContains s)"
  by (rule within_radius_asks_contains) (simp_all add: nul_free_def NUL_def)













end
