(* ===== verification/Operate.thy ===== *)
theory Operate
  imports Policies ToServer
begin

text \<open>
  \<open>operate.c\<close>: the operations of \<open>Aerospike::operate\<close> and \<open>Aerospike::operateOrdered\<close>, from the
  PHP array that describes one to the call of the C client that adds it. Adding an operation
  is the C client's and a parameter; an operation is named after that call. The operations are
  grouped as the code groups them.
\<close>

section \<open>Operations\<close>

datatype basic_op =
    OpWrite string as_val
  | OpRead string
  | OpIncr string zlong
  | OpIncrDouble string dbl
  | OpPrependStr string string
  | OpAppendStr string string
  | OpDelete
  | OpTouch

datatype list_op =
    OpListAppend string as_val
  | OpListAppendItems string "as_list option" \<comment> \<open>\<open>None\<close>: a null list\<close>
  | OpListInsert string zlong as_val
  | OpListInsertItems string zlong "as_list option"
  | OpListPop string zlong
  | OpListPopRange string zlong zlong
  | OpListRemove string zlong
  | OpListRemoveRange string zlong zlong
  | OpListClear string
  | OpListSet string zlong as_val
  | OpListGet string zlong
  | OpListGetRange string zlong zlong
  | OpListTrim string zlong zlong
  | OpListSize string

datatype map_update_op =
    OpMapSetPolicy string as_map_policy
  | OpMapPut string as_map_policy as_val as_val
  | OpMapPutItems string as_map_policy as_map
  | OpMapIncrement string as_map_policy as_val as_val
  | OpMapDecrement string as_map_policy as_val as_val
  | OpMapSize string
  | OpMapClear string

datatype map_remove_op =
    OpMapRemoveByKey string as_val u32
  | OpMapRemoveByKeyList string as_list u32
  | OpMapRemoveByKeyRange string as_val as_val u32
  | OpMapRemoveByValue string as_val u32
  | OpMapRemoveByValueList string as_list u32
  | OpMapRemoveByValueRange string as_val as_val u32
  | OpMapRemoveByIndex string zlong u32
  | OpMapRemoveByIndexRange string zlong zlong u32
  | OpMapRemoveByRank string zlong u32
  | OpMapRemoveByRankRange string zlong zlong u32

datatype map_get_op =
    OpMapGetByKey string as_val u32
  | OpMapGetByKeyRange string as_val as_val u32
  | OpMapGetByValue string as_val u32
  | OpMapGetByValueRange string as_val as_val u32
  | OpMapGetByIndex string zlong u32
  | OpMapGetByIndexRange string zlong zlong u32
  | OpMapGetByRank string zlong u32
  | OpMapGetByRankRange string zlong zlong u32

datatype as_binop =
    BasicOp basic_op
  | ListOp list_op
  | MapUpdateOp map_update_op
  | MapRemoveOp map_remove_op
  | MapGetOp map_get_op

type_synonym operations = "as_binop as_operations"

datatype numeric = NumLong zlong | NumDouble dbl

record operate_ext = conv_ext +
  AS_OPERATOR_WRITE :: cint
  AS_OPERATOR_READ :: cint
  AS_OPERATOR_INCR :: cint
  AS_OPERATOR_PREPEND :: cint
  AS_OPERATOR_APPEND :: cint
  AS_OPERATOR_TOUCH :: cint
  AS_OPERATOR_DELETE :: cint
  map_enums :: map_consts
  is_numeric_string :: "string \<Rightarrow> numeric option"
  add_binop :: "operations \<Rightarrow> as_binop \<Rightarrow> operations option" \<comment> \<open>\<open>None\<close>: refused\<close>

definition binop_api :: "'e operate_ext_scheme \<Rightarrow> bool" where
  "binop_api E \<longleftrightarrow> (\<forall>ops b. length (ops_binops ops) < ops_capacity ops \<longrightarrow>
     add_binop E ops b = Some (ops\<lparr>ops_binops := ops_binops ops @ [b]\<rparr>))"

lemma binop_apiD:
  "binop_api E \<Longrightarrow> length (ops_binops ops) < ops_capacity ops \<Longrightarrow>
     add_binop E ops b = Some (ops\<lparr>ops_binops := ops_binops ops @ [b]\<rparr>)"
  by (simp add: binop_api_def)

section \<open>What an operation requires\<close>

definition op_requires_bin :: "'e operate_ext_scheme \<Rightarrow> cint \<Rightarrow> bool" where
  "op_requires_bin E op_type \<longleftrightarrow>
     op_type \<noteq> AS_OPERATOR_DELETE E"

definition op_requires_val :: "'e operate_ext_scheme \<Rightarrow> cint \<Rightarrow> bool" where
  "op_requires_val E op_type \<longleftrightarrow>
     op_type \<noteq> AS_OPERATOR_TOUCH E \<and>
     op_type \<noteq> OP_LIST_CLEAR \<and>
     op_type \<noteq> AS_OPERATOR_READ E \<and>
     op_type \<noteq> OP_LIST_SIZE \<and>
     op_type \<noteq> OP_LIST_POP \<and>
     op_type \<noteq> OP_LIST_REMOVE \<and>
     op_type \<noteq> OP_LIST_GET \<and>
     op_type \<noteq> OP_MAP_SIZE \<and>
     op_type \<noteq> OP_MAP_CLEAR \<and>
     op_type \<noteq> AS_OPERATOR_DELETE E"

definition op_is_map_op :: "cint \<Rightarrow> bool" where
  "op_is_map_op op_type \<longleftrightarrow>
     op_type = OP_MAP_SET_POLICY \<or>
     op_type = OP_MAP_PUT \<or>
     op_type = OP_MAP_PUT_ITEMS \<or>
     op_type = OP_MAP_INCREMENT \<or>
     op_type = OP_MAP_DECREMENT \<or>
     op_type = OP_MAP_SIZE \<or>
     op_type = OP_MAP_CLEAR \<or>
     op_type = OP_MAP_REMOVE_BY_KEY \<or>
     op_type = OP_MAP_REMOVE_BY_KEY_LIST \<or>
     op_type = OP_MAP_REMOVE_BY_KEY_RANGE \<or>
     op_type = OP_MAP_REMOVE_BY_VALUE \<or>
     op_type = OP_MAP_REMOVE_BY_VALUE_LIST \<or>
     op_type = OP_MAP_REMOVE_BY_VALUE_RANGE \<or>
     op_type = OP_MAP_REMOVE_BY_INDEX \<or>
     op_type = OP_MAP_REMOVE_BY_INDEX_RANGE \<or>
     op_type = OP_MAP_REMOVE_BY_RANK \<or>
     op_type = OP_MAP_REMOVE_BY_RANK_RANGE \<or>
     op_type = OP_MAP_GET_BY_KEY \<or>
     op_type = OP_MAP_GET_BY_KEY_RANGE \<or>
     op_type = OP_MAP_GET_BY_VALUE \<or>
     op_type = OP_MAP_GET_BY_VALUE_RANGE \<or>
     op_type = OP_MAP_GET_BY_INDEX \<or>
     op_type = OP_MAP_GET_BY_INDEX_RANGE \<or>
     op_type = OP_MAP_GET_BY_RANK \<or>
     op_type = OP_MAP_GET_BY_RANK_RANGE"

definition op_requires_list_val :: "cint \<Rightarrow> bool" where
  "op_requires_list_val op_type \<longleftrightarrow>
     op_type = OP_LIST_MERGE \<or>
     op_type = OP_LIST_INSERT_ITEMS"

definition op_requires_long_val :: "cint \<Rightarrow> bool" where
  "op_requires_long_val op_type \<longleftrightarrow>
     op_type = OP_LIST_POP_RANGE \<or>
     op_type = OP_LIST_REMOVE_RANGE \<or>
     op_type = OP_LIST_GET_RANGE \<or>
     op_type = OP_LIST_TRIM"

definition op_requires_as_val :: "'e operate_ext_scheme \<Rightarrow> cint \<Rightarrow> bool" where
  "op_requires_as_val E op_type \<longleftrightarrow>
     op_type = OP_LIST_INSERT \<or>
     op_type = OP_LIST_SET \<or>
     op_type = OP_LIST_APPEND \<or>
     op_type = AS_OPERATOR_WRITE E"

definition op_requires_index :: "cint \<Rightarrow> bool" where
  "op_requires_index op_type \<longleftrightarrow>
     op_type = OP_LIST_INSERT \<or>
     op_type = OP_LIST_INSERT_ITEMS \<or>
     op_type = OP_LIST_POP \<or>
     op_type = OP_LIST_POP_RANGE \<or>
     op_type = OP_LIST_REMOVE \<or>
     op_type = OP_LIST_REMOVE_RANGE \<or>
     op_type = OP_LIST_SET \<or>
     op_type = OP_LIST_GET \<or>
     op_type = OP_LIST_GET_RANGE \<or>
     op_type = OP_LIST_TRIM"

definition map_op_requires_key :: "cint \<Rightarrow> bool" where
  "map_op_requires_key op_type \<longleftrightarrow>
     op_type = OP_MAP_PUT \<or>
     op_type = OP_MAP_INCREMENT \<or>
     op_type = OP_MAP_DECREMENT \<or>
     op_type = OP_MAP_REMOVE_BY_KEY \<or>
     op_type = OP_MAP_REMOVE_BY_KEY_LIST \<or>
     op_type = OP_MAP_REMOVE_BY_KEY_RANGE \<or>
     op_type = OP_MAP_GET_BY_KEY \<or>
     op_type = OP_MAP_GET_BY_KEY_RANGE"

definition map_op_requires_val :: "cint \<Rightarrow> bool" where
  "map_op_requires_val op_type \<longleftrightarrow>
     op_type = OP_MAP_PUT \<or>
     op_type = OP_MAP_INCREMENT \<or>
     op_type = OP_MAP_DECREMENT \<or>
     op_type = OP_MAP_REMOVE_BY_VALUE \<or>
     op_type = OP_MAP_REMOVE_BY_VALUE_LIST \<or>
     op_type = OP_MAP_REMOVE_BY_VALUE_RANGE \<or>
     op_type = OP_MAP_GET_BY_VALUE \<or>
     op_type = OP_MAP_GET_BY_VALUE_RANGE \<or>
     op_type = OP_MAP_PUT_ITEMS"

definition map_op_requires_rank :: "cint \<Rightarrow> bool" where
  "map_op_requires_rank op_type \<longleftrightarrow>
     op_type = OP_MAP_REMOVE_BY_RANK \<or>
     op_type = OP_MAP_REMOVE_BY_RANK_RANGE \<or>
     op_type = OP_MAP_GET_BY_RANK \<or>
     op_type = OP_MAP_GET_BY_RANK_RANGE"

definition map_op_requires_return_type :: "cint \<Rightarrow> bool" where
  "map_op_requires_return_type op_type \<longleftrightarrow>
     op_type = OP_MAP_REMOVE_BY_KEY \<or>
     op_type = OP_MAP_REMOVE_BY_KEY_LIST \<or>
     op_type = OP_MAP_REMOVE_BY_KEY_RANGE \<or>
     op_type = OP_MAP_REMOVE_BY_VALUE \<or>
     op_type = OP_MAP_REMOVE_BY_VALUE_LIST \<or>
     op_type = OP_MAP_REMOVE_BY_VALUE_RANGE \<or>
     op_type = OP_MAP_REMOVE_BY_INDEX \<or>
     op_type = OP_MAP_REMOVE_BY_INDEX_RANGE \<or>
     op_type = OP_MAP_REMOVE_BY_RANK \<or>
     op_type = OP_MAP_REMOVE_BY_RANK_RANGE \<or>
     op_type = OP_MAP_GET_BY_KEY \<or>
     op_type = OP_MAP_GET_BY_KEY_RANGE \<or>
     op_type = OP_MAP_GET_BY_VALUE \<or>
     op_type = OP_MAP_GET_BY_VALUE_RANGE \<or>
     op_type = OP_MAP_GET_BY_INDEX \<or>
     op_type = OP_MAP_GET_BY_INDEX_RANGE \<or>
     op_type = OP_MAP_GET_BY_RANK \<or>
     op_type = OP_MAP_GET_BY_RANK_RANGE"

definition map_op_requires_map_policy :: "cint \<Rightarrow> bool" where
  "map_op_requires_map_policy op_type \<longleftrightarrow>
     op_type = OP_MAP_SET_POLICY \<or>
     op_type = OP_MAP_PUT \<or>
     op_type = OP_MAP_PUT_ITEMS \<or>
     op_type = OP_MAP_INCREMENT \<or>
     op_type = OP_MAP_DECREMENT"

definition map_op_requires_index :: "cint \<Rightarrow> bool" where
  "map_op_requires_index op_type \<longleftrightarrow>
     op_type = OP_MAP_REMOVE_BY_INDEX \<or>
     op_type = OP_MAP_REMOVE_BY_INDEX_RANGE \<or>
     op_type = OP_MAP_GET_BY_INDEX \<or>
     op_type = OP_MAP_GET_BY_INDEX_RANGE"

definition map_op_requires_count :: "cint \<Rightarrow> bool" where
  "map_op_requires_count op_type \<longleftrightarrow>
     op_type = OP_MAP_REMOVE_BY_INDEX_RANGE \<or>
     op_type = OP_MAP_REMOVE_BY_RANK_RANGE \<or>
     op_type = OP_MAP_GET_BY_INDEX_RANGE \<or>
     op_type = OP_MAP_GET_BY_RANK_RANGE"

definition map_op_requires_range_end :: "cint \<Rightarrow> bool" where
  "map_op_requires_range_end op_type \<longleftrightarrow>
     op_type = OP_MAP_REMOVE_BY_KEY_RANGE \<or>
     op_type = OP_MAP_REMOVE_BY_VALUE_RANGE \<or>
     op_type = OP_MAP_GET_BY_KEY_RANGE \<or>
     op_type = OP_MAP_GET_BY_VALUE_RANGE"

lemmas list_requires_defs = op_requires_bin_def op_requires_val_def op_is_map_op_def
  op_requires_list_val_def op_requires_long_val_def op_requires_as_val_def op_requires_index_def

lemmas map_requires_defs = map_op_requires_key_def map_op_requires_val_def
  map_op_requires_rank_def map_op_requires_return_type_def map_op_requires_map_policy_def
  map_op_requires_index_def map_op_requires_count_def map_op_requires_range_end_def

section \<open>Arguments of map operations\<close>

text \<open>
  Each reads one entry of the operation's array: the status, the value on success, and the
  error structure. The array is never null here.
\<close>

definition get_count_from_op_hash :: "as_error \<Rightarrow> htab \<Rightarrow> as_status \<times> zlong option \<times> as_error" where
  "get_count_from_op_hash err h =
     (let fail = \<lambda>m. (AEROSPIKE_ERR_PARAM, None, as_error_update err AEROSPIKE_ERR_PARAM m) in
      case str_find h ''count'' of
        None \<Rightarrow> fail ''Operation missing a required count entry''
      | Some (ZLong n) \<Rightarrow>
          if n <s 0 then fail ''Count must not be negative'' else (AEROSPIKE_OK, Some n, err)
      | Some _ \<Rightarrow> fail ''Count entry must be a long type'')"

definition get_index_from_op_hash :: "as_error \<Rightarrow> htab \<Rightarrow> as_status \<times> zlong option \<times> as_error" where
  "get_index_from_op_hash err h =
     (let fail = \<lambda>m. (AEROSPIKE_ERR_PARAM, None, as_error_update err AEROSPIKE_ERR_PARAM m) in
      case str_find h ''index'' of
        None \<Rightarrow> fail ''Operation missing a required index entry''
      | Some (ZLong n) \<Rightarrow> (AEROSPIKE_OK, Some n, err)
      | Some _ \<Rightarrow> fail ''Index entry must be a long type'')"

definition get_rank_from_op_hash :: "as_error \<Rightarrow> htab \<Rightarrow> as_status \<times> zlong option \<times> as_error" where
  "get_rank_from_op_hash err h =
     (let fail = \<lambda>m. (AEROSPIKE_ERR_PARAM, None, as_error_update err AEROSPIKE_ERR_PARAM m) in
      case str_find h ''rank'' of
        None \<Rightarrow> fail ''Operation missing a required rank entry''
      | Some (ZLong n) \<Rightarrow> (AEROSPIKE_OK, Some n, err)
      | Some _ \<Rightarrow> fail ''rank entry must be a long type'')"

definition get_return_type_from_op_hash ::
  "as_error \<Rightarrow> htab \<Rightarrow> as_status \<times> u32 option \<times> as_error" where
  "get_return_type_from_op_hash err h =
     (let fail = \<lambda>m. (AEROSPIKE_ERR_PARAM, None, as_error_update err AEROSPIKE_ERR_PARAM m) in
      case str_find h ''return_type'' of
        None \<Rightarrow> fail ''Operation missing a required return_type entry''
      | Some (ZLong n) \<Rightarrow> (AEROSPIKE_OK, Some (ucast n), err)
      | Some _ \<Rightarrow> fail ''return_type must be a long'')"

definition get_map_policy_from_op_hash ::
  "map_consts \<Rightarrow> as_error \<Rightarrow> htab \<Rightarrow> as_status \<times> as_map_policy option \<times> as_error" where
  "get_map_policy_from_op_hash K err h =
     (case str_find h ''map_policy'' of
        None \<Rightarrow> (AEROSPIKE_ERR_PARAM, None, as_error_update err AEROSPIKE_ERR_PARAM
                  ''Operation missing a required map_policy entry'')
      | Some z \<Rightarrow>
          (case zval_to_as_policy_map K (Some z) of
             (st, p) \<Rightarrow>
               if st \<noteq> AEROSPIKE_OK then (st, None, as_error_update err st ''Invalid map_policy'')
               else (AEROSPIKE_OK, Some p, err)))"

definition get_key_from_op_hash ::
  "'e conv_ext_scheme \<Rightarrow> as_error \<Rightarrow> htab \<Rightarrow> cint \<Rightarrow> as_status \<times> as_val option \<times> as_error" where
  "get_key_from_op_hash E err h ser =
     (case str_find h ''key'' of
        None \<Rightarrow> (AEROSPIKE_ERR_PARAM, None, as_error_update err AEROSPIKE_ERR_PARAM
                  ''Operation missing a required key entry'')
      | Some z \<Rightarrow> zval_to_as_val E z err ser)"

definition get_value_from_op_hash ::
  "'e conv_ext_scheme \<Rightarrow> as_error \<Rightarrow> htab \<Rightarrow> cint \<Rightarrow> as_status \<times> as_val option \<times> as_error" where
  "get_value_from_op_hash E err h ser =
     (case str_find h ''val'' of
        None \<Rightarrow> (AEROSPIKE_ERR_PARAM, None, as_error_update err AEROSPIKE_ERR_PARAM
                  ''Operation missing a required val entry'')
      | Some z \<Rightarrow> zval_to_as_val E z err ser)"

definition get_range_end_from_op_hash ::
  "'e conv_ext_scheme \<Rightarrow> as_error \<Rightarrow> htab \<Rightarrow> cint \<Rightarrow> as_status \<times> as_val option \<times> as_error" where
  "get_range_end_from_op_hash E err h ser =
     (case str_find h ''range_end'' of
        None \<Rightarrow> (AEROSPIKE_ERR_PARAM, None, as_error_update err AEROSPIKE_ERR_PARAM
                  ''Operation missing a required range_end entry'')
      | Some z \<Rightarrow> zval_to_as_val E z err ser)"

section \<open>Map operations\<close>

text \<open>The local variables of \<open>add_map_op_to_operations\<close>; \<open>None\<close>: not set.\<close>

record map_args =
  ma_count :: "zlong option"
  ma_index :: "zlong option"
  ma_rank :: "zlong option"
  ma_return_type :: "u32 option"
  ma_policy :: "as_map_policy option"
  ma_key :: "as_val option"
  ma_range_end :: "as_val option"
  ma_val :: "as_val option"

text \<open>A variable is set when the operation requires it, and otherwise left alone.\<close>

definition if_required ::
  "bool \<Rightarrow> as_status \<times> 'a option \<times> as_error \<Rightarrow> as_error \<Rightarrow> as_status \<times> 'a option \<times> as_error" where
  "if_required b r err = (if b then r else (AEROSPIKE_OK, None, err))"

text \<open>The call of a getter and the return of its error, or what comes next.\<close>

definition arg_bind ::
  "as_status \<times> 'a option \<times> as_error \<Rightarrow>
     ('a option \<Rightarrow> as_error \<Rightarrow> as_status \<times> 'b option \<times> as_error) \<Rightarrow>
     as_status \<times> 'b option \<times> as_error" where
  "arg_bind r next_step =
     (case r of (st, v, err) \<Rightarrow>
        if st \<noteq> AEROSPIKE_OK then (code err, None, err) else next_step v err)"

definition map_op_args ::
  "'e operate_ext_scheme \<Rightarrow> htab \<Rightarrow> cint \<Rightarrow> as_error \<Rightarrow> cint \<Rightarrow> as_status \<times> map_args option \<times> as_error"
where
  "map_op_args E h op_type err ser =
     arg_bind (if_required (map_op_requires_count op_type) (get_count_from_op_hash err h) err)
       (\<lambda>cnt err.
     arg_bind (if_required (map_op_requires_index op_type) (get_index_from_op_hash err h) err)
       (\<lambda>index err.
     arg_bind (if_required (map_op_requires_rank op_type) (get_rank_from_op_hash err h) err)
       (\<lambda>rank err.
     arg_bind (if_required (map_op_requires_return_type op_type)
         (get_return_type_from_op_hash err h) err)
       (\<lambda>return_type err.
     arg_bind (if_required (map_op_requires_map_policy op_type)
         (get_map_policy_from_op_hash (map_enums E) err h) err)
       (\<lambda>policy err.
     arg_bind (if_required (map_op_requires_key op_type) (get_key_from_op_hash E err h ser) err)
       (\<lambda>key err.
     arg_bind (if_required (map_op_requires_range_end op_type)
         (get_range_end_from_op_hash E err h ser) err)
       (\<lambda>range_end err.
     arg_bind (if_required (map_op_requires_val op_type) (get_value_from_op_hash E err h ser) err)
       (\<lambda>val err.
          (AEROSPIKE_OK,
           Some \<lparr>ma_count = cnt, ma_index = index, ma_rank = rank, ma_return_type = return_type,
                 ma_policy = policy, ma_key = key, ma_range_end = range_end, ma_val = val\<rparr>,
           err)))))))))"

text \<open>
  The switch over the operation, in three parts: the operation that is added with the name in
  the message if it is refused, or why it is not added. The code reads the variables the
  operation requires; \<open>the\<close> of another one stands for a variable without a value.
\<close>

type_synonym 'op map_case = "((as_status \<times> string) + ('op \<times> string)) option"

definition map_update_case :: "cint \<Rightarrow> string \<Rightarrow> map_args \<Rightarrow> map_update_op map_case" where
  "map_update_case op_type bin a =
     (if op_type = OP_MAP_SET_POLICY then
        Some (Inr (OpMapSetPolicy bin (the (ma_policy a)), ''OP_MAP_SET_POLICY''))
      else if op_type = OP_MAP_PUT then
        Some (Inr (OpMapPut bin (the (ma_policy a)) (the (ma_key a)) (the (ma_val a)),
          ''OP_MAP_PUT''))
      else if op_type = OP_MAP_PUT_ITEMS then
        (case the (ma_val a) of
           AsMap m \<Rightarrow> Some (Inr (OpMapPutItems bin (the (ma_policy a)) m, ''OP_MAP_PUT_ITEMS''))
         | _ \<Rightarrow> Some (Inl (AEROSPIKE_ERR_PARAM,
                  ''Value must be a hashtable for OP_MAP_PUT_ITEMS'')))
      else if op_type = OP_MAP_INCREMENT then
        Some (Inr (OpMapIncrement bin (the (ma_policy a)) (the (ma_key a)) (the (ma_val a)),
          ''OP_MAP_INCREMENT''))
      else if op_type = OP_MAP_DECREMENT then
        Some (Inr (OpMapDecrement bin (the (ma_policy a)) (the (ma_key a)) (the (ma_val a)),
          ''OP_MAP_INCREMENT''))
      else if op_type = OP_MAP_SIZE then Some (Inr (OpMapSize bin, ''OP_MAP_SIZE''))
      else if op_type = OP_MAP_CLEAR then Some (Inr (OpMapClear bin, ''OP_MAP_CLEAR''))
      else None)"

definition map_remove_case :: "cint \<Rightarrow> string \<Rightarrow> map_args \<Rightarrow> map_remove_op map_case" where
  "map_remove_case op_type bin a =
     (let rt = the (ma_return_type a); key = the (ma_key a); val = the (ma_val a);
          range_end = the (ma_range_end a)
      in
      if op_type = OP_MAP_REMOVE_BY_KEY then
        Some (Inr (OpMapRemoveByKey bin key rt, ''OP_MAP_REMOVE_BY_KEY''))
      else if op_type = OP_MAP_REMOVE_BY_KEY_LIST then
        (case key of
           AsList l \<Rightarrow> Some (Inr (OpMapRemoveByKeyList bin l rt, ''OP_MAP_REMOVE_BY_KEY_LIST''))
         | _ \<Rightarrow> Some (Inl (AEROSPIKE_ERR_PARAM, ''list of keys must be an array'')))
      else if op_type = OP_MAP_REMOVE_BY_KEY_RANGE then
        Some (Inr (OpMapRemoveByKeyRange bin key range_end rt, ''OP_MAP_REMOVE_BY_KEY_RANGE''))
      else if op_type = OP_MAP_REMOVE_BY_VALUE then
        Some (Inr (OpMapRemoveByValue bin val rt, ''OP_MAP_REMOVE_BY_VALUE''))
      else if op_type = OP_MAP_REMOVE_BY_VALUE_LIST then
        (case val of
           AsList l \<Rightarrow> Some (Inr (OpMapRemoveByValueList bin l rt, ''OP_MAP_REMOVE_BY_VALUE_LIST''))
         | _ \<Rightarrow> Some (Inl (AEROSPIKE_ERR_PARAM, ''list of values must be an array'')))
      else if op_type = OP_MAP_REMOVE_BY_VALUE_RANGE then
        Some (Inr (OpMapRemoveByValueRange bin val range_end rt, ''OP_MAP_REMOVE_BY_VALUE_RANGE''))
      else if op_type = OP_MAP_REMOVE_BY_INDEX then
        Some (Inr (OpMapRemoveByIndex bin (the (ma_index a)) rt, ''OP_MAP_REMOVE_BY_INDEX''))
      else if op_type = OP_MAP_REMOVE_BY_INDEX_RANGE then
        Some (Inr (OpMapRemoveByIndexRange bin (the (ma_index a)) (the (ma_count a)) rt,
          ''OP_MAP_REMOVE_BY_INDEX_RANGE''))
      else if op_type = OP_MAP_REMOVE_BY_RANK then
        Some (Inr (OpMapRemoveByRank bin (the (ma_rank a)) rt, ''OP_MAP_REMOVE_BY_RANK''))
      else if op_type = OP_MAP_REMOVE_BY_RANK_RANGE then
        Some (Inr (OpMapRemoveByRankRange bin (the (ma_rank a)) (the (ma_count a)) rt,
          ''OP_MAP_REMOVE_BY_RANK_RANGE''))
      else None)"

definition map_get_case :: "cint \<Rightarrow> string \<Rightarrow> map_args \<Rightarrow> map_get_op map_case" where
  "map_get_case op_type bin a =
     (let rt = the (ma_return_type a); key = the (ma_key a); val = the (ma_val a);
          range_end = the (ma_range_end a)
      in
      if op_type = OP_MAP_GET_BY_KEY then
        Some (Inr (OpMapGetByKey bin key rt, ''OP_MAP_GET_BY_KEY''))
      else if op_type = OP_MAP_GET_BY_KEY_RANGE then
        Some (Inr (OpMapGetByKeyRange bin key range_end rt, ''OP_MAP_GET_BY_KEY_RANGE''))
      else if op_type = OP_MAP_GET_BY_VALUE then
        Some (Inr (OpMapGetByValue bin val rt, ''OP_MAP_GET_BY_VALUE''))
      else if op_type = OP_MAP_GET_BY_VALUE_RANGE then
        Some (Inr (OpMapGetByValueRange bin val range_end rt, ''OP_MAP_GET_BY_VALUE_RANGE''))
      else if op_type = OP_MAP_GET_BY_INDEX then
        Some (Inr (OpMapGetByIndex bin (the (ma_index a)) rt, ''OP_MAP_GET_BY_INDEX''))
      else if op_type = OP_MAP_GET_BY_INDEX_RANGE then
        Some (Inr (OpMapGetByIndexRange bin (the (ma_index a)) (the (ma_count a)) rt,
          ''OP_MAP_GET_BY_INDEX_RANGE''))
      else if op_type = OP_MAP_GET_BY_RANK then
        Some (Inr (OpMapGetByRank bin (the (ma_rank a)) rt, ''OP_MAP_GET_BY_RANK''))
      else if op_type = OP_MAP_GET_BY_RANK_RANGE then
        Some (Inr (OpMapGetByRankRange bin (the (ma_rank a)) (the (ma_count a)) rt,
          ''OP_MAP_GET_BY_RANK_RANGE''))
      else None)"

definition map_case :: "cint \<Rightarrow> string \<Rightarrow> map_args \<Rightarrow> (as_status \<times> string) + (as_binop \<times> string)" where
  "map_case op_type bin a =
     (case map_update_case op_type bin a of
        Some r \<Rightarrow> map_sum id (map_prod MapUpdateOp id) r
      | None \<Rightarrow>
          (case map_remove_case op_type bin a of
             Some r \<Rightarrow> map_sum id (map_prod MapRemoveOp id) r
           | None \<Rightarrow>
               (case map_get_case op_type bin a of
                  Some r \<Rightarrow> map_sum id (map_prod MapGetOp id) r
                | None \<Rightarrow> Inl (AEROSPIKE_ERR_PARAM, ''Unknown map operation''))))"

definition add_map_op_to_operations ::
  "'e operate_ext_scheme \<Rightarrow> htab \<Rightarrow> cint \<Rightarrow> string \<Rightarrow> operations \<Rightarrow> as_error \<Rightarrow> cint \<Rightarrow>
     as_status \<times> operations \<times> as_error" where
  "add_map_op_to_operations E h op_type bin ops err ser =
     (case map_op_args E h op_type err ser of
        (st, None, e) \<Rightarrow> (st, ops, e)
      | (st, Some a, e) \<Rightarrow>
          (case map_case op_type bin a of
             Inl (c, m) \<Rightarrow> (c, ops, as_error_update e c m)
           | Inr (b, name) \<Rightarrow>
               (case add_binop E ops b of
                  Some ops' \<Rightarrow> (code e, ops', e)
                | None \<Rightarrow> (AEROSPIKE_ERR_CLIENT, ops, as_error_update e AEROSPIKE_ERR_CLIENT
                    (''Failed to add '' @ name @ '' operation'')))))"

section \<open>Basic and list operations\<close>

definition add_or_fail ::
  "'e operate_ext_scheme \<Rightarrow> operations \<Rightarrow> as_binop \<Rightarrow> as_error \<Rightarrow> as_status \<times> operations \<times> as_error" where
  "add_or_fail E ops b err =
     (case add_binop E ops b of
        Some ops' \<Rightarrow> (AEROSPIKE_OK, ops', err)
      | None \<Rightarrow> (AEROSPIKE_ERR_CLIENT, ops,
          as_error_update err AEROSPIKE_ERR_CLIENT ''Unable to add operation''))"

definition add_incr_op ::
  "'e operate_ext_scheme \<Rightarrow> string \<Rightarrow> zval \<Rightarrow> operations \<Rightarrow> as_error \<Rightarrow>
     as_status \<times> operations \<times> as_error" where
  "add_incr_op E bin v ops err =
     (let bad = (AEROSPIKE_ERR_PARAM, ops, as_error_update err AEROSPIKE_ERR_PARAM
                   ''incr operation requires a long or double value'')
      in
      case v of
        ZLong n \<Rightarrow> add_or_fail E ops (BasicOp (OpIncr bin n)) err
      | ZDouble d \<Rightarrow> add_or_fail E ops (BasicOp (OpIncrDouble bin d)) err
      | ZString s \<Rightarrow>
          (case is_numeric_string E s of
             Some (NumDouble d) \<Rightarrow> add_or_fail E ops (BasicOp (OpIncrDouble bin d)) err
           | Some (NumLong n) \<Rightarrow> add_or_fail E ops (BasicOp (OpIncr bin n)) err
           | None \<Rightarrow> bad)
      | _ \<Rightarrow> bad)"

text \<open>
  The part of the switch for the basic operations and for the list operations; \<open>None\<close>: the
  operation is not among its cases. \<open>z_val\<close> is the entry \<open>val\<close> and \<open>op_val\<close> its conversion,
  where the operation requires them.
\<close>

definition basic_op_case ::
  "'e operate_ext_scheme \<Rightarrow> cint \<Rightarrow> string \<Rightarrow> zval option \<Rightarrow> as_val option \<Rightarrow> operations \<Rightarrow> as_error \<Rightarrow>
     (as_status \<times> operations \<times> as_error) option" where
  "basic_op_case E op_type bin z_val op_val ops err =
     (if op_type = AS_OPERATOR_WRITE E then Some (add_or_fail E ops (BasicOp (OpWrite bin (the op_val))) err)
      else if op_type = AS_OPERATOR_READ E then Some (add_or_fail E ops (BasicOp (OpRead bin)) err)
      else if op_type = AS_OPERATOR_INCR E then Some (add_incr_op E bin (the z_val) ops err)
      else if op_type = AS_OPERATOR_PREPEND E then
        (case the z_val of
           ZString s \<Rightarrow> Some (add_or_fail E ops (BasicOp (OpPrependStr bin (c_str s))) err)
         | _ \<Rightarrow> Some (AEROSPIKE_ERR_PARAM, ops,
             as_error_update err AEROSPIKE_ERR_PARAM ''Prepend requires a string value''))
      else if op_type = AS_OPERATOR_APPEND E then
        (case the z_val of
           ZString s \<Rightarrow> Some (add_or_fail E ops (BasicOp (OpAppendStr bin (c_str s))) err)
         | _ \<Rightarrow> Some (AEROSPIKE_ERR_PARAM, ops,
             as_error_update err AEROSPIKE_ERR_PARAM ''Append requires a string value''))
      else if op_type = AS_OPERATOR_DELETE E then Some (add_or_fail E ops (BasicOp OpDelete) err)
      else None)"

text \<open>The items of a list merge or insert: the array must be a list.\<close>

definition add_list_items_op ::
  "'e operate_ext_scheme \<Rightarrow> (as_list option \<Rightarrow> as_binop) \<Rightarrow> zval \<Rightarrow> operations \<Rightarrow> as_error \<Rightarrow> cint \<Rightarrow>
     as_status \<times> operations \<times> as_error" where
  "add_list_items_op E mk v ops err ser =
     (let h = (case v of ZArray h \<Rightarrow> h | _ \<Rightarrow> []) in
      if \<not> hashtable_is_list h then
        (AEROSPIKE_ERR_CLIENT, ops,
           as_error_update err AEROSPIKE_ERR_PARAM ''List Merge value must not be a map'')
      else
        (case z_hashtable_to_as_list E h None err ser of
           (st, l, e) \<Rightarrow>
             if st \<noteq> AEROSPIKE_OK then (code e, ops, e) else add_or_fail E ops (mk l) e))"

definition list_op_case ::
  "'e operate_ext_scheme \<Rightarrow> cint \<Rightarrow> string \<Rightarrow> zlong \<Rightarrow> zval option \<Rightarrow> as_val option \<Rightarrow> operations \<Rightarrow>
     as_error \<Rightarrow> cint \<Rightarrow> (as_status \<times> operations \<times> as_error) option" where
  "list_op_case E op_type bin index z_val op_val ops err ser =
     (let count = Z_LVAL E (the z_val) in
      if op_type = OP_LIST_APPEND then
        Some (add_or_fail E ops (ListOp (OpListAppend bin (the op_val))) err)
      else if op_type = OP_LIST_MERGE then
        Some (add_list_items_op E (\<lambda>l. ListOp (OpListAppendItems bin l)) (the z_val) ops err ser)
      else if op_type = OP_LIST_INSERT then
        Some (add_or_fail E ops (ListOp (OpListInsert bin index (the op_val))) err)
      else if op_type = OP_LIST_INSERT_ITEMS then
        Some (add_list_items_op E (\<lambda>l. ListOp (OpListInsertItems bin index l)) (the z_val) ops err ser)
      else if op_type = OP_LIST_POP then Some (add_or_fail E ops (ListOp (OpListPop bin index)) err)
      else if op_type = OP_LIST_POP_RANGE then
        Some (add_or_fail E ops (ListOp (OpListPopRange bin index count)) err)
      else if op_type = OP_LIST_REMOVE then Some (add_or_fail E ops (ListOp (OpListRemove bin index)) err)
      else if op_type = OP_LIST_REMOVE_RANGE then
        Some (add_or_fail E ops (ListOp (OpListRemoveRange bin index count)) err)
      else if op_type = OP_LIST_CLEAR then Some (add_or_fail E ops (ListOp (OpListClear bin)) err)
      else if op_type = OP_LIST_SET then
        Some (add_or_fail E ops (ListOp (OpListSet bin index (the op_val))) err)
      else if op_type = OP_LIST_GET then Some (add_or_fail E ops (ListOp (OpListGet bin index)) err)
      else if op_type = OP_LIST_GET_RANGE then
        Some (add_or_fail E ops (ListOp (OpListGetRange bin index count)) err)
      else if op_type = OP_LIST_TRIM then
        Some (add_or_fail E ops (ListOp (OpListTrim bin index count)) err)
      else if op_type = OP_LIST_SIZE then Some (add_or_fail E ops (ListOp (OpListSize bin)) err)
      else None)"

text \<open>
  The checks before the switch: the bin name, the index and the value. A failed check is the
  message of the error and the error structure it is set in.
\<close>

definition op_bin_arg :: "'e operate_ext_scheme \<Rightarrow> cint \<Rightarrow> htab \<Rightarrow> string + string" where
  "op_bin_arg E op_type h =
     (if op_requires_bin E op_type then
        (case str_find h ''bin'' of
           Some (ZString s) \<Rightarrow>
             if bin_name_max_len E < strlen s then Inl ''Bin name is too long'' else Inr (c_str s)
         | _ \<Rightarrow> Inl ''Operation must contain a bin name of string type'')
      else Inr [])"

definition op_index_arg :: "cint \<Rightarrow> htab \<Rightarrow> string + zlong" where
  "op_index_arg op_type h =
     (if op_requires_index op_type then
        (case str_find h ''index'' of
           Some (ZLong n) \<Rightarrow> Inr n
         | _ \<Rightarrow> Inl ''Operation requires an integer index'')
      else Inr 0)"

definition op_val_arg ::
  "'e operate_ext_scheme \<Rightarrow> cint \<Rightarrow> htab \<Rightarrow> as_error \<Rightarrow> cint \<Rightarrow>
     string + (zval option \<times> as_val option \<times> as_error)" where
  "op_val_arg E op_type h err ser =
     (if op_requires_val E op_type then
        (case str_find h ''val'' of
           None \<Rightarrow> Inl ''Operation requires a val entry''
         | Some v \<Rightarrow>
             if op_requires_list_val op_type \<and> \<not> is_array v then
               Inl ''Operation requires a list val entry''
             else if \<not> op_requires_list_val op_type \<and> op_requires_long_val op_type \<and>
                 \<not> is_long v then Inl ''Operation requires an integer val entry''
             else if op_requires_as_val E op_type then
               (case zval_to_as_val E v err ser of
                  (_, op_val, e) \<Rightarrow>
                    if op_val = None \<or> code e \<noteq> AEROSPIKE_OK then Inl ''Unable to convert value''
                    else Inr (Some v, op_val, e))
             else Inr (Some v, None, err))
      else Inr (None, None, err))"

definition add_touch_op ::
  "'e operate_ext_scheme \<Rightarrow> htab \<Rightarrow> operations \<Rightarrow> as_error \<Rightarrow> as_status \<times> operations \<times> as_error" where
  "add_touch_op E h ops err =
     (case str_find h ''ttl'' of
        None \<Rightarrow> (AEROSPIKE_OK, ops, err)
      | Some (ZLong n) \<Rightarrow>
          (let ops = ops\<lparr>ops_ttl := ucast n\<rparr> in
           (AEROSPIKE_OK, (case add_binop E ops (BasicOp OpTouch) of Some ops' \<Rightarrow> ops' | None \<Rightarrow> ops), err))
      | Some _ \<Rightarrow> (AEROSPIKE_ERR_PARAM, ops,
          as_error_update err AEROSPIKE_ERR_PARAM ''TTL must be an integer''))"

definition add_op_to_operations ::
  "'e operate_ext_scheme \<Rightarrow> htab \<Rightarrow> operations \<Rightarrow> as_error \<Rightarrow> cint \<Rightarrow>
     as_status \<times> operations \<times> as_error" where
  "add_op_to_operations E h ops err ser =
     (let fail = \<lambda>m. (AEROSPIKE_ERR_PARAM, ops, as_error_update err AEROSPIKE_ERR_PARAM m) in
      case str_find h ''op'' of
        None \<Rightarrow> fail ''Operation does not specify a type''
      | Some (ZLong n) \<Rightarrow>
          (let op_type = ucast n in
           if op_type = AS_OPERATOR_TOUCH E then add_touch_op E h ops err
           else
             (case op_bin_arg E op_type h of
                Inl m \<Rightarrow> fail m
              | Inr bin \<Rightarrow>
                  (case op_index_arg op_type h of
                     Inl m \<Rightarrow> fail m
                   | Inr index \<Rightarrow>
                       if op_is_map_op op_type then
                         add_map_op_to_operations E h op_type bin ops err ser
                       else
                         (case op_val_arg E op_type h err ser of
                            Inl m \<Rightarrow> fail m
                          | Inr (z_val, op_val, e) \<Rightarrow>
                              (case basic_op_case E op_type bin z_val op_val ops e of
                                 Some r \<Rightarrow> r
                               | None \<Rightarrow>
                                   (case list_op_case E op_type bin index z_val op_val ops e ser of
                                      Some r \<Rightarrow> r
                                    | None \<Rightarrow> (AEROSPIKE_ERR_PARAM, ops,
                                        as_error_update e AEROSPIKE_ERR_PARAM
                                          ''Unknown operation type'')))))))
      | Some _ \<Rightarrow> fail ''Operation type must be an integer'')"

end
