(* ===== verification/OperateSpec.thy ===== *)
theory OperateSpec
  imports Operate ToServerSpec
begin

text \<open>
  What adding operations promises: the classification of operation codes, that the switch
  reads only variables the classification has had set, and that an operation adds the same
  calls whatever is in the list already.
\<close>

section \<open>Classification\<close>

lemma op_is_map_op_range: "op_is_map_op op_type \<longleftrightarrow> 1101 \<le> op_type \<and> op_type \<le> 1125"
proof
  assume "op_is_map_op op_type"
  then show "1101 \<le> op_type \<and> op_type \<le> 1125"
    by (auto simp: op_is_map_op_def op_codes)
next
  assume "1101 \<le> op_type \<and> op_type \<le> 1125"
  then have "1101 \<le> unat op_type" "unat op_type \<le> 1125" by (simp_all add: word_le_nat_alt)
  then have "unat op_type = 1101 \<or> unat op_type = 1102 \<or> unat op_type = 1103 \<or> unat op_type
      = 1104 \<or> unat op_type = 1105 \<or> unat op_type = 1106 \<or> unat op_type = 1107 \<or>
      unat op_type = 1108 \<or> unat op_type = 1109 \<or> unat op_type = 1110 \<or> unat op_type
      = 1111 \<or> unat op_type = 1112 \<or> unat op_type = 1113 \<or> unat op_type = 1114 \<or>
      unat op_type = 1115 \<or> unat op_type = 1116 \<or> unat op_type = 1117 \<or> unat op_type
      = 1118 \<or> unat op_type = 1119 \<or> unat op_type = 1120 \<or> unat op_type = 1121 \<or>
      unat op_type = 1122 \<or> unat op_type = 1123 \<or> unat op_type = 1124 \<or> unat op_type
      = 1125"
    by presburger
  moreover have "op_type = of_nat (unat op_type)" by simp
  ultimately show "op_is_map_op op_type"
    by (elim disjE) (simp_all add: op_is_map_op_def op_codes)
qed

text \<open>Two settings of the variables that agree on those the operation requires.\<close>

definition agree_required :: "cint \<Rightarrow> map_args \<Rightarrow> map_args \<Rightarrow> bool" where
  "agree_required op_type a a' \<longleftrightarrow>
     (map_op_requires_count op_type \<longrightarrow> ma_count a = ma_count a') \<and>
     (map_op_requires_index op_type \<longrightarrow> ma_index a = ma_index a') \<and>
     (map_op_requires_rank op_type \<longrightarrow> ma_rank a = ma_rank a') \<and>
     (map_op_requires_return_type op_type \<longrightarrow> ma_return_type a = ma_return_type a') \<and>
     (map_op_requires_map_policy op_type \<longrightarrow> ma_policy a = ma_policy a') \<and>
     (map_op_requires_key op_type \<longrightarrow> ma_key a = ma_key a') \<and>
     (map_op_requires_range_end op_type \<longrightarrow> ma_range_end a = ma_range_end a') \<and>
     (map_op_requires_val op_type \<longrightarrow> ma_val a = ma_val a')"

lemma map_update_case_required:
  assumes "agree_required op_type a a'"
  shows "map_update_case op_type bin a = map_update_case op_type bin a'"
proof (cases "op_type \<in> {OP_MAP_SET_POLICY, OP_MAP_PUT, OP_MAP_PUT_ITEMS,
    OP_MAP_INCREMENT, OP_MAP_DECREMENT, OP_MAP_SIZE,
    OP_MAP_CLEAR}")
  case True
  then show ?thesis
    using assms
    by (elim insertE emptyE)
      (simp_all add: map_update_case_def agree_required_def map_requires_defs op_codes
        split: as_val.split)
next
  case False
  then show ?thesis by (simp add: map_update_case_def)
qed

lemma map_remove_case_required:
  assumes "agree_required op_type a a'"
  shows "map_remove_case op_type bin a = map_remove_case op_type bin a'"
proof (cases "op_type \<in> {OP_MAP_REMOVE_BY_KEY, OP_MAP_REMOVE_BY_KEY_LIST, OP_MAP_REMOVE_BY_KEY_RANGE,
    OP_MAP_REMOVE_BY_VALUE, OP_MAP_REMOVE_BY_VALUE_LIST, OP_MAP_REMOVE_BY_VALUE_RANGE,
    OP_MAP_REMOVE_BY_INDEX, OP_MAP_REMOVE_BY_INDEX_RANGE, OP_MAP_REMOVE_BY_RANK,
    OP_MAP_REMOVE_BY_RANK_RANGE}")
  case True
  then show ?thesis
    using assms
    by (elim insertE emptyE)
      (simp_all add: map_remove_case_def agree_required_def map_requires_defs op_codes Let_def
        split: as_val.split)
next
  case False
  then show ?thesis by (simp add: map_remove_case_def)
qed

lemma map_get_case_required:
  assumes "agree_required op_type a a'"
  shows "map_get_case op_type bin a = map_get_case op_type bin a'"
proof (cases "op_type \<in> {OP_MAP_GET_BY_KEY, OP_MAP_GET_BY_KEY_RANGE, OP_MAP_GET_BY_VALUE,
    OP_MAP_GET_BY_VALUE_RANGE, OP_MAP_GET_BY_INDEX, OP_MAP_GET_BY_INDEX_RANGE,
    OP_MAP_GET_BY_RANK, OP_MAP_GET_BY_RANK_RANGE}")
  case True
  then show ?thesis
    using assms
    by (elim insertE emptyE)
      (simp_all add: map_get_case_def agree_required_def map_requires_defs op_codes Let_def)
next
  case False
  then show ?thesis by (simp add: map_get_case_def)
qed

lemma map_case_required:
  assumes "agree_required op_type a a'"
  shows "map_case op_type bin a = map_case op_type bin a'"
  unfolding map_case_def map_update_case_required [OF assms] map_remove_case_required [OF assms]
    map_get_case_required [OF assms] ..

text \<open>And the variables an operation requires are set when the arguments are accepted.\<close>

definition required_set :: "cint \<Rightarrow> map_args \<Rightarrow> bool" where
  "required_set op_type a \<longleftrightarrow>
     (map_op_requires_count op_type \<longrightarrow> ma_count a \<noteq> None) \<and>
     (map_op_requires_index op_type \<longrightarrow> ma_index a \<noteq> None) \<and>
     (map_op_requires_rank op_type \<longrightarrow> ma_rank a \<noteq> None) \<and>
     (map_op_requires_return_type op_type \<longrightarrow> ma_return_type a \<noteq> None) \<and>
     (map_op_requires_map_policy op_type \<longrightarrow> ma_policy a \<noteq> None) \<and>
     (map_op_requires_key op_type \<longrightarrow> ma_key a \<noteq> None) \<and>
     (map_op_requires_range_end op_type \<longrightarrow> ma_range_end a \<noteq> None) \<and>
     (map_op_requires_val op_type \<longrightarrow> ma_val a \<noteq> None)"

text \<open>Every getter: success with a value and the error structure as it was, or an error.\<close>

definition getter_ok :: "as_error \<Rightarrow> as_status \<times> 'a option \<times> as_error \<Rightarrow> bool" where
  "getter_ok err x \<longleftrightarrow>
     (case x of (st, v, e) \<Rightarrow>
        (st = AEROSPIKE_OK \<longrightarrow> v \<noteq> None \<and> e = err) \<and> (st \<noteq> AEROSPIKE_OK \<longrightarrow> code e = st))"

lemma yields_getter_ok: "yields err r x \<Longrightarrow> getter_ok err x"
  by (cases r) (auto simp: getter_ok_def)

lemma getters_ok:
  "getter_ok err (get_count_from_op_hash err h)" "getter_ok err (get_index_from_op_hash err h)"
  "getter_ok err (get_rank_from_op_hash err h)" "getter_ok err (get_return_type_from_op_hash err h)"
  "getter_ok err (get_map_policy_from_op_hash K err h)"
  by (auto simp: getter_ok_def get_count_from_op_hash_def get_index_from_op_hash_def
      get_rank_from_op_hash_def get_return_type_from_op_hash_def get_map_policy_from_op_hash_def
      Let_def split: option.splits zval.splits prod.splits if_splits)

lemma value_getters_ok:
  assumes "list_api E" "\<And>n. hashmap_new E n = Some []" "code err = AEROSPIKE_OK"
  shows "getter_ok err (get_key_from_op_hash E err h ser)"
    "getter_ok err (get_value_from_op_hash E err h ser)"
    "getter_ok err (get_range_end_from_op_hash E err h ser)"
proof -
  have "getter_ok err (zval_to_as_val E z err ser)" for z
    by (rule yields_getter_ok, rule conversion_yields(1)) (use assms in auto)
  then show "getter_ok err (get_key_from_op_hash E err h ser)"
    "getter_ok err (get_value_from_op_hash E err h ser)"
    "getter_ok err (get_range_end_from_op_hash E err h ser)"
    by (auto simp: get_key_from_op_hash_def get_value_from_op_hash_def
        get_range_end_from_op_hash_def split: option.split) (auto simp: getter_ok_def)
qed

text \<open>The steps of \<open>map_op_args\<close>: all succeed and the result is \<open>P\<close>, or one fails.\<close>

definition args_spec ::
  "as_error \<Rightarrow> ('a \<Rightarrow> bool) \<Rightarrow> as_status \<times> 'a option \<times> as_error \<Rightarrow> bool" where
  "args_spec err P x \<longleftrightarrow>
     (case x of (st, r, e) \<Rightarrow>
        (case r of
           Some a \<Rightarrow> st = AEROSPIKE_OK \<and> e = err \<and> P a
         | None \<Rightarrow> st \<noteq> AEROSPIKE_OK \<and> st = code e))"

lemma if_required_cases:
  assumes "getter_ok err r" and "if_required b r err = (st, v, e)"
  shows "(st = AEROSPIKE_OK \<longrightarrow> e = err \<and> (b \<longrightarrow> v \<noteq> None)) \<and> (st \<noteq> AEROSPIKE_OK \<longrightarrow> code e = st)"
  using assms by (auto simp: if_required_def getter_ok_def split: if_splits)

lemma arg_bind_spec:
  assumes "getter_ok err r" and "\<And>v. (b \<Longrightarrow> v \<noteq> None) \<Longrightarrow> args_spec err P (k v err)"
  shows "args_spec err P (arg_bind (if_required b r err) k)"
proof -
  obtain st v e where r: "if_required b r err = (st, v, e)" by (metis prod_cases3)
  note c = if_required_cases [OF assms(1) r]
  show ?thesis
  proof (cases "st = AEROSPIKE_OK")
    case True
    with c assms(2) [of v] show ?thesis by (simp add: arg_bind_def r)
  next
    case False
    with c show ?thesis by (simp add: arg_bind_def r args_spec_def)
  qed
qed

lemma map_op_args_set:
  assumes "list_api E" "\<And>n. hashmap_new E n = Some []" "code err = AEROSPIKE_OK"
  shows "args_spec err (required_set op_type) (map_op_args E h op_type err ser)"
  unfolding map_op_args_def
  by (intro arg_bind_spec getters_ok value_getters_ok assms)
    (auto simp: args_spec_def required_set_def)


section \<open>The effect of an operation on the list\<close>

text \<open>
  Two runs of the same step on two lists: the same status and error, and the same calls added
  to both, at most one and none when the step fails.
\<close>

definition adds :: "as_binop list \<Rightarrow> operations \<Rightarrow> operations \<Rightarrow> bool" where
  "adds bs ops ops' \<longleftrightarrow> ops_binops ops' = ops_binops ops @ bs \<and> ops_capacity ops' = ops_capacity ops \<and>
     ops_gen ops' = ops_gen ops"

lemma adds_Nil [simp]: "adds [] ops ops"
  by (simp add: adds_def)

definition same_effect ::
  "operations \<Rightarrow> operations \<Rightarrow> as_status \<times> operations \<times> as_error \<Rightarrow>
     as_status \<times> operations \<times> as_error \<Rightarrow> bool" where
  "same_effect ops1 ops2 x1 x2 \<longleftrightarrow>
     fst x1 = fst x2 \<and> snd (snd x1) = snd (snd x2) \<and>
     (\<exists>bs. length bs \<le> 1 \<and> (fst x1 \<noteq> AEROSPIKE_OK \<longrightarrow> bs = []) \<and>
        adds bs ops1 (fst (snd x1)) \<and> adds bs ops2 (fst (snd x2)))"

lemma same_effect_fail [simp]: "same_effect ops1 ops2 (st, ops1, e) (st, ops2, e)"
  by (auto simp: same_effect_def intro: exI [of _ "[]"])

definition room :: "operations \<Rightarrow> bool" where
  "room ops \<longleftrightarrow> length (ops_binops ops) < ops_capacity ops"

definition empty_ops :: "nat \<Rightarrow> operations" where
  "empty_ops n = \<lparr>ops_binops = [], ops_capacity = n, ops_gen = 0, ops_ttl = 0\<rparr>"

lemma empty_ops_fields [simp]:
  "ops_binops (empty_ops n) = []" "ops_capacity (empty_ops n) = n" "room (empty_ops (Suc n))"
  by (simp_all add: empty_ops_def room_def)

lemma add_or_fail_same [simp]:
  assumes "binop_api E" "room ops1" "room ops2"
  shows "same_effect ops1 ops2 (add_or_fail E ops1 b err) (add_or_fail E ops2 b err)"
  using assms
  by (auto simp: room_def add_or_fail_def binop_apiD same_effect_def adds_def
      intro!: exI [of _ "[b]"])

lemma add_incr_same [simp]:
  assumes "binop_api E" "room ops1" "room ops2"
  shows "same_effect ops1 ops2 (add_incr_op E bin v ops1 err) (add_incr_op E bin v ops2 err)"
  using assms by (simp add: add_incr_op_def Let_def split: zval.split option.split numeric.split)

lemma add_list_items_same [simp]:
  assumes "binop_api E" "room ops1" "room ops2"
  shows "same_effect ops1 ops2 (add_list_items_op E mk v ops1 err ser)
    (add_list_items_op E mk v ops2 err ser)"
  using assms by (simp add: add_list_items_op_def Let_def split: prod.split)

lemma basic_op_same:
  assumes "binop_api E" "room ops1" "room ops2"
  shows "rel_option (same_effect ops1 ops2) (basic_op_case E op_type bin z v ops1 err)
    (basic_op_case E op_type bin z v ops2 err)"
  using assms by (simp add: basic_op_case_def split: zval.split)

lemma list_op_same:
  assumes "binop_api E" "room ops1" "room ops2"
  shows "rel_option (same_effect ops1 ops2) (list_op_case E op_type bin i z v ops1 err ser)
    (list_op_case E op_type bin i z v ops2 err ser)"
  using assms by (simp add: list_op_case_def Let_def)

lemma touch_same:
  assumes "binop_api E" "room ops1" "room ops2"
  shows "same_effect ops1 ops2 (add_touch_op E h ops1 err) (add_touch_op E h ops2 err)"
proof -
  have t: "\<exists>ops'. add_binop E (ops\<lparr>ops_ttl := n\<rparr>) (BasicOp OpTouch) = Some ops' \<and>
      adds [BasicOp OpTouch] ops ops'" if "room ops" for ops n
    using that assms(1) by (simp add: binop_apiD room_def adds_def)
  show ?thesis
  proof (cases "\<exists>n. str_find h ''ttl'' = Some (ZLong n)")
    case True
    then obtain n where n: "str_find h ''ttl'' = Some (ZLong n)" by blast
    from t [OF assms(2), of "ucast n"] t [OF assms(3), of "ucast n"]
    show ?thesis
      by (auto simp: add_touch_op_def n Let_def same_effect_def intro!: exI [of _ "[BasicOp OpTouch]"])
  next
    case False
    then show ?thesis by (simp add: add_touch_op_def split: option.split zval.split)
  qed
qed

lemma map_op_same:
  assumes "list_api E" "\<And>n. hashmap_new E n = Some []" "binop_api E" "code err = AEROSPIKE_OK"
    and "room ops1" "room ops2"
  shows "same_effect ops1 ops2 (add_map_op_to_operations E h op_type bin ops1 err ser)
    (add_map_op_to_operations E h op_type bin ops2 err ser)"
proof -
  obtain st r e where m: "map_op_args E h op_type err ser = (st, r, e)" by (metis prod_cases3)
  with map_op_args_set [OF assms(1,2,4), of op_type h ser]
  have "r \<noteq> None \<Longrightarrow> e = err" by (auto simp: args_spec_def)
  with assms(3-6) show ?thesis
    by (auto simp: add_map_op_to_operations_def m binop_apiD room_def adds_def same_effect_def
        split: option.split sum.split)
qed

lemma add_op_same:
  assumes "list_api E" "\<And>n. hashmap_new E n = Some []" "binop_api E" "code err = AEROSPIKE_OK"
    and "room ops1" "room ops2"
  shows "same_effect ops1 ops2 (add_op_to_operations E h ops1 err ser)
    (add_op_to_operations E h ops2 err ser)"
proof (cases "\<exists>n. str_find h ''op'' = Some (ZLong n)")
  case False
  then show ?thesis by (simp add: add_op_to_operations_def Let_def split: option.split zval.split)
next
  case True
  then obtain n where n: "str_find h ''op'' = Some (ZLong n)" by blast
  let ?op = "ucast n :: cint"
  have val: "same_effect ops1 ops2
      (case basic_op_case E ?op bin z v ops1 e of Some r \<Rightarrow> r
       | None \<Rightarrow> (case list_op_case E ?op bin i z v ops1 e ser of Some r \<Rightarrow> r
           | None \<Rightarrow> (AEROSPIKE_ERR_PARAM, ops1, x)))
      (case basic_op_case E ?op bin z v ops2 e of Some r \<Rightarrow> r
       | None \<Rightarrow> (case list_op_case E ?op bin i z v ops2 e ser of Some r \<Rightarrow> r
           | None \<Rightarrow> (AEROSPIKE_ERR_PARAM, ops2, x)))" for bin z v e i x
    using basic_op_same [OF assms(3,5,6), of ?op bin z v e]
      list_op_same [OF assms(3,5,6), of ?op bin i z v e ser]
    by (auto simp: option_rel_Some1 option_rel_Some2 split: option.splits elim!: option.rel_cases)
  show ?thesis
    using val touch_same [OF assms(3,5,6)] map_op_same [OF assms]
    by (simp add: add_op_to_operations_def n Let_def split: sum.split)
qed

end
