(* ===== verification/OperateProps.thy ===== *)
theory OperateProps
  imports OperateSpec SampleApi
begin

text \<open>
  The properties of operations: which argument each of them needs and reads, what a successful
  or failed operation adds to the list, and three ways an operation differs from what it says.
\<close>

definition sample_map_consts :: map_consts where
  "sample_map_consts = \<lparr>AS_MAP_UNORDERED = 0, AS_MAP_KEY_ORDERED = 1, AS_MAP_KEY_VALUE_ORDERED = 3,
     AS_MAP_UPDATE = 0, AS_MAP_UPDATE_ONLY = 1, AS_MAP_CREATE_ONLY = 2, AS_MAP_WRITE_DEFAULT = 0,
     AS_MAP_WRITE_CREATE_ONLY = 1, AS_MAP_WRITE_UPDATE_ONLY = 2, AS_MAP_WRITE_NO_FAIL = 4,
     AS_MAP_WRITE_PARTIAL = 8\<rparr>"

definition sample_operate_ext :: operate_ext where
  "sample_operate_ext = conv_ext.extend sample_ext \<lparr>
     AS_OPERATOR_WRITE = 0, AS_OPERATOR_READ = 1, AS_OPERATOR_INCR = 2, AS_OPERATOR_PREPEND = 4,
     AS_OPERATOR_APPEND = 5, AS_OPERATOR_TOUCH = 8, AS_OPERATOR_DELETE = 12,
     map_enums = sample_map_consts,
     is_numeric_string = (\<lambda>s. map_option NumLong (sample_numeric s)),
     add_binop = (\<lambda>ops b. if length (ops_binops ops) < ops_capacity ops
       then Some (ops\<lparr>ops_binops := ops_binops ops @ [b]\<rparr>) else None)\<rparr>"

lemma sample_binop_api [simp]: "binop_api sample_operate_ext"
  by (simp add: binop_api_def sample_operate_ext_def conv_ext.defs sample_ext_def)

lemma sample_operate_list_api [simp]: "list_api sample_operate_ext"
  by (simp add: list_api_def sample_operate_ext_def conv_ext.defs sample_ext_def)

lemma sample_operate_hashmap [simp]: "hashmap_new sample_operate_ext n = Some []"
  by (simp add: sample_operate_ext_def conv_ext.defs sample_ext_def)

lemma sample_operate_codes [simp]:
  "AS_OPERATOR_WRITE sample_operate_ext = 0" "AS_OPERATOR_READ sample_operate_ext = 1"
  "AS_OPERATOR_INCR sample_operate_ext = 2" "AS_OPERATOR_PREPEND sample_operate_ext = 4"
  "AS_OPERATOR_APPEND sample_operate_ext = 5" "AS_OPERATOR_TOUCH sample_operate_ext = 8"
  "AS_OPERATOR_DELETE sample_operate_ext = 12" "bin_name_max_len sample_operate_ext = 15"
  by (simp_all add: sample_operate_ext_def conv_ext.defs sample_ext_def)

lemma sample_operate_undef [simp]: "other_value sample_operate_ext SERIALIZER_PHP ZUndef = None"
  by (simp add: other_value_def other_to_as_val_def serialized_to_as_val_def
      serialize_php_object_def serializer_defs sample_operate_ext_def conv_ext.defs sample_ext_def)

text \<open>
  C25. The 25 map operations are the codes 1101 to 1125 and nothing else. When the arguments of
  a map operation have been read, every variable its classification requires is set, and the
  call that is added depends on those variables only: a variable the code has not set is never
  read.
\<close>

theorem map_ops_read_only_set_variables:
  assumes "list_api E" "\<forall>n. hashmap_new E n = Some []" "code err = AEROSPIKE_OK"
    and "map_op_args E h op_type err ser = (st, Some a, e)"
  shows "(op_is_map_op op_type \<longleftrightarrow> 1101 \<le> op_type \<and> op_type \<le> 1125) \<and>
    st = AEROSPIKE_OK \<and> e = err \<and> required_set op_type a \<and>
    (\<forall>a'. agree_required op_type a a' \<longrightarrow> map_case op_type bin a' = map_case op_type bin a)"
  using map_op_args_set [of E err op_type h ser] assms
  by (auto simp: args_spec_def op_is_map_op_range intro: map_case_required [symmetric])

theorem map_ops_read_only_set_variables_witness:
  "\<exists>a. map_op_args sample_operate_ext [(SKey ''index'', ZLong 2), (SKey ''return_type'', ZLong 7)]
      OP_MAP_GET_BY_INDEX as_error_init SERIALIZER_PHP = (AEROSPIKE_OK, Some a, as_error_init) \<and>
    required_set OP_MAP_GET_BY_INDEX a"
  using map_ops_read_only_set_variables [of sample_operate_ext as_error_init
      "[(SKey ''index'', ZLong 2), (SKey ''return_type'', ZLong 7)]" OP_MAP_GET_BY_INDEX SERIALIZER_PHP
      AEROSPIKE_OK "\<lparr>ma_count = None, ma_index = Some 2, ma_rank = None, ma_return_type = Some 7,
        ma_policy = None, ma_key = None, ma_range_end = None, ma_val = None\<rparr>" as_error_init]
  by (simp add: map_op_args_def arg_bind_def if_required_def map_requires_defs op_codes
      get_index_from_op_hash_def get_return_type_from_op_hash_def Let_def)

text \<open>
  Adding an operation to a list with room for it: when it succeeds it has added at most
  one call, and which one does not depend on what the list holds; when it fails it has added
  none. The room, the generation and the calls already there stay as they were.
\<close>

theorem add_op_adds_at_most_one:
  assumes "list_api E" "\<forall>n. hashmap_new E n = Some []" "binop_api E" "code err = AEROSPIKE_OK"
  shows "\<exists>st bs e. length bs \<le> 1 \<and> (st \<noteq> AEROSPIKE_OK \<longrightarrow> bs = []) \<and>
    (\<forall>ops. length (ops_binops ops) < ops_capacity ops \<longrightarrow>
       (\<exists>ops'. add_op_to_operations E h ops err ser = (st, ops', e) \<and>
          ops_binops ops' = ops_binops ops @ bs \<and> ops_capacity ops' = ops_capacity ops \<and>
          ops_gen ops' = ops_gen ops))"
proof -
  let ?r = "add_op_to_operations E h (empty_ops 1) err ser"
  have same: "same_effect (empty_ops 1) ops ?r (add_op_to_operations E h ops err ser)"
    if "room ops" for ops
    by (rule add_op_same) (use assms that in auto)
  from same [of "empty_ops 1"] obtain bs where
      bs: "length bs \<le> 1" "fst ?r \<noteq> AEROSPIKE_OK \<longrightarrow> bs = []" "adds bs (empty_ops 1) (fst (snd ?r))"
    by (auto simp: same_effect_def)
  have "\<exists>ops'. add_op_to_operations E h ops err ser = (fst ?r, ops', snd (snd ?r)) \<and> adds bs ops ops'"
    if "room ops" for ops
    using same [OF that] bs(3)
    by (cases "add_op_to_operations E h ops err ser") (auto simp: same_effect_def adds_def)
  with bs(1,2) show ?thesis
    by (intro exI [of _ "fst ?r"] exI [of _ bs] exI [of _ "snd (snd ?r)"])
      (auto simp: adds_def room_def)
qed

theorem add_op_adds_at_most_one_witness:
  "\<exists>st bs e. length bs \<le> 1 \<and> (st \<noteq> AEROSPIKE_OK \<longrightarrow> bs = []) \<and>
    (\<forall>ops. length (ops_binops ops) < ops_capacity ops \<longrightarrow>
       (\<exists>ops'. add_op_to_operations sample_operate_ext
           [(SKey ''op'', ZLong 1), (SKey ''bin'', ZString ''age'')] ops as_error_init
           SERIALIZER_PHP = (st, ops', e) \<and>
          ops_binops ops' = ops_binops ops @ bs \<and> ops_capacity ops' = ops_capacity ops \<and>
          ops_gen ops' = ops_gen ops))"
  by (rule add_op_adds_at_most_one) simp_all

section \<open>Operations that are not what they say\<close>

text \<open>
  A list merge whose items cannot all be converted is not refused: the operation is added
  with a null list and success is returned, while the error structure holds the conversion's
  error.
\<close>

theorem list_merge_adds_null_list:
  assumes "list_api E" "\<forall>n. hashmap_new E n = Some []" "binop_api E" "code err = AEROSPIKE_OK"
    and op: "str_find h ''op'' = Some (ZLong 1002)" "AS_OPERATOR_TOUCH E \<noteq> 1002"
      "1002 \<notin> {AS_OPERATOR_WRITE E, AS_OPERATOR_READ E, AS_OPERATOR_INCR E, AS_OPERATOR_PREPEND E,
        AS_OPERATOR_APPEND E, AS_OPERATOR_DELETE E}"
    and bin: "str_find h ''bin'' = Some (ZString bin)" "strlen bin \<le> bin_name_max_len E"
    and items: "str_find h ''val'' = Some (ZArray items)" "hashtable_is_list items"
    and bad: "kv \<in> set items" "server_value E ser (snd kv) = None"
    and room: "length (ops_binops ops) < ops_capacity ops"
  shows "\<exists>m. add_op_to_operations E h ops err ser =
    (AEROSPIKE_OK, ops\<lparr>ops_binops := ops_binops ops @ [ListOp (OpListAppendItems (c_str bin) None)]\<rparr>,
     as_error_update err AEROSPIKE_ERR_PARAM m)"
proof -
  have "those (map (\<lambda>kv. server_value E ser (snd kv)) items) = None"
    using bad by (induction items) (auto split: option.splits)
  with conversion_yields(2) [where E = E and err = err and lst = None and ser = ser and h = items] assms(1,2,4) obtain m where
    l: "z_hashtable_to_as_list E items None err ser =
      (AEROSPIKE_OK, None, as_error_update err AEROSPIKE_ERR_PARAM m)"
    by auto
  show ?thesis
    using op bin items l room assms(3)
    by (intro exI [of _ m])
      (simp add: add_op_to_operations_def Let_def op_bin_arg_def op_index_arg_def
        list_requires_defs op_codes op_val_arg_def basic_op_case_def list_op_case_def
        add_list_items_op_def add_or_fail_def binop_apiD)
qed

theorem list_merge_adds_null_list_witness:
  "\<exists>m. add_op_to_operations sample_operate_ext
      [(SKey ''op'', ZLong 1002), (SKey ''bin'', ZString ''tags''),
       (SKey ''val'', ZArray [(IKey 0, ZLong 1), (IKey 1, ZUndef)])] (empty_ops 1) as_error_init
      SERIALIZER_PHP =
    (AEROSPIKE_OK, (empty_ops 1)\<lparr>ops_binops := ops_binops (empty_ops 1) @
       [ListOp (OpListAppendItems (c_str ''tags'') None)]\<rparr>,
     as_error_update as_error_init AEROSPIKE_ERR_PARAM m)"
  by (rule list_merge_adds_null_list [where items = "[(IKey 0, ZLong 1), (IKey 1, ZUndef)]" and
        kv = "(IKey 1, ZUndef)"])
    (simp_all add: nul_free_def NUL_def hashtable_is_list_def)

text \<open>
  A touch operation without a time to live adds nothing and reports success; with one it
  is the touch and the time to live of the whole list, cut to 32 bits.
\<close>

theorem touch_without_ttl_is_dropped:
  assumes "str_find h ''op'' = Some (ZLong n)" "ucast n = AS_OPERATOR_TOUCH E"
    and "binop_api E" "length (ops_binops ops) < ops_capacity ops"
  shows "add_op_to_operations E h ops err ser =
    (case str_find h ''ttl'' of
       None \<Rightarrow> (AEROSPIKE_OK, ops, err)
     | Some (ZLong t) \<Rightarrow>
         (AEROSPIKE_OK, ops\<lparr>ops_ttl := ucast t, ops_binops := ops_binops ops @ [BasicOp OpTouch]\<rparr>, err)
     | Some _ \<Rightarrow> (AEROSPIKE_ERR_PARAM, ops,
         as_error_update err AEROSPIKE_ERR_PARAM ''TTL must be an integer''))"
  using assms
  by (simp add: add_op_to_operations_def add_touch_op_def Let_def binop_apiD
      split: option.split zval.split)

theorem touch_without_ttl_is_dropped_witness:
  "add_op_to_operations sample_operate_ext [(SKey ''op'', ZLong 8)] (empty_ops 1) as_error_init
     SERIALIZER_PHP = (AEROSPIKE_OK, empty_ops 1, as_error_init)"
  using touch_without_ttl_is_dropped [of "[(SKey ''op'', ZLong 8)]" 8 sample_operate_ext "empty_ops 1"
      as_error_init SERIALIZER_PHP]
  by simp

text \<open>
  Operation codes are compared as 32-bit integers: two codes that agree in their low 32
  bits are the same operation, so that a number PHP code would not recognise as an operation is
  carried out as one.
\<close>

theorem op_code_truncated:
  assumes "ucast n = (ucast n' :: cint)" and "h = (SKey ''op'', ZLong n) # rest"
    and "h' = (SKey ''op'', ZLong n') # rest" and "SKey ''op'' \<notin> fst ` set rest"
  shows "add_op_to_operations E h ops err ser = add_op_to_operations E h' ops err ser"
proof -
  have f: "map_of h k = map_of h' k" if "k \<noteq> SKey ''op''" for k
    using that assms(2,3) by simp
  have args: "map_op_args E h op_type err ser = map_op_args E h' op_type err ser" for op_type
    by (simp add: map_op_args_def get_count_from_op_hash_def get_index_from_op_hash_def
        get_rank_from_op_hash_def get_return_type_from_op_hash_def get_map_policy_from_op_hash_def
        get_key_from_op_hash_def get_value_from_op_hash_def get_range_end_from_op_hash_def f)
  have parts: "op_bin_arg E op_type h = op_bin_arg E op_type h'"
    "op_index_arg op_type h = op_index_arg op_type h'"
    "op_val_arg E op_type h err ser = op_val_arg E op_type h' err ser"
    "add_touch_op E h ops err = add_touch_op E h' ops err" for op_type
    by (simp_all add: op_bin_arg_def op_index_arg_def op_val_arg_def add_touch_op_def f)
  have map_part: "add_map_op_to_operations E h op_type bin ops err ser =
      add_map_op_to_operations E h' op_type bin ops err ser" for op_type bin
    by (simp add: add_map_op_to_operations_def args)
  have "str_find h ''op'' = Some (ZLong n)" "str_find h' ''op'' = Some (ZLong n')"
    using assms(2,3) by simp_all
  then show ?thesis
    unfolding add_op_to_operations_def parts map_part by (simp add: assms(1))
qed

theorem op_code_truncated_witness:
  "add_op_to_operations sample_operate_ext [(SKey ''op'', ZLong 4294967297), (SKey ''bin'', ZString ''age'')]
     (empty_ops 1) as_error_init SERIALIZER_PHP =
   add_op_to_operations sample_operate_ext [(SKey ''op'', ZLong 1), (SKey ''bin'', ZString ''age'')]
     (empty_ops 1) as_error_init SERIALIZER_PHP"
  by (rule op_code_truncated [where rest = "[(SKey ''bin'', ZString ''age'')]"]) simp_all

end
