(* ===== verification/Configuration.thy ===== *)
theory Configuration
  imports Policies "HOL-Library.Monad_Syntax"
begin

text \<open>
  The configuration of a client: \<open>as_config\<close> as the extension fills it from the ini settings and
  from the arrays given to the constructor (\<open>client/aerospike_class.c\<close>,
  \<open>client/php_client_utils.c\<close>, \<open>tls_config.c\<close>). A configuration that is refused is abandoned
  with the constructor's local variable, so the functions return \<open>None\<close> for it.
\<close>

section \<open>The structure\<close>

record as_policies =
  cfg_read :: as_policy_read
  cfg_write :: as_policy_write
  cfg_remove :: as_policy_remove
  cfg_operate :: as_policy_operate
  cfg_apply :: as_policy_apply
  cfg_batch :: as_policy_batch
  cfg_query :: as_policy_query
  cfg_scan :: as_policy_scan
  cfg_info :: as_policy_info
  cfg_admin :: as_policy_admin

record tls_config =
  tls_enable :: bool
  tls_cafile :: "string option"
  tls_capath :: "string option"
  tls_protocols :: "string option"
  tls_cipher_suite :: "string option"
  tls_crl_check :: bool
  tls_crl_check_all :: bool
  tls_cert_blacklist :: "string option"
  tls_log_session_info :: bool
  tls_keyfile :: "string option"
  tls_certfile :: "string option"

record host =
  host_name :: string
  host_tls_name :: "string option"
  host_port :: u16

record config = as_policies +
  cfg_hosts :: "host list"
  cfg_user :: string
  cfg_password :: string
  cfg_cluster_name :: string
  cfg_use_shm :: bool
  cfg_shm_key :: cint
  cfg_shm_max_nodes :: u32
  cfg_shm_max_namespaces :: u32
  cfg_shm_takeover :: u32
  cfg_conn_timeout :: u32
  cfg_use_services_alternate :: bool
  cfg_max_conns_per_node :: u32
  cfg_thread_pool_size :: u32
  cfg_tender_interval :: u32
  cfg_rack_aware :: bool
  cfg_rack_id :: cint
  cfg_lua_user_path :: string
  cfg_tls :: tls_config

text \<open>What the constructor calls in the C client to fill it.\<close>

record config_ext = conv_ext +
  zts :: bool \<comment> \<open>a thread-safe build of PHP\<close>
  config_path_max_size :: nat \<comment> \<open>\<open>AS_CONFIG_PATH_MAX_SIZE\<close>\<close>
  config_add_host :: "config \<Rightarrow> host \<Rightarrow> config" \<comment> \<open>\<open>as_config_add_host\<close>, \<open>as_config_tls_add_host\<close>\<close>
  config_set_user :: "config \<Rightarrow> string \<Rightarrow> string \<Rightarrow> config option"
  config_set_cluster_name :: "config \<Rightarrow> string \<Rightarrow> config"

definition config_api :: "'e config_ext_scheme \<Rightarrow> bool" where
  "config_api E \<longleftrightarrow>
     (\<forall>c h. config_add_host E c h = c\<lparr>cfg_hosts := cfg_hosts c @ [h]\<rparr>) \<and>
     (\<forall>c u p c'. config_set_user E c u p = Some c' \<longrightarrow> c' = c\<lparr>cfg_user := u, cfg_password := p\<rparr>) \<and>
     (\<forall>c n. config_set_cluster_name E c n = c\<lparr>cfg_cluster_name := n\<rparr>)"

section \<open>Hosts\<close>

text \<open>One entry of the host list, or the message of the exception thrown.\<close>

definition host_entry :: "zval \<Rightarrow> string + host" where
  "host_entry z =
     (case z of
        ZArray h \<Rightarrow>
          if length h < 2 \<or> length h > 3 then Inl ''host entry must contain 2 or 3 elements''
          else
            (case (str_find h ''addr'', str_find h ''port'') of
               (Some z_hostname, Some z_port) \<Rightarrow>
                 (let z_tls = (if length h = 3 then str_find h ''tls_name'' else None) in
                  if \<not> pred_option is_string z_tls then Inl ''TLS name must be a string''
                  else
                    (case z_hostname of
                       ZString s \<Rightarrow>
                         (case z_port of
                            ZLong n \<Rightarrow> Inr \<lparr>host_name = c_str s,
                              host_tls_name = (case z_tls of Some (ZString t) \<Rightarrow> Some (c_str t) | _ \<Rightarrow> None),
                              host_port = ucast n\<rparr>
                          | _ \<Rightarrow> Inl ''port must be a number'')
                     | _ \<Rightarrow> Inl ''hostname must be a string''))
             | _ \<Rightarrow> Inl (''host entry must contain the keys '' @ [CHR 0x27] @ ''addr'' @ [CHR 0x27] @
                 '' and '' @ [CHR 0x27] @ ''port'' @ [CHR 0x27]))
      | _ \<Rightarrow> Inl ''host entry must be an array'')"

fun add_host_entries :: "'e config_ext_scheme \<Rightarrow> htab \<Rightarrow> config \<Rightarrow> string + config" where
  "add_host_entries E [] c = Inr c"
| "add_host_entries E ((k, z) # h) c =
     (case host_entry z of
        Inl m \<Rightarrow> Inl m
      | Inr host \<Rightarrow> add_host_entries E h (config_add_host E c host))"

definition add_hosts_from_zhash :: "'e config_ext_scheme \<Rightarrow> htab \<Rightarrow> config \<Rightarrow> string + config" where
  "add_hosts_from_zhash E h c =
     (if \<not> hashtable_is_list h then Inl ''Hosts entry must be an array''
      else add_host_entries E h c)"

section \<open>Settings read from an array\<close>

text \<open>
  An optional entry of one type: absent, it changes nothing; of another type, the configuration
  is refused.
\<close>

definition long_setting :: "htab \<Rightarrow> php_key \<Rightarrow> (zlong \<Rightarrow> 'c \<Rightarrow> 'c) \<Rightarrow> 'c \<Rightarrow> 'c option" where
  "long_setting h k f c =
     (case map_of h k of None \<Rightarrow> Some c | Some (ZLong n) \<Rightarrow> Some (f n c) | Some _ \<Rightarrow> None)"

definition string_setting :: "htab \<Rightarrow> php_key \<Rightarrow> (string \<Rightarrow> 'c \<Rightarrow> 'c) \<Rightarrow> 'c \<Rightarrow> 'c option" where
  "string_setting h k f c =
     (case map_of h k of None \<Rightarrow> Some c | Some (ZString s) \<Rightarrow> Some (f (c_str s) c) | Some _ \<Rightarrow> None)"

definition bool_setting :: "htab \<Rightarrow> php_key \<Rightarrow> (bool \<Rightarrow> 'c \<Rightarrow> 'c) \<Rightarrow> 'c \<Rightarrow> 'c option" where
  "bool_setting h k f c =
     (case map_of h k of
        None \<Rightarrow> Some c
      | Some ZTrue \<Rightarrow> Some (f True c)
      | Some ZFalse \<Rightarrow> Some (f False c)
      | Some _ \<Rightarrow> None)"

definition array_setting :: "htab \<Rightarrow> php_key \<Rightarrow> (htab \<Rightarrow> 'c \<Rightarrow> 'c) \<Rightarrow> 'c \<Rightarrow> 'c option" where
  "array_setting h k f c =
     (case map_of h k of None \<Rightarrow> Some c | Some (ZArray a) \<Rightarrow> Some (f a c) | Some _ \<Rightarrow> None)"

section \<open>TLS\<close>

text \<open>Entries of another type are ignored.\<close>

definition tls_bool :: "htab \<Rightarrow> zlong \<Rightarrow> (bool \<Rightarrow> tls_config \<Rightarrow> tls_config) \<Rightarrow> tls_config \<Rightarrow> tls_config" where
  "tls_bool h k f t =
     (case index_find h k of Some ZTrue \<Rightarrow> f True t | Some ZFalse \<Rightarrow> f False t | _ \<Rightarrow> t)"

definition tls_string :: "htab \<Rightarrow> zlong \<Rightarrow> (string option \<Rightarrow> tls_config \<Rightarrow> tls_config) \<Rightarrow> tls_config \<Rightarrow> tls_config"
where
  "tls_string h k f t = (case index_find h k of Some (ZString s) \<Rightarrow> f (Some (c_str s)) t | _ \<Rightarrow> t)"

definition setTLSConfig :: "htab \<Rightarrow> tls_config \<Rightarrow> tls_config" where
  "setTLSConfig h t =
     (let t = tls_bool h OPT_TLS_ENABLE (\<lambda>b. tls_enable_update (\<lambda>_. b)) t;
          t = tls_string h OPT_TLS_CAFILE (\<lambda>s. tls_cafile_update (\<lambda>_. s)) t;
          t = tls_string h OPT_TLS_CAPATH (\<lambda>s. tls_capath_update (\<lambda>_. s)) t;
          t = tls_string h OPT_TLS_PROTOCOLS (\<lambda>s. tls_protocols_update (\<lambda>_. s)) t;
          t = tls_string h OPT_TLS_CIPHER_SUITE (\<lambda>s. tls_cipher_suite_update (\<lambda>_. s)) t;
          t = tls_bool h OPT_TLS_CRL_CHECK (\<lambda>b. tls_crl_check_update (\<lambda>_. b)) t;
          t = tls_bool h OPT_TLS_CRL_CHECK_ALL (\<lambda>b. tls_crl_check_all_update (\<lambda>_. b)) t;
          t = tls_string h OPT_TLS_CERT_BLACKLIST (\<lambda>s. tls_cert_blacklist_update (\<lambda>_. s)) t;
          t = tls_bool h OPT_TLS_LOG_SESSION_INFO (\<lambda>b. tls_log_session_info_update (\<lambda>_. b)) t;
          t = tls_string h OPT_TLS_KEYFILE (\<lambda>s. tls_keyfile_update (\<lambda>_. s)) t
      in tls_string h OPT_TLS_CERTFILE (\<lambda>s. tls_certfile_update (\<lambda>_. s)) t)"

section \<open>The ini settings\<close>

text \<open>The settings as PHP delivers them; \<open>INI_STR\<close> may be null.\<close>

record ini_settings =
  ini_connect_timeout :: zlong
  ini_read_timeout :: zlong
  ini_write_timeout :: zlong
  ini_key_policy :: zlong
  ini_key_gen :: zlong
  ini_compression_threshold :: zlong
  ini_serializer_setting :: zlong
  ini_lua_user_path :: "string option"
  ini_shm_use :: bool
  ini_shm_key :: zlong
  ini_shm_max_namespaces :: zlong
  ini_shm_takeover :: zlong
  ini_shm_max_nodes :: zlong
  ini_thread_pool_size :: zlong
  ini_max_threads :: zlong

definition set_read_timeouts :: "u32 \<Rightarrow> config \<Rightarrow> config" where
  "set_read_timeouts t c = c\<lparr>
     cfg_read := (cfg_read c)\<lparr>rd_base := (rd_base (cfg_read c))\<lparr>total_timeout := t\<rparr>\<rparr>,
     cfg_info := (cfg_info c)\<lparr>in_timeout := t\<rparr>,
     cfg_batch := (cfg_batch c)\<lparr>ba_base := (ba_base (cfg_batch c))\<lparr>total_timeout := t\<rparr>\<rparr>\<rparr>"

definition set_write_timeouts :: "u32 \<Rightarrow> config \<Rightarrow> config" where
  "set_write_timeouts t c = c\<lparr>
     cfg_write := (cfg_write c)\<lparr>wr_base := (wr_base (cfg_write c))\<lparr>total_timeout := t\<rparr>\<rparr>,
     cfg_operate := (cfg_operate c)\<lparr>op_base := (op_base (cfg_operate c))\<lparr>total_timeout := t\<rparr>\<rparr>,
     cfg_remove := (cfg_remove c)\<lparr>rm_base := (rm_base (cfg_remove c))\<lparr>total_timeout := t\<rparr>\<rparr>,
     cfg_apply := (cfg_apply c)\<lparr>ap_base := (ap_base (cfg_apply c))\<lparr>total_timeout := t\<rparr>\<rparr>\<rparr>"

definition set_key_policies :: "u32 \<Rightarrow> config \<Rightarrow> config" where
  "set_key_policies k c = c\<lparr>
     cfg_read := (cfg_read c)\<lparr>rd_key := k\<rparr>, cfg_write := (cfg_write c)\<lparr>wr_key := k\<rparr>,
     cfg_operate := (cfg_operate c)\<lparr>op_key := k\<rparr>, cfg_remove := (cfg_remove c)\<lparr>rm_key := k\<rparr>\<rparr>"

text \<open>The second component is the client's \<open>serializer_type\<close>; an \<open>int\<close> holds 32 bits.\<close>

definition set_policy_defaults_from_ini ::
  "'e config_ext_scheme \<Rightarrow> ini_settings \<Rightarrow> config \<Rightarrow> config \<times> cint" where
  "set_policy_defaults_from_ini E i c =
     (let c = c\<lparr>cfg_conn_timeout := ucast (ini_connect_timeout i)\<rparr>;
          c = set_read_timeouts (ucast (ini_read_timeout i)) c;
          c = set_write_timeouts (ucast (ini_write_timeout i)) c;
          c = set_key_policies (ucast (ini_key_policy i)) c;
          c = c\<lparr>cfg_write := (cfg_write c)\<lparr>wr_compression_threshold := ucast (ini_compression_threshold i)\<rparr>\<rparr>;
          g = ucast (ini_key_gen i);
          c = c\<lparr>cfg_write := (cfg_write c)\<lparr>wr_gen := g\<rparr>, cfg_operate := (cfg_operate c)\<lparr>op_gen := g\<rparr>,
                cfg_remove := (cfg_remove c)\<lparr>rm_gen := g\<rparr>\<rparr>;
          c = (case ini_lua_user_path i of
                 Some s \<Rightarrow> if strlen s < config_path_max_size E then c\<lparr>cfg_lua_user_path := c_str s\<rparr> else c
               | None \<Rightarrow> c)
      in (c, ucast (ini_serializer_setting i)))"

definition set_as_config_from_ini :: "'e config_ext_scheme \<Rightarrow> ini_settings \<Rightarrow> config \<Rightarrow> config" where
  "set_as_config_from_ini E i c = c\<lparr>
     cfg_use_shm := ini_shm_use i, cfg_shm_key := ucast (ini_shm_key i),
     cfg_shm_max_namespaces := ucast (ini_shm_max_namespaces i),
     cfg_shm_takeover := ucast (ini_shm_takeover i), cfg_shm_max_nodes := ucast (ini_shm_max_nodes i),
     cfg_thread_pool_size := (if zts E then 0 else ucast (ini_thread_pool_size i)),
     cfg_max_conns_per_node := ucast (ini_max_threads i),
     cfg_write := (cfg_write c)\<lparr>wr_compression_threshold := ucast (ini_compression_threshold i)\<rparr>\<rparr>"

section \<open>The configuration array\<close>

definition shm_settings :: "htab \<Rightarrow> config \<Rightarrow> config option" where
  "shm_settings shm c = do {
     c \<leftarrow> long_setting shm (SKey ''shm_key'') (\<lambda>n c. c\<lparr>cfg_shm_key := ucast n\<rparr>) c;
     c \<leftarrow> long_setting shm (SKey ''shm_max_nodes'') (\<lambda>n c. c\<lparr>cfg_shm_max_nodes := ucast n\<rparr>) c;
     c \<leftarrow> long_setting shm (SKey ''shm_max_namespaces'') (\<lambda>n c. c\<lparr>cfg_shm_max_namespaces := ucast n\<rparr>) c;
     long_setting shm (SKey ''shm_takeover_threshold_sec'') (\<lambda>n c. c\<lparr>cfg_shm_takeover := ucast n\<rparr>) c
   }"

text \<open>A user without a password is not used.\<close>

definition credentials :: "'e config_ext_scheme \<Rightarrow> htab \<Rightarrow> config \<Rightarrow> config option" where
  "credentials E h c =
     (case str_find h ''user'' of
        None \<Rightarrow> Some c
      | Some (ZString user) \<Rightarrow>
          (case str_find h ''pass'' of
             None \<Rightarrow> Some c
           | Some (ZString password) \<Rightarrow> config_set_user E c (c_str user) (c_str password)
           | Some _ \<Rightarrow> None)
      | Some _ \<Rightarrow> None)"

definition set_as_config :: "'e config_ext_scheme \<Rightarrow> ini_settings \<Rightarrow> htab \<Rightarrow> config \<Rightarrow> config option" where
  "set_as_config E i h c = do {
     let c = set_as_config_from_ini E i c;
     c \<leftarrow> (case str_find h ''shm'' of
            None \<Rightarrow> Some c
          | Some (ZArray shm) \<Rightarrow> shm_settings shm (c\<lparr>cfg_use_shm := True\<rparr>)
          | Some _ \<Rightarrow> None);
     let c = (case index_find h OPT_TLS_CONFIG of
                Some (ZArray t) \<Rightarrow> c\<lparr>cfg_tls := setTLSConfig t (cfg_tls c)\<rparr>
              | _ \<Rightarrow> c);
     c \<leftarrow> credentials E h c;
     c \<leftarrow> long_setting h (SKey ''max_threads'') (\<lambda>n c. c\<lparr>cfg_max_conns_per_node := ucast n\<rparr>) c;
     c \<leftarrow> long_setting h (SKey ''thread_pool_size'')
           (\<lambda>n c. c\<lparr>cfg_thread_pool_size := if zts E then 0 else ucast n\<rparr>) c;
     c \<leftarrow> long_setting h (SKey ''compression_threshold'')
           (\<lambda>n c. c\<lparr>cfg_write := (cfg_write c)\<lparr>wr_compression_threshold := ucast n\<rparr>\<rparr>) c;
     c \<leftarrow> long_setting h (SKey ''tender_interval'') (\<lambda>n c. c\<lparr>cfg_tender_interval := ucast n\<rparr>) c;
     c \<leftarrow> string_setting h (SKey ''cluster_name'') (\<lambda>s c. config_set_cluster_name E c s) c;
     c \<leftarrow> bool_setting h (SKey ''rack_aware'') (\<lambda>b c. c\<lparr>cfg_rack_aware := b\<rparr>) c;
     long_setting h (SKey ''rack_id'') (\<lambda>n c. c\<lparr>cfg_rack_id := ucast n\<rparr>) c
   }"

section \<open>The default policies of a client\<close>

definition set_total_timeouts :: "u32 \<Rightarrow> config \<Rightarrow> config" where
  "set_total_timeouts t c = set_write_timeouts t (set_read_timeouts t c)"

definition set_socket_timeouts :: "u32 \<Rightarrow> config \<Rightarrow> config" where
  "set_socket_timeouts t c = c\<lparr>
     cfg_read := (cfg_read c)\<lparr>rd_base := (rd_base (cfg_read c))\<lparr>socket_timeout := t\<rparr>\<rparr>,
     cfg_batch := (cfg_batch c)\<lparr>ba_base := (ba_base (cfg_batch c))\<lparr>socket_timeout := t\<rparr>\<rparr>,
     cfg_write := (cfg_write c)\<lparr>wr_base := (wr_base (cfg_write c))\<lparr>socket_timeout := t\<rparr>\<rparr>,
     cfg_operate := (cfg_operate c)\<lparr>op_base := (op_base (cfg_operate c))\<lparr>socket_timeout := t\<rparr>\<rparr>,
     cfg_remove := (cfg_remove c)\<lparr>rm_base := (rm_base (cfg_remove c))\<lparr>socket_timeout := t\<rparr>\<rparr>,
     cfg_apply := (cfg_apply c)\<lparr>ap_base := (ap_base (cfg_apply c))\<lparr>socket_timeout := t\<rparr>\<rparr>\<rparr>"

definition set_all_max_retries :: "u32 \<Rightarrow> config \<Rightarrow> config" where
  "set_all_max_retries n c = c\<lparr>
     cfg_write := (cfg_write c)\<lparr>wr_base := (wr_base (cfg_write c))\<lparr>max_retries := n\<rparr>\<rparr>,
     cfg_operate := (cfg_operate c)\<lparr>op_base := (op_base (cfg_operate c))\<lparr>max_retries := n\<rparr>\<rparr>,
     cfg_remove := (cfg_remove c)\<lparr>rm_base := (rm_base (cfg_remove c))\<lparr>max_retries := n\<rparr>\<rparr>,
     cfg_read := (cfg_read c)\<lparr>rd_base := (rd_base (cfg_read c))\<lparr>max_retries := n\<rparr>\<rparr>,
     cfg_apply := (cfg_apply c)\<lparr>ap_base := (ap_base (cfg_apply c))\<lparr>max_retries := n\<rparr>\<rparr>,
     cfg_query := (cfg_query c)\<lparr>qu_base := (qu_base (cfg_query c))\<lparr>max_retries := n\<rparr>\<rparr>,
     cfg_scan := (cfg_scan c)\<lparr>sc_base := (sc_base (cfg_scan c))\<lparr>max_retries := n\<rparr>\<rparr>,
     cfg_batch := (cfg_batch c)\<lparr>ba_base := (ba_base (cfg_batch c))\<lparr>max_retries := n\<rparr>\<rparr>\<rparr>"

definition set_commit_levels :: "u32 \<Rightarrow> config \<Rightarrow> config" where
  "set_commit_levels n c = c\<lparr>
     cfg_write := (cfg_write c)\<lparr>wr_commit_level := n\<rparr>, cfg_remove := (cfg_remove c)\<lparr>rm_commit_level := n\<rparr>,
     cfg_operate := (cfg_operate c)\<lparr>op_commit_level := n\<rparr>, cfg_apply := (cfg_apply c)\<lparr>ap_commit_level := n\<rparr>\<rparr>"

definition set_read_modes_ap :: "u32 \<Rightarrow> config \<Rightarrow> config" where
  "set_read_modes_ap n c = c\<lparr>
     cfg_read := (cfg_read c)\<lparr>rd_read_mode_ap := n\<rparr>, cfg_operate := (cfg_operate c)\<lparr>op_read_mode_ap := n\<rparr>,
     cfg_batch := (cfg_batch c)\<lparr>ba_read_mode_ap := n\<rparr>\<rparr>"

definition set_replicas :: "u32 \<Rightarrow> config \<Rightarrow> config" where
  "set_replicas n c = c\<lparr>
     cfg_read := (cfg_read c)\<lparr>rd_replica := n\<rparr>, cfg_operate := (cfg_operate c)\<lparr>op_replica := n\<rparr>\<rparr>"

definition set_subpolicies_from_hash :: "htab \<Rightarrow> config \<Rightarrow> config option" where
  "set_subpolicies_from_hash h c = do {
     c \<leftarrow> array_setting h (IKey OPT_READ_DEFAULT_POL)
           (\<lambda>a c. c\<lparr>cfg_read := set_read_policy_from_hash a (cfg_read c)\<rparr>) c;
     c \<leftarrow> array_setting h (IKey OPT_WRITE_DEFAULT_POL)
           (\<lambda>a c. c\<lparr>cfg_write := set_write_policy_from_hash a (cfg_write c)\<rparr>) c;
     c \<leftarrow> array_setting h (IKey OPT_REMOVE_DEFAULT_POL)
           (\<lambda>a c. c\<lparr>cfg_remove := set_remove_policy_from_hash a (cfg_remove c)\<rparr>) c;
     c \<leftarrow> array_setting h (IKey OPT_BATCH_DEFAULT_POL)
           (\<lambda>a c. c\<lparr>cfg_batch := set_batch_policy_from_hash a (cfg_batch c)\<rparr>) c;
     c \<leftarrow> array_setting h (IKey OPT_OPERATE_DEFAULT_POL)
           (\<lambda>a c. c\<lparr>cfg_operate := set_operate_policy_from_hash a (cfg_operate c)\<rparr>) c;
     c \<leftarrow> array_setting h (IKey OPT_QUERY_DEFAULT_POL)
           (\<lambda>a c. c\<lparr>cfg_query := set_query_policy_from_hash a (cfg_query c)\<rparr>) c;
     c \<leftarrow> array_setting h (IKey OPT_SCAN_DEFAULT_POL)
           (\<lambda>a c. c\<lparr>cfg_scan := set_scan_policy_from_hash a (cfg_scan c)\<rparr>) c;
     array_setting h (IKey OPT_APPLY_DEFAULT_POL)
           (\<lambda>a c. c\<lparr>cfg_apply := set_apply_policy_from_hash a (cfg_apply c)\<rparr>) c
   }"

text \<open>
  The option array of the constructor. The value of \<open>USE_SERVICES_ALTERNATE\<close> is read as the
  integer payload of a boolean, which has none. The second component is \<open>serializer_type\<close>.
\<close>

definition set_policy_defaults_from_hash ::
  "'e config_ext_scheme \<Rightarrow> htab option \<Rightarrow> config \<times> cint \<Rightarrow> (config \<times> cint) option" where
  "set_policy_defaults_from_hash E options cs =
     (case options of
        None \<Rightarrow> Some cs
      | Some h \<Rightarrow> do {
          let (c, ser) = cs;
          c \<leftarrow> long_setting h (IKey OPT_CONNECT_TIMEOUT) (\<lambda>n c. c\<lparr>cfg_conn_timeout := ucast n\<rparr>) c;
          c \<leftarrow> (case index_find h USE_SERVICES_ALTERNATE of
                 None \<Rightarrow> Some c
               | Some v \<Rightarrow>
                   if is_bool v then Some (c\<lparr>cfg_use_services_alternate := (Z_LVAL E v \<noteq> 0)\<rparr>) else None);
          c \<leftarrow> long_setting h (IKey OPT_READ_TIMEOUT) (\<lambda>n. set_read_timeouts (ucast n)) c;
          c \<leftarrow> long_setting h (IKey OPT_WRITE_TIMEOUT) (\<lambda>n. set_write_timeouts (ucast n)) c;
          c \<leftarrow> long_setting h (IKey OPT_TOTAL_TIMEOUT) (\<lambda>n. set_total_timeouts (ucast n)) c;
          c \<leftarrow> long_setting h (IKey OPT_SOCKET_TIMEOUT) (\<lambda>n. set_socket_timeouts (ucast n)) c;
          c \<leftarrow> long_setting h (IKey OPT_POLICY_KEY) (\<lambda>n. set_key_policies (ucast n)) c;
          c \<leftarrow> long_setting h (IKey OPT_POLICY_EXISTS)
                (\<lambda>n c. c\<lparr>cfg_write := (cfg_write c)\<lparr>wr_exists := ucast n\<rparr>\<rparr>) c;
          c \<leftarrow> long_setting h (IKey OPT_MAX_RETRIES) (\<lambda>n. set_all_max_retries (ucast n)) c;
          c \<leftarrow> long_setting h (IKey OPT_POLICY_COMMIT_LEVEL) (\<lambda>n. set_commit_levels (ucast n)) c;
          c \<leftarrow> long_setting h (IKey OPT_POLICY_READ_MODE_AP) (\<lambda>n. set_read_modes_ap (ucast n)) c;
          c \<leftarrow> long_setting h (IKey OPT_POLICY_REPLICA) (\<lambda>n. set_replicas (ucast n)) c;
          ser \<leftarrow> long_setting h (IKey OPT_SERIALIZER) (\<lambda>n _. ucast n) ser;
          c \<leftarrow> set_subpolicies_from_hash h c;
          Some (c, ser)
        })"

end
