(* ===== verification/Client.thy ===== *)
theory Client
  imports Operate Predicates Records Configuration
begin

text \<open>
  The client object of \<open>client/aerospike_class.c\<close> and \<open>client/php_client_utils.c\<close>: the error it
  remembers, its connection state and the checks every method starts with; and the calls of the
  C client the methods end in, as the fields of one record.
\<close>

section \<open>Configuration and client\<close>

text \<open>\<open>AerospikeClient\<close>; \<open>as_client\<close> is the pointer to the \<open>aerospike\<close> structure.\<close>

record client =
  as_client :: "config option"
  is_connected :: bool
  is_valid :: bool
  client_error :: as_error
  is_persistent :: bool

text \<open>
  The calls the methods make outside the repository: \<open>'s\<close> is the state of the servers and of
  the client library. A call returns its error structure, whose code is the status it returns.
  A policy that is a null pointer is \<open>None\<close>; the library then takes it from the configuration.
  \<open>aerospike_key_get\<close> and \<open>aerospike_key_select\<close> also fill in the key's digest.
\<close>

record 's env =
  ini_serializer :: zlong \<comment> \<open>\<open>INI_INT("aerospike.serializer")\<close>\<close>
  read_struct :: "as_policy_read policy_struct"
  write_struct :: "as_policy_write policy_struct"
  remove_struct :: "as_policy_remove policy_struct"
  operate_struct :: "as_policy_operate policy_struct"
  query_struct :: "as_policy_query policy_struct"
  AS_POLICY_KEY_SEND :: u32
  operations_new :: "nat \<Rightarrow> operations" \<comment> \<open>\<open>as_operations_inita\<close>\<close>
  error_update_null :: "as_error \<Rightarrow> as_error" \<comment> \<open>\<open>as_error_update(&err, err.code, NULL)\<close>\<close>
  record_set_nil :: "as_record \<Rightarrow> string \<Rightarrow> as_record"
  query_new :: "string \<Rightarrow> string \<Rightarrow> as_query option"
  query_select_inita :: "as_query \<Rightarrow> nat \<Rightarrow> as_query"
  query_select :: "as_query \<Rightarrow> string \<Rightarrow> as_query"
  aerospike_connect :: "config \<Rightarrow> 's \<Rightarrow> as_error \<times> 's"
  aerospike_close :: "config \<Rightarrow> 's \<Rightarrow> as_error \<times> 's"
  cluster_is_connected :: "config \<Rightarrow> 's \<Rightarrow> bool"
  key_put :: "config \<Rightarrow> as_policy_write option \<Rightarrow> as_key \<Rightarrow> as_record \<Rightarrow> 's \<Rightarrow> as_error \<times> 's"
  key_get :: "config \<Rightarrow> as_policy_read \<Rightarrow> as_key \<Rightarrow> 's \<Rightarrow> as_error \<times> as_record option \<times> as_key \<times> 's"
  key_select :: "config \<Rightarrow> as_policy_read \<Rightarrow> as_key \<Rightarrow> string list \<Rightarrow> 's \<Rightarrow>
    as_error \<times> as_record option \<times> as_key \<times> 's"
  key_exists :: "config \<Rightarrow> as_policy_read \<Rightarrow> as_key \<Rightarrow> 's \<Rightarrow> as_error \<times> as_record option \<times> 's"
  key_remove :: "config \<Rightarrow> as_policy_remove \<Rightarrow> as_key \<Rightarrow> 's \<Rightarrow> as_error \<times> 's"
  key_operate :: "config \<Rightarrow> as_policy_operate option \<Rightarrow> as_key \<Rightarrow> operations \<Rightarrow> 's \<Rightarrow>
    as_error \<times> as_record option \<times> 's"
  query_foreach :: "config \<Rightarrow> as_policy_query option \<Rightarrow> as_query \<Rightarrow> 's \<Rightarrow> as_error \<times> 's"

section \<open>The remembered error\<close>

definition update_client_error :: "client \<Rightarrow> as_status \<Rightarrow> string \<Rightarrow> bool \<Rightarrow> client" where
  "update_client_error c st m d = c\<lparr>client_error := client_error_set st m d\<rparr>"

definition reset_client_error :: "client \<Rightarrow> client" where
  "reset_client_error c = c\<lparr>client_error := as_error_init\<rparr>"

definition check_object_and_connection :: "client \<Rightarrow> as_error \<Rightarrow> as_status \<times> as_error" where
  "check_object_and_connection c err =
     (if as_client c = None \<or> \<not> is_valid c then
        (AEROSPIKE_ERR_CLIENT, as_error_update err AEROSPIKE_ERR_CLIENT ''Invalid class object'')
      else if \<not> is_connected c then
        (AEROSPIKE_ERR_CLUSTER, as_error_update err AEROSPIKE_ERR_CLUSTER ''Not connected'')
      else (AEROSPIKE_OK, err))"

text \<open>The common end of the methods: an error other than OK is remembered.\<close>

definition remember :: "as_error \<Rightarrow> client \<Rightarrow> client" where
  "remember err c =
     (if code err \<noteq> AEROSPIKE_OK then update_client_error c (code err) (message err) (in_doubt err)
      else c)"

definition error_method :: "client \<Rightarrow> zval" where
  "error_method c = ZString (c_str (message (client_error c)))"

definition errorno_method :: "client \<Rightarrow> as_status" where
  "errorno_method c = code (client_error c)"

definition errorInDoubt_method :: "client \<Rightarrow> bool" where
  "errorInDoubt_method c = in_doubt (client_error c)"

section \<open>Connection\<close>

definition isConnected_method :: "('s, 'z) env_scheme \<Rightarrow> client \<Rightarrow> 's \<Rightarrow> bool" where
  "isConnected_method V c s =
     (case as_client c of
        None \<Rightarrow> False
      | Some cfg \<Rightarrow> is_connected c \<and> cluster_is_connected V cfg s)"

definition reconnect_method ::
  "('s, 'z) env_scheme \<Rightarrow> client \<Rightarrow> 's \<Rightarrow> as_status \<times> client \<times> 's" where
  "reconnect_method V c s =
     (let c = reset_client_error c in
      case as_client c of
        None \<Rightarrow> (AEROSPIKE_ERR_CLIENT,
          update_client_error c AEROSPIKE_ERR_CLIENT ''Client object is invalid'' False, s)
      | Some cfg \<Rightarrow>
          if is_connected c then
            (AEROSPIKE_ERR_CLIENT,
             update_client_error c AEROSPIKE_ERR_CLIENT ''Client already connected'' False, s)
          else
            (case aerospike_connect V cfg s of
               (err, s) \<Rightarrow>
                 if code err \<noteq> AEROSPIKE_OK then
                   (code err, update_client_error c (code err) (message err) (in_doubt err), s)
                 else (AEROSPIKE_OK, c\<lparr>is_connected := True\<rparr>, s)))"

definition shmKey_method :: "client \<Rightarrow> zval" where
  "shmKey_method c =
     (case as_client c of
        None \<Rightarrow> ZNull
      | Some cfg \<Rightarrow> if cfg_use_shm cfg then ZLong (scast (cfg_shm_key cfg)) else ZNull)"

definition close_method ::
  "('s, 'z) env_scheme \<Rightarrow> client \<Rightarrow> 's \<Rightarrow> as_status \<times> client \<times> 's" where
  "close_method V c s =
     (case as_client c of
        None \<Rightarrow> (AEROSPIKE_ERR_CLIENT, c, s)
      | Some cfg \<Rightarrow>
          (case (if is_persistent c then (as_error_init, s) else aerospike_close V cfg s) of
             (err, s) \<Rightarrow> (code err, c\<lparr>is_connected := False\<rparr>, s)))"

section \<open>The state machine of a connection\<close>

text \<open>What the methods of one object can do to its connection, the server's part left open.\<close>

inductive connection_step :: "('s, 'z) env_scheme \<Rightarrow> client \<times> 's \<Rightarrow> client \<times> 's \<Rightarrow> bool"
  for V where
  close: "close_method V c s = (st, c', s') \<Longrightarrow> connection_step V (c, s) (c', s')"
| reconnect: "reconnect_method V c s = (st, c', s') \<Longrightarrow> connection_step V (c, s) (c', s')"

inductive_cases connection_stepE: "connection_step V x y"

inductive connection_steps :: "('s, 'z) env_scheme \<Rightarrow> client \<times> 's \<Rightarrow> client \<times> 's \<Rightarrow> bool"
  for V where
  refl: "connection_steps V x x"
| step: "connection_steps V x y \<Longrightarrow> connection_step V y z \<Longrightarrow> connection_steps V x z"

lemma client_error_update [simp]:
  "client_error (update_client_error c st m d) = client_error_set st m d"
  "as_client (update_client_error c st m d) = as_client c"
  "is_connected (update_client_error c st m d) = is_connected c"
  "is_valid (update_client_error c st m d) = is_valid c"
  "is_persistent (update_client_error c st m d) = is_persistent c"
  by (simp_all add: update_client_error_def)

lemma client_error_reset [simp]:
  "client_error (reset_client_error c) = as_error_init"
  "as_client (reset_client_error c) = as_client c"
  "is_connected (reset_client_error c) = is_connected c"
  "is_valid (reset_client_error c) = is_valid c"
  "is_persistent (reset_client_error c) = is_persistent c"
  by (simp_all add: reset_client_error_def)

lemma client_error_set_fields [simp]:
  "code (client_error_set st m d) = st" "message (client_error_set st m d) = m"
  "in_doubt (client_error_set st m d) = d"
  by (simp_all add: client_error_set_def)

lemma remember_fields [simp]:
  "as_client (remember e c) = as_client c" "is_connected (remember e c) = is_connected c"
  "is_valid (remember e c) = is_valid c"
  by (simp_all add: remember_def)

lemma code_remember [simp]:
  "client_error c = as_error_init \<Longrightarrow> code (client_error (remember e c)) = code e"
  by (simp add: remember_def)

definition usable :: "client \<Rightarrow> bool" where
  "usable c \<longleftrightarrow> as_client c \<noteq> None \<and> is_valid c \<and> is_connected c"

lemma check_usable [simp]:
  "fst (check_object_and_connection c err) = AEROSPIKE_OK \<longleftrightarrow> usable c"
  "usable c \<Longrightarrow> check_object_and_connection c err = (AEROSPIKE_OK, err)"
  by (auto simp: check_object_and_connection_def usable_def)

lemma check_unusable:
  "\<not> usable c \<Longrightarrow> \<exists>st m. st \<noteq> AEROSPIKE_OK \<and>
     check_object_and_connection c err = (st, as_error_update err st m)"
  by (auto simp: check_object_and_connection_def usable_def)

lemma usable_cases [simp]:
  "usable (update_client_error c st m d) = usable c" "usable (reset_client_error c) = usable c"
  "usable (remember e c) = usable c"
  by (simp_all add: usable_def)

end
