(* ===== verification/KeyValue.thy ===== *)
theory KeyValue
  imports Client
begin

text \<open>
  The methods on one record: \<open>put\<close>, \<open>get\<close>, \<open>exists\<close>, \<open>remove\<close> and \<open>removeBin\<close> of
  \<open>client/put.c\<close>, \<open>client/get.c\<close>, \<open>client/exists.c\<close>, \<open>client/remove.c\<close> and
  \<open>client/remove_bin.c\<close>.

  The arguments are what \<open>zend_parse_parameters\<close> delivers, \<open>None\<close> when it fails. The result is
  the value returned, for \<open>get\<close> and \<open>exists\<close> the value assigned to the argument passed by
  reference (\<open>None\<close>: it is left alone), the client and the state of the servers; it is \<open>None\<close>
  when the method reads through a null pointer or takes the bytes of a value that is no string.
\<close>

section \<open>put\<close>

text \<open>From the check of the policy on; \<open>rows\<close> are the bins, \<open>ttl\<close> the time to live, if any.\<close>

definition put_checked ::
  "'e conv_ext_scheme \<Rightarrow> ('s, 'z) env_scheme \<Rightarrow> config \<Rightarrow> client \<Rightarrow> htab \<Rightarrow> htab \<Rightarrow> zlong option \<Rightarrow>
     zval option \<Rightarrow> as_error \<Rightarrow> 's \<Rightarrow> (as_status \<times> client \<times> 's) option" where
  "put_checked E V cfg c z_key rows ttl z_policy err s =
     (let cleanup = (\<lambda>err s. Some (code err, remember err c, s));
          p = map_option (\<lambda>z. zval_to_as_policy_write (write_struct V) (Some z) (cfg_write cfg)) z_policy
      in
      if (case p of Some (st, _) \<Rightarrow> st \<noteq> AEROSPIKE_OK | None \<Rightarrow> False) then
        cleanup (as_error_update err AEROSPIKE_ERR_PARAM ''Invalid policy'') s
      else
        (case z_hashtable_to_as_key E z_key err of
           (AEROSPIKE_OK, Some key, err) \<Rightarrow>
             (case set_serializer_from_policy_hash (ini_serializer V) (ucast (ini_serializer V))
                 z_policy of
                (st, serializer_type) \<Rightarrow>
                  if st \<noteq> AEROSPIKE_OK then
                    cleanup (as_error_update err AEROSPIKE_ERR_PARAM ''Invalid serializer value'') s
                  else
                    (case z_hashtable_to_as_record E rows err serializer_type of
                       None \<Rightarrow> None
                     | Some (st, r, err) \<Rightarrow>
                         if st \<noteq> AEROSPIKE_OK then cleanup err s
                         else
                           (let r = (case ttl of Some n \<Rightarrow> r\<lparr>rec_ttl := ucast n\<rparr> | None \<Rightarrow> r) in
                            case set_record_generation_from_write_policy r z_policy of
                              (st, r) \<Rightarrow>
                                if st \<noteq> AEROSPIKE_OK then Some (AEROSPIKE_ERR_PARAM, c, s)
                                else (case key_put V cfg (map_option snd p) key r s of
                                        (err, s) \<Rightarrow> cleanup err s))))
         | (_, _, err) \<Rightarrow> cleanup (as_error_update err AEROSPIKE_ERR_PARAM ''Invalid Key'') s))"

definition put_method ::
  "'e conv_ext_scheme \<Rightarrow> ('s, 'z) env_scheme \<Rightarrow> client \<Rightarrow>
     (htab \<times> zval \<times> zval option \<times> zval option) option \<Rightarrow> 's \<Rightarrow> (as_status \<times> client \<times> 's) option" where
  "put_method E V c args s =
     (let c = reset_client_error c;
          fail = (\<lambda>m. Some (AEROSPIKE_ERR_PARAM, update_client_error c AEROSPIKE_ERR_PARAM m False, s))
      in
      case check_object_and_connection c as_error_init of
        (st, err) \<Rightarrow>
          if st \<noteq> AEROSPIKE_OK then
            Some (code err, update_client_error c (code err) (message err) False, s)
          else
            (case (args, as_client c) of
               (Some (z_key, z_record, z_ttl, z_policy), Some cfg) \<Rightarrow>
                 if pred_option (\<lambda>z. z = ZNull \<or> is_long z) z_ttl then
                   (case z_record of
                      ZArray rows \<Rightarrow>
                        if rows = [] then fail ''Array of bins must not be empty''
                        else put_checked E V cfg c z_key rows
                               (case z_ttl of Some (ZLong n) \<Rightarrow> Some n | _ \<Rightarrow> None) z_policy err s
                    | _ \<Rightarrow> fail ''Record must be an array'')
                 else fail ''ttl must be null or long''
             | _ \<Rightarrow> fail ''Invalid parameters to put''))"

section \<open>get\<close>

text \<open>The names of the bins to fetch, or the message of the first that is no name.\<close>

fun filter_bins :: "'e conv_ext_scheme \<Rightarrow> htab \<Rightarrow> string + string list" where
  "filter_bins E [] = Inr []"
| "filter_bins E ((k, z) # h) =
     (case z of
        ZString s \<Rightarrow>
          if bin_name_max_len E < length s then Inl ''Bin name too long''
          else (case filter_bins E h of Inl m \<Rightarrow> Inl m | Inr names \<Rightarrow> Inr (c_str s # names))
      | _ \<Rightarrow> Inl ''Bin names must be strings'')"

definition as_get_with_bins ::
  "'e conv_ext_scheme \<Rightarrow> ('s, 'z) env_scheme \<Rightarrow> config \<Rightarrow> as_error \<Rightarrow> as_key \<Rightarrow> as_policy_read \<Rightarrow>
     htab \<Rightarrow> 's \<Rightarrow> as_error \<times> as_record option \<times> as_key \<times> 's" where
  "as_get_with_bins E V cfg err key p bins s =
     (if \<not> hashtable_is_list bins then
        (as_error_update err AEROSPIKE_ERR_PARAM ''Bins must be a list'', None, key, s)
      else
        (case filter_bins E bins of
           Inl m \<Rightarrow> (as_error_update err AEROSPIKE_ERR_PARAM m, None, key, s)
         | Inr names \<Rightarrow> key_select V cfg p key names s))"

text \<open>
  A record that is null although the call succeeded would be read through.
\<close>

definition get_answer ::
  "'e conv_ext_scheme \<Rightarrow> ('s, 'z) env_scheme \<Rightarrow> client \<Rightarrow> as_policy_read \<Rightarrow>
     as_error \<times> as_record option \<times> as_key \<times> 's \<Rightarrow>
     (as_status \<times> zval option \<times> client \<times> 's) option" where
  "get_answer E V c p answer =
     (case answer of
        (err, r, key, s) \<Rightarrow>
          if code err \<noteq> AEROSPIKE_OK then Some (code err, Some (ZArray []), remember err c, s)
          else
            (case r of
               None \<Rightarrow> None
             | Some r \<Rightarrow>
                 (case as_record_to_zval E r (Some key) (rd_key p = AS_POLICY_KEY_SEND V) err of
                    (_, z, err) \<Rightarrow>
                      Some (code err, Some (if code err \<noteq> AEROSPIKE_OK then ZArray [] else z),
                        remember err c, s))))"

definition get_filtered ::
  "'e conv_ext_scheme \<Rightarrow> ('s, 'z) env_scheme \<Rightarrow> config \<Rightarrow> client \<Rightarrow> as_policy_read \<Rightarrow> as_key \<Rightarrow>
     zval option \<Rightarrow> as_error \<Rightarrow> 's \<Rightarrow> (as_status \<times> zval option \<times> client \<times> 's) option" where
  "get_filtered E V cfg c p key z_filter err s =
     (case z_filter of
        None \<Rightarrow> get_answer E V c p (key_get V cfg p key s)
      | Some (ZArray bins) \<Rightarrow> get_answer E V c p (as_get_with_bins E V cfg err key p bins s)
      | Some _ \<Rightarrow> Some (AEROSPIKE_ERR_PARAM, Some ZNull, update_client_error c AEROSPIKE_ERR_PARAM
          ''Filter bins must be an array if provided'' False, s))"

definition get_method ::
  "'e conv_ext_scheme \<Rightarrow> ('s, 'z) env_scheme \<Rightarrow> client \<Rightarrow> (htab \<times> zval option \<times> zval option) option \<Rightarrow>
     's \<Rightarrow> (as_status \<times> zval option \<times> client \<times> 's) option" where
  "get_method E V c args s =
     (case check_object_and_connection (reset_client_error c) as_error_init of
        (st, err) \<Rightarrow>
          (let c = (if st \<noteq> AEROSPIKE_OK then
                      update_client_error (reset_client_error c) (code err) (message err) (in_doubt err)
                    else reset_client_error c);
               fail = (\<lambda>out m. Some (AEROSPIKE_ERR_PARAM, out,
                         update_client_error c AEROSPIKE_ERR_PARAM m False, s))
           in
           case args of
             None \<Rightarrow> fail None ''Invalid parameters to Aerospike::get''
           | Some (z_key, z_filter, z_policy) \<Rightarrow>
               (case as_client c of
                  None \<Rightarrow> None
                | Some cfg \<Rightarrow>
                    (case zval_to_as_policy_read (read_struct V) z_policy (cfg_read cfg) of
                       (converted, p) \<Rightarrow>
                         if converted \<noteq> AEROSPIKE_OK then
                           fail (Some ZNull) ''Invalid read read_policy''
                         else
                           (case z_hashtable_to_as_key E z_key err of
                              (AEROSPIKE_OK, Some key, err) \<Rightarrow>
                                get_filtered E V cfg c p key z_filter err s
                            | _ \<Rightarrow> fail (Some ZNull) ''Invalid key'')))))"

section \<open>exists, remove and removeBin\<close>

definition exists_method ::
  "'e conv_ext_scheme \<Rightarrow> ('s, 'z) env_scheme \<Rightarrow> client \<Rightarrow> (htab \<times> zval option) option \<Rightarrow> 's \<Rightarrow>
     as_status \<times> zval option \<times> client \<times> 's" where
  "exists_method E V c args s =
     (let c = reset_client_error c;
          fail = (\<lambda>out m. (AEROSPIKE_ERR_PARAM, out,
                    update_client_error c AEROSPIKE_ERR_PARAM m False, s))
      in
      case check_object_and_connection c as_error_init of
        (st, err) \<Rightarrow>
          if st \<noteq> AEROSPIKE_OK then
            (code err, None, update_client_error c (code err) (message err) (in_doubt err), s)
          else
            (case (args, as_client c) of
               (Some (z_key, z_policy), Some cfg) \<Rightarrow>
                 (case z_hashtable_to_as_key E z_key as_error_init of
                    (AEROSPIKE_OK, Some key, err) \<Rightarrow>
                      (case zval_to_as_policy_read (read_struct V) z_policy (cfg_read cfg) of
                         (st, p) \<Rightarrow>
                           if st \<noteq> AEROSPIKE_OK then fail (Some ZNull) ''Invalid read policy''
                           else
                             (case key_exists V cfg p key s of
                                (err, r, s) \<Rightarrow>
                                  (case (case r of
                                           Some r \<Rightarrow>
                                             (case as_record_to_z_metadata E r (ZArray []) err of
                                                (_, z, e) \<Rightarrow> (z, e))
                                         | None \<Rightarrow> (ZNull, err)) of
                                     (z, err) \<Rightarrow>
                                       (code err, Some (if code err \<noteq> AEROSPIKE_OK then ZNull else z),
                                        remember err c, s))))
                  | _ \<Rightarrow> fail None ''Failed to convert key'')
             | _ \<Rightarrow> fail None ''Invalid parameters to exists''))"

text \<open>The error of a refused key is remembered with its own code, the method returns another.\<close>

definition remove_method ::
  "'e conv_ext_scheme \<Rightarrow> ('s, 'z) env_scheme \<Rightarrow> client \<Rightarrow> (htab \<times> zval option) option \<Rightarrow> 's \<Rightarrow>
     (as_status \<times> client \<times> 's) option" where
  "remove_method E V c args s =
     (let c = reset_client_error c;
          fail = (\<lambda>st m. Some (AEROSPIKE_ERR_PARAM, update_client_error c st m False, s))
      in
      case check_object_and_connection c as_error_init of
        (st, err) \<Rightarrow>
          if st \<noteq> AEROSPIKE_OK then
            Some (code err, update_client_error c (code err) (message err) False, s)
          else
            (case (args, as_client c) of
               (Some (z_key, z_options), Some cfg) \<Rightarrow>
                 (case zval_to_as_policy_remove E (remove_struct V) z_options (cfg_remove cfg) of
                    None \<Rightarrow> None
                  | Some (st, p) \<Rightarrow>
                      if st \<noteq> AEROSPIKE_OK then fail AEROSPIKE_ERR_PARAM ''Invalid remove policy''
                      else
                        (case z_hashtable_to_as_key E z_key as_error_init of
                           (AEROSPIKE_OK, Some key, err) \<Rightarrow>
                             (case key_remove V cfg p key s of
                                (err, s) \<Rightarrow> Some (code err, remember err c, s))
                         | (_, _, err) \<Rightarrow> fail (code err) ''Failed to create key''))
             | _ \<Rightarrow> fail AEROSPIKE_ERR_PARAM ''Invalid Parameters for remove''))"

definition removeBin_method ::
  "'e conv_ext_scheme \<Rightarrow> ('s, 'z) env_scheme \<Rightarrow> client \<Rightarrow> (htab \<times> htab \<times> zval option) option \<Rightarrow> 's \<Rightarrow>
     (as_status \<times> client \<times> 's) option" where
  "removeBin_method E V c args s =
     (let c = reset_client_error c;
          fail = (\<lambda>m. Some (AEROSPIKE_ERR_PARAM, update_client_error c AEROSPIKE_ERR_PARAM m False, s))
      in
      case check_object_and_connection c as_error_init of
        (st, err) \<Rightarrow>
          if st \<noteq> AEROSPIKE_OK then
            Some (code err, update_client_error c (code err) (message err) False, s)
          else
            (case (args, as_client c) of
               (Some (z_key, bin_array, z_policy), Some cfg) \<Rightarrow>
                 (case zval_to_as_policy_write (write_struct V) z_policy (cfg_write cfg) of
                    (st, p) \<Rightarrow>
                      if st \<noteq> AEROSPIKE_OK then fail ''Invalid policy to removeBin''
                      else
                        (case z_hashtable_to_as_key E z_key err of
                           (AEROSPIKE_OK, Some key, err) \<Rightarrow>
                             (case set_record_generation_from_write_policy
                                 (record_new E (length bin_array)) z_policy of
                                (st, r) \<Rightarrow>
                                  if st \<noteq> AEROSPIKE_OK then fail ''generation policy''
                                  else if \<not> hashtable_is_list bin_array then
                                    fail ''list of bins must be an array''
                                  else if \<not> list_all (\<lambda>kv. is_string (snd kv)) bin_array then None
                                  else
                                    (let r = foldl (\<lambda>r kv. case snd kv of
                                           ZString name \<Rightarrow> record_set_nil V r (c_str name) | _ \<Rightarrow> r)
                                         r bin_array
                                     in
                                     case key_put V cfg (Some p) key r s of
                                       (err, s) \<Rightarrow> Some (code err, remember err c, s)))
                         | _ \<Rightarrow> fail ''Invalid key''))
             | _ \<Rightarrow> fail ''Invalid arguments to removeBin''))"

end
