(* ===== verification/Updates.thy ===== *)
theory Updates
  imports KeyValue
begin

text \<open>
  The methods that change a record by operations: \<open>operate\<close> and \<open>operateOrdered\<close> of
  \<open>client/operate.c\<close>, and \<open>touch\<close>, \<open>append\<close>, \<open>prepend\<close> and \<open>increment\<close> of the files of their
  names. Arguments and results are as in \<open>KeyValue\<close>; the configured operate policy is part of
  the client returned, since the conversion of the policy writes to it.
\<close>

definition set_operate_policy :: "client \<Rightarrow> config \<Rightarrow> as_policy_operate \<Rightarrow> client" where
  "set_operate_policy c cfg d = c\<lparr>as_client := Some (cfg\<lparr>cfg_operate := d\<rparr>)\<rparr>"

section \<open>operate and operateOrdered\<close>

text \<open>The loops over the operations: whether all were added, the list and the error.\<close>

fun operate_loop ::
  "'e operate_ext_scheme \<Rightarrow> ('s, 'z) env_scheme \<Rightarrow> htab \<Rightarrow> operations \<Rightarrow> as_error \<Rightarrow> cint \<Rightarrow>
     bool \<times> operations \<times> as_error" where
  "operate_loop E V [] ops err ser = (True, ops, err)"
| "operate_loop E V ((k, z) # h) ops err ser =
     (case z of
        ZArray op_array \<Rightarrow>
          (case add_op_to_operations E op_array ops err ser of
             (st, ops, err) \<Rightarrow>
               if st \<noteq> AEROSPIKE_OK then (False, ops, error_update_null V err)
               else operate_loop E V h ops err ser)
      | _ \<Rightarrow> (False, ops, as_error_update err AEROSPIKE_ERR_PARAM ''Operation must be an array''))"

fun operateOrdered_loop ::
  "'e operate_ext_scheme \<Rightarrow> htab \<Rightarrow> operations \<Rightarrow> as_error \<Rightarrow> cint \<Rightarrow> bool \<times> operations \<times> as_error" where
  "operateOrdered_loop E [] ops err ser = (True, ops, err)"
| "operateOrdered_loop E ((k, z) # h) ops err ser =
     (case (k, z) of
        (SKey s, _) \<Rightarrow> (False, ops,
          as_error_update err AEROSPIKE_ERR_PARAM ''Operations array must not have string keys'')
      | (IKey n, ZArray op_array) \<Rightarrow>
          (case add_op_to_operations E op_array ops err ser of
             (st, ops, err) \<Rightarrow>
               if st \<noteq> AEROSPIKE_OK then (False, ops, err)
               else operateOrdered_loop E h ops err ser)
      | _ \<Rightarrow> (False, ops, as_error_update err AEROSPIKE_ERR_PARAM ''Operation must be an array''))"

text \<open>
  The checks both methods start with, in the order of the code; the continuation gets the
  client, the configuration and the key.
\<close>

definition operate_guards ::
  "'e conv_ext_scheme \<Rightarrow> client \<Rightarrow> htab \<Rightarrow> bool \<Rightarrow> 's \<Rightarrow>
     (client \<Rightarrow> config \<Rightarrow> as_key \<Rightarrow> as_error \<Rightarrow> (as_status \<times> zval option \<times> client \<times> 's) option) \<Rightarrow>
     (as_status \<times> zval option \<times> client \<times> 's) option" where
  "operate_guards E c z_key retval s k =
     (let fail = (\<lambda>st m. Some (st, if retval then Some ZNull else None,
                    update_client_error c st m False, s))
      in
      case as_client c of
        None \<Rightarrow> fail AEROSPIKE_ERR_CLIENT ''Invalid aerospike object''
      | Some cfg \<Rightarrow>
          if \<not> is_valid c then fail AEROSPIKE_ERR_CLIENT ''Invalid aerospike object''
          else if \<not> is_connected c then
            fail AEROSPIKE_ERR_CLUSTER ''No connection to Aerospike server''
          else
            (case z_hashtable_to_as_key E z_key as_error_init of
               (AEROSPIKE_OK, Some key, err) \<Rightarrow> k c cfg key err
             | _ \<Rightarrow> fail AEROSPIKE_ERR_PARAM ''Invalid key''))"

text \<open>
  The call and what follows it. \<open>retval\<close>: the caller passed an argument for the result.
\<close>

definition operate_answer ::
  "('s, 'z) env_scheme \<Rightarrow> client \<Rightarrow> bool \<Rightarrow>
     (as_record option \<Rightarrow> as_error \<Rightarrow> (zval \<times> as_error) option) \<Rightarrow>
     as_error \<times> as_record option \<times> 's \<Rightarrow> (as_status \<times> zval option \<times> client \<times> 's) option" where
  "operate_answer V c retval convert answer =
     (case answer of
        (err, r, s) \<Rightarrow>
          if code err \<noteq> AEROSPIKE_OK then
            Some (code err, if retval then Some ZNull else None, remember err c, s)
          else if retval then
            (case convert r err of
               None \<Rightarrow> None
             | Some (z, err) \<Rightarrow> Some (code err, Some z, remember err c, s))
          else Some (code err, None, c, s))"

text \<open>The result both give the caller: the last value of each bin, or all of them in order.\<close>

definition operate_result ::
  "'e operate_ext_scheme \<Rightarrow> as_record option \<Rightarrow> as_error \<Rightarrow> (zval \<times> as_error) option" where
  "operate_result E r err =
     (case r of
        None \<Rightarrow> None
      | Some r \<Rightarrow> (case as_bins_to_zval E r err of (_, z, err) \<Rightarrow> Some (z, err)))"

definition operateOrdered_result ::
  "'e operate_ext_scheme \<Rightarrow> as_record option \<Rightarrow> as_error \<Rightarrow> (zval \<times> as_error) option" where
  "operateOrdered_result E r err =
     (case as_operate_record_to_zval E r ZNull err of (_, z, err) \<Rightarrow> Some (z, err))"

definition operate_method ::
  "'e operate_ext_scheme \<Rightarrow> ('s, 'z) env_scheme \<Rightarrow> client \<Rightarrow>
     (htab \<times> htab \<times> bool \<times> zval option) option \<Rightarrow> 's \<Rightarrow>
     (as_status \<times> zval option \<times> client \<times> 's) option" where
  "operate_method E V c args s =
     (let c = reset_client_error c in
      case args of
        None \<Rightarrow> Some (AEROSPIKE_ERR_PARAM, None,
          update_client_error c AEROSPIKE_ERR_PARAM ''Invalid Parameters for operate'' False, s)
      | Some (z_key, z_ops, retval, z_policy) \<Rightarrow>
          operate_guards E c z_key retval s (\<lambda>c cfg key err.
            (case zval_to_as_policy_operate E (operate_struct V) z_policy (cfg_operate cfg) of
               (st, p, d) \<Rightarrow>
                 (let cfg = cfg\<lparr>cfg_operate := d\<rparr>;
                      c = set_operate_policy c cfg d;
                      cleanup = (\<lambda>err. Some (code err, if retval then Some ZNull else None,
                                   remember err c, s));
                      fail = (\<lambda>m. cleanup (as_error_update err AEROSPIKE_ERR_PARAM m))
                  in
                  if st \<noteq> AEROSPIKE_OK then fail ''Invalid operate policy''
                  else if z_ops = [] then fail ''Empty operations array''
                  else
                    (case set_operations_generation_from_operate_policy
                        (operations_new V (length z_ops)) z_policy of
                       (st, ops) \<Rightarrow>
                         if st \<noteq> AEROSPIKE_OK then fail ''Invalid generation policy''
                         else
                           (case set_operations_ttl_from_operate_policy ops z_policy of
                              (st, ops) \<Rightarrow>
                                if st \<noteq> AEROSPIKE_OK then fail ''Invalid generation policy''
                                else if \<not> hashtable_is_list z_ops then
                                  fail ''Operations array must be a list''
                                else
                                  (case operate_loop E V z_ops ops err
                                      (snd (set_serializer_from_policy_hash (ini_serializer V)
                                         (ucast (ini_serializer V)) z_policy)) of
                                     (added, ops, err) \<Rightarrow>
                                       if \<not> added then cleanup err
                                       else operate_answer V c retval (operate_result E)
                                         (key_operate V cfg (Some p) key ops s))))))))"

definition operateOrdered_method ::
  "'e operate_ext_scheme \<Rightarrow> ('s, 'z) env_scheme \<Rightarrow> client \<Rightarrow>
     (htab \<times> htab \<times> bool \<times> zval option) option \<Rightarrow> 's \<Rightarrow>
     (as_status \<times> zval option \<times> client \<times> 's) option" where
  "operateOrdered_method E V c args s =
     (let c = reset_client_error c in
      case args of
        None \<Rightarrow> Some (AEROSPIKE_ERR_PARAM, None,
          update_client_error c AEROSPIKE_ERR_PARAM ''Invalid Parameters for operateOrdered'' False, s)
      | Some (z_key, z_ops, retval, z_policy) \<Rightarrow>
          operate_guards E c z_key retval s (\<lambda>c cfg key err.
            (case (case z_policy of
                     None \<Rightarrow> (AEROSPIKE_OK, None, cfg_operate cfg)
                   | Some z \<Rightarrow>
                       (case zval_to_as_policy_operate E (operate_struct V) (Some z) (cfg_operate cfg) of
                          (st, p, d) \<Rightarrow> (st, Some p, d))) of
               (st, p, d) \<Rightarrow>
                 (let cfg = cfg\<lparr>cfg_operate := d\<rparr>;
                      c = set_operate_policy c cfg d;
                      cleanup = (\<lambda>err. Some (code err, if retval then Some ZNull else None,
                                   remember err c, s));
                      fail = (\<lambda>m. cleanup (as_error_update err AEROSPIKE_ERR_PARAM m))
                  in
                  if st \<noteq> AEROSPIKE_OK then fail ''Invalid operate policy''
                  else if z_ops = [] then fail ''Empty operations array''
                  else
                    (case set_operations_generation_from_operate_policy
                        (operations_new V (length z_ops)) z_policy of
                       (st, ops) \<Rightarrow>
                         if st \<noteq> AEROSPIKE_OK then fail ''Invalid generation policy''
                         else
                           (case set_operations_ttl_from_operate_policy ops z_policy of
                              (st, ops) \<Rightarrow>
                                if st \<noteq> AEROSPIKE_OK then fail ''Invalid TTL''
                                else
                                  (case operateOrdered_loop E z_ops ops err
                                      (snd (set_serializer_from_policy_hash (ini_serializer V)
                                         (ucast (ini_serializer V)) z_policy)) of
                                     (added, ops, err) \<Rightarrow>
                                       if \<not> added then cleanup err
                                       else operate_answer V c retval (operateOrdered_result E)
                                         (key_operate V cfg p key ops s))))))))"

section \<open>touch, append, prepend and increment\<close>

text \<open>One operation in a list made for it; whether the library took it is not looked at.\<close>

definition add_ignoring :: "'e operate_ext_scheme \<Rightarrow> operations \<Rightarrow> basic_op \<Rightarrow> operations" where
  "add_ignoring E ops b = (case add_binop E ops (BasicOp b) of Some ops \<Rightarrow> ops | None \<Rightarrow> ops)"

text \<open>\<open>None\<close> as the value returned: the method returns PHP's null.\<close>

definition touch_method ::
  "'e operate_ext_scheme \<Rightarrow> ('s, 'z) env_scheme \<Rightarrow> client \<Rightarrow> (htab \<times> zlong \<times> zval option) option \<Rightarrow>
     's \<Rightarrow> as_status option \<times> client \<times> 's" where
  "touch_method E V c args s =
     (let c = reset_client_error c;
          fail = (\<lambda>m. (Some AEROSPIKE_ERR_CLIENT, update_client_error c AEROSPIKE_ERR_CLIENT m False, s))
      in
      case as_client c of
        None \<Rightarrow> fail ''Invalid Aerospike object''
      | Some cfg \<Rightarrow>
          if \<not> is_valid c then fail ''Invalid Aerospike object''
          else if \<not> is_connected c then fail ''No connection to Server''
          else
            (case args of
               None \<Rightarrow> (None, c, s)
             | Some (z_key, ttl_value, z_policy) \<Rightarrow>
                 (let cleanup = (\<lambda>c err s. (Some (code err), remember err c, s)) in
                  case z_hashtable_to_as_key E z_key as_error_init of
                    (AEROSPIKE_OK, Some key, err) \<Rightarrow>
                      (case zval_to_as_policy_operate E (operate_struct V) z_policy (cfg_operate cfg) of
                         (st, p, d) \<Rightarrow>
                           (let cfg = cfg\<lparr>cfg_operate := d\<rparr>; c = set_operate_policy c cfg d in
                            if st \<noteq> AEROSPIKE_OK then
                              cleanup c (as_error_update err AEROSPIKE_ERR_PARAM
                                ''Invalid operate policy'') s
                            else
                              (case set_operations_generation_from_operate_policy
                                  ((add_ignoring E (operations_new V 1) OpTouch)\<lparr>ops_ttl := ucast ttl_value\<rparr>)
                                  z_policy of
                                 (st, ops) \<Rightarrow>
                                   if st \<noteq> AEROSPIKE_OK then
                                     cleanup c (as_error_update err AEROSPIKE_ERR_PARAM
                                       ''Invalid generation policy'') s
                                   else (case key_operate V cfg (Some p) key ops s of
                                           (err, r, s) \<Rightarrow> cleanup c err s))))
                  | (_, _, err) \<Rightarrow>
                      cleanup c (as_error_update err AEROSPIKE_ERR_PARAM ''Unable to convert key'') s)))"

text \<open>
  \<open>append\<close> does not initialize its error structure; \<open>err\<close> is what it happens to hold.
\<close>

definition append_method ::
  "'e operate_ext_scheme \<Rightarrow> ('s, 'z) env_scheme \<Rightarrow> as_error \<Rightarrow> client \<Rightarrow>
     (htab \<times> string \<times> string \<times> zval option) option \<Rightarrow> 's \<Rightarrow> as_status \<times> client \<times> 's" where
  "append_method E V err c args s =
     (let cleanup = (\<lambda>c err s. (code err, remember err c, s)) in
      case check_object_and_connection c err of
        (st, err) \<Rightarrow>
          if st \<noteq> AEROSPIKE_OK then cleanup c err s
          else
            (let c = reset_client_error c in
             case (args, as_client c) of
               (Some (z_key, bin, str, z_policy), Some cfg) \<Rightarrow>
                 if bin_name_max_len E < length bin then
                   cleanup c (as_error_update err AEROSPIKE_ERR_PARAM ''Bin name is too long'') s
                 else
                   (case z_hashtable_to_as_key E z_key err of
                      (AEROSPIKE_OK, Some key, err) \<Rightarrow>
                        (case zval_to_as_policy_operate E (operate_struct V) z_policy (cfg_operate cfg) of
                           (st, p, d) \<Rightarrow>
                             (let cfg = cfg\<lparr>cfg_operate := d\<rparr>; c = set_operate_policy c cfg d;
                                  fail = (\<lambda>m. cleanup c (as_error_update err AEROSPIKE_ERR_PARAM m) s)
                              in
                              if st \<noteq> AEROSPIKE_OK then fail ''Invalid operate policy''
                              else
                                (case set_operations_generation_from_operate_policy
                                    (add_ignoring E (operations_new V 1)
                                      (OpAppendStr (c_str bin) (c_str str))) z_policy of
                                   (st, ops) \<Rightarrow>
                                     if st \<noteq> AEROSPIKE_OK then fail ''Invalid generation policy''
                                     else
                                       (case set_operations_ttl_from_operate_policy ops z_policy of
                                          (st, ops) \<Rightarrow>
                                            if st \<noteq> AEROSPIKE_OK then fail ''Invalid TTL''
                                            else (case key_operate V cfg (Some p) key ops s of
                                                    (err, r, s) \<Rightarrow> cleanup c err s)))))
                    | (_, _, err) \<Rightarrow>
                        cleanup c (as_error_update err AEROSPIKE_ERR_PARAM ''Invalid key'') s)
             | _ \<Rightarrow> (AEROSPIKE_ERR_PARAM,
                 update_client_error c AEROSPIKE_ERR_PARAM ''Invalid parameters to append'' False, s)))"

definition prepend_method ::
  "'e operate_ext_scheme \<Rightarrow> ('s, 'z) env_scheme \<Rightarrow> client \<Rightarrow>
     (htab \<times> string \<times> string \<times> zval option) option \<Rightarrow> 's \<Rightarrow> as_status \<times> client \<times> 's" where
  "prepend_method E V c args s =
     (let c = reset_client_error c;
          fail = (\<lambda>c st m. (st, update_client_error c st m False, s));
          cleanup = (\<lambda>c err s. (code err, remember err c, s))
      in
      case as_client c of
        None \<Rightarrow> fail c AEROSPIKE_ERR_CLIENT ''Invalid Aerospike object''
      | Some cfg \<Rightarrow>
          if \<not> is_valid c then fail c AEROSPIKE_ERR_CLIENT ''Invalid Aerospike object''
          else if \<not> is_connected c then
            fail c AEROSPIKE_ERR_CLIENT ''Not connected to Aerospike server''
          else
            (case args of
               None \<Rightarrow> fail c AEROSPIKE_ERR_PARAM ''Invalid parameters to prepend''
             | Some (z_key, bin, str, z_policy) \<Rightarrow>
                 if bin_name_max_len E < length bin then
                   fail c AEROSPIKE_ERR_PARAM ''Bin name is too long''
                 else
                   (case z_hashtable_to_as_key E z_key as_error_init of
                      (AEROSPIKE_OK, Some key, err) \<Rightarrow>
                        (case zval_to_as_policy_operate E (operate_struct V) z_policy (cfg_operate cfg) of
                           (st, p, d) \<Rightarrow>
                             (let cfg = cfg\<lparr>cfg_operate := d\<rparr>; c = set_operate_policy c cfg d in
                              if st \<noteq> AEROSPIKE_OK then
                                fail c AEROSPIKE_ERR_PARAM ''Invalid operate policy''
                              else
                                (case set_operations_generation_from_operate_policy
                                    (add_ignoring E (operations_new V 1)
                                      (OpPrependStr (c_str bin) (c_str str))) z_policy of
                                   (st, ops) \<Rightarrow>
                                     if st \<noteq> AEROSPIKE_OK then
                                       cleanup c (as_error_update err AEROSPIKE_ERR_PARAM
                                         ''Invalid generation policy'') s
                                     else
                                       (case set_operations_ttl_from_operate_policy ops z_policy of
                                          (st, ops) \<Rightarrow>
                                            if st \<noteq> AEROSPIKE_OK then
                                              cleanup c (as_error_update err AEROSPIKE_ERR_PARAM
                                                ''Invalid TTL'') s
                                            else (case key_operate V cfg (Some p) key ops s of
                                                    (err, r, s) \<Rightarrow> cleanup c err s)))))
                    | _ \<Rightarrow> fail c AEROSPIKE_ERR_PARAM ''Invalid key'')))"

text \<open>The amount of an increment, or the message of its refusal.\<close>

definition increment_amount :: "'e operate_ext_scheme \<Rightarrow> zval \<Rightarrow> string + numeric" where
  "increment_amount E z =
     (case z of
        ZLong n \<Rightarrow> Inr (NumLong n)
      | ZDouble d \<Rightarrow> Inr (NumDouble d)
      | ZString s \<Rightarrow>
          (case is_numeric_string E s of
             Some n \<Rightarrow> Inr n
           | None \<Rightarrow> Inl ''Non numeric increment amount'')
      | _ \<Rightarrow> Inl ''Invalid increment value type'')"

text \<open>Like \<open>append\<close>, \<open>increment\<close> does not initialize its error structure.\<close>

definition increment_method ::
  "'e operate_ext_scheme \<Rightarrow> ('s, 'z) env_scheme \<Rightarrow> as_error \<Rightarrow> client \<Rightarrow>
     (htab \<times> string \<times> zval \<times> zval option) option \<Rightarrow> 's \<Rightarrow> as_status \<times> client \<times> 's" where
  "increment_method E V err c args s =
     (let c = reset_client_error c;
          fail = (\<lambda>c st m. (st, update_client_error c st m False, s))
      in
      case as_client c of
        None \<Rightarrow> fail c AEROSPIKE_ERR_CLIENT ''Invalid Aerospike object''
      | Some cfg \<Rightarrow>
          if \<not> is_valid c then fail c AEROSPIKE_ERR_CLIENT ''Invalid Aerospike object''
          else if \<not> is_connected c then
            fail c AEROSPIKE_ERR_CLIENT ''Not connected to Aerospike server''
          else
            (case args of
               None \<Rightarrow> fail c AEROSPIKE_ERR_PARAM ''Invalid parameters to increment''
             | Some (z_key, bin, z_increment, z_policy) \<Rightarrow>
                 (case increment_amount E z_increment of
                    Inl m \<Rightarrow> fail c AEROSPIKE_ERR_PARAM m
                  | Inr amount \<Rightarrow>
                      if bin_name_max_len E < length bin then
                        fail c AEROSPIKE_ERR_PARAM ''Bin name is too long''
                      else
                        (case z_hashtable_to_as_key E z_key err of
                           (AEROSPIKE_OK, Some key, err) \<Rightarrow>
                             (case zval_to_as_policy_operate E (operate_struct V) z_policy (cfg_operate cfg) of
                                (st, p, d) \<Rightarrow>
                                  (let cfg = cfg\<lparr>cfg_operate := d\<rparr>; c = set_operate_policy c cfg d in
                                   if st \<noteq> AEROSPIKE_OK then
                                     fail c AEROSPIKE_ERR_PARAM ''Invalid operate policy''
                                   else
                                     (case set_operations_generation_from_operate_policy
                                         (add_ignoring E (operations_new V 1)
                                           (case amount of
                                              NumLong n \<Rightarrow> OpIncr (c_str bin) n
                                            | NumDouble d \<Rightarrow> OpIncrDouble (c_str bin) d)) z_policy of
                                        (st, ops) \<Rightarrow>
                                          if st \<noteq> AEROSPIKE_OK then
                                            fail c AEROSPIKE_ERR_PARAM ''Invalid generation policy''
                                          else
                                            (case set_operations_ttl_from_operate_policy ops z_policy of
                                               (st, ops) \<Rightarrow>
                                                 if st \<noteq> AEROSPIKE_OK then
                                                   fail c AEROSPIKE_ERR_PARAM ''Invalid TTL''
                                                 else (case key_operate V cfg (Some p) key ops s of
                                                         (err, r, s) \<Rightarrow>
                                                           (code err, remember err c, s))))))
                         | _ \<Rightarrow> fail c AEROSPIKE_ERR_PARAM ''Invalid key''))))"

end
