(* ===== verification/Queries.thy ===== *)
theory Queries
  imports Client
begin

text \<open>
  The method \<open>query\<close> of \<open>client/query.c\<close>. The callback it is given runs inside the call
  \<open>aerospike_query_foreach\<close>, whose effect on the state of the servers and the script is a
  parameter.
\<close>

fun select_bins :: "('s, 'z) env_scheme \<Rightarrow> htab \<Rightarrow> as_query \<Rightarrow> as_error \<Rightarrow> bool \<times> as_query \<times> as_error" where
  "select_bins V [] q err = (True, q, err)"
| "select_bins V ((k, z) # h) q err =
     (case z of
        ZString name \<Rightarrow> select_bins V h (query_select V q (c_str name)) err
      | _ \<Rightarrow> (False, q, as_error_update err AEROSPIKE_ERR_PARAM ''Bin names must be strings''))"

text \<open>From the query made on: its options, bins and where clause, and the call.\<close>

definition query_run ::
  "'e query_ext_scheme \<Rightarrow> ('s, 'z) env_scheme \<Rightarrow> config \<Rightarrow> client \<Rightarrow> as_policy_query option \<Rightarrow>
     as_query \<Rightarrow> htab \<Rightarrow> htab option \<Rightarrow> zval option \<Rightarrow> as_error \<Rightarrow> 's \<Rightarrow> as_status \<times> client \<times> 's" where
  "query_run E V cfg c p q predicate select z_policy err s =
     (let cleanup = (\<lambda>err s. (code err, remember err c, s)) in
      case set_query_options_from_policy_hash E q z_policy of
        (st, q) \<Rightarrow>
          if st \<noteq> AEROSPIKE_OK then (AEROSPIKE_ERR_PARAM, c, s)
          else
            (case (case select of
                     None \<Rightarrow> (True, q, err)
                   | Some [] \<Rightarrow> (True, q, err)
                   | Some bins \<Rightarrow> select_bins V bins (query_select_inita V q (length bins)) err) of
               (selected, q, err) \<Rightarrow>
                 if \<not> selected then cleanup err s
                 else
                   (case (if predicate = [] then (AEROSPIKE_OK, q, err)
                          else add_predicate_to_query E q predicate err) of
                      (st, q, err) \<Rightarrow>
                        if st \<noteq> AEROSPIKE_OK then cleanup err s
                        else (case query_foreach V cfg p q s of (err, s) \<Rightarrow> cleanup err s))))"

definition query_method ::
  "'e query_ext_scheme \<Rightarrow> ('s, 'z) env_scheme \<Rightarrow> client \<Rightarrow>
     (string \<times> string \<times> htab \<times> htab option \<times> zval option) option \<Rightarrow> 's \<Rightarrow> as_status \<times> client \<times> 's" where
  "query_method E V c args s =
     (let c = reset_client_error c;
          fail = (\<lambda>m. (AEROSPIKE_ERR_PARAM, update_client_error c AEROSPIKE_ERR_PARAM m False, s))
      in
      case check_object_and_connection c as_error_init of
        (st, err) \<Rightarrow>
          if st \<noteq> AEROSPIKE_OK then
            (code err, update_client_error c (code err) (message err) False, s)
          else
            (case (args, as_client c) of
               (Some (ns, set_name, predicate, select, z_policy), Some cfg) \<Rightarrow>
                 if ns = [] then fail ''Invalid namespace''
                 else
                   (let p = (case z_policy of
                          None \<Rightarrow> None
                        | Some ZNull \<Rightarrow> None
                        | Some z \<Rightarrow> Some (zval_to_as_policy_query (query_struct V) (Some z) (cfg_query cfg)))
                    in
                    if (case p of Some (st, _) \<Rightarrow> st \<noteq> AEROSPIKE_OK | None \<Rightarrow> False) then
                      fail ''Invalid query policy''
                    else
                      (case query_new V (c_str ns) (c_str set_name) of
                         None \<Rightarrow>
                           (let err = as_error_update err AEROSPIKE_ERR_PARAM ''Unable to create query''
                            in (code err, remember err c, s))
                       | Some q \<Rightarrow>
                           query_run E V cfg c (map_option snd p) q predicate select z_policy err s))
             | _ \<Rightarrow> fail ''Invalid arguments to query''))"

end
