(* ===== verification/HandlerSpec.thy ===== *)
theory HandlerSpec
  imports Updates Queries RoundTrip OperateSpec
begin

text \<open>
  What the methods promise: the server they talk to as hypotheses, and the lemmas the
  properties of the methods rest on.
\<close>

section \<open>Frames\<close>

lemma rec_bins_generation [simp]:
  "rec_bins (snd (set_record_generation_from_write_policy r z)) = rec_bins r"
  by (simp add: set_record_generation_from_write_policy_def split: option.split zval.split prod.split)

lemma errorno_simps [simp]:
  "errorno_method (update_client_error c st m d) = st"
  "errorno_method (reset_client_error c) = AEROSPIKE_OK"
  "errorno_method (remember err (reset_client_error c)) = code err"
  by (simp_all add: errorno_method_def)

lemma set_operate_policy_simps [simp]:
  "client_error (set_operate_policy c cfg d) = client_error c"
  "is_connected (set_operate_policy c cfg d) = is_connected c"
  "is_valid (set_operate_policy c cfg d) = is_valid c"
  "set_operate_policy c (cfg\<lparr>cfg_operate := d'\<rparr>) d = set_operate_policy c cfg d"
  by (simp_all add: set_operate_policy_def)

lemma errorno_set_operate_policy [simp]:
  "errorno_method (set_operate_policy c cfg d) = errorno_method c"
  "errorno_method (remember err (set_operate_policy (reset_client_error c) cfg d)) = code err"
  by (simp_all add: errorno_method_def)

lemma remember_ok [simp]: "code err = AEROSPIKE_OK \<Longrightarrow> remember err c = c"
  by (simp add: remember_def)

lemma usable_client: "usable c \<Longrightarrow> \<exists>cfg. as_client c = Some cfg"
  by (auto simp: usable_def)

section \<open>put\<close>

text \<open>
  A put that returns success has written exactly the bins of its array, under the key its key
  array names.
\<close>

lemma put_method_ok:
  assumes E: "list_api E" "\<And>n. hashmap_new E n = Some []" "record_api E"
    and c: "usable c" "as_client c = Some cfg"
    and key: "z_hashtable_to_as_key E z_key as_error_init = (AEROSPIKE_OK, Some key, as_error_init)"
    and ser: "set_serializer_from_policy_hash (ini_serializer V) (ucast (ini_serializer V)) z_policy =
      (AEROSPIKE_OK, ser)"
    and rows: "length rows < 2 ^ 16" "distinct (bin_keys rows)" "server_bins E ser rows = Bins bs"
    and put: "put_method E V c (Some (z_key, ZArray rows, z_ttl, z_policy)) s =
      Some (AEROSPIKE_OK, c', s')"
  shows "\<exists>wp r err. key_put V cfg wp key r s = (err, s') \<and> code err = AEROSPIKE_OK \<and>
    rec_bins r = bs \<and> c' = reset_client_error c"
proof -
  let ?r = "(record_new E (length rows))\<lparr>rec_bins := bs\<rparr>"
  let ?ttl = "case z_ttl of Some (ZLong n) \<Rightarrow> Some n | _ \<Rightarrow> None"
  let ?rt = "case ?ttl of Some n \<Rightarrow> ?r\<lparr>rec_ttl := ucast n\<rparr> | None \<Rightarrow> ?r"
  have r: "z_hashtable_to_as_record E rows as_error_init ser = Some (AEROSPIKE_OK, ?r, as_error_init)"
    using z_hashtable_to_as_record_eq [OF E code_as_error_init rows(1,2), of ser] rows(3) by simp
  from put c have ck: "put_checked E V cfg (reset_client_error c) z_key rows ?ttl z_policy as_error_init s =
      Some (AEROSPIKE_OK, c', s')"
    by (simp add: put_method_def Let_def split: if_splits)
  obtain st r' where g: "set_record_generation_from_write_policy ?rt z_policy = (st, r')"
    by (metis surj_pair)
  with rec_bins_generation [of ?rt z_policy] have bins: "rec_bins r' = bs"
    by (simp split: option.split)
  from ck g obtain wp err where "key_put V cfg wp key r' s = (err, s')" "code err = AEROSPIKE_OK"
      "c' = reset_client_error c"
    by (auto simp: put_checked_def Let_def key ser r split: if_splits prod.splits)
  with bins show ?thesis by blast
qed

section \<open>get\<close>

lemma policy_read_status [simp]:
  "fst (zval_to_as_policy_read P z d) = AEROSPIKE_OK \<longleftrightarrow>
     pred_option (\<lambda>z. z = ZNull \<or> is_array z) z"
  by (simp add: zval_to_as_policy_read_def Let_def split: option.split zval.split)

lemma get_method_reads:
  assumes "usable c" "as_client c = Some cfg"
    and "z_hashtable_to_as_key E z_key as_error_init = (AEROSPIKE_OK, Some key, as_error_init)"
    and "pred_option (\<lambda>z. z = ZNull \<or> is_array z) z_policy"
  shows "\<exists>p. get_method E V c (Some (z_key, None, z_policy)) s =
    get_answer E V (reset_client_error c) p (key_get V cfg p key s)"
proof -
  obtain st p where p: "zval_to_as_policy_read (read_struct V) z_policy (cfg_read cfg) = (st, p)"
    by (metis surj_pair)
  with assms(4) policy_read_status [of "read_struct V" z_policy "cfg_read cfg"]
  have "st = AEROSPIKE_OK" by simp
  with p assms show ?thesis
    by (intro exI [of _ p]) (simp add: get_method_def get_filtered_def Let_def)
qed

text \<open>
  The documented behaviour of the server the round trip needs: a record created by a successful
  put is found by a get, with the bins it was put with, whatever generation and time to live
  the server gave it. It is stated of one key and one state, where the record does not exist.
\<close>

definition created_record_api :: "('s, 'z) env_scheme \<Rightarrow> config \<Rightarrow> as_key \<Rightarrow> 's \<Rightarrow> bool" where
  "created_record_api V cfg key s \<longleftrightarrow>
     (\<forall>wp r err s'. key_put V cfg wp key r s = (err, s') \<and> code err = AEROSPIKE_OK \<longrightarrow>
        (\<forall>rp. \<exists>err' r' d s''. key_get V cfg rp key s' = (err', Some r', key\<lparr>key_digest := d\<rparr>, s'') \<and>
           code err' = AEROSPIKE_OK \<and> rec_bins r' = rec_bins r))"

end
