(* ===== verification/SampleEnv.thy ===== *)
theory SampleEnv
  imports HandlerSpec PolicyProps PredicateProps OperateProps
begin

text \<open>
  One concrete server, on which the properties of the methods are applied: a list of records
  by namespace, set and primary key.
\<close>

type_synonym store = "((string \<times> string \<times> as_val option) \<times> as_record) list"

definition record_id :: "as_key \<Rightarrow> string \<times> string \<times> as_val option" where
  "record_id k = (key_ns k, key_set k, key_value k)"

definition not_found :: as_error where
  "not_found = as_error_update as_error_init AEROSPIKE_ERR_RECORD_NOT_FOUND ''record not found''"

definition store_get :: "as_key \<Rightarrow> store \<Rightarrow> as_error \<times> as_record option \<times> as_key \<times> store" where
  "store_get k s =
     (case map_of s (record_id k) of
        None \<Rightarrow> (not_found, None, k, s)
      | Some r \<Rightarrow> (as_error_init, Some r, k\<lparr>key_digest := Some (replicate 20 (CHR ''d''))\<rparr>, s))"

definition sample_env :: "store env" where
  "sample_env = \<lparr>
     ini_serializer = 1,
     read_struct = sample_struct (sample_read 1000), write_struct = sample_struct (sample_write 1000),
     remove_struct = sample_struct (sample_remove 1000),
     operate_struct = sample_struct (sample_operate 1000 0),
     query_struct = sample_struct (sample_query 1000),
     AS_POLICY_KEY_SEND = 1,
     operations_new = empty_ops,
     error_update_null = (\<lambda>err. err),
     record_set_nil = (\<lambda>r name. r),
     query_new = (\<lambda>ns s. Some (sample_new_query\<lparr>q_ns := ns, q_set := s\<rparr>)),
     query_select_inita = (\<lambda>q n. q),
     query_select = (\<lambda>q name. q\<lparr>q_select := q_select q @ [name]\<rparr>),
     aerospike_connect = (\<lambda>cfg s. (as_error_init, s)),
     aerospike_close = (\<lambda>cfg s. (as_error_init, s)),
     cluster_is_connected = (\<lambda>cfg s. True),
     key_put = (\<lambda>cfg p k r s. (as_error_init, AList.update (record_id k) (r\<lparr>rec_gen := 1\<rparr>) s)),
     key_get = (\<lambda>cfg p k s. store_get k s),
     key_select = (\<lambda>cfg p k names s. store_get k s),
     key_exists = (\<lambda>cfg p k s. case store_get k s of (err, r, k, s) \<Rightarrow> (err, r, s)),
     key_remove = (\<lambda>cfg p k s.
       (if map_of s (record_id k) = None then not_found else as_error_init,
        filter (\<lambda>x. fst x \<noteq> record_id k) s)),
     key_operate = (\<lambda>cfg p k ops s. case store_get k s of (err, r, k, s) \<Rightarrow> (err, r, s)),
     query_foreach = (\<lambda>cfg p q s. (as_error_init, s))\<rparr>"

definition sample_tls :: tls_config where
  "sample_tls = \<lparr>tls_enable = False, tls_cafile = None, tls_capath = None, tls_protocols = None,
     tls_cipher_suite = None, tls_crl_check = False, tls_crl_check_all = False,
     tls_cert_blacklist = None, tls_log_session_info = False, tls_keyfile = None, tls_certfile = None\<rparr>"

definition sample_config :: config where
  "sample_config = \<lparr>cfg_read = sample_read 500, cfg_write = sample_write 500,
     cfg_remove = sample_remove 500, cfg_operate = sample_operate 500 0, cfg_apply = sample_apply 500,
     cfg_batch = sample_batch 500, cfg_query = sample_query 500, cfg_scan = sample_scan 500,
     cfg_info = \<lparr>in_timeout = 500, in_rest = 0\<rparr>, cfg_admin = \<lparr>ad_timeout = 500, ad_rest = 0\<rparr>,
     cfg_hosts = [], cfg_user = [], cfg_password = [], cfg_cluster_name = [], cfg_use_shm = False,
     cfg_shm_key = 0, cfg_shm_max_nodes = 16, cfg_shm_max_namespaces = 8, cfg_shm_takeover = 30,
     cfg_conn_timeout = 1000, cfg_use_services_alternate = False, cfg_max_conns_per_node = 300,
     cfg_thread_pool_size = 16, cfg_tender_interval = 1000, cfg_rack_aware = False, cfg_rack_id = 0,
     cfg_lua_user_path = [], cfg_tls = sample_tls\<rparr>"

definition sample_client :: client where
  "sample_client = \<lparr>as_client = Some sample_config, is_connected = True, is_valid = True,
     client_error = as_error_init, is_persistent = False\<rparr>"

lemma sample_client_simps [simp]: "usable sample_client" "as_client sample_client = Some sample_config"
  by (simp_all add: usable_def sample_client_def)

definition sample_key_array :: htab where
  "sample_key_array = [(SKey ''ns'', ZString ''test''), (SKey ''set'', ZString ''users''),
     (SKey ''key'', ZLong 7)]"

definition sample_as_key :: as_key where
  "sample_as_key = \<lparr>key_ns = ''test'', key_set = ''users'', key_value = Some (AsInteger 7),
     key_digest = None\<rparr>"

lemma sample_key_converts [simp]:
  "z_hashtable_to_as_key sample_ext sample_key_array err = (AEROSPIKE_OK, Some sample_as_key, err)"
  "z_hashtable_to_as_key sample_operate_ext sample_key_array err = (AEROSPIKE_OK, Some sample_as_key, err)"
  "z_hashtable_to_as_key sample_query_ext sample_key_array err = (AEROSPIKE_OK, Some sample_as_key, err)"
  by (simp_all add: z_hashtable_to_as_key_def Let_def sample_key_array_def sample_operate_ext_def
      sample_query_ext_def sample_ext_def conv_ext.defs sample_key_def sample_as_key_def nul_free_def
      NUL_def)

lemma sample_created [simp]: "created_record_api sample_env cfg key s"
  by (auto simp: created_record_api_def sample_env_def store_get_def record_id_def update_conv')

lemma sample_key_fields [simp]:
  "key_ns sample_as_key = ''test''" "key_digest sample_as_key = None"
  by (simp_all add: sample_as_key_def)

lemma sample_env_fields [simp]:
  "ini_serializer sample_env = 1" "operations_new sample_env n = empty_ops n"
  "error_update_null sample_env err = err"
  "policy_api (operate_struct sample_env)"
  "query_new sample_env ns sn = Some (sample_new_query\<lparr>q_ns := ns, q_set := sn\<rparr>)"
  by (simp_all add: sample_env_def)

end
