(* ===== verification/HandlerProps.thy ===== *)
theory HandlerProps
  imports SampleEnv ConversionProps
begin

text \<open>
  The properties of the methods: what is put is got, a client without a connection makes no
  call, which status a method returns and which error it remembers, and what operations and
  queries send.
\<close>

section \<open>put and get\<close>

text \<open>
  C6. What is put is got: after a put of storable bins that returned success, under any
  options, a get under the same key array returns success and an array whose \<open>bins\<close> have the
  same names in the same order and the same values, with the key's namespace and the record's
  time to live and generation; and no error is remembered.
\<close>

theorem put_then_get:
  assumes E: "list_api E" "map_api E" "bytes_api E" "bytes_php E \<noteq> bytes_blob E" "record_api E"
    and kw: "keywords_plain E" and c: "usable c" "as_client c = Some cfg"
    and key: "z_hashtable_to_as_key E z_key as_error_init = (AEROSPIKE_OK, Some key, as_error_init)"
    and ns: "nul_free (key_ns key)" "key_ns key \<noteq> []"
    and ser: "set_serializer_from_policy_hash (ini_serializer V) (ucast (ini_serializer V)) z_policy =
      (AEROSPIKE_OK, ser)" and h: "storable_record E ser h"
    and put: "put_method E V c (Some (z_key, ZArray h, z_ttl, z_policy)) s = Some (AEROSPIKE_OK, c', s')"
    and server: "created_record_api V cfg key s"
    and options: "pred_option (\<lambda>z. z = ZNull \<or> is_array z) z_read_policy"
  shows "\<exists>h' zk t g c'' s''. get_method E V c' (Some (z_key, None, z_read_policy)) s' =
    Some (AEROSPIKE_OK, Some (ZArray [(SKey ''key'', ZArray zk),
       (SKey ''metadata'', ZArray [(SKey ''ttl'', ZLong t), (SKey ''generation'', ZLong g)]),
       (SKey ''bins'', ZArray h')]), c'', s'') \<and>
    str_find zk ''ns'' = Some (ZString (key_ns key)) \<and> bins_eq h h' \<and>
    errorno_method c'' = AEROSPIKE_OK"
proof -
  have len: "length h < 2 ^ 16" using h by (simp add: storable_record_def)
  from stored_bins_back [OF E(2-4) h] obtain bs h' where bs: "server_bins E ser h = Bins bs"
      "bins_eq h h'" "\<And>r err. rec_bins r = bs \<Longrightarrow> code err = AEROSPIKE_OK \<Longrightarrow>
      as_bins_to_zval E r err = (AEROSPIKE_OK, ZArray h', err)" by blast
  from put_method_ok [OF E(1) map_apiD(1) [OF E(2)] E(5) c key ser len bin_keys_distinct [OF h]
      bs(1) put] obtain wp r err where kp: "key_put V cfg wp key r s = (err, s')"
      "code err = AEROSPIKE_OK" "rec_bins r = bs" "c' = reset_client_error c" by blast
  have c': "usable c'" "as_client c' = Some cfg" using c kp(4) by simp_all
  from get_method_reads [OF c' key options, of V s'] obtain p where
    g: "get_method E V c' (Some (z_key, None, z_read_policy)) s' =
      get_answer E V (reset_client_error c') p (key_get V cfg p key s')" by blast
  from server kp obtain err' r' d s'' where kg: "code err' = AEROSPIKE_OK" "rec_bins r' = bs"
      "key_get V cfg p key s' = (err', Some r', key\<lparr>key_digest := d\<rparr>, s'')"
    unfolding created_record_api_def by metis
  have b: "as_bins_to_zval E r' err' = (AEROSPIKE_OK, ZArray h', err')"
    by (rule bs(3)) (use kg in simp_all)
  from record_to_zval_shape [OF kw kg(1) b, of "key\<lparr>key_digest := d\<rparr>" "rd_key p = AS_POLICY_KEY_SEND V"]
    ns obtain zk where "as_record_to_zval E r' (Some (key\<lparr>key_digest := d\<rparr>)) (rd_key p = AS_POLICY_KEY_SEND V)
      err' = (AEROSPIKE_OK, ZArray [(SKey ''key'', ZArray zk),
         (SKey ''metadata'', ZArray [(SKey ''ttl'', ZLong (ucast (rec_ttl r'))),
                                     (SKey ''generation'', ZLong (ucast (rec_gen r')))]),
         (SKey ''bins'', ZArray h')], err')" "str_find zk ''ns'' = Some (ZString (key_ns key))"
    by auto
  with g kg bs(2) show ?thesis by (simp add: get_answer_def)
qed

lemma sample_put_ok:
  "put_method sample_ext sample_env sample_client
     (Some (sample_key_array, ZArray [(SKey ''a'', ZLong 5)], Some (ZLong 60), None)) [] =
   Some (AEROSPIKE_OK, sample_client, [(record_id sample_as_key, \<lparr>rec_bins = [(''a'', AsInteger 5)],
     rec_gen = 1, rec_ttl = 60, rec_key = rec_key (record_new sample_ext 1), rec_capacity = 1\<rparr>)])"
  by code_simp


lemma sample_env_serializer [simp]:
  "set_serializer_from_policy_hash (ini_serializer sample_env) (ucast (ini_serializer sample_env)) None =
     (AEROSPIKE_OK, SERIALIZER_PHP)"
  by (simp add: set_serializer_from_policy_hash_def SERIALIZER_PHP_def)

theorem put_then_get_witness:
  "\<exists>h' zk t g c'' s''. get_method sample_ext sample_env sample_client
      (Some (sample_key_array, None, Some ZNull))
      [(record_id sample_as_key, \<lparr>rec_bins = [(''a'', AsInteger 5)],
         rec_gen = 1, rec_ttl = 60, rec_key = rec_key (record_new sample_ext 1), rec_capacity = 1\<rparr>)] =
    Some (AEROSPIKE_OK, Some (ZArray [(SKey ''key'', ZArray zk),
       (SKey ''metadata'', ZArray [(SKey ''ttl'', ZLong t), (SKey ''generation'', ZLong g)]),
       (SKey ''bins'', ZArray h')]), c'', s'') \<and>
    str_find zk ''ns'' = Some (ZString (key_ns sample_as_key)) \<and>
    bins_eq [(SKey ''a'', ZLong 5)] h' \<and> errorno_method c'' = AEROSPIKE_OK"
  by (rule put_then_get [OF _ _ _ _ _ _ sample_client_simps sample_key_converts(1) _ _
        sample_env_serializer _ sample_put_ok])
    (simp_all add: storable_record_def wf_hash_def bin_name_ok_def plain_key_def
      sample_numeric_def digit_value_def nul_free_def NUL_def)

section \<open>Connections and errors\<close>

text \<open>
  C18. A client that is closed, invalid or was never connected makes no call: each method
  leaves the servers as they are, returns an error, and that error is the one remembered.
  \<open>get\<close> is not among them.
\<close>

theorem unusable_client_makes_no_call:
  assumes "\<not> usable c"
  shows "(\<exists>st c'. put_method E V c put_args s = Some (st, c', s) \<and> st \<noteq> AEROSPIKE_OK \<and>
      errorno_method c' = st) \<and>
    (\<exists>st c'. exists_method E V c exists_args s = (st, None, c', s) \<and> st \<noteq> AEROSPIKE_OK \<and>
      errorno_method c' = st) \<and>
    (\<exists>st c'. remove_method E V c remove_args s = Some (st, c', s) \<and> st \<noteq> AEROSPIKE_OK \<and>
      errorno_method c' = st) \<and>
    (\<exists>st c'. removeBin_method E V c bin_args s = Some (st, c', s) \<and> st \<noteq> AEROSPIKE_OK \<and>
      errorno_method c' = st) \<and>
    (\<exists>st out c'. operate_method Op V c op_args s = Some (st, out, c', s) \<and> st \<noteq> AEROSPIKE_OK \<and>
      errorno_method c' = st) \<and>
    (\<exists>st out c'. operateOrdered_method Op V c op_args s = Some (st, out, c', s) \<and>
      st \<noteq> AEROSPIKE_OK \<and> errorno_method c' = st) \<and>
    (\<exists>st c'. touch_method Op V c touch_args s = (Some st, c', s) \<and> st \<noteq> AEROSPIKE_OK \<and>
      errorno_method c' = st) \<and>
    (\<exists>st c'. append_method Op V err c str_args s = (st, c', s) \<and> st \<noteq> AEROSPIKE_OK \<and>
      errorno_method c' = st) \<and>
    (\<exists>st c'. prepend_method Op V c str_args s = (st, c', s) \<and> st \<noteq> AEROSPIKE_OK \<and>
      errorno_method c' = st) \<and>
    (\<exists>st c'. increment_method Op V err c incr_args s = (st, c', s) \<and> st \<noteq> AEROSPIKE_OK \<and>
      errorno_method c' = st) \<and>
    (\<exists>st c'. query_method Qu V c query_args s = (st, c', s) \<and> st \<noteq> AEROSPIKE_OK \<and>
      errorno_method c' = st)"
proof -
  have u: "\<not> usable (reset_client_error c)" using assms by simp
  obtain st m where ck: "st \<noteq> AEROSPIKE_OK" "check_object_and_connection (reset_client_error c) as_error_init =
      (st, as_error_update as_error_init st m)" using check_unusable [OF u] by blast
  obtain st' m' where ck': "st' \<noteq> AEROSPIKE_OK" "check_object_and_connection c err =
      (st', as_error_update err st' m')" using check_unusable [OF assms] by blast
  have cases: "as_client c = None \<or> \<not> is_valid c \<or> \<not> is_connected c"
    using assms by (auto simp: usable_def)
  have guard: "\<exists>st out c'. operate_guards Op (reset_client_error c) z_key rv s k = Some (st, out, c', s) \<and>
      st \<noteq> AEROSPIKE_OK \<and> errorno_method c' = st" for z_key rv k
    using cases by (auto simp: operate_guards_def Let_def split: option.split)
  show ?thesis
    apply (intro conjI)
    subgoal using ck by (simp add: put_method_def Let_def)
    subgoal using ck by (simp add: exists_method_def Let_def)
    subgoal using ck by (simp add: remove_method_def Let_def)
    subgoal using ck by (simp add: removeBin_method_def Let_def)
    subgoal using guard by (auto simp: operate_method_def Let_def split: option.split)
    subgoal using guard by (auto simp: operateOrdered_method_def Let_def split: option.split)
    subgoal using cases by (auto simp: touch_method_def Let_def split: option.split)
    subgoal using ck' by (simp add: append_method_def Let_def remember_def)
    subgoal using cases by (auto simp: prepend_method_def Let_def split: option.split)
    subgoal using cases by (auto simp: increment_method_def Let_def split: option.split)
    subgoal using ck by (simp add: query_method_def Let_def)
    done
qed

theorem unusable_client_makes_no_call_witness:
  "\<exists>st c'. put_method sample_ext sample_env (sample_client\<lparr>is_connected := False\<rparr>) None [] =
     Some (st, c', []) \<and> st \<noteq> AEROSPIKE_OK \<and> errorno_method c' = st"
  by (rule unusable_client_makes_no_call [THEN conjunct1]) (simp add: usable_def)

lemma key_conversion_err:
  "\<exists>st k e e'. z_hashtable_to_as_key E h err = (st, k, e) \<and> z_hashtable_to_as_key E h err' = (st, k, e') \<and>
     in_doubt e = in_doubt err \<and> in_doubt e' = in_doubt err'"
proof (cases "\<exists>ns s. str_find h ''ns'' = Some (ZString ns) \<and> str_find h ''set'' = Some (ZString s)")
  case True
  then obtain ns s where keys: "str_find h ''ns'' = Some (ZString ns)"
      "str_find h ''set'' = Some (ZString s)" by blast
  show ?thesis
  proof (cases "str_find h ''key''")
    case None
    with keys show ?thesis
      by (cases "str_find h ''digest''"; cases "the (str_find h ''digest'')")
        (simp_all add: z_hashtable_to_as_key_def Let_def)
  next
    case (Some z)
    with keys show ?thesis by (cases z) (simp_all add: z_hashtable_to_as_key_def Let_def)
  qed
next
  case False
  show ?thesis
  proof (cases "str_find h ''ns''")
    case (Some z)
    with False show ?thesis
      by (cases z; cases "str_find h ''set''"; cases "the (str_find h ''set'')")
        (simp_all add: z_hashtable_to_as_key_def Let_def split: option.split)
  qed (simp add: z_hashtable_to_as_key_def Let_def)
qed

lemma get_with_bins_err:
  "in_doubt err = in_doubt err' \<Longrightarrow>
   as_get_with_bins E V cfg err key p bins s = as_get_with_bins E V cfg err' key p bins s"
  by (simp add: as_get_with_bins_def as_error_update_def split: sum.split)

text \<open>What a script sees of a get beside the error remembered.\<close>

fun seen :: "as_status \<times> zval option \<times> client \<times> 's \<Rightarrow> as_status \<times> zval option \<times> 's" where
  "seen (st, out, c, s) = (st, out, s)"

lemma in_doubt_init [simp]: "in_doubt as_error_init = False"
  by (simp add: as_error_init_def)

lemma get_answer_seen:
  "map_option seen (get_answer E V c p a) = map_option seen (get_answer E V c' p a)"
  by (simp add: get_answer_def split: prod.split option.split)

lemma get_filtered_seen:
  "in_doubt err = in_doubt err' \<Longrightarrow>
   map_option seen (get_filtered E V cfg c p key z_filter err s) =
   map_option seen (get_filtered E V cfg c' p key z_filter err' s)"
  using get_answer_seen [of E V c p _ c'] get_with_bins_err [of err err' E V cfg key p _ s]
  by (simp add: get_filtered_def split: option.split zval.split)

lemma get_filtered_remembers:
  "get_filtered E V cfg c p key z_filter err s = Some (AEROSPIKE_OK, out, c', s') \<Longrightarrow> c' = c"
  by (auto simp: get_filtered_def get_answer_def remember_def split: prod.splits option.splits
      zval.splits if_splits)

text \<open>
  \<open>get\<close> does not act on its own check: on a client that is not connected or not valid it
  makes the same call and returns the same value and status as on one that is, and where that
  status is success the error remembered is still the failed check's. Without a client
  structure it reads through the null pointer.
\<close>

theorem get_ignores_connection_check:
  assumes "\<not> usable c" and "usable c\<^sub>0" and "as_client c = as_client c\<^sub>0"
  shows "map_option seen (get_method E V c args s) = map_option seen (get_method E V c\<^sub>0 args s) \<and>
    (\<forall>out c' s'. get_method E V c args s = Some (AEROSPIKE_OK, out, c', s') \<longrightarrow>
       errorno_method c' \<noteq> AEROSPIKE_OK) \<and>
    get_method E V (c\<lparr>as_client := None\<rparr>) (Some call) s = None"
proof -
  let ?r = "reset_client_error c"
  have "\<not> usable ?r" using assms(1) by simp
  then obtain st m where ck: "st \<noteq> AEROSPIKE_OK" "check_object_and_connection ?r as_error_init =
      (st, as_error_update as_error_init st m)" using check_unusable by blast
  let ?e = "as_error_update as_error_init st m"
  have ck0: "check_object_and_connection (reset_client_error c\<^sub>0) as_error_init =
      (AEROSPIKE_OK, as_error_init)" using assms(2) by simp
  obtain cfg where cfg: "as_client c = Some cfg" "as_client c\<^sub>0 = Some cfg"
    using assms(2,3) by (auto simp: usable_def)
  have null: "get_method E V (c\<lparr>as_client := None\<rparr>) (Some call) s = None"
    by (cases call) (simp add: get_method_def reset_client_error_def Let_def split: prod.split)
  show ?thesis
  proof (cases args)
    case None
    with ck ck0 have "get_method E V c args s = Some (AEROSPIKE_ERR_PARAM, None, update_client_error
          (update_client_error ?r st m False) AEROSPIKE_ERR_PARAM
          ''Invalid parameters to Aerospike::get'' False, s)"
        "get_method E V c\<^sub>0 args s = Some (AEROSPIKE_ERR_PARAM, None, update_client_error
          (reset_client_error c\<^sub>0) AEROSPIKE_ERR_PARAM
          ''Invalid parameters to Aerospike::get'' False, s)"
      by (simp_all add: get_method_def Let_def)
    with null show ?thesis by simp
  next
    case (Some a)
    obtain z_key z_filter z_policy where a: "a = (z_key, z_filter, z_policy)" by (cases a) auto
    obtain cv p where p: "zval_to_as_policy_read (read_struct V) z_policy (cfg_read cfg) = (cv, p)"
      by (metis surj_pair)
    obtain st' k e e' where key: "z_hashtable_to_as_key E z_key ?e = (st', k, e)"
        "z_hashtable_to_as_key E z_key as_error_init = (st', k, e')" "in_doubt e = in_doubt e'"
      using key_conversion_err [of E z_key ?e as_error_init] by auto
    let ?R = "\<lambda>c err. if cv \<noteq> AEROSPIKE_OK then Some (AEROSPIKE_ERR_PARAM, Some ZNull,
          update_client_error c AEROSPIKE_ERR_PARAM ''Invalid read read_policy'' False, s)
        else (case (st', k) of
            (AEROSPIKE_OK, Some key) \<Rightarrow> get_filtered E V cfg c p key z_filter err s
          | _ \<Rightarrow> Some (AEROSPIKE_ERR_PARAM, Some ZNull,
              update_client_error c AEROSPIKE_ERR_PARAM ''Invalid key'' False, s))"
    have g: "get_method E V c args s = ?R (update_client_error ?r st m False) e"
      using ck cfg by (simp add: get_method_def Let_def Some a p key split: as_status.split option.split)
    have g0: "get_method E V c\<^sub>0 args s = ?R (reset_client_error c\<^sub>0) e'"
      using ck0 cfg by (simp add: get_method_def Let_def Some a p key
          split: as_status.split option.split)
    have same: "map_option seen (?R c err) = map_option seen (?R c' err')" if "in_doubt err = in_doubt err'"
      for c c' err err'
      using get_filtered_seen [OF that, of E V cfg c p _ z_filter s c']
      by (simp split: as_status.split option.split)
    have "map_option seen (get_method E V c args s) = map_option seen (get_method E V c\<^sub>0 args s)"
      unfolding g g0 by (rule same [OF key(3)])
    moreover have "c' = c" if "?R c err = Some (AEROSPIKE_OK, out, c', s')" for c err out c' s'
      using that by (cases "cv = AEROSPIKE_OK"; cases st'; cases k) (auto dest: get_filtered_remembers)
    from this [of "update_client_error ?r st m False" e] g ck(1)
    have "\<forall>out c' s'. get_method E V c args s = Some (AEROSPIKE_OK, out, c', s') \<longrightarrow>
        errorno_method c' \<noteq> AEROSPIKE_OK" by auto
    ultimately show ?thesis using null by blast
  qed
qed


theorem get_ignores_connection_check_witness:
  "map_option seen (get_method sample_ext sample_env (sample_client\<lparr>is_connected := False\<rparr>)
     (Some (sample_key_array, None, None)) []) =
   map_option seen (get_method sample_ext sample_env sample_client
     (Some (sample_key_array, None, None)) [])"
  by (rule get_ignores_connection_check [THEN conjunct1]) (simp add: usable_def, simp_all)

end
