(* ===== verification/MethodErrors.thy ===== *)
theory MethodErrors
  imports SampleEnv
begin

text \<open>
  The status each method returns and the error the client remembers.
\<close>

section \<open>Method by method\<close>

fun reports :: "as_status \<times> client \<times> 's \<Rightarrow> bool" where
  "reports (st, c, s) \<longleftrightarrow> errorno_method c = st"

text \<open>A parameter error that is returned but not remembered; no call has been made.\<close>

fun unreported :: "'s \<Rightarrow> as_status \<times> client \<times> 's \<Rightarrow> bool" where
  "unreported s (st, c, s') \<longleftrightarrow> st = AEROSPIKE_ERR_PARAM \<and> errorno_method c = AEROSPIKE_OK \<and> s' = s"

lemma put_checked_reports [simp]:
  "pred_option (\<lambda>x. reports x \<or> unreported s x)
     (put_checked E V cfg (reset_client_error c) z_key rows ttl z_policy err s)"
  by (simp add: put_checked_def Let_def split: prod.split option.split as_status.split)













fun out_reports :: "as_status \<times> zval option \<times> client \<times> 's \<Rightarrow> bool" where
  "out_reports (st, out, c, s) \<longleftrightarrow> errorno_method c = st"

lemma operate_answer_reports [simp]:
  "errorno_method c = AEROSPIKE_OK \<Longrightarrow>
   pred_option out_reports (operate_answer V c rv convert a)"
  by (simp add: operate_answer_def errorno_method_def remember_def split: prod.split option.split)

lemma operate_guards_reports [simp]:
  "(\<And>cfg key err. pred_option out_reports (k c cfg key err)) \<Longrightarrow>
   pred_option out_reports (operate_guards E c z_key rv s k)"
  by (simp add: operate_guards_def Let_def split: option.split prod.split as_status.split)



section \<open>The property\<close>


text \<open>
  The exceptions happen. A put whose generation option is malformed returns
  \<open>AEROSPIKE_ERR_PARAM\<close> after the record was converted and \<open>errorno\<close> still says
  \<open>AEROSPIKE_OK\<close>; the key array \<open>get\<close> itself returns for a record named by its digest, given to
  \<open>remove\<close>, does the same.
\<close>

theorem errors_that_are_not_remembered:
  assumes c: "usable c" "as_client c = Some cfg"
    and key: "z_hashtable_to_as_key E z_key as_error_init = (AEROSPIKE_OK, Some key, as_error_init)"
    and rec: "rows \<noteq> []" "z_hashtable_to_as_record E rows as_error_init (ucast (ini_serializer V)) =
      Some (AEROSPIKE_OK, r, as_error_init)"
    and gen: "\<not> is_array z_gen"
    and null_key: "str_find h ''ns'' = Some (ZString ns)" "str_find h ''set'' = Some (ZString sn)"
      "str_find h ''key'' = Some ZNull"
  shows "put_method E V c (Some (z_key, ZArray rows, None,
      Some (ZArray [(IKey OPT_POLICY_GEN, z_gen)]))) s =
      Some (AEROSPIKE_ERR_PARAM, reset_client_error c, s) \<and>
    (\<exists>c'. remove_method E V c (Some (h, None)) s = Some (AEROSPIKE_ERR_PARAM, c', s) \<and>
      errorno_method c' = AEROSPIKE_OK)"
proof
  have ser: "set_serializer_from_policy_hash (ini_serializer V) (ucast (ini_serializer V))
      (Some (ZArray [(IKey OPT_POLICY_GEN, z_gen)])) = (AEROSPIKE_OK, ucast (ini_serializer V))"
    by (simp add: set_serializer_from_policy_hash_def opt_keys)
  have g: "set_record_generation_from_write_policy r
      (Some (ZArray [(IKey OPT_POLICY_GEN, z_gen)])) = (AEROSPIKE_ERR_PARAM, r)"
    using gen by (cases z_gen)
      (simp_all add: set_record_generation_from_write_policy_def generation_option_def)
  obtain p where p: "zval_to_as_policy_write (write_struct V)
      (Some (ZArray [(IKey OPT_POLICY_GEN, z_gen)])) (cfg_write cfg) = (AEROSPIKE_OK, p)"
    by (simp add: zval_to_as_policy_write_def Let_def)
  show "put_method E V c (Some (z_key, ZArray rows, None,
      Some (ZArray [(IKey OPT_POLICY_GEN, z_gen)]))) s =
      Some (AEROSPIKE_ERR_PARAM, reset_client_error c, s)"
    using c rec by (simp add: put_method_def put_checked_def Let_def key ser g p)
  have k: "z_hashtable_to_as_key E h as_error_init = (AEROSPIKE_ERR_CLIENT, None, as_error_init)"
    using null_key by (simp add: z_hashtable_to_as_key_def Let_def)
  show "\<exists>c'. remove_method E V c (Some (h, None)) s = Some (AEROSPIKE_ERR_PARAM, c', s) \<and>
      errorno_method c' = AEROSPIKE_OK"
    using c by (simp add: remove_method_def zval_to_as_policy_remove_def Let_def k)
qed

theorem errors_that_are_not_remembered_witness:
  "put_method sample_ext sample_env sample_client (Some (sample_key_array,
      ZArray [(SKey ''a'', ZLong 5)], None, Some (ZArray [(IKey OPT_POLICY_GEN, ZLong 3)]))) [] =
    Some (AEROSPIKE_ERR_PARAM, reset_client_error sample_client, [])"
proof (rule errors_that_are_not_remembered [where h = "[(SKey ''ns'', ZString ''test''),
      (SKey ''set'', ZString ''users''), (SKey ''key'', ZNull), (SKey ''digest'', ZString ''d'')]",
      THEN conjunct1])
  show "z_hashtable_to_as_record sample_ext [(SKey ''a'', ZLong 5)] as_error_init
      (ucast (ini_serializer sample_env)) = Some (AEROSPIKE_OK,
        (record_new sample_ext 1)\<lparr>rec_bins := [(''a'', AsInteger 5)]\<rparr>, as_error_init)"
    by code_simp
qed simp_all

end
