(* ===== verification/OperateCalls.thy ===== *)
theory OperateCalls
  imports SampleEnv
begin

text \<open>
  What \<open>operate\<close>, the methods made of one operation and \<open>query\<close> send to the server.
\<close>

section \<open>Lists of operations\<close>

text \<open>
  An operation that is added on its own, and the calls it adds: by \<open>add_op_same\<close> it adds the
  same calls to every list with room.
\<close>

definition op_added :: "'e operate_ext_scheme \<Rightarrow> cint \<Rightarrow> zval \<Rightarrow> bool" where
  "op_added E ser z \<longleftrightarrow>
     (case z of
        ZArray a \<Rightarrow>
          (case add_op_to_operations E a (empty_ops 1) as_error_init ser of
             (st, ops, err) \<Rightarrow> st = AEROSPIKE_OK \<and> err = as_error_init)
      | _ \<Rightarrow> False)"

definition op_calls :: "'e operate_ext_scheme \<Rightarrow> cint \<Rightarrow> zval \<Rightarrow> as_binop list" where
  "op_calls E ser z =
     (case z of
        ZArray a \<Rightarrow> ops_binops (fst (snd (add_op_to_operations E a (empty_ops 1) as_error_init ser)))
      | _ \<Rightarrow> [])"

lemma op_added_step:
  assumes E: "list_api E" "\<And>n. hashmap_new E n = Some []" "binop_api E"
    and z: "op_added E ser z" and "room ops"
  shows "\<exists>a ops'. z = ZArray a \<and>
    add_op_to_operations E a ops as_error_init ser = (AEROSPIKE_OK, ops', as_error_init) \<and>
    adds (op_calls E ser z) ops ops' \<and> length (op_calls E ser z) \<le> 1"
proof -
  from z obtain a where a: "z = ZArray a" by (auto simp: op_added_def split: zval.splits)
  have "same_effect (empty_ops 1) ops (add_op_to_operations E a (empty_ops 1) as_error_init ser)
      (add_op_to_operations E a ops as_error_init ser)"
    by (rule add_op_same) (use E assms(5) in simp_all)
  then show ?thesis
    using z by (cases "add_op_to_operations E a ops as_error_init ser")
      (auto simp: same_effect_def op_added_def op_calls_def a adds_def split: prod.splits)
qed

text \<open>The two loops add the calls of all operations, in the order of the array.\<close>

lemma operate_loop_adds:
  assumes E: "list_api E" "\<And>n. hashmap_new E n = Some []" "binop_api E"
  shows "\<lbrakk>\<forall>kv \<in> set h. op_added E ser (snd kv); length (ops_binops ops) + length h \<le> ops_capacity ops\<rbrakk> \<Longrightarrow>
    \<exists>ops'. operate_loop E V h ops as_error_init ser = (True, ops', as_error_init) \<and>
      adds (concat (map (\<lambda>kv. op_calls E ser (snd kv)) h)) ops ops'"
proof (induction h arbitrary: ops)
  case Nil
  then show ?case by simp
next
  case (Cons kv h)
  obtain k z where kv: "kv = (k, z)" by (cases kv)
  have room: "room ops" and z: "op_added E ser z" using Cons.prems by (simp_all add: room_def kv)
  from op_added_step [OF E z room] obtain a ops' where a: "z = ZArray a"
      "add_op_to_operations E a ops as_error_init ser = (AEROSPIKE_OK, ops', as_error_init)"
      "adds (op_calls E ser z) ops ops'" "length (op_calls E ser z) \<le> 1" by blast
  with Cons.prems have "length (ops_binops ops') + length h \<le> ops_capacity ops'"
    by (simp add: adds_def kv)
  with Cons.IH Cons.prems obtain ops'' where
      "operate_loop E V h ops' as_error_init ser = (True, ops'', as_error_init)"
      "adds (concat (map (\<lambda>kv. op_calls E ser (snd kv)) h)) ops' ops''" by auto
  with a show ?case by (auto simp: kv adds_def)
qed

lemma operateOrdered_loop_adds:
  assumes E: "list_api E" "\<And>n. hashmap_new E n = Some []" "binop_api E"
  shows "\<lbrakk>\<forall>kv \<in> set h. op_added E ser (snd kv); \<forall>kv \<in> set h. \<exists>n. fst kv = IKey n;
      length (ops_binops ops) + length h \<le> ops_capacity ops\<rbrakk> \<Longrightarrow>
    \<exists>ops'. operateOrdered_loop E h ops as_error_init ser = (True, ops', as_error_init) \<and>
      adds (concat (map (\<lambda>kv. op_calls E ser (snd kv)) h)) ops ops'"
proof (induction h arbitrary: ops)
  case Nil
  then show ?case by simp
next
  case (Cons kv h)
  from Cons.prems obtain n z where kv: "kv = (IKey n, z)" by (cases kv) auto
  have room: "room ops" and z: "op_added E ser z" using Cons.prems by (simp_all add: room_def kv)
  from op_added_step [OF E z room] obtain a ops' where a: "z = ZArray a"
      "add_op_to_operations E a ops as_error_init ser = (AEROSPIKE_OK, ops', as_error_init)"
      "adds (op_calls E ser z) ops ops'" "length (op_calls E ser z) \<le> 1" by blast
  with Cons.prems have "length (ops_binops ops') + length h \<le> ops_capacity ops'"
    by (simp add: adds_def kv)
  with Cons.IH [of ops'] Cons.prems(1,2) obtain ops'' where
      "operateOrdered_loop E h ops' as_error_init ser = (True, ops'', as_error_init)"
      "adds (concat (map (\<lambda>kv. op_calls E ser (snd kv)) h)) ops' ops''" by auto
  with a show ?case by (auto simp: kv adds_def)
qed



section \<open>What operate sends\<close>

lemma usableD: "usable c \<Longrightarrow> is_valid c \<and> is_connected c"
  by (simp add: usable_def)

text \<open>
  C7. A list of operations each of which is valid is sent in one call that holds the calls of
  all of them, in the order of the array, with the generation of the options; and what the
  caller gets is the server's answer to that call. Both \<open>operate\<close> and \<open>operateOrdered\<close>.
\<close>

theorem operate_sends_in_order:
  assumes E: "list_api E" "\<forall>n. hashmap_new E n = Some []" "binop_api E"
    and V: "operations_new V (length z_ops) = empty_ops (length z_ops)"
    and c: "usable c" "as_client c = Some cfg"
    and key: "z_hashtable_to_as_key E z_key as_error_init = (AEROSPIKE_OK, Some key, as_error_init)"
    and policy: "zval_to_as_policy_operate E (operate_struct V) (Some z_policy) (cfg_operate cfg) =
        (AEROSPIKE_OK, p, d)"
      "set_operations_generation_from_operate_policy (empty_ops (length z_ops)) (Some z_policy) =
        (AEROSPIKE_OK, ops\<^sub>1)"
      "set_operations_ttl_from_operate_policy ops\<^sub>1 (Some z_policy) = (AEROSPIKE_OK, ops\<^sub>2)"
      "set_serializer_from_policy_hash (ini_serializer V) (ucast (ini_serializer V)) (Some z_policy) =
        (AEROSPIKE_OK, ser)"
    and ops: "z_ops \<noteq> []" "hashtable_is_list z_ops" "\<forall>kv \<in> set z_ops. \<exists>n. fst kv = IKey n"
      "\<forall>kv \<in> set z_ops. op_added E ser (snd kv)"
  shows "\<exists>ops ops'. operate_method E V c (Some (z_key, z_ops, retval, Some z_policy)) s =
      operate_answer V (set_operate_policy (reset_client_error c) cfg d) retval (operate_result E)
        (key_operate V (cfg\<lparr>cfg_operate := d\<rparr>) (Some p) key ops s) \<and>
    operateOrdered_method E V c (Some (z_key, z_ops, retval, Some z_policy)) s =
      operate_answer V (set_operate_policy (reset_client_error c) cfg d) retval (operateOrdered_result E)
        (key_operate V (cfg\<lparr>cfg_operate := d\<rparr>) (Some p) key ops' s) \<and>
    ops_binops ops = concat (map (\<lambda>kv. op_calls E ser (snd kv)) z_ops) \<and>
    ops_binops ops' = ops_binops ops \<and> ops_gen ops = ops_gen ops\<^sub>1 \<and> ops_gen ops' = ops_gen ops\<^sub>1"
proof -
  have hm: "\<And>n. hashmap_new E n = Some []" using E(2) by simp
  have "ops_binops ops\<^sub>1 = [] \<and> ops_capacity ops\<^sub>1 = length z_ops"
    using policy(2) by (auto simp: set_operations_generation_from_operate_policy_def
        split: option.splits zval.splits prod.splits)
  moreover have "ops_binops ops\<^sub>2 = ops_binops ops\<^sub>1 \<and> ops_capacity ops\<^sub>2 = ops_capacity ops\<^sub>1 \<and>
      ops_gen ops\<^sub>2 = ops_gen ops\<^sub>1"
    using policy(3) by (auto simp: set_operations_ttl_from_operate_policy_def
        split: option.splits zval.splits)
  ultimately have o2: "ops_binops ops\<^sub>2 = []" "length (ops_binops ops\<^sub>2) + length z_ops \<le> ops_capacity ops\<^sub>2"
      "ops_gen ops\<^sub>2 = ops_gen ops\<^sub>1" by simp_all
  from operate_loop_adds [OF E(1) hm E(3) ops(4) o2(2), of V] obtain ops where
    l: "operate_loop E V z_ops ops\<^sub>2 as_error_init ser = (True, ops, as_error_init)"
      "adds (concat (map (\<lambda>kv. op_calls E ser (snd kv)) z_ops)) ops\<^sub>2 ops" by blast
  from operateOrdered_loop_adds [OF E(1) hm E(3) ops(4,3) o2(2)] obtain ops' where
    l': "operateOrdered_loop E z_ops ops\<^sub>2 as_error_init ser = (True, ops', as_error_init)"
      "adds (concat (map (\<lambda>kv. op_calls E ser (snd kv)) z_ops)) ops\<^sub>2 ops'" by blast
  have "operate_method E V c (Some (z_key, z_ops, retval, Some z_policy)) s =
      operate_answer V (set_operate_policy (reset_client_error c) cfg d) retval (operate_result E)
        (key_operate V (cfg\<lparr>cfg_operate := d\<rparr>) (Some p) key ops s)"
    using c usableD [OF c(1)] ops(1,2)
    by (simp add: operate_method_def operate_guards_def Let_def key policy V l)
  moreover have "operateOrdered_method E V c (Some (z_key, z_ops, retval, Some z_policy)) s =
      operate_answer V (set_operate_policy (reset_client_error c) cfg d) retval (operateOrdered_result E)
        (key_operate V (cfg\<lparr>cfg_operate := d\<rparr>) (Some p) key ops' s)"
    using c usableD [OF c(1)] ops(1,2)
    by (simp add: operateOrdered_method_def operate_guards_def Let_def key policy V l')
  ultimately show ?thesis using l(2) l'(2) o2
    by (intro exI [of _ ops] exI [of _ ops']) (simp add: adds_def)
qed

definition sample_op_list :: htab where
  "sample_op_list =
     [(IKey 0, ZArray [(SKey ''op'', ZLong 2), (SKey ''bin'', ZString ''n''), (SKey ''val'', ZLong 3)]),
      (IKey 1, ZArray [(SKey ''op'', ZLong 1), (SKey ''bin'', ZString ''n'')])]"

lemma sample_op_list_added:
  "list_all (\<lambda>kv. op_added sample_operate_ext SERIALIZER_PHP (snd kv)) sample_op_list \<and>
   concat (map (\<lambda>kv. op_calls sample_operate_ext SERIALIZER_PHP (snd kv)) sample_op_list) =
     [BasicOp (OpIncr ''n'' 3), BasicOp (OpRead ''n'')]"
  by code_simp

theorem operate_sends_in_order_witness:
  "\<exists>ops c' cfg'. operate_method sample_operate_ext sample_env sample_client
      (Some (sample_key_array, sample_op_list, True, Some ZNull)) [] =
      operate_answer sample_env c' True (operate_result sample_operate_ext)
        (key_operate sample_env cfg' (Some (sample_operate 1000 0)) sample_as_key ops []) \<and>
    ops_binops ops = [BasicOp (OpIncr ''n'' 3), BasicOp (OpRead ''n'')]"
proof -
  have p: "zval_to_as_policy_operate sample_operate_ext (operate_struct sample_env) (Some ZNull)
      (cfg_operate sample_config) = (AEROSPIKE_OK, sample_operate 1000 0, sample_operate 1000 0)"
    by (simp add: zval_to_as_policy_operate_def sample_env_def Let_def sample_struct_def)
  have ser: "set_serializer_from_policy_hash (ini_serializer sample_env) (ucast (ini_serializer sample_env))
      (Some ZNull) = (AEROSPIKE_OK, SERIALIZER_PHP)"
    by (simp add: set_serializer_from_policy_hash_def SERIALIZER_PHP_def)
  note list = sample_op_list_added [unfolded list_all_iff]
  show ?thesis
    using operate_sends_in_order [OF sample_operate_list_api _ sample_binop_api _ sample_client_simps
        sample_key_converts(2) p _ _ ser, of sample_op_list "empty_ops (length sample_op_list)" "empty_ops (length sample_op_list)" True "[]"]
      list
    by (auto simp: sample_op_list_def hashtable_is_list_def
        set_operations_generation_from_operate_policy_def set_operations_ttl_from_operate_policy_def)
qed



section \<open>Methods made of one operation\<close>

lemma set_options_None [simp]:
  "set_operations_generation_from_operate_policy ops None = (AEROSPIKE_OK, ops)"
  "set_operations_ttl_from_operate_policy ops None = (AEROSPIKE_OK, ops)"
  by (simp_all add: set_operations_generation_from_operate_policy_def
      set_operations_ttl_from_operate_policy_def)

lemma operate_policy_None [simp]:
  "policy_api P \<Longrightarrow> zval_to_as_policy_operate E P None d = (AEROSPIKE_OK, pol_init P, pol_init P)"
  by (simp add: zval_to_as_policy_operate_def Let_def policy_apiD)

text \<open>The client, configuration and error after such a call: the operate policy is overwritten.\<close>

definition one_operation ::
  "('s, 'z) env_scheme \<Rightarrow> client \<Rightarrow> config \<Rightarrow> as_key \<Rightarrow> operations \<Rightarrow> 's \<Rightarrow> as_status \<times> client \<times> 's" where
  "one_operation V c cfg key ops s =
     (let p = pol_init (operate_struct V) in
      case key_operate V (cfg\<lparr>cfg_operate := p\<rparr>) (Some p) key ops s of
        (err, r, s) \<Rightarrow>
          (code err, remember err (set_operate_policy (reset_client_error c) cfg p), s))"

text \<open>
  \<open>append\<close>, \<open>prepend\<close>, \<open>increment\<close> and \<open>touch\<close> without options each send one call with
  exactly the one operation they are named after, on the bin and with the string or amount they
  were given, generation and (but for \<open>touch\<close>) time to live zero. The policy is not the one
  configured on the client, and it replaces the configured one.
\<close>

theorem methods_of_one_operation:
  assumes "binop_api Op" "policy_api (operate_struct V)" "operations_new V 1 = empty_ops 1"
    and c: "usable c" "as_client c = Some cfg"
    and key: "\<forall>e. z_hashtable_to_as_key Op z_key e = (AEROSPIKE_OK, Some key, e)"
    and bin: "length bin \<le> bin_name_max_len Op" "nul_free bin" "nul_free str"
  shows "(let ops = \<lambda>b. (empty_ops 1)\<lparr>ops_binops := [BasicOp b]\<rparr> in
    append_method Op V err c (Some (z_key, bin, str, None)) s =
      one_operation V c cfg key (ops (OpAppendStr bin str)) s \<and>
    prepend_method Op V c (Some (z_key, bin, str, None)) s =
      one_operation V c cfg key (ops (OpPrependStr bin str)) s \<and>
    increment_method Op V err c (Some (z_key, bin, ZLong n, None)) s =
      one_operation V c cfg key (ops (OpIncr bin n)) s \<and>
    touch_method Op V c (Some (z_key, t, None)) s =
      apfst Some (one_operation V c cfg key ((ops OpTouch)\<lparr>ops_ttl := ucast t\<rparr>) s))"
proof -
  have add: "add_ignoring Op (empty_ops 1) b = (empty_ops 1)\<lparr>ops_binops := [BasicOp b]\<rparr>" for b
    using assms(1) by (simp add: add_ignoring_def binop_apiD)
  have ge: "\<not> bin_name_max_len Op < length bin" using bin(1) by simp
  have a: "append_method Op V err c (Some (z_key, bin, str, None)) s =
      one_operation V c cfg key ((empty_ops 1)\<lparr>ops_binops := [BasicOp (OpAppendStr bin str)]\<rparr>) s"
    using assms(2) c bin(2,3) ge
    by (simp add: append_method_def one_operation_def Let_def key assms(3) add del: One_nat_def)
  have p: "prepend_method Op V c (Some (z_key, bin, str, None)) s =
      one_operation V c cfg key ((empty_ops 1)\<lparr>ops_binops := [BasicOp (OpPrependStr bin str)]\<rparr>) s"
    using assms(2) c usableD [OF c(1)] bin(2,3) ge
    by (simp add: prepend_method_def one_operation_def Let_def key assms(3) add del: One_nat_def)
  have i: "increment_method Op V err c (Some (z_key, bin, ZLong n, None)) s =
      one_operation V c cfg key ((empty_ops 1)\<lparr>ops_binops := [BasicOp (OpIncr bin n)]\<rparr>) s"
    using assms(2) c usableD [OF c(1)] bin(2,3) ge
    by (simp add: increment_method_def increment_amount_def one_operation_def Let_def key assms(3) add
        del: One_nat_def)
  have t: "touch_method Op V c (Some (z_key, t, None)) s = apfst Some (one_operation V c cfg key
      ((empty_ops 1)\<lparr>ops_binops := [BasicOp OpTouch], ops_ttl := ucast t\<rparr>) s)"
    using assms(2) c usableD [OF c(1)]
    by (simp add: touch_method_def one_operation_def Let_def key assms(3) add del: One_nat_def
        split: prod.split)
  from a p i t show ?thesis by (simp add: Let_def)
qed

theorem methods_of_one_operation_witness:
  "append_method sample_operate_ext sample_env as_error_init sample_client
     (Some (sample_key_array, ''n'', ''x'', None)) [] =
   one_operation sample_env sample_client sample_config sample_as_key
     ((empty_ops 1)\<lparr>ops_binops := [BasicOp (OpAppendStr ''n'' ''x'')]\<rparr>) []"
  using methods_of_one_operation [of sample_operate_ext sample_env sample_client sample_config
      sample_key_array sample_as_key "''n''" "''x''" as_error_init "[]" 1 0]
  by (simp add: nul_free_def NUL_def Let_def del: One_nat_def)

section \<open>A query without its where clause\<close>

text \<open>
  A query whose equality predicate has a value that is neither an integer nor a string is
  not refused: it is sent without a where clause, to every record of the set, and reports what
  the server reports.
\<close>

theorem query_runs_without_where:
  assumes c: "usable c" "as_client c = Some cfg" and "ns \<noteq> []"
    and q: "query_new V (c_str ns) (c_str set_name) = Some q" "fresh_query q" and "query_api Qu"
    and h: "3 \<le> length h" "str_find h ''bin'' = Some (ZString bin)"
      "str_find h ''op'' = Some (ZString PHP_PREDICATE_EQUAL)" "str_find h ''val'' = Some v"
    and v: "\<not> is_long v" "\<not> is_string v"
  shows "\<exists>q'. q_where q' = [] \<and> query_method Qu V c (Some (ns, set_name, h, None, None)) s =
    (case query_foreach V cfg None q' s of
       (err, s') \<Rightarrow> (code err, remember err (reset_client_error c), s'))"
proof -
  let ?q = "query_where_init Qu q 1"
  have w: "q_where ?q = []" using q(2) assms(6) by (simp add: fresh_query_def query_apiD)
  have e: "predicate_entries h = Inr (bin, PHP_PREDICATE_EQUAL, v)"
    using h by (simp add: predicate_entries_def not_less)
  have "add_predicate_to_query Qu q h err =
      (AEROSPIKE_OK, ?q, as_error_update err AEROSPIKE_ERR_PARAM ''Invalid value for equality predicate'')"
    for err
    using v by (cases v) (simp_all add: add_predicate_to_query_def e add_equal_predicate_to_query_def)
  moreover have "h \<noteq> []" using h(1) by auto
  ultimately have "query_method Qu V c (Some (ns, set_name, h, None, None)) s =
      (case query_foreach V cfg None ?q s of
         (err, s') \<Rightarrow> (code err, remember err (reset_client_error c), s'))"
    using c assms(3) q(1)
    by (simp add: query_method_def query_run_def set_query_options_from_policy_hash_def Let_def)
  with w show ?thesis by blast
qed

theorem query_runs_without_where_witness:
  "\<exists>q'. q_where q' = [] \<and> query_method sample_query_ext sample_env sample_client
      (Some (''test'', ''users'', [(SKey ''bin'', ZString ''age''), (SKey ''op'', ZString ''=''),
         (SKey ''val'', ZNull)], None, None)) [] =
    (case query_foreach sample_env sample_config None q' [] of
       (err, s') \<Rightarrow> (code err, remember err (reset_client_error sample_client), s'))"
  by (rule query_runs_without_where [where bin = "''age''" and v = ZNull and
        q = "sample_new_query\<lparr>q_ns := ''test'', q_set := ''users''\<rparr>"])
    (simp_all add: nul_free_def NUL_def PHP_PREDICATE_EQUAL_def fresh_query_def sample_new_query_def)

end
