(* ===== verification/Persistent.thy ===== *)
theory Persistent
  imports Client
begin

text \<open>
  Objects and the connections they share: the constructor and destructor of
  \<open>client/aerospike_class.c\<close> and the list of persistent connections of \<open>persistent_list.c\<close>.

  The \<open>aerospike\<close> structures live in a store of addresses, since several objects may point to
  the same one. \<open>malloc\<close> is taken to succeed.
\<close>

section \<open>The key of a shared connection\<close>

definition digit_char :: "nat \<Rightarrow> char" where
  "digit_char d = char_of (if d < 10 then 48 + d else 87 + d)"

fun show_base :: "nat \<Rightarrow> nat \<Rightarrow> string" where
  "show_base b n =
     (if b < 2 \<or> n < b then [digit_char n] else show_base b (n div b) @ [digit_char (n mod b)])"

declare show_base.simps [simp del]

definition MAX_PORT_SIZE :: nat where "MAX_PORT_SIZE = 6"

definition MAX_SHM_SIZE :: nat where "MAX_SHM_SIZE = 19"

text \<open>The part of the string for one host: \<open>sprintf\<close> of the port and five \<open>strcat\<close>.\<close>

definition host_string :: "string \<Rightarrow> host \<Rightarrow> string" where
  "host_string user h =
     c_str (host_name h) @ '':'' @ show_base 10 (unat (host_port h)) @ '':'' @ c_str user @ '';''"

definition search_string :: "config \<Rightarrow> string" where
  "search_string c =
     concat (map (host_string (cfg_user c)) (cfg_hosts c)) @
     (if cfg_use_shm c then show_base 16 (unat (cfg_shm_key c)) else [])"

text \<open>The size of the buffer the code allocates for it.\<close>

definition search_string_size :: "config \<Rightarrow> nat" where
  "search_string_size c =
     sum_list (map (\<lambda>h. strlen (host_name h) + MAX_PORT_SIZE + 3 + strlen (cfg_user c)) (cfg_hosts c)) +
     (if cfg_use_shm c then MAX_SHM_SIZE else 0)"

section \<open>The list\<close>

record persistent_host =
  host_ref_cnt :: cint
  host_conn_cnt :: cint
  host_is_connected :: bool
  host_client :: nat \<comment> \<open>the address of the shared structure\<close>

record 's world =
  heap :: "nat \<Rightarrow> config option"
  next_addr :: nat
  plist :: "(string \<times> persistent_host) list"
  servers :: 's

text \<open>\<open>AerospikeClient\<close> with its pointer as an address.\<close>

record php_object =
  obj_client :: "nat option"
  obj_is_connected :: bool
  obj_is_valid :: bool
  obj_error :: as_error
  obj_is_persistent :: bool

text \<open>What \<open>ecalloc\<close> leaves in a new object.\<close>

definition aerospike_create_object :: php_object where
  "aerospike_create_object = \<lparr>obj_client = None, obj_is_connected = False, obj_is_valid = False,
     obj_error = as_error_init, obj_is_persistent = False\<rparr>"

definition add_persistent_host :: "string \<Rightarrow> nat \<Rightarrow> 's world \<Rightarrow> 's world" where
  "add_persistent_host k a w = w\<lparr>plist := plist w @ [(k, \<lparr>host_ref_cnt = 1, host_conn_cnt = 0,
     host_is_connected = False, host_client = a\<rparr>)]\<rparr>"

definition get_persistent_host :: "string \<Rightarrow> 's world \<Rightarrow> persistent_host option" where
  "get_persistent_host k w = map_of (plist w) k"

definition put_host :: "string \<Rightarrow> persistent_host \<Rightarrow> 's world \<Rightarrow> 's world" where
  "put_host k h w = w\<lparr>plist := map (\<lambda>(k', h'). (k', if k' = k then h else h')) (plist w)\<rparr>"

text \<open>\<open>aerospike_destroy\<close>: the structure is gone.\<close>

definition destroy :: "nat \<Rightarrow> 's world \<Rightarrow> 's world" where
  "destroy a w = w\<lparr>heap := (heap w)(a := None)\<rparr>"

definition connect_at :: "('s, 'z) env_scheme \<Rightarrow> nat \<Rightarrow> 's world \<Rightarrow> (as_error \<times> 's world) option" where
  "connect_at V a w =
     (case heap w a of
        None \<Rightarrow> None
      | Some cfg \<Rightarrow> (case aerospike_connect V cfg (servers w) of (err, s) \<Rightarrow> Some (err, w\<lparr>servers := s\<rparr>)))"

definition close_at :: "('s, 'z) env_scheme \<Rightarrow> nat \<Rightarrow> 's world \<Rightarrow> 's world option" where
  "close_at V a w =
     (case heap w a of
        None \<Rightarrow> None
      | Some cfg \<Rightarrow> Some (w\<lparr>servers := snd (aerospike_close V cfg (servers w))\<rparr>))"

text \<open>The results are \<open>None\<close> when a structure that is gone would be used.\<close>

definition persistent_connect ::
  "('s, 'z) env_scheme \<Rightarrow> nat \<Rightarrow> php_object \<Rightarrow> 's world \<Rightarrow> (as_status \<times> php_object \<times> 's world) option" where
  "persistent_connect V a obj w =
     (let obj = obj\<lparr>obj_is_persistent := True\<rparr> in
      case heap w a of
        None \<Rightarrow> None
      | Some cfg \<Rightarrow>
          (let k = search_string cfg in
           case get_persistent_host k w of
             Some h \<Rightarrow>
               (let w = destroy a w; obj = obj\<lparr>obj_client := Some (host_client h)\<rparr> in
                if \<not> host_is_connected h then
                  (case connect_at V (host_client h) w of
                     None \<Rightarrow> None
                   | Some (err, w) \<Rightarrow>
                       if code err = AEROSPIKE_OK then
                         Some (AEROSPIKE_OK, obj, put_host k (h\<lparr>host_conn_cnt := host_conn_cnt h + 1,
                           host_is_connected := True, host_ref_cnt := host_ref_cnt h + 1\<rparr>) w)
                       else Some (code err, obj, w))
                else
                  Some (AEROSPIKE_OK, obj, put_host k (h\<lparr>host_conn_cnt := host_conn_cnt h + 1,
                    host_ref_cnt := host_ref_cnt h + 1\<rparr>) w))
           | None \<Rightarrow>
               (case connect_at V a w of
                  None \<Rightarrow> None
                | Some (err, w) \<Rightarrow>
                    if code err = AEROSPIKE_OK then
                      (let w = add_persistent_host k a w in
                       Some (AEROSPIKE_OK, obj, put_host k \<lparr>host_ref_cnt = 1, host_conn_cnt = 1,
                         host_is_connected = True, host_client = a\<rparr> w))
                    else Some (code err, obj, w))))"

definition non_persistent_connect ::
  "('s, 'z) env_scheme \<Rightarrow> nat \<Rightarrow> php_object \<Rightarrow> 's world \<Rightarrow> (as_status \<times> php_object \<times> 's world) option" where
  "non_persistent_connect V a obj w =
     (let obj = obj\<lparr>obj_is_persistent := False\<rparr> in
      case connect_at V a w of
        None \<Rightarrow> None
      | Some (err, w) \<Rightarrow>
          Some (code err, if code err = AEROSPIKE_OK then obj\<lparr>obj_is_connected := True\<rparr> else obj, w))"

text \<open>The list is destroyed at the end of the process: every structure in it is closed and freed.\<close>

definition persistent_host_dtor ::
  "('s, 'z) env_scheme \<Rightarrow> persistent_host \<Rightarrow> 's world \<Rightarrow> 's world option" where
  "persistent_host_dtor V h w = map_option (destroy (host_client h)) (close_at V (host_client h) w)"

fun persistent_list_destroy ::
  "('s, 'z) env_scheme \<Rightarrow> (string \<times> persistent_host) list \<Rightarrow> 's world \<Rightarrow> 's world option" where
  "persistent_list_destroy V [] w = Some (w\<lparr>plist := []\<rparr>)"
| "persistent_list_destroy V ((k, h) # hs) w =
     (case persistent_host_dtor V h w of
        None \<Rightarrow> None
      | Some w \<Rightarrow> persistent_list_destroy V hs w)"

end
