(* ===== verification/Lifecycle.thy ===== *)
theory Lifecycle
  imports Persistent Updates Queries
begin

text \<open>
  The life of the objects of a PHP process: the constructor, the destructor and the freeing of
  \<open>client/aerospike_class.c\<close>, the methods of \<open>KeyValue\<close>, \<open>Updates\<close>, \<open>Queries\<close> and \<open>Client\<close>
  on an object of the process, and the end of the process; and the states they can reach.
\<close>

section \<open>The constructor\<close>

text \<open>
  \<open>as_config_init\<close>, and whether \<open>aerospike_new\<close> finds the memory for a structure.
\<close>

record life_ext = config_ext +
  config_initial :: config
  aerospike_new_ok :: "config \<Rightarrow> bool"

datatype thrown = Nothing_thrown | Thrown string | Thrown_by_parser

definition aerospike_new :: "config \<Rightarrow> 's world \<Rightarrow> nat \<times> 's world" where
  "aerospike_new cfg w =
     (next_addr w, w\<lparr>heap := (heap w)(next_addr w \<mapsto> cfg), next_addr := next_addr w + 1\<rparr>)"

text \<open>The configuration the arguments stand for, or what is thrown instead.\<close>

definition construct_config ::
  "'e life_ext_scheme \<Rightarrow> ini_settings \<Rightarrow> htab \<Rightarrow> htab option \<Rightarrow> string + config \<times> cint" where
  "construct_config E i z_config z_options =
     (case str_find z_config ''hosts'' of
        None \<Rightarrow> Inl ''An entry for hosts must be included in the config array''
      | Some (ZArray z_hosts) \<Rightarrow>
          (let c = config_initial E;
               c = (if zts E then c\<lparr>cfg_thread_pool_size := 0\<rparr> else c)
           in
           case add_hosts_from_zhash E z_hosts c of
             Inl m \<Rightarrow> Inl m
           | Inr c \<Rightarrow>
               (case set_policy_defaults_from_ini E i c of
                  (c, ser) \<Rightarrow>
                    (case set_as_config E i z_config (set_as_config_from_ini E i c) of
                       None \<Rightarrow> Inl ''Invalid configuration values''
                     | Some c \<Rightarrow>
                         (case set_policy_defaults_from_hash E z_options (c, ser) of
                            None \<Rightarrow> Inl ''Invalid policy values''
                          | Some cs \<Rightarrow> Inr cs))))
      | Some _ \<Rightarrow> Inl ''hosts entry must be an array'')"

text \<open>
  The arguments are the configuration, whether the connection is shared and the options, \<open>None\<close>
  when PHP refuses them. The result is \<open>None\<close> when a structure that is gone would be used.
\<close>

definition construct_method ::
  "'e life_ext_scheme \<Rightarrow> ('s, 'z) env_scheme \<Rightarrow> ini_settings \<Rightarrow> (htab \<times> bool \<times> htab option) option \<Rightarrow>
     php_object \<Rightarrow> 's world \<Rightarrow> (as_status \<times> thrown \<times> php_object \<times> 's world) option" where
  "construct_method E V i args obj w =
     (let obj = obj\<lparr>obj_is_connected := False, obj_is_valid := False, obj_is_persistent := True,
                    obj_error := as_error_init\<rparr>
      in
      case args of
        None \<Rightarrow> Some (AEROSPIKE_ERR_PARAM, Thrown_by_parser, obj, w)
      | Some (z_config, persistent, z_options) \<Rightarrow>
          (case construct_config E i z_config z_options of
             Inl m \<Rightarrow> Some (AEROSPIKE_ERR_PARAM, Thrown m, obj, w)
           | Inr (cfg, ser) \<Rightarrow>
               if \<not> aerospike_new_ok E cfg then
                 Some (AEROSPIKE_ERR_CLIENT, Thrown ''Failed to create aerospike object'',
                   obj\<lparr>obj_client := None\<rparr>, w)
               else
                 (case aerospike_new cfg w of
                    (a, w) \<Rightarrow>
                      (let obj = obj\<lparr>obj_client := Some a, obj_is_valid := True,
                                     obj_is_persistent := persistent\<rparr>
                       in
                       case (if persistent then persistent_connect V a obj w
                             else non_persistent_connect V a obj w) of
                         None \<Rightarrow> None
                       | Some (st, obj, w) \<Rightarrow>
                           if st \<noteq> AEROSPIKE_OK then Some (st, Thrown ''Failed to connect'', obj, w)
                           else Some (AEROSPIKE_OK, Nothing_thrown, obj\<lparr>obj_is_connected := True\<rparr>, w)))))"

section \<open>The end of an object\<close>

definition aerospike_object_destructor ::
  "('s, 'z) env_scheme \<Rightarrow> php_object \<Rightarrow> 's world \<Rightarrow> 's world option" where
  "aerospike_object_destructor V obj w =
     (case obj_client obj of
        None \<Rightarrow> Some w
      | Some a \<Rightarrow> if obj_is_persistent obj then Some w else close_at V a w)"

definition aerospike_object_free_storage ::
  "('s, 'z) env_scheme \<Rightarrow> php_object \<Rightarrow> 's world \<Rightarrow> (php_object \<times> 's world) option" where
  "aerospike_object_free_storage V obj w =
     map_option (\<lambda>w. (obj\<lparr>obj_is_valid := False\<rparr>, w))
       (case obj_client obj of
          None \<Rightarrow> Some w
        | Some a \<Rightarrow>
            if obj_is_valid obj \<and> \<not> obj_is_persistent obj then
              map_option (destroy a) (close_at V a w)
            else Some w)"

section \<open>A method on an object\<close>

text \<open>
  The client the methods see: the object with the structure its pointer refers to. \<open>None\<close> when
  that is gone. Afterwards the structure holds what the method left in it.
\<close>

definition client_view :: "php_object \<Rightarrow> 's world \<Rightarrow> client option" where
  "client_view obj w =
     (let made = (\<lambda>cfg. \<lparr>as_client = cfg, is_connected = obj_is_connected obj, is_valid = obj_is_valid obj,
            client_error = obj_error obj, is_persistent = obj_is_persistent obj\<rparr>)
      in
      case obj_client obj of
        None \<Rightarrow> Some (made None)
      | Some a \<Rightarrow> map_option (\<lambda>cfg. made (Some cfg)) (heap w a))"

definition after_method :: "client \<Rightarrow> 's \<Rightarrow> php_object \<Rightarrow> 's world \<Rightarrow> php_object \<times> 's world" where
  "after_method c s obj w =
     (obj\<lparr>obj_is_connected := is_connected c, obj_error := client_error c\<rparr>,
      case obj_client obj of
        None \<Rightarrow> w\<lparr>servers := s\<rparr>
      | Some a \<Rightarrow> w\<lparr>servers := s, heap := (heap w)(a := as_client c)\<rparr>)"

text \<open>What one call of a method can do, whatever its arguments.\<close>

inductive method_call ::
  "'e operate_ext_scheme \<Rightarrow> 'f query_ext_scheme \<Rightarrow> ('s, 'z) env_scheme \<Rightarrow> client \<times> 's \<Rightarrow> client \<times> 's \<Rightarrow> bool"
  for E F V where
  put: "put_method E V c args s = Some (st, c', s') \<Longrightarrow> method_call E F V (c, s) (c', s')"
| get: "get_method E V c args s = Some (st, out, c', s') \<Longrightarrow> method_call E F V (c, s) (c', s')"
| exists: "exists_method E V c args s = (st, out, c', s') \<Longrightarrow> method_call E F V (c, s) (c', s')"
| remove: "remove_method E V c args s = Some (st, c', s') \<Longrightarrow> method_call E F V (c, s) (c', s')"
| removeBin: "removeBin_method E V c args s = Some (st, c', s') \<Longrightarrow> method_call E F V (c, s) (c', s')"
| operate: "operate_method E V c args s = Some (st, out, c', s') \<Longrightarrow> method_call E F V (c, s) (c', s')"
| operateOrdered: "operateOrdered_method E V c args s = Some (st, out, c', s') \<Longrightarrow>
    method_call E F V (c, s) (c', s')"
| touch: "touch_method E V c args s = (ret, c', s') \<Longrightarrow> method_call E F V (c, s) (c', s')"
| append: "append_method E V err c args s = (st, c', s') \<Longrightarrow> method_call E F V (c, s) (c', s')"
| prepend: "prepend_method E V c args s = (st, c', s') \<Longrightarrow> method_call E F V (c, s) (c', s')"
| increment: "increment_method E V err c args s = (st, c', s') \<Longrightarrow> method_call E F V (c, s) (c', s')"
| query: "query_method F V c args s = (st, c', s') \<Longrightarrow> method_call E F V (c, s) (c', s')"
| close: "close_method V c s = (st, c', s') \<Longrightarrow> method_call E F V (c, s) (c', s')"
| reconnect: "reconnect_method V c s = (st, c', s') \<Longrightarrow> method_call E F V (c, s) (c', s')"

inductive_cases method_callE: "method_call E F V (c, s) (c', s')"

section \<open>The process\<close>

record 's sys =
  objects :: "nat \<Rightarrow> php_object option"
  sys_world :: "'s world"

text \<open>
  What can happen in a process: an object is made and constructed, also a second time, one of its
  methods is called, and in the end it is destroyed and its memory freed.
\<close>

inductive sys_step ::
  "'e life_ext_scheme \<Rightarrow> 'o operate_ext_scheme \<Rightarrow> 'f query_ext_scheme \<Rightarrow> ('s, 'z) env_scheme \<Rightarrow>
     's sys \<Rightarrow> 's sys \<Rightarrow> bool"
  for L E F V where
  create: "objects S j = None \<Longrightarrow>
    sys_step L E F V S (S\<lparr>objects := (objects S)(j \<mapsto> aerospike_create_object)\<rparr>)"
| construct: "objects S j = Some obj \<Longrightarrow>
    construct_method L V i args obj (sys_world S) = Some (st, t, obj', w) \<Longrightarrow>
    sys_step L E F V S \<lparr>objects = (objects S)(j \<mapsto> obj'), sys_world = w\<rparr>"
| call: "objects S j = Some obj \<Longrightarrow> client_view obj (sys_world S) = Some c \<Longrightarrow>
    method_call E F V (c, servers (sys_world S)) (c', s') \<Longrightarrow>
    after_method c' s' obj (sys_world S) = (obj', w) \<Longrightarrow>
    sys_step L E F V S \<lparr>objects = (objects S)(j \<mapsto> obj'), sys_world = w\<rparr>"
| destruct: "objects S j = Some obj \<Longrightarrow>
    aerospike_object_destructor V obj (sys_world S) = Some w \<Longrightarrow>
    sys_step L E F V S (S\<lparr>sys_world := w\<rparr>)"
| free: "objects S j = Some obj \<Longrightarrow>
    aerospike_object_free_storage V obj (sys_world S) = Some (obj', w) \<Longrightarrow>
    sys_step L E F V S \<lparr>objects = (objects S)(j := None), sys_world = w\<rparr>"

definition sys_init :: "'s \<Rightarrow> 's sys" where
  "sys_init s = \<lparr>objects = \<lambda>j. None,
     sys_world = \<lparr>heap = \<lambda>a. None, next_addr = 0, plist = [], servers = s\<rparr>\<rparr>"

inductive reachable ::
  "'e life_ext_scheme \<Rightarrow> 'o operate_ext_scheme \<Rightarrow> 'f query_ext_scheme \<Rightarrow> ('s, 'z) env_scheme \<Rightarrow>
     's sys \<Rightarrow> bool"
  for L E F V where
  init: "reachable L E F V (sys_init s)"
| step: "reachable L E F V S \<Longrightarrow> sys_step L E F V S S' \<Longrightarrow> reachable L E F V S'"

end
