(* ===== verification/MethodFrame.thy ===== *)
theory MethodFrame
  imports Lifecycle
begin

text \<open>
  What every method leaves alone: the pointer, the validity and the sharing of its object.
\<close>

section \<open>What a method leaves alone\<close>

definition same_object :: "client \<Rightarrow> client \<Rightarrow> bool" where
  "same_object c c' \<longleftrightarrow>
     (as_client c' = None \<longleftrightarrow> as_client c = None) \<and> is_valid c' = is_valid c \<and>
     is_persistent c' = is_persistent c"

lemma same_object_refl [simp]: "same_object c c"
  by (simp add: same_object_def)

lemma persistent_remember [simp]: "is_persistent (remember e c) = is_persistent c"
  by (simp add: remember_def)

lemma same_object_simps [simp]:
  "same_object c (update_client_error c' st m d) = same_object c c'"
  "same_object c (reset_client_error c') = same_object c c'"
  "same_object c (remember e c') = same_object c c'"
  "same_object c (c'\<lparr>is_connected := b\<rparr>) = same_object c c'"
  "same_object c (set_operate_policy c' cfg p) \<longleftrightarrow>
     as_client c \<noteq> None \<and> is_valid c' = is_valid c \<and> is_persistent c' = is_persistent c"
  by (auto simp: same_object_def set_operate_policy_def)

lemma put_keeps:
  "pred_option (\<lambda>(st, c', s'). same_object c c') (put_method E V c args s)"
  by (simp add: put_method_def put_checked_def Let_def
      split: prod.split option.split as_status.split zval.split)

lemma get_keeps:
  "pred_option (\<lambda>(st, out, c', s'). same_object c c') (get_method E V c args s)"
  by (simp add: get_method_def get_filtered_def get_answer_def Let_def
      split: prod.split option.split as_status.split zval.split)

lemma exists_keeps:
  "case exists_method E V c args s of (st, out, c', s') \<Rightarrow> same_object c c'"
  by (simp add: exists_method_def Let_def split: prod.split option.split as_status.split)

lemma remove_keeps:
  "pred_option (\<lambda>(st, c', s'). same_object c c') (remove_method E V c args s)"
  by (simp add: remove_method_def Let_def split: prod.split option.split as_status.split)

lemma removeBin_keeps:
  "pred_option (\<lambda>(st, c', s'). same_object c c') (removeBin_method E V c args s)"
  by (simp add: removeBin_method_def Let_def split: prod.split option.split as_status.split)

lemma operate_keeps:
  "pred_option (\<lambda>(st, out, c', s'). same_object c c') (operate_method E V c args s)"
  by (simp add: operate_method_def operate_guards_def operate_answer_def Let_def
      split: prod.split option.split as_status.split)

lemma operateOrdered_keeps:
  "pred_option (\<lambda>(st, out, c', s'). same_object c c') (operateOrdered_method E V c args s)"
  by (simp add: operateOrdered_method_def operate_guards_def operate_answer_def Let_def
      split: prod.split option.split as_status.split)

lemma touch_keeps:
  "case touch_method E V c args s of (st, c', s') \<Rightarrow> same_object c c'"
  by (simp add: touch_method_def Let_def split: prod.split option.split as_status.split)

lemma append_keeps:
  "case append_method E V err c args s of (st, c', s') \<Rightarrow> same_object c c'"
  by (simp add: append_method_def Let_def split: prod.split option.split as_status.split)

lemma prepend_keeps:
  "case prepend_method E V c args s of (st, c', s') \<Rightarrow> same_object c c'"
  by (simp add: prepend_method_def Let_def split: prod.split option.split as_status.split)

lemma increment_keeps:
  "case increment_method E V err c args s of (st, c', s') \<Rightarrow> same_object c c'"
  by (simp add: increment_method_def Let_def
      split: prod.split option.split as_status.split sum.split)

lemma query_keeps:
  "case query_method F V c args s of (st, c', s') \<Rightarrow> same_object c c'"
  by (simp add: query_method_def query_run_def Let_def
      split: prod.split option.split list.split zval.split)

lemma close_keeps:
  "case close_method V c s of (st, c', s') \<Rightarrow> same_object c c'"
  by (simp add: close_method_def Let_def split: prod.split option.split)

lemma reconnect_keeps:
  "case reconnect_method V c s of (st, c', s') \<Rightarrow> same_object c c'"
  by (simp add: reconnect_method_def Let_def split: prod.split option.split)

lemma result_cases:
  "pred_option (\<lambda>(st, c', s'). P c') x \<Longrightarrow> x = Some (st, c', s') \<Longrightarrow> P c'"
  "pred_option (\<lambda>(st, out, c', s'). P c') y \<Longrightarrow> y = Some (st', out, c', s') \<Longrightarrow> P c'"
  "case u of (st, c', s') \<Rightarrow> P c' \<Longrightarrow> u = (st'', c', s') \<Longrightarrow> P c'"
  "case v of (st, out, c', s') \<Rightarrow> P c' \<Longrightarrow> v = (st3, out, c', s') \<Longrightarrow> P c'"
  by simp_all

lemmas methods_keep_object =
  put_keeps [THEN result_cases(1)] remove_keeps [THEN result_cases(1)] removeBin_keeps [THEN result_cases(1)]
  get_keeps [THEN result_cases(2)] operate_keeps [THEN result_cases(2)]
  operateOrdered_keeps [THEN result_cases(2)]
  touch_keeps [THEN result_cases(3)] append_keeps [THEN result_cases(3)] prepend_keeps [THEN result_cases(3)]
  increment_keeps [THEN result_cases(3)] query_keeps [THEN result_cases(3)] close_keeps [THEN result_cases(3)]
  reconnect_keeps [THEN result_cases(3)] exists_keeps [THEN result_cases(4)]

lemma method_call_same: "method_call E F V (c, s) (c', s') \<Longrightarrow> same_object c c'"
  by (erule method_callE) (rule methods_keep_object, assumption)+

end
