(* ===== verification/LifecycleSpec.thy ===== *)
theory LifecycleSpec
  imports MethodFrame
begin

text \<open>
  The invariant of a process: the list of shared connections is well formed, every pointer an
  object holds is allocated, and one that is not shared is nobody else's. Every operation of
  \<open>Lifecycle\<close> and \<open>Persistent\<close> keeps it, and under it none of them uses a structure that is gone.
\<close>

section \<open>Worlds\<close>

definition shared :: "'s world \<Rightarrow> nat set" where
  "shared w = host_client ` snd ` set (plist w)"

definition world_ok :: "'s world \<Rightarrow> bool" where
  "world_ok w \<longleftrightarrow>
     (\<forall>a \<in> dom (heap w). a < next_addr w) \<and> shared w \<subseteq> dom (heap w) \<and>
     distinct (map fst (plist w)) \<and> distinct (map (host_client \<circ> snd) (plist w))"

lemma servers_update_ok [simp]:
  "world_ok (w\<lparr>servers := s\<rparr>) = world_ok w" "shared (w\<lparr>servers := s\<rparr>) = shared w"
  by (simp_all add: world_ok_def shared_def)

lemma shared_heap_update [simp]: "shared (w\<lparr>heap := h\<rparr>) = shared w"
  "shared (w\<lparr>heap := h, next_addr := n\<rparr>) = shared w"
  by (simp_all add: shared_def)

lemma close_at_cases:
  "a \<in> dom (heap w) \<Longrightarrow> \<exists>s. close_at V a w = Some (w\<lparr>servers := s\<rparr>)"
  by (auto simp: close_at_def)

lemma connect_at_cases:
  "a \<in> dom (heap w) \<Longrightarrow> \<exists>err s. connect_at V a w = Some (err, w\<lparr>servers := s\<rparr>)"
  by (auto simp: connect_at_def split: prod.split)

lemma destroy_fields [simp]:
  "shared (destroy a w) = shared w" "plist (destroy a w) = plist w"
  "next_addr (destroy a w) = next_addr w" "dom (heap (destroy a w)) = dom (heap w) - {a}"
  by (simp_all add: shared_def destroy_def)

lemma destroy_ok: "world_ok w \<Longrightarrow> a \<notin> shared w \<Longrightarrow> world_ok (destroy a w)"
  unfolding world_ok_def destroy_fields by blast

lemma shared_allocated: "world_ok w \<Longrightarrow> b \<in> shared w \<Longrightarrow> b \<in> dom (heap w)"
  by (auto simp: world_ok_def)

lemma put_host_fields [simp]:
  "heap (put_host k h w) = heap w" "next_addr (put_host k h w) = next_addr w"
  "heap (add_persistent_host k a w) = heap w" "next_addr (add_persistent_host k a w) = next_addr w"
  by (simp_all add: put_host_def add_persistent_host_def)

lemma put_host_plist:
  assumes "distinct (map fst (plist w))" "get_persistent_host k w = Some h" "host_client h' = host_client h"
  shows "map fst (plist (put_host k h' w)) = map fst (plist w)"
    and "map (host_client \<circ> snd) (plist (put_host k h' w)) = map (host_client \<circ> snd) (plist w)"
proof -
  show "map fst (plist (put_host k h' w)) = map fst (plist w)"
    by (auto simp: put_host_def)
  have "h'' = h" if "(k, h'') \<in> set (plist w)" for h''
    using assms(1,2) that by (auto simp: get_persistent_host_def)
  then show "map (host_client \<circ> snd) (plist (put_host k h' w)) = map (host_client \<circ> snd) (plist w)"
    using assms(3) by (auto simp: put_host_def)
qed

lemma shared_alt: "shared w = set (map (host_client \<circ> snd) (plist w))"
  by (simp only: shared_def set_map image_comp)

lemma put_host_ok:
  assumes "world_ok w" "get_persistent_host k w = Some h" "host_client h' = host_client h"
  shows "world_ok (put_host k h' w)" and "shared (put_host k h' w) = shared w"
proof -
  have d: "distinct (map fst (plist w))" using assms(1) by (simp add: world_ok_def)
  note same = put_host_plist [OF d assms(2,3)]
  then show "shared (put_host k h' w) = shared w" by (simp only: shared_alt)
  with same assms(1) show "world_ok (put_host k h' w)" by (simp add: world_ok_def del: map_map)
qed

lemma add_host_ok:
  assumes "world_ok w" "get_persistent_host k w = None" "a \<in> dom (heap w)" "a \<notin> shared w" "host_client h = a"
  shows "world_ok (put_host k h (add_persistent_host k a w))"
    and "shared (put_host k h (add_persistent_host k a w)) = insert a (shared w)"
proof -
  from assms(2) have new: "k \<notin> fst ` set (plist w)"
    by (simp add: get_persistent_host_def map_of_eq_None_iff)
  then have "map (\<lambda>(k', h'). (k', if k' = k then h else h')) (plist w) = plist w"
    by (force intro: map_idI)
  then have l: "plist (put_host k h (add_persistent_host k a w)) = plist w @ [(k, h)]"
    by (simp add: put_host_def add_persistent_host_def)
  with assms(5) show s: "shared (put_host k h (add_persistent_host k a w)) = insert a (shared w)"
    by (auto simp: shared_def)
  from l s new assms show "world_ok (put_host k h (add_persistent_host k a w))"
    by (auto simp: world_ok_def shared_alt)
qed

text \<open>
  Where a constructor's pointer \<open>p\<close> ends up, from the world \<open>w\<close> with the fresh address \<open>a\<close>: at the
  fresh structure, which nobody else has unless it was put in the list, or at one of the list.
\<close>

definition connected_well :: "bool \<Rightarrow> nat \<Rightarrow> 's world \<Rightarrow> nat option \<Rightarrow> 's world \<Rightarrow> bool" where
  "connected_well persistent a w p w' \<longleftrightarrow>
     world_ok w' \<and> dom (heap w) - {a} \<subseteq> dom (heap w') \<and> next_addr w' = next_addr w \<and>
     (p = Some a \<and> a \<in> dom (heap w') \<and> (if persistent then shared w' \<subseteq> insert a (shared w) else shared w' = shared w) \<or>
      p \<in> Some ` shared w \<and> persistent \<and> shared w' = shared w)"

lemma persistent_connect_ok:
  assumes "world_ok w" "a \<in> dom (heap w)" "a \<notin> shared w" "obj_client obj = Some a"
  shows "\<exists>st obj' w'. persistent_connect V a obj w = Some (st, obj', w') \<and> obj_is_persistent obj' \<and>
    connected_well True a w (obj_client obj') w'"
proof -
  obtain cfg where cfg: "heap w a = Some cfg" using assms(2) by auto
  let ?k = "search_string cfg"
  show ?thesis
  proof (cases "get_persistent_host ?k w")
    case None
    obtain err s where "connect_at V a w = Some (err, w\<lparr>servers := s\<rparr>)"
      using connect_at_cases [OF assms(2)] by blast
    moreover have "get_persistent_host ?k (w\<lparr>servers := s\<rparr>) = None"
      using None by (simp add: get_persistent_host_def)
    ultimately show ?thesis
      using assms None cfg
      by (auto simp: persistent_connect_def connected_well_def Let_def add_host_ok)
  next
    case (Some h)
    then have h: "host_client h \<in> shared w"
      by (force simp: get_persistent_host_def shared_def dest: map_of_SomeD)
    let ?w = "destroy a w"
    have ok: "world_ok ?w" using assms(1,3) by (rule destroy_ok)
    have *: "host_client h \<in> dom (heap ?w)"
      using shared_allocated [OF ok, of "host_client h"] h by (simp only: destroy_fields)
    obtain err s where conn: "connect_at V (host_client h) ?w = Some (err, ?w\<lparr>servers := s\<rparr>)"
      using connect_at_cases [OF *] by blast
    have "get_persistent_host ?k (?w\<lparr>servers := s\<rparr>) = Some h" "get_persistent_host ?k ?w = Some h" for s
      using Some by (simp_all add: get_persistent_host_def destroy_def)
    note put = put_host_ok [OF _ this(1)] put_host_ok [OF _ this(2)]
    have "shared ?w = shared w" "dom (heap ?w) = dom (heap w) - {a}" "next_addr ?w = next_addr w"
      by (auto simp: destroy_def)
    with assms Some cfg conn ok h show ?thesis
      by (auto simp: persistent_connect_def connected_well_def Let_def put)
  qed
qed

lemma non_persistent_connect_ok:
  assumes "world_ok w" "a \<in> dom (heap w)" "obj_client obj = Some a"
  shows "\<exists>st obj' w'. non_persistent_connect V a obj w = Some (st, obj', w') \<and>
    \<not> obj_is_persistent obj' \<and> connected_well False a w (obj_client obj') w'"
proof -
  obtain err s where "connect_at V a w = Some (err, w\<lparr>servers := s\<rparr>)"
    using connect_at_cases [OF assms(2)] by blast
  with assms show ?thesis
    by (auto simp: non_persistent_connect_def connected_well_def Let_def)
qed

end
