(* ===== verification/ProcessInv.thy ===== *)
theory ProcessInv
  imports LifecycleSpec
begin

text \<open>
  The invariant of a process over its objects and its list of connections, kept by every step of
  \<open>Lifecycle\<close>.
\<close>

section \<open>The constructor\<close>

definition constructed_well :: "php_object \<Rightarrow> 's world \<Rightarrow> php_object \<Rightarrow> 's world \<Rightarrow> bool" where
  "constructed_well obj w obj' w' \<longleftrightarrow>
     obj_client obj' \<in> {None, obj_client obj} \<and> obj_is_persistent obj' \<and> w' = w \<or>
     (\<exists>cfg. connected_well (obj_is_persistent obj') (next_addr w) (snd (aerospike_new cfg w)) (obj_client obj') w')"

lemma aerospike_new_ok:
  assumes "world_ok w" and new: "aerospike_new cfg w = (a, w')"
  shows "world_ok w'" "a = next_addr w" "a \<in> dom (heap w')" "a \<notin> shared w'" "shared w' = shared w"
    "dom (heap w') = insert a (dom (heap w))" "next_addr w' = next_addr w + 1" "a \<notin> dom (heap w)"
proof -
  have "plist w' = plist w" and a: "a = next_addr w"
    using new by (auto simp: aerospike_new_def)
  then show s: "shared w' = shared w" and "a = next_addr w" by (simp_all add: shared_def)
  show d: "dom (heap w') = insert a (dom (heap w))" and n: "next_addr w' = next_addr w + 1"
    using new by (auto simp: aerospike_new_def)
  have fresh: "a \<notin> dom (heap w)" and "shared w \<subseteq> dom (heap w)"
    using assms(1) a unfolding world_ok_def by auto
  then show "a \<notin> shared w'" "a \<in> dom (heap w')" "a \<notin> dom (heap w)" using s d by auto
  have "\<forall>b \<in> insert a (dom (heap w)). b < next_addr w + 1"
    using assms(1) a unfolding world_ok_def by (auto intro: less_SucI)
  with assms(1) show "world_ok w'"
    unfolding world_ok_def d n s \<open>plist w' = plist w\<close> by blast
qed

lemma construct_ok:
  assumes ok: "world_ok w"
  shows "\<exists>st t obj' w'. construct_method L V i args obj w = Some (st, t, obj', w') \<and>
    constructed_well obj w obj' w'"
proof (cases args)
  case None
  then show ?thesis by (simp add: construct_method_def constructed_well_def Let_def)
next
  case (Some x)
  obtain zc persistent zo where x: "x = (zc, persistent, zo)" by (cases x)
  show ?thesis
  proof (cases "construct_config L i zc zo")
    case (Inl m)
    then show ?thesis by (simp add: construct_method_def constructed_well_def Let_def Some x)
  next
    case (Inr cs)
    obtain cfg ser where cs: "cs = (cfg, ser)" by (cases cs)
    obtain a w1 where new: "aerospike_new cfg w = (a, w1)" by (cases "aerospike_new cfg w")
    note fresh = aerospike_new_ok [OF ok new]
    show ?thesis
    proof (cases "aerospike_new_ok L cfg")
      case False
      then show ?thesis
        by (simp add: construct_method_def constructed_well_def Let_def Some x Inr cs)
    next
      case made: True
      define obj1 where "obj1 = obj\<lparr>obj_is_connected := False, obj_error := as_error_init,
        obj_client := Some a, obj_is_valid := True, obj_is_persistent := persistent\<rparr>"
      have "obj_client obj1 = Some a" by (simp add: obj1_def)
      then obtain st obj' w' where
        conn: "(if persistent then persistent_connect V a obj1 w1
                else non_persistent_connect V a obj1 w1) = Some (st, obj', w')"
        and "obj_is_persistent obj' = persistent" "connected_well persistent a w1 (obj_client obj') w'"
        using persistent_connect_ok [OF fresh(1,3,4), of obj1 V]
          non_persistent_connect_ok [OF fresh(1,3), of obj1 V] by (cases persistent) auto
      then have well: "constructed_well obj w obj' w'" "constructed_well obj w (obj'\<lparr>obj_is_connected := True\<rparr>) w'"
        using fresh(2) new by (auto simp: constructed_well_def intro!: exI [of _ cfg])
      have "construct_method L V i args obj w =
          (case (if persistent then persistent_connect V a obj1 w1
                 else non_persistent_connect V a obj1 w1) of
             None \<Rightarrow> None
           | Some (st, obj, w) \<Rightarrow>
               if st \<noteq> AEROSPIKE_OK then Some (st, Thrown ''Failed to connect'', obj, w)
               else Some (AEROSPIKE_OK, Nothing_thrown, obj\<lparr>obj_is_connected := True\<rparr>, w))"
        by (simp add: construct_method_def Let_def Some x Inr cs made new obj1_def)
      also have "\<dots> = (if st \<noteq> AEROSPIKE_OK then Some (st, Thrown ''Failed to connect'', obj', w')
          else Some (AEROSPIKE_OK, Nothing_thrown, obj'\<lparr>obj_is_connected := True\<rparr>, w'))"
        by (simp only: conn option.case prod.case)
      finally show ?thesis using well by (cases "st = AEROSPIKE_OK") simp_all
    qed
  qed
qed

section \<open>The invariant\<close>

definition process_ok :: "'s sys \<Rightarrow> bool" where
  "process_ok S \<longleftrightarrow>
     world_ok (sys_world S) \<and>
     (\<forall>j obj a. objects S j = Some obj \<longrightarrow> obj_client obj = Some a \<longrightarrow>
        a \<in> dom (heap (sys_world S)) \<and>
        (\<not> obj_is_persistent obj \<longrightarrow> a \<notin> shared (sys_world S) \<and>
           (\<forall>j' obj'. objects S j' = Some obj' \<longrightarrow> obj_client obj' = Some a \<longrightarrow> j' = j)))"

lemma process_okD:
  assumes "process_ok S" "objects S j = Some obj" "obj_client obj = Some a"
  shows "a \<in> dom (heap (sys_world S))"
    and "\<not> obj_is_persistent obj \<Longrightarrow> a \<notin> shared (sys_world S)"
    and "\<not> obj_is_persistent obj \<Longrightarrow> objects S j' = Some obj' \<Longrightarrow> obj_client obj' = Some a \<Longrightarrow> j' = j"
  using assms unfolding process_ok_def by blast+

lemma process_ok_others:
  "process_ok S \<Longrightarrow> objects S k = Some ob \<Longrightarrow> obj_client ob = Some a \<Longrightarrow>
     a \<in> dom (heap (sys_world S)) \<and> (\<not> obj_is_persistent ob \<longrightarrow> a \<notin> shared (sys_world S) \<and>
       (\<forall>k' ob'. objects S k' = Some ob' \<longrightarrow> obj_client ob' = Some a \<longrightarrow> k' = k))"
  unfolding process_ok_def by blast

lemma process_ok_world [simp]: "process_ok S \<Longrightarrow> world_ok (sys_world S)"
  by (simp add: process_ok_def)

text \<open>Changing one object: what it points to now, and what the others have to keep.\<close>

lemma process_ok_change:
  assumes w: "world_ok w'"
    and mine: "\<And>a. obj_client obj' = Some a \<Longrightarrow> a \<in> dom (heap w') \<and> (\<not> obj_is_persistent obj' \<longrightarrow>
      a \<notin> shared w' \<and> (\<forall>k ob. k \<noteq> j \<longrightarrow> objects S k = Some ob \<longrightarrow> obj_client ob \<noteq> Some a))"
    and others: "\<And>k ob a. k \<noteq> j \<Longrightarrow> objects S k = Some ob \<Longrightarrow> obj_client ob = Some a \<Longrightarrow>
      a \<in> dom (heap w') \<and> (\<not> obj_is_persistent ob \<longrightarrow> a \<notin> shared w' \<and> obj_client obj' \<noteq> Some a \<and>
        (\<forall>k' ob'. objects S k' = Some ob' \<longrightarrow> obj_client ob' = Some a \<longrightarrow> k' = k))"
  shows "process_ok \<lparr>objects = (objects S)(j \<mapsto> obj'), sys_world = w'\<rparr>"
  unfolding process_ok_def sys.simps
proof (intro conjI allI impI)
  show "world_ok w'" by (fact w)
next
  fix k ob a
  assume k: "((objects S)(j \<mapsto> obj')) k = Some ob" and p: "obj_client ob = Some a"
  have who: "k = j \<and> ob = obj' \<or> k \<noteq> j \<and> objects S k = Some ob"
    using k by (cases "k = j") simp_all
  show "a \<in> dom (heap w')" using who p mine others by blast
  assume n: "\<not> obj_is_persistent ob"
  show "a \<notin> shared w'" using who p n mine others by blast
  fix k' ob'
  assume k': "((objects S)(j \<mapsto> obj')) k' = Some ob'" and p': "obj_client ob' = Some a"
  have who': "k' = j \<and> ob' = obj' \<or> k' \<noteq> j \<and> objects S k' = Some ob'"
    using k' by (cases "k' = j") simp_all
  show "k' = k" using who who' p p' n mine others by blast
qed

lemma process_ok_remove:
  assumes w: "world_ok w'"
    and others: "\<And>k ob a. k \<noteq> j \<Longrightarrow> objects S k = Some ob \<Longrightarrow> obj_client ob = Some a \<Longrightarrow>
      a \<in> dom (heap w') \<and> (\<not> obj_is_persistent ob \<longrightarrow> a \<notin> shared w' \<and>
        (\<forall>k' ob'. objects S k' = Some ob' \<longrightarrow> obj_client ob' = Some a \<longrightarrow> k' = k))"
  shows "process_ok \<lparr>objects = (objects S)(j := None), sys_world = w'\<rparr>"
proof -
  have who: "k \<noteq> j \<and> objects S k = Some ob" if "((objects S)(j := None)) k = Some ob" for k ob
    using that by (cases "k = j") simp_all
  show ?thesis
    unfolding process_ok_def sys.simps
    by (intro conjI allI impI) (use w others in \<open>blast dest: who\<close>)+
qed

lemma process_ok_keep:
  assumes ok: "process_ok S" and obj: "objects S j = Some obj"
    and w: "world_ok w'" "dom (heap (sys_world S)) \<subseteq> dom (heap w')" "shared w' = shared (sys_world S)"
    and same: "obj_client obj' \<in> {None, obj_client obj}" "\<not> obj_is_persistent obj' \<Longrightarrow> \<not> obj_is_persistent obj"
  shows "process_ok \<lparr>objects = (objects S)(j \<mapsto> obj'), sys_world = w'\<rparr>"
proof (rule process_ok_change [OF w(1)])
  fix a assume a: "obj_client obj' = Some a"
  with same have "obj_client obj = Some a" by auto
  note D = process_okD [OF ok obj this]
  show "a \<in> dom (heap w') \<and> (\<not> obj_is_persistent obj' \<longrightarrow>
      a \<notin> shared w' \<and> (\<forall>k ob. k \<noteq> j \<longrightarrow> objects S k = Some ob \<longrightarrow> obj_client ob \<noteq> Some a))"
    using D same w by blast
next
  fix k ob a assume k: "k \<noteq> j" "objects S k = Some ob" "obj_client ob = Some a"
  note D = process_okD [OF ok k(2,3)]
  have "\<not> obj_is_persistent ob \<Longrightarrow> obj_client obj' \<noteq> Some a"
    using D(3) [OF _ obj] k(1) same(1) by force
  with D w show "a \<in> dom (heap w') \<and> (\<not> obj_is_persistent ob \<longrightarrow> a \<notin> shared w' \<and> obj_client obj' \<noteq> Some a \<and>
        (\<forall>k' ob'. objects S k' = Some ob' \<longrightarrow> obj_client ob' = Some a \<longrightarrow> k' = k))"
    by blast
qed

lemma process_ok_construct:
  assumes ok: "process_ok S" and obj: "objects S j = Some obj"
    and well: "constructed_well obj (sys_world S) obj' w'"
  shows "process_ok \<lparr>objects = (objects S)(j \<mapsto> obj'), sys_world = w'\<rparr>"
  using well unfolding constructed_well_def
proof (elim disjE conjE exE)
  assume "obj_client obj' \<in> {None, obj_client obj}" "obj_is_persistent obj'" "w' = sys_world S"
  with ok obj show ?thesis by (intro process_ok_keep) auto
next
  fix cfg
  let ?a = "next_addr (sys_world S)" and ?w = "snd (aerospike_new cfg (sys_world S))"
  assume c: "connected_well (obj_is_persistent obj') ?a ?w (obj_client obj') w'"
  have "aerospike_new cfg (sys_world S) = (?a, ?w)" by (simp add: aerospike_new_def)
  note fresh = aerospike_new_ok [OF process_ok_world [OF ok] this]
  have dom: "dom (heap (sys_world S)) \<subseteq> dom (heap w')"
    using c fresh(6,8) unfolding connected_well_def by auto
  have ptr: "obj_client obj' = Some ?a \<and> ?a \<in> dom (heap w') \<and>
        (\<not> obj_is_persistent obj' \<longrightarrow> shared w' = shared (sys_world S)) \<or>
      (\<exists>b \<in> shared (sys_world S). obj_client obj' = Some b) \<and> obj_is_persistent obj'"
    and sh: "shared w' \<subseteq> insert ?a (shared (sys_world S))" and w': "world_ok w'"
    using c fresh(5) unfolding connected_well_def by (auto split: if_splits)
  have others: "a \<in> dom (heap (sys_world S))" "a \<noteq> ?a"
    if "objects S k = Some ob" "obj_client ob = Some a" for k ob a
    using process_okD(1) [OF ok that] fresh(8) by auto
  show ?thesis
  proof (rule process_ok_change [OF w'])
    fix a assume a: "obj_client obj' = Some a"
    show "a \<in> dom (heap w') \<and> (\<not> obj_is_persistent obj' \<longrightarrow>
        a \<notin> shared w' \<and> (\<forall>k ob. k \<noteq> j \<longrightarrow> objects S k = Some ob \<longrightarrow> obj_client ob \<noteq> Some a))"
    proof -
      from a ptr consider
          "a = ?a" "a \<in> dom (heap w')" "\<not> obj_is_persistent obj' \<longrightarrow> shared w' = shared (sys_world S)"
        | "a \<in> shared (sys_world S)" "obj_is_persistent obj'"
        by force
      then show ?thesis
        using others(2) dom fresh(4,5) shared_allocated [OF process_ok_world [OF ok], of a] by cases blast+
    qed
  next
    fix k ob a assume k: "k \<noteq> j" "objects S k = Some ob" "obj_client ob = Some a"
    note D = process_okD [OF ok k(2,3)]
    show "a \<in> dom (heap w') \<and> (\<not> obj_is_persistent ob \<longrightarrow> a \<notin> shared w' \<and> obj_client obj' \<noteq> Some a \<and>
        (\<forall>k' ob'. objects S k' = Some ob' \<longrightarrow> obj_client ob' = Some a \<longrightarrow> k' = k))"
    proof -
      have "\<not> obj_is_persistent ob \<Longrightarrow> obj_client obj' \<noteq> Some a"
        using D(2) others [OF k(2,3)] ptr by force
      with D others [OF k(2,3)] dom sh show ?thesis by blast
    qed
  qed
qed

section \<open>Steps\<close>

lemma process_ok_init: "process_ok (sys_init s)"
  by (simp add: process_ok_def sys_init_def world_ok_def shared_def)

lemma process_ok_create:
  assumes ok: "process_ok S" and "objects S j = None"
  shows "process_ok (S\<lparr>objects := (objects S)(j \<mapsto> aerospike_create_object)\<rparr>)"
proof -
  have new: "obj_client aerospike_create_object = None" by (simp add: aerospike_create_object_def)
  have "process_ok \<lparr>objects = (objects S)(j \<mapsto> aerospike_create_object), sys_world = sys_world S\<rparr>"
  proof (rule process_ok_change)
    fix k ob a assume k: "objects S k = Some ob" "obj_client ob = Some a"
    show "a \<in> dom (heap (sys_world S)) \<and> (\<not> obj_is_persistent ob \<longrightarrow> a \<notin> shared (sys_world S) \<and>
        obj_client aerospike_create_object \<noteq> Some a \<and>
        (\<forall>k' ob'. objects S k' = Some ob' \<longrightarrow> obj_client ob' = Some a \<longrightarrow> k' = k))"
      using process_okD [OF ok k] new by force
  qed (use ok new in simp_all)
  then show ?thesis by (cases S) simp
qed

lemma after_method_keeps:
  assumes v: "client_view obj w = Some c" and same: "same_object c c'" and ok: "world_ok w"
    and after: "after_method c' s obj w = (obj', w')"
  shows "world_ok w'" "dom (heap w') = dom (heap w)" "shared w' = shared w"
    "obj_client obj' = obj_client obj" "obj_is_persistent obj' = obj_is_persistent obj"
proof -
  show "obj_client obj' = obj_client obj" "obj_is_persistent obj' = obj_is_persistent obj"
    using after by (auto simp: after_method_def)
  have l: "plist w' = plist w" and n: "next_addr w' = next_addr w"
    using after by (auto simp: after_method_def split: option.splits)
  show d: "dom (heap w') = dom (heap w)"
    using v same after
    by (auto simp: client_view_def after_method_def same_object_def Let_def split: option.splits if_splits)
  from l show s: "shared w' = shared w" by (simp add: shared_def)
  from ok show "world_ok w'" unfolding world_ok_def d l n s .
qed

lemma process_ok_same:
  assumes ok: "process_ok S" and obj: "objects S j = Some obj"
    and v: "client_view obj (sys_world S) = Some c" and same: "same_object c c'"
    and after: "after_method c' s' obj (sys_world S) = (obj', w)"
  shows "process_ok \<lparr>objects = (objects S)(j \<mapsto> obj'), sys_world = w\<rparr>"
proof -
  note after_method_keeps [OF v same process_ok_world [OF ok] after]
  with ok obj show ?thesis by (intro process_ok_keep) auto
qed

lemma process_ok_method:
  assumes "process_ok S" and "objects S j = Some obj"
    and "client_view obj (sys_world S) = Some c" and "method_call E F V (c, s) (c', s')"
    and "after_method c' s' obj (sys_world S) = (obj', w)"
  shows "process_ok \<lparr>objects = (objects S)(j \<mapsto> obj'), sys_world = w\<rparr>"
  using assms(1-3) method_call_same [OF assms(4)] assms(5) by (rule process_ok_same)

lemma process_ok_destruct:
  assumes ok: "process_ok S" and obj: "objects S j = Some obj"
  shows "\<exists>s. aerospike_object_destructor V obj (sys_world S) = Some (sys_world S\<lparr>servers := s\<rparr>)"
    and "process_ok (S\<lparr>sys_world := sys_world S\<lparr>servers := s\<rparr>\<rparr>)"
proof -
  have same: "\<exists>s. Some (sys_world S) = Some (sys_world S\<lparr>servers := s\<rparr>)"
    by (rule exI [of _ "servers (sys_world S)"]) simp
  show "\<exists>s. aerospike_object_destructor V obj (sys_world S) = Some (sys_world S\<lparr>servers := s\<rparr>)"
  proof (cases "obj_client obj = None \<or> obj_is_persistent obj")
    case True
    with same show ?thesis by (auto simp: aerospike_object_destructor_def split: option.split)
  next
    case False
    then obtain a where a: "obj_client obj = Some a" "\<not> obj_is_persistent obj" by auto
    with close_at_cases [OF process_okD(1) [OF ok obj a(1)], of V]
    show ?thesis by (simp add: aerospike_object_destructor_def)
  qed
  show "process_ok (S\<lparr>sys_world := sys_world S\<lparr>servers := s\<rparr>\<rparr>)"
  proof -
    let ?w = "sys_world S\<lparr>servers := s\<rparr>"
    have new: "sys_world (S\<lparr>sys_world := ?w\<rparr>) = ?w" "objects (S\<lparr>sys_world := ?w\<rparr>) = objects S"
      "heap ?w = heap (sys_world S)" by simp_all
    from ok show ?thesis unfolding process_ok_def new servers_update_ok .
  qed
qed

lemma process_ok_free:
  assumes ok: "process_ok S" and obj: "objects S j = Some obj"
  shows "\<exists>obj' w'. aerospike_object_free_storage V obj (sys_world S) = Some (obj', w')"
    and "aerospike_object_free_storage V obj (sys_world S) = Some (obj', w') \<Longrightarrow>
      process_ok \<lparr>objects = (objects S)(j := None), sys_world = w'\<rparr>"
proof -
  let ?w = "sys_world S"
  have kept: "process_ok \<lparr>objects = (objects S)(j := None), sys_world = ?w\<rparr>"
    by (rule process_ok_remove [OF process_ok_world [OF ok] process_ok_others [OF ok]])
  show "\<exists>obj' w'. aerospike_object_free_storage V obj ?w = Some (obj', w')"
  proof (cases "obj_client obj")
    case None
    then show ?thesis by (simp add: aerospike_object_free_storage_def)
  next
    case (Some a)
    with close_at_cases [OF process_okD(1) [OF ok obj Some], of V]
    show ?thesis by (auto simp: aerospike_object_free_storage_def)
  qed
  assume free: "aerospike_object_free_storage V obj ?w = Some (obj', w')"
  show "process_ok \<lparr>objects = (objects S)(j := None), sys_world = w'\<rparr>"
  proof (cases "obj_client obj = None \<or> \<not> obj_is_valid obj \<or> obj_is_persistent obj")
    case True
    with free have "w' = ?w" by (auto simp: aerospike_object_free_storage_def split: option.splits if_splits)
    with kept show ?thesis by simp
  next
    case False
    then obtain a where a: "obj_client obj = Some a" and own: "\<not> obj_is_persistent obj" by auto
    note D = process_okD [OF ok obj a]
    obtain s where s: "close_at V a ?w = Some (?w\<lparr>servers := s\<rparr>)"
      using close_at_cases [OF D(1)] by blast
    with free False a have w': "w' = destroy a (?w\<lparr>servers := s\<rparr>)"
      by (simp add: aerospike_object_free_storage_def)
    have "world_ok w'" unfolding w' using D(2) [OF own] process_ok_world [OF ok]
      by (intro destroy_ok) simp_all
    moreover have "shared w' = shared ?w" and "dom (heap w') = dom (heap ?w) - {a}"
      by (simp_all add: w')
    ultimately show ?thesis
    proof (intro process_ok_remove)
      fix k ob b assume k: "k \<noteq> j" "objects S k = Some ob" "obj_client ob = Some b"
      with D(3) [OF own, of k ob] have "b \<noteq> a" by auto
      with process_ok_others [OF ok k(2,3)] \<open>dom (heap w') = dom (heap ?w) - {a}\<close> \<open>shared w' = shared ?w\<close>
      show "b \<in> dom (heap w') \<and> (\<not> obj_is_persistent ob \<longrightarrow> b \<notin> shared w' \<and>
          (\<forall>k' ob'. objects S k' = Some ob' \<longrightarrow> obj_client ob' = Some b \<longrightarrow> k' = k))"
        by simp
    qed
  qed
qed

lemma process_ok_step: "sys_step L E F V S S' \<Longrightarrow> process_ok S \<Longrightarrow> process_ok S'"
proof (induction rule: sys_step.induct)
  case (create S j)
  then show ?case by (rule process_ok_create [rotated])
next
  case (construct S j obj i args st t obj' w)
  then show ?case
    using construct_ok [OF process_ok_world [of S], of L V i args obj]
    by (auto intro!: process_ok_construct)
next
  case (call S j obj c c' s' obj' w)
  then show ?case by (intro process_ok_method)
next
  case (destruct S j obj w)
  then show ?case using process_ok_destruct [of S j obj] by (metis option.inject)
next
  case (free S j obj obj' w)
  then show ?case by (intro process_ok_free(2))
qed

lemma reachable_process_ok: "reachable L E F V S \<Longrightarrow> process_ok S"
  by (induction rule: reachable.induct) (auto intro: process_ok_init process_ok_step)

text \<open>At the end the list is destroyed: each structure in it is closed and freed once.\<close>

lemma persistent_list_destroy_ok:
  "distinct (map (host_client \<circ> snd) hs) \<Longrightarrow> host_client ` snd ` set hs \<subseteq> dom (heap w) \<Longrightarrow>
     \<exists>w'. persistent_list_destroy V hs w = Some w' \<and> plist w' = [] \<and>
       dom (heap w') = dom (heap w) - host_client ` snd ` set hs"
proof (induction hs arbitrary: w)
  case Nil
  then show ?case by simp
next
  case (Cons kh hs)
  obtain k h where kh: "kh = (k, h)" by (cases kh)
  have "host_client h \<in> dom (heap w)" using Cons.prems by (simp add: kh)
  then obtain s where s: "close_at V (host_client h) w = Some (w\<lparr>servers := s\<rparr>)"
    using close_at_cases by blast
  let ?w = "destroy (host_client h) (w\<lparr>servers := s\<rparr>)"
  have d: "dom (heap ?w) = dom (heap w) - {host_client h}" by simp
  have "host_client ` snd ` set hs \<subseteq> dom (heap ?w)"
    using Cons.prems unfolding d by (simp add: kh image_image) blast
  from Cons.IH [OF _ this] Cons.prems(1) obtain w' where
    "persistent_list_destroy V hs ?w = Some w'" "plist w' = []"
    "dom (heap w') = dom (heap ?w) - host_client ` snd ` set hs" by auto
  with s d show ?case by (auto simp: kh persistent_host_dtor_def)
qed

end
