(* ===== verification/PersistentProps.thy ===== *)
theory PersistentProps
  imports ProcessInv SampleEnv
begin

text \<open>
  Properties of shared connections and of the life of objects: the buffer of the search string,
  the absence of uses of freed structures over every run of a process, and what a constructor
  that finds a shared connection does with its own configuration.
\<close>

section \<open>The search string\<close>

lemma length_show_base: "1 < b \<Longrightarrow> n < b ^ k \<Longrightarrow> 0 < k \<Longrightarrow> length (show_base b n) \<le> k"
proof (induction b n arbitrary: k rule: show_base.induct)
  case (1 b n)
  show ?case
  proof (cases "n < b")
    case True
    with 1(4) show ?thesis by (simp add: show_base.simps [of b n])
  next
    case False
    with 1(3,4) obtain k' where k: "k = Suc k'" "0 < k'" by (cases k; cases "k - 1") auto
    have "n div b < b ^ k'" using 1(2,3) k(1) by (simp add: div_less_iff_less_mult mult.commute)
    with 1(1) [of k'] 1(2) False k have "length (show_base b (n div b)) \<le> k'" by simp
    with False 1(2) k show ?thesis by (simp add: show_base.simps [of b n])
  qed
qed

lemma length_port: "length (show_base 10 (unat (p :: u16))) \<le> 5"
proof -
  have "unat p < 2 ^ LENGTH(16)" by (rule unsigned_less)
  then show ?thesis by (intro length_show_base) simp_all
qed

lemma length_shm: "length (show_base 16 (unat (k :: cint))) \<le> 8"
proof -
  have "unat k < 2 ^ LENGTH(32)" by (rule unsigned_less)
  then show ?thesis by (intro length_show_base) simp_all
qed

lemma length_host_string:
  "length (host_string user h) < strlen (host_name h) + MAX_PORT_SIZE + 3 + strlen user"
  using length_port [of "host_port h"] by (simp add: host_string_def strlen_def MAX_PORT_SIZE_def)

lemma length_host_strings:
  "length (concat (map (host_string user) hs)) + length hs \<le>
     sum_list (map (\<lambda>h. strlen (host_name h) + MAX_PORT_SIZE + 3 + strlen user) hs)"
proof (induction hs)
  case (Cons h hs)
  with length_host_string [of user h] show ?case by simp
qed simp

text \<open>
  C34. The buffer \<open>get_persistent_search_string\<close> allocates holds the string and its
  terminating NUL exactly when the configuration has a host or shared memory: every port has at
  most five digits and the key at most eight. Without both the buffer has no byte and the NUL
  is written past its end.
\<close>

theorem search_string_fits:
  "(search_string_size c < length (search_string c) + 1) = (cfg_hosts c = [] \<and> \<not> cfg_use_shm c)"
proof (cases "cfg_use_shm c")
  case True
  with length_host_strings [of "cfg_user c" "cfg_hosts c"] length_shm [of "cfg_shm_key c"]
  show ?thesis by (simp add: search_string_def search_string_size_def MAX_SHM_SIZE_def)
next
  case False
  show ?thesis
  proof (cases "cfg_hosts c")
    case Nil
    with False show ?thesis by (simp add: search_string_def search_string_size_def)
  next
    case (Cons h hs)
    then have "1 \<le> length (cfg_hosts c)" by simp
    with length_host_strings [of "cfg_user c" "cfg_hosts c"]
    have "length (concat (map (host_string (cfg_user c)) (cfg_hosts c))) + 1 \<le>
        sum_list (map (\<lambda>h. strlen (host_name h) + MAX_PORT_SIZE + 3 + strlen (cfg_user c)) (cfg_hosts c))"
      by linarith
    with False show ?thesis by (simp only: search_string_def search_string_size_def if_False append_Nil2
          Nat.add_0_right Cons list.simps simp_thms)
  qed
qed

section \<open>No structure is used after it was freed\<close>

text \<open>
  In every run of a process - objects constructed, also again, with shared or own
  connections, their methods called, destroyed and freed in any order - no operation on any
  object and not the destruction of the list at the end uses or frees a structure that is gone;
  and a connection of its own is reached from no other object.
\<close>

theorem no_use_after_free:
  assumes "reachable L E F V S" and "objects S j = Some obj"
  shows "construct_method L V i args obj (sys_world S) \<noteq> None \<and>
    client_view obj (sys_world S) \<noteq> None \<and>
    aerospike_object_destructor V obj (sys_world S) \<noteq> None \<and>
    aerospike_object_free_storage V obj (sys_world S) \<noteq> None \<and>
    persistent_list_destroy V (plist (sys_world S)) (sys_world S) \<noteq> None \<and>
    (\<forall>a k ob. obj_client obj = Some a \<and> \<not> obj_is_persistent obj \<and> objects S k = Some ob \<and> obj_client ob = Some a \<longrightarrow>
       k = j)"
proof -
  let ?w = "sys_world S"
  have ok: "process_ok S" using assms(1) by (rule reachable_process_ok)
  then have w: "world_ok ?w" by simp
  have "construct_method L V i args obj ?w \<noteq> None" using construct_ok [OF w, of L V i args obj] by auto
  moreover have "client_view obj ?w \<noteq> None"
  proof (cases "obj_client obj")
    case (Some a)
    with process_okD(1) [OF ok assms(2) Some] show ?thesis by (auto simp: client_view_def Let_def)
  qed (simp add: client_view_def Let_def)
  moreover have "aerospike_object_destructor V obj ?w \<noteq> None"
    using process_ok_destruct(1) [OF ok assms(2), of V] by auto
  moreover have "aerospike_object_free_storage V obj ?w \<noteq> None"
    using process_ok_free(1) [OF ok assms(2), of V] by auto
  moreover have "persistent_list_destroy V (plist ?w) ?w \<noteq> None"
    using persistent_list_destroy_ok [of "plist ?w" ?w V] w by (auto simp: world_ok_def shared_def)
  moreover have "\<forall>a k ob. obj_client obj = Some a \<and> \<not> obj_is_persistent obj \<and> objects S k = Some ob \<and>
      obj_client ob = Some a \<longrightarrow> k = j"
    using process_okD(3) [OF ok assms(2)] by blast
  ultimately show ?thesis by blast
qed

section \<open>A shared connection\<close>

definition same_address :: "config \<Rightarrow> config \<Rightarrow> bool" where
  "same_address c d \<longleftrightarrow>
     map (\<lambda>h. (host_name h, host_port h)) (cfg_hosts c) = map (\<lambda>h. (host_name h, host_port h)) (cfg_hosts d) \<and>
     cfg_user c = cfg_user d \<and> cfg_use_shm c = cfg_use_shm d \<and> cfg_shm_key c = cfg_shm_key d"

lemma search_string_cong:
  assumes "same_address c d"
  shows "search_string c = search_string d"
proof -
  let ?g = "\<lambda>h. (host_name h, host_port h)"
  let ?f = "\<lambda>u (n, p). c_str n @ '':'' @ show_base 10 (unat p) @ '':'' @ c_str u @ '';''"
  have "map (host_string u) hs = map (?f u) (map ?g hs)" for u hs
    by (simp add: host_string_def)
  then have "search_string c = concat (map (?f (cfg_user c)) (map ?g (cfg_hosts c))) @
      (if cfg_use_shm c then show_base 16 (unat (cfg_shm_key c)) else [])" for c
    by (simp only: search_string_def)
  with assms show ?thesis by (simp only: same_address_def)
qed

text \<open>
  C33. A constructor that asks for a shared connection and finds one to the same hosts for the
  same user succeeds without a call to the servers and gives the object the structure that is
  there, unchanged: the password, the TLS settings, the timeouts and the default policies of its
  own configuration are dropped.
\<close>

theorem shared_connection_drops_configuration:
  assumes "world_ok w" and "construct_config L i z_config z_options = Inr (cfg, ser)"
    and "aerospike_new_ok L cfg" and "same_address cfg d"
    and "get_persistent_host (search_string d) w = Some h" and "host_is_connected h"
  shows "\<exists>obj' w'. construct_method L V i (Some (z_config, True, z_options)) obj w =
      Some (AEROSPIKE_OK, Nothing_thrown, obj', w') \<and>
    obj_client obj' = Some (host_client h) \<and> obj_is_connected obj' \<and> obj_is_valid obj' \<and>
    heap w' = heap w \<and> servers w' = servers w"
proof -
  have new: "heap w (next_addr w) = None" using assms(1) by (auto simp: world_ok_def)
  have "get_persistent_host k (destroy a (w\<lparr>heap := m, next_addr := n\<rparr>)) = get_persistent_host k w" for k a m n
    by (simp add: get_persistent_host_def)
  moreover have "get_persistent_host k (w\<lparr>heap := m, next_addr := n\<rparr>) = get_persistent_host k w" for k m n
    by (simp add: get_persistent_host_def)
  ultimately show ?thesis
    using assms(2,3,5,6) search_string_cong [OF assms(4)] new
    by (simp add: construct_method_def aerospike_new_def persistent_connect_def Let_def)
      (simp add: destroy_def put_host_def fun_eq_iff)
qed

section \<open>Applications\<close>

definition sample_life_ext :: life_ext where
  "sample_life_ext = conv_ext.extend sample_ext \<lparr>
     zts = False, config_path_max_size = 256,
     config_add_host = (\<lambda>c h. c\<lparr>cfg_hosts := cfg_hosts c @ [h]\<rparr>),
     config_set_user = (\<lambda>c u p. Some (c\<lparr>cfg_user := u, cfg_password := p\<rparr>)),
     config_set_cluster_name = (\<lambda>c n. c\<lparr>cfg_cluster_name := n\<rparr>),
     config_initial = sample_config, aerospike_new_ok = (\<lambda>c. True)\<rparr>"

definition sample_ini :: ini_settings where
  "sample_ini = \<lparr>ini_connect_timeout = 1000, ini_read_timeout = 1000, ini_write_timeout = 1000,
     ini_key_policy = 0, ini_key_gen = 0, ini_compression_threshold = 0, ini_serializer_setting = 1,
     ini_lua_user_path = None, ini_shm_use = False, ini_shm_key = 0, ini_shm_max_namespaces = 8,
     ini_shm_takeover = 30, ini_shm_max_nodes = 16, ini_thread_pool_size = 16, ini_max_threads = 300\<rparr>"

definition sample_config_array :: "string \<Rightarrow> htab" where
  "sample_config_array pass =
     [(SKey ''hosts'', ZArray [(IKey 0, ZArray [(SKey ''addr'', ZString ''db''), (SKey ''port'', ZLong 3000)])]),
      (SKey ''user'', ZString ''u''), (SKey ''pass'', ZString pass)]"

definition sample_cfg :: "string \<Rightarrow> config" where
  "sample_cfg pass =
     (case construct_config sample_life_ext sample_ini (sample_config_array pass) None of
        Inr (cfg, ser) \<Rightarrow> cfg | Inl m \<Rightarrow> sample_config)"

definition sample_world :: "store world" where
  "sample_world = \<lparr>heap = [0 \<mapsto> sample_cfg ''right''], next_addr = 1,
     plist = [(search_string (sample_cfg ''right''),
       \<lparr>host_ref_cnt = 1, host_conn_cnt = 1, host_is_connected = True, host_client = 0\<rparr>)],
     servers = []\<rparr>"

theorem no_use_after_free_witness:
  "construct_method sample_life_ext sample_env sample_ini (Some (sample_config_array ''right'', False, None))
     aerospike_create_object
     (sys_world ((sys_init [])\<lparr>objects := (objects (sys_init []))(7 \<mapsto> aerospike_create_object)\<rparr>)) \<noteq> None"
proof -
  let ?S = "(sys_init [] :: store sys)\<lparr>objects := (objects (sys_init [] :: store sys))(7 \<mapsto> aerospike_create_object)\<rparr>"
  have "sys_step sample_life_ext sample_operate_ext sample_query_ext sample_env (sys_init []) ?S"
    by (rule sys_step.create) (simp add: sys_init_def)
  with reachable.init have "reachable sample_life_ext sample_operate_ext sample_query_ext sample_env ?S"
    by (rule reachable.step)
  from no_use_after_free [OF this, of 7 aerospike_create_object] show ?thesis by simp
qed

theorem shared_connection_drops_configuration_witness:
  "\<exists>obj' w'. construct_method sample_life_ext sample_env sample_ini
      (Some (sample_config_array ''wrong'', True, None)) aerospike_create_object sample_world =
      Some (AEROSPIKE_OK, Nothing_thrown, obj', w') \<and>
    obj_client obj' = Some 0 \<and> obj_is_connected obj' \<and> obj_is_valid obj' \<and>
    heap w' = heap sample_world \<and> servers w' = servers sample_world"
proof -
  have c: "construct_config sample_life_ext sample_ini (sample_config_array ''wrong'') None =
      Inr (sample_cfg ''wrong'', 1)" by code_simp
  have a: "same_address (sample_cfg ''wrong'') (sample_cfg ''right'')" by code_simp
  have w: "world_ok sample_world" by (simp add: world_ok_def shared_def sample_world_def)
  let ?h = "\<lparr>host_ref_cnt = 1, host_conn_cnt = 1, host_is_connected = True, host_client = 0\<rparr>"
  have h: "get_persistent_host (search_string (sample_cfg ''right'')) sample_world = Some ?h"
    by (simp add: get_persistent_host_def sample_world_def)
  have "aerospike_new_ok sample_life_ext (sample_cfg ''wrong'')"
    by (simp add: sample_life_ext_def conv_ext.defs)
  from shared_connection_drops_configuration [OF w c this a h] show ?thesis by simp
qed

end
