(* ===== verification/ListMethods.thy ===== *)
theory ListMethods
  imports Updates
begin

text \<open>
  The fourteen methods of \<open>client/list_operations.c\<close>, each one list operation on one bin. The
  macros and helpers of the file come first; a method is what it does between them. Arguments and
  results are as in \<open>KeyValue\<close>; \<open>None\<close> also stands for a null value given to the C client.
\<close>

text \<open>What is read from the record the call returns.\<close>

record 's list_env = "'s env" +
  record_get :: "as_record \<Rightarrow> string \<Rightarrow> as_val option"
  record_get_int64 :: "as_record \<Rightarrow> string \<Rightarrow> zlong \<Rightarrow> zlong"

type_synonym 's list_result = "(as_status \<times> zval option \<times> client \<times> 's) option"

section \<open>Macros and helpers\<close>

definition VALIDATE_CLIENT_AND_CONNECTION :: "client \<Rightarrow> (as_status \<times> client) option" where
  "VALIDATE_CLIENT_AND_CONNECTION c =
     (if as_client c = None \<or> \<not> is_valid c then
        Some (AEROSPIKE_ERR_CLIENT, update_client_error c AEROSPIKE_ERR_CLIENT ''Invalid Aerospike object'' False)
      else if \<not> is_connected c then
        Some (AEROSPIKE_ERR_CLIENT,
          update_client_error c AEROSPIKE_ERR_CLIENT ''Not connected to Aerospike server'' False)
      else None)"

definition CHECK_BIN_NAME :: "'e conv_ext_scheme \<Rightarrow> client \<Rightarrow> string \<Rightarrow> (as_status \<times> client) option" where
  "CHECK_BIN_NAME E c bin =
     (if bin_name_max_len E < length bin then
        Some (AEROSPIKE_ERR_PARAM, update_client_error c AEROSPIKE_ERR_PARAM ''Bin name is too long'' False)
      else None)"

text \<open>
  The key, the policy, the list for one operation and the error, or the error that stops the
  method; with the client, whose configured operate policy may have been written.
\<close>

definition setup_list_operation_variables ::
  "'e conv_ext_scheme \<Rightarrow> ('s, 'z) env_scheme \<Rightarrow> client \<Rightarrow> config \<Rightarrow> htab \<Rightarrow> zval option \<Rightarrow>
     client \<times> (as_error + config \<times> as_key \<times> as_policy_operate \<times> operations \<times> as_error)" where
  "setup_list_operation_variables E V c cfg z_key z_operate_policy =
     (case z_hashtable_to_as_key E z_key as_error_init of
        (AEROSPIKE_OK, Some key, err) \<Rightarrow>
          (case zval_to_as_policy_operate E (operate_struct V) z_operate_policy (cfg_operate cfg) of
             (st, p, d) \<Rightarrow>
               (let cfg = cfg\<lparr>cfg_operate := d\<rparr>; c = set_operate_policy c cfg d;
                    fail = (\<lambda>m. (c, Inl (as_error_update err AEROSPIKE_ERR_PARAM m)))
                in
                if st \<noteq> AEROSPIKE_OK then fail ''Invalid operate policy''
                else
                  (case set_operations_generation_from_operate_policy (operations_new V 1) z_operate_policy of
                     (st, ops) \<Rightarrow>
                       if st \<noteq> AEROSPIKE_OK then fail ''Invalid generation policy''
                       else
                         (case set_operations_ttl_from_operate_policy ops z_operate_policy of
                            (st, ops) \<Rightarrow>
                              if st \<noteq> AEROSPIKE_OK then fail ''Invalid TTL''
                              else (c, Inr (cfg, key, p, ops, err))))))
      | (_, _, err) \<Rightarrow> (c, Inl (as_error_update err AEROSPIKE_ERR_PARAM ''Invalid key'')))"

text \<open>The label \<open>CLEANUP\<close>, and reaching it with the code set by hand.\<close>

definition list_cleanup :: "client \<Rightarrow> zval option \<Rightarrow> as_error \<Rightarrow> 's \<Rightarrow> 's list_result" where
  "list_cleanup c out err s = Some (code err, out, remember err c, s)"

definition list_fail :: "client \<Rightarrow> zval option \<Rightarrow> as_error \<Rightarrow> as_status \<Rightarrow> string \<Rightarrow> 's \<Rightarrow> 's list_result" where
  "list_fail c out err st m s = list_cleanup (update_client_error c st m False) out (err\<lparr>code := st\<rparr>) s"

text \<open>
  The beginning of every method: \<open>m\<close> is the message for arguments PHP refuses, \<open>out_bin\<close> and
  \<open>out_setup\<close> what the argument passed by reference holds when the name of the bin or the setup
  is refused; \<open>'a\<close> are the arguments of the single method.
\<close>

definition list_method ::
  "'e conv_ext_scheme \<Rightarrow> ('s, 'z) env_scheme \<Rightarrow> string \<Rightarrow> zval option \<Rightarrow> zval option \<Rightarrow>
     (client \<Rightarrow> config \<Rightarrow> as_key \<Rightarrow> as_policy_operate \<Rightarrow> operations \<Rightarrow> as_error \<Rightarrow> string \<Rightarrow> zval option \<Rightarrow> 'a \<Rightarrow>
        's list_result) \<Rightarrow>
     client \<Rightarrow> (htab \<times> string \<times> 'a \<times> zval option) option \<Rightarrow> 's \<Rightarrow> 's list_result" where
  "list_method E V m out_bin out_setup body c args s =
     (let c = reset_client_error c in
      case VALIDATE_CLIENT_AND_CONNECTION c of
        Some (st, c) \<Rightarrow> Some (st, None, c, s)
      | None \<Rightarrow>
          (case (args, as_client c) of
             (Some (z_key, bin, a, z_operate_policy), Some cfg) \<Rightarrow>
               (case CHECK_BIN_NAME E c bin of
                  Some (st, c) \<Rightarrow> Some (st, out_bin, c, s)
                | None \<Rightarrow>
                    (case setup_list_operation_variables E V c cfg z_key z_operate_policy of
                       (c, Inl err) \<Rightarrow> list_cleanup c out_setup err s
                     | (c, Inr (cfg, key, p, ops, err)) \<Rightarrow> body c cfg key p ops err (c_str bin) z_operate_policy a))
           | _ \<Rightarrow> Some (AEROSPIKE_ERR_PARAM, None, update_client_error c AEROSPIKE_ERR_PARAM m False, s)))"

definition list_serializer ::
  "('s, 'z) env_scheme \<Rightarrow> client \<Rightarrow> zval option \<Rightarrow> as_error \<Rightarrow> zval option \<Rightarrow> 's \<Rightarrow> (cint \<Rightarrow> 's list_result) \<Rightarrow>
     's list_result" where
  "list_serializer V c out err z_operate_policy s k =
     (case set_serializer_from_policy_hash (ini_serializer V) (ucast (ini_serializer V)) z_operate_policy of
        (st, serializer_type) \<Rightarrow>
          if st \<noteq> AEROSPIKE_OK then list_fail c out err AEROSPIKE_ERR_PARAM ''Invalid serializer value'' s
          else k serializer_type)"

text \<open>Adding the operation and making the call; \<open>fail\<close> when it is not added.\<close>

definition list_call ::
  "'e operate_ext_scheme \<Rightarrow> ('s, 'z) env_scheme \<Rightarrow> config \<Rightarrow> as_policy_operate \<Rightarrow> as_key \<Rightarrow> operations \<Rightarrow> list_op \<Rightarrow>
     's \<Rightarrow> 's list_result \<Rightarrow> (as_error \<Rightarrow> as_record option \<Rightarrow> 's \<Rightarrow> 's list_result) \<Rightarrow> 's list_result" where
  "list_call E V cfg p key ops b s fail k =
     (case add_binop E ops (ListOp b) of
        None \<Rightarrow> fail
      | Some ops \<Rightarrow> (case key_operate V cfg (Some p) key ops s of (err, rec, s) \<Rightarrow> k err rec s))"

text \<open>The same when the method does not look whether the operation was added.\<close>

definition list_call_ignoring ::
  "'e operate_ext_scheme \<Rightarrow> ('s, 'z) env_scheme \<Rightarrow> config \<Rightarrow> as_policy_operate \<Rightarrow> as_key \<Rightarrow> operations \<Rightarrow> list_op \<Rightarrow>
     's \<Rightarrow> (as_error \<Rightarrow> as_record option \<Rightarrow> 's \<Rightarrow> 's list_result) \<Rightarrow> 's list_result" where
  "list_call_ignoring E V cfg p key ops b s k =
     (case key_operate V cfg (Some p) key
        (case add_binop E ops (ListOp b) of Some ops \<Rightarrow> ops | None \<Rightarrow> ops) s of
        (err, rec, s) \<Rightarrow> k err rec s)"

text \<open>
  The value of the bin in the record, for the caller; \<open>absent\<close> when there is none. A failed
  conversion is reported by \<open>failed\<close>.
\<close>

definition list_value ::
  "'e conv_ext_scheme \<Rightarrow> ('s, 'z) list_env_scheme \<Rightarrow> client \<Rightarrow> string \<Rightarrow> zval \<Rightarrow>
     (client \<Rightarrow> zval \<Rightarrow> as_error \<Rightarrow> 's \<Rightarrow> 's list_result) \<Rightarrow> as_error \<Rightarrow> as_record option \<Rightarrow> 's \<Rightarrow>
     's list_result" where
  "list_value E V c bin absent failed err rec s =
     (if code err \<noteq> AEROSPIKE_OK then list_cleanup c (Some ZNull) err s
      else
        (case rec of
           None \<Rightarrow> None
         | Some rec \<Rightarrow>
             (case record_get V rec bin of
                None \<Rightarrow> list_cleanup c (Some absent) err s
              | Some v \<Rightarrow>
                  (case as_val_to_zval E v ZNull err of
                     (st, retval, err) \<Rightarrow>
                       if st \<noteq> AEROSPIKE_OK then failed c retval err s
                       else list_cleanup c (Some retval) err s))))"

definition popped_failed :: "client \<Rightarrow> zval \<Rightarrow> as_error \<Rightarrow> 's \<Rightarrow> 's list_result" where
  "popped_failed c retval err s =
     list_cleanup (update_client_error c AEROSPIKE_ERR_CLIENT ''Failed to deserialize returned value'' (in_doubt err))
       (Some retval) err s"

definition returned_failed :: "client \<Rightarrow> zval \<Rightarrow> as_error \<Rightarrow> 's \<Rightarrow> 's list_result" where
  "returned_failed c retval err s =
     list_cleanup c (Some retval) (as_error_update err AEROSPIKE_ERR_CLIENT ''Failed to deserialize returned value'') s"

section \<open>Methods that change a list\<close>

definition listAppend_method ::
  "'e operate_ext_scheme \<Rightarrow> ('s, 'z) env_scheme \<Rightarrow> client \<Rightarrow> (htab \<times> string \<times> zval \<times> zval option) option \<Rightarrow>
     's \<Rightarrow> 's list_result" where
  "listAppend_method E V c args s =
     list_method E V ''Invalid parameters to listAppend'' None None
       (\<lambda>c cfg key p ops err bin z_operate_policy z_append_value.
          list_serializer V c None err z_operate_policy s (\<lambda>serializer_type.
            (case zval_to_as_val E z_append_value err serializer_type of
               (_, val_to_add, err) \<Rightarrow>
                 if code err \<noteq> AEROSPIKE_OK then
                   list_cleanup (update_client_error c (code err) (message err) (in_doubt err)) None err s
                 else
                   (case val_to_add of
                      None \<Rightarrow> None
                    | Some v \<Rightarrow>
                        list_call_ignoring E V cfg p key ops (OpListAppend bin v) s
                          (\<lambda>err rec. list_cleanup c None err)))))
       c args s"

definition listMerge_method ::
  "'e operate_ext_scheme \<Rightarrow> ('s, 'z) env_scheme \<Rightarrow> client \<Rightarrow> (htab \<times> string \<times> htab \<times> zval option) option \<Rightarrow>
     's \<Rightarrow> 's list_result" where
  "listMerge_method E V c args s =
     list_method E V ''Invalid parameters to listSize'' None None
       (\<lambda>c cfg key p ops err bin z_operate_policy items.
          list_serializer V c None err z_operate_policy s (\<lambda>serializer_type.
            if \<not> hashtable_is_list items then
              list_fail c None err AEROSPIKE_ERR_PARAM ''Items to merge must be a list'' s
            else
              (case z_hashtable_to_as_list E items None err serializer_type of
                 (st, list_items, err) \<Rightarrow>
                   if st \<noteq> AEROSPIKE_OK then
                     list_cleanup (update_client_error c (code err) ''Failed to create a list in listMerge'' False)
                       None err s
                   else
                     list_call E V cfg p key ops (OpListAppendItems bin list_items) s
                       (list_fail c None err AEROSPIKE_ERR_CLIENT ''Failed to add operations'' s)
                       (\<lambda>err rec. list_cleanup c None err))))
       c args s"

definition listInsert_method ::
  "'e operate_ext_scheme \<Rightarrow> ('s, 'z) env_scheme \<Rightarrow> client \<Rightarrow>
     (htab \<times> string \<times> (zlong \<times> zval) \<times> zval option) option \<Rightarrow> 's \<Rightarrow> 's list_result" where
  "listInsert_method E V c args s =
     list_method E V ''Invalid parameters to listInsert'' None None
       (\<lambda>c cfg key p ops err bin z_operate_policy (index, zval_to_add).
          list_serializer V c None err z_operate_policy s (\<lambda>serializer_type.
            (case zval_to_as_val E zval_to_add err serializer_type of
               (_, Some v, err) \<Rightarrow>
                 if code err \<noteq> AEROSPIKE_OK then
                   list_fail c None err AEROSPIKE_ERR_PARAM ''Failed to convert value to add to list'' s
                 else
                   list_call E V cfg p key ops (OpListInsert bin index v) s
                     (list_fail c None err AEROSPIKE_ERR_CLIENT ''Failed to add operations'' s)
                     (\<lambda>err rec. list_cleanup c None err)
             | (_, None, err) \<Rightarrow>
                 list_fail c None err AEROSPIKE_ERR_PARAM ''Failed to convert value to add to list'' s)))
       c args s"

definition listInsertItems_method ::
  "'e operate_ext_scheme \<Rightarrow> ('s, 'z) env_scheme \<Rightarrow> client \<Rightarrow>
     (htab \<times> string \<times> (zlong \<times> htab) \<times> zval option) option \<Rightarrow> 's \<Rightarrow> 's list_result" where
  "listInsertItems_method E V c args s =
     list_method E V ''Invalid parameters for listInsertItems'' None None
       (\<lambda>c cfg key p ops err bin z_operate_policy (index, z_values_to_add).
          list_serializer V c None err z_operate_policy s (\<lambda>serializer_type.
            if \<not> hashtable_is_list z_values_to_add then
              list_fail c None err AEROSPIKE_ERR_PARAM ''Values to add must be a list'' s
            else
              (case z_hashtable_to_as_list E z_values_to_add None err serializer_type of
                 (st, values_to_add, err) \<Rightarrow>
                   if st \<noteq> AEROSPIKE_OK then list_cleanup c None err s
                   else
                     list_call E V cfg p key ops (OpListInsertItems bin index values_to_add) s
                       (list_fail c None err AEROSPIKE_ERR_CLIENT ''Failed to add operations'' s)
                       (\<lambda>err rec. list_cleanup c None err))))
       c args s"

definition listSet_method ::
  "'e operate_ext_scheme \<Rightarrow> ('s, 'z) env_scheme \<Rightarrow> client \<Rightarrow>
     (htab \<times> string \<times> (zlong \<times> zval) \<times> zval option) option \<Rightarrow> 's \<Rightarrow> 's list_result" where
  "listSet_method E V c args s =
     list_method E V ''Invalid parameters to listSet'' None None
       (\<lambda>c cfg key p ops err bin z_operate_policy (index, zval_to_add).
          (case set_serializer_from_policy_hash (ini_serializer V) (ucast (ini_serializer V)) z_operate_policy of
             (st, serializer_type) \<Rightarrow>
               if st \<noteq> AEROSPIKE_OK then
                 list_cleanup c None (as_error_update err AEROSPIKE_ERR_PARAM ''Invalid serializer value'') s
               else
                 (case zval_to_as_val E zval_to_add err serializer_type of
                    (_, val_to_add, err) \<Rightarrow>
                      (let fail = list_cleanup c None (as_error_update err AEROSPIKE_ERR_PARAM
                             ''Failed to convert value to add to list'') s
                       in
                       case val_to_add of
                         None \<Rightarrow> fail
                       | Some v \<Rightarrow>
                           if code err \<noteq> AEROSPIKE_OK then fail
                           else
                             list_call E V cfg p key ops (OpListSet bin index v) s
                               (list_cleanup c None
                                 (as_error_update err AEROSPIKE_ERR_CLIENT ''Failed to add operations'') s)
                               (\<lambda>err rec. list_cleanup c None err)))))
       c args s"

definition listRemove_method ::
  "'e operate_ext_scheme \<Rightarrow> ('s, 'z) env_scheme \<Rightarrow> client \<Rightarrow> (htab \<times> string \<times> zlong \<times> zval option) option \<Rightarrow>
     's \<Rightarrow> 's list_result" where
  "listRemove_method E V c args s =
     list_method E V ''Invalid arguments for listRemove'' None None
       (\<lambda>c cfg key p ops err bin z_operate_policy index.
          list_call E V cfg p key ops (OpListRemove bin index) s
            (list_fail c None err AEROSPIKE_ERR_CLIENT ''Failed to add operations'' s)
            (\<lambda>err rec. list_cleanup c None err))
       c args s"

definition listRemoveRange_method ::
  "'e operate_ext_scheme \<Rightarrow> ('s, 'z) env_scheme \<Rightarrow> client \<Rightarrow>
     (htab \<times> string \<times> (zlong \<times> zlong) \<times> zval option) option \<Rightarrow> 's \<Rightarrow> 's list_result" where
  "listRemoveRange_method E V c args s =
     list_method E V ''Invalid arguments for listRemoveRange'' None None
       (\<lambda>c cfg key p ops err bin z_operate_policy (index, count).
          list_call E V cfg p key ops (OpListRemoveRange bin index count) s
            (list_fail c None err AEROSPIKE_ERR_CLIENT ''Failed to add operations'' s)
            (\<lambda>err rec. list_cleanup c None err))
       c args s"

definition listTrim_method ::
  "'e operate_ext_scheme \<Rightarrow> ('s, 'z) env_scheme \<Rightarrow> client \<Rightarrow>
     (htab \<times> string \<times> (zlong \<times> zlong) \<times> zval option) option \<Rightarrow> 's \<Rightarrow> 's list_result" where
  "listTrim_method E V c args s =
     list_method E V ''Invalid arguments for listTrim'' None None
       (\<lambda>c cfg key p ops err bin z_operate_policy (index, count).
          list_call E V cfg p key ops (OpListTrim bin index count) s
            (list_fail c None err AEROSPIKE_ERR_CLIENT ''Failed to add operations'' s)
            (\<lambda>err rec. list_cleanup c None err))
       c args s"

definition listClear_method ::
  "'e operate_ext_scheme \<Rightarrow> ('s, 'z) env_scheme \<Rightarrow> client \<Rightarrow> (htab \<times> string \<times> unit \<times> zval option) option \<Rightarrow>
     's \<Rightarrow> 's list_result" where
  "listClear_method E V c args s =
     list_method E V ''Invalid arguments for listClear'' None None
       (\<lambda>c cfg key p ops err bin z_operate_policy _.
          list_call E V cfg p key ops (OpListClear bin) s
            (list_fail c None err AEROSPIKE_ERR_CLIENT ''Failed to add operations'' s)
            (\<lambda>err rec. list_cleanup c None err))
       c args s"

section \<open>Methods that return something\<close>

definition listSize_method ::
  "'e operate_ext_scheme \<Rightarrow> ('s, 'z) list_env_scheme \<Rightarrow> client \<Rightarrow> (htab \<times> string \<times> unit \<times> zval option) option \<Rightarrow>
     's \<Rightarrow> 's list_result" where
  "listSize_method E V c args s =
     list_method E V ''Invalid parameters to listSize'' (Some ZNull) (Some ZNull)
       (\<lambda>c cfg key p ops err bin z_operate_policy _.
          list_call_ignoring E V cfg p key ops (OpListSize bin) s
            (\<lambda>err rec s.
               if code err \<noteq> AEROSPIKE_OK then
                 list_cleanup (update_client_error c (code err) (message err) (in_doubt err)) (Some ZNull) err s
               else
                 (case rec of
                    None \<Rightarrow> None
                  | Some rec \<Rightarrow> list_cleanup c (Some (ZLong (record_get_int64 V rec bin (- 1)))) err s)))
       c args s"

definition listPop_method ::
  "'e operate_ext_scheme \<Rightarrow> ('s, 'z) list_env_scheme \<Rightarrow> client \<Rightarrow> (htab \<times> string \<times> zlong \<times> zval option) option \<Rightarrow>
     's \<Rightarrow> 's list_result" where
  "listPop_method E V c args s =
     list_method E V ''Invalid parameters to listPop'' None (Some ZNull)
       (\<lambda>c cfg key p ops err bin z_operate_policy index.
          list_serializer V c (Some ZNull) err z_operate_policy s (\<lambda>serializer_type.
            list_call E V cfg p key ops (OpListPop bin index) s
              (list_fail c (Some ZNull) err AEROSPIKE_ERR_CLIENT ''Failed to add operations'' s)
              (list_value E V c bin ZNull popped_failed)))
       c args s"

definition listPopRange_method ::
  "'e operate_ext_scheme \<Rightarrow> ('s, 'z) list_env_scheme \<Rightarrow> client \<Rightarrow>
     (htab \<times> string \<times> (zlong \<times> zlong) \<times> zval option) option \<Rightarrow> 's \<Rightarrow> 's list_result" where
  "listPopRange_method E V c args s =
     list_method E V ''Invalid arguments for listPopRange'' (Some ZNull) (Some ZNull)
       (\<lambda>c cfg key p ops err bin z_operate_policy (start_index, count).
          list_call E V cfg p key ops (OpListPopRange bin start_index count) s
            (list_fail c (Some ZNull) err AEROSPIKE_ERR_CLIENT ''Failed to add operations'' s)
            (list_value E V c bin ZNull popped_failed))
       c args s"

definition listGet_method ::
  "'e operate_ext_scheme \<Rightarrow> ('s, 'z) list_env_scheme \<Rightarrow> client \<Rightarrow> (htab \<times> string \<times> zlong \<times> zval option) option \<Rightarrow>
     's \<Rightarrow> 's list_result" where
  "listGet_method E V c args s =
     list_method E V ''Invalid parameters to listGet'' None None
       (\<lambda>c cfg key p ops err bin z_operate_policy index.
          list_call E V cfg p key ops (OpListGet bin index) s
            (list_cleanup c (Some ZNull) (as_error_update err AEROSPIKE_ERR_CLIENT ''Failed to add operations'') s)
            (list_value E V c bin ZNull returned_failed))
       c args s"

definition listGetRange_method ::
  "'e operate_ext_scheme \<Rightarrow> ('s, 'z) list_env_scheme \<Rightarrow> client \<Rightarrow>
     (htab \<times> string \<times> (zlong \<times> zlong) \<times> zval option) option \<Rightarrow> 's \<Rightarrow> 's list_result" where
  "listGetRange_method E V c args s =
     list_method E V ''Invalid arguments for listGetRange'' (Some ZNull) (Some ZNull)
       (\<lambda>c cfg key p ops err bin z_operate_policy (start_index, count).
          list_call E V cfg p key ops (OpListGetRange bin start_index count) s
            (list_cleanup c (Some ZNull) (as_error_update err AEROSPIKE_ERR_CLIENT ''Failed to add operations'') s)
            (list_value E V c bin (ZArray []) returned_failed))
       c args s"

end
