(* ===== verification/ListProps.thy ===== *)
theory ListProps
  imports ListMethods OperateCalls
begin

text \<open>
  Properties of the list methods: each does to the server what \<open>operate\<close> does with the one
  operation it is named after, and which messages of errors are lost on the way.
\<close>

section \<open>One operation through operate\<close>

definition list_codes :: "cint list" where
  "list_codes = [OP_LIST_APPEND, OP_LIST_MERGE, OP_LIST_INSERT, OP_LIST_INSERT_ITEMS, OP_LIST_POP,
     OP_LIST_POP_RANGE, OP_LIST_REMOVE, OP_LIST_REMOVE_RANGE, OP_LIST_CLEAR, OP_LIST_SET, OP_LIST_GET,
     OP_LIST_GET_RANGE, OP_LIST_TRIM, OP_LIST_SIZE]"

text \<open>The operators of the C client have other numbers than the list operations.\<close>

definition operators_apart :: "'e operate_ext_scheme \<Rightarrow> bool" where
  "operators_apart E \<longleftrightarrow> (\<forall>n \<in> set list_codes. n \<notin> {AS_OPERATOR_WRITE E, AS_OPERATOR_READ E, AS_OPERATOR_INCR E,
     AS_OPERATOR_PREPEND E, AS_OPERATOR_APPEND E, AS_OPERATOR_TOUCH E, AS_OPERATOR_DELETE E})"

definition single_op :: "cint \<Rightarrow> string \<Rightarrow> htab \<Rightarrow> htab" where
  "single_op op_type bin rest =
     [(IKey 0, ZArray ((SKey ''op'', ZLong (ucast op_type)) # (SKey ''bin'', ZString bin) # rest))]"

text \<open>What a method does to the server, and what it returns.\<close>

definition effect :: "(as_status \<times> zval option \<times> client \<times> 's) option \<Rightarrow> (as_status \<times> 's) option" where
  "effect r = map_option (\<lambda>(st, out, c, s). (st, s)) r"

lemma effect_simps [simp]:
  "effect (Some (st, out, c, s)) = Some (st, s)" "effect None = None"
  "effect (list_cleanup c out err s) = Some (code err, s)"
  "effect (list_fail c out err st m s) = Some (st, s)"
  by (simp_all add: effect_def list_cleanup_def list_fail_def)

lemma add_list_op:
  assumes "operators_apart E" "op_type \<in> set list_codes" "length bin \<le> bin_name_max_len E"
  shows "add_op_to_operations E ((SKey ''op'', ZLong (ucast op_type)) # (SKey ''bin'', ZString bin) # h) ops err ser =
    (let h = (SKey ''op'', ZLong (ucast op_type)) # (SKey ''bin'', ZString bin) # h;
         fail = \<lambda>m. (AEROSPIKE_ERR_PARAM, ops, as_error_update err AEROSPIKE_ERR_PARAM m) in
     case op_index_arg op_type h of
       Inl m \<Rightarrow> fail m
     | Inr index \<Rightarrow>
         (case op_val_arg E op_type h err ser of
            Inl m \<Rightarrow> fail m
          | Inr (z_val, op_val, e) \<Rightarrow>
              (case list_op_case E op_type (c_str bin) index z_val op_val ops e ser of
                 Some r \<Rightarrow> r
               | None \<Rightarrow> (AEROSPIKE_ERR_PARAM, ops,
                   as_error_update e AEROSPIKE_ERR_PARAM ''Unknown operation type''))))"
proof -
  have n: "op_type \<noteq> AS_OPERATOR_TOUCH E" "op_type \<noteq> AS_OPERATOR_DELETE E"
      and b: "basic_op_case E op_type b v w ops e = None" for b v w e
    using assms(1,2) unfolding operators_apart_def basic_op_case_def by fastforce+
  have m: "\<not> op_is_map_op op_type"
    using assms(2) by (auto simp: list_codes_def op_is_map_op_def op_codes)
  have "\<not> bin_name_max_len E < strlen bin"
    using assms(3) strlen_le [of bin] by linarith
  with n have "op_bin_arg E op_type ((SKey ''op'', ZLong (ucast op_type)) # (SKey ''bin'', ZString bin) # h) =
      Inr (c_str bin)"
    by (simp add: op_bin_arg_def op_requires_bin_def)
  with n b m show ?thesis
    by (simp add: add_op_to_operations_def Let_def split: sum.split prod.split)
qed

text \<open>
  The common part of both sides, without options: the hypotheses, and the call with the policy
  both start from.
\<close>

definition list_setting ::
  "'e operate_ext_scheme \<Rightarrow> ('s, 'z) list_env_scheme \<Rightarrow> client \<Rightarrow> config \<Rightarrow> htab \<Rightarrow> as_key \<Rightarrow> string \<Rightarrow> bool" where
  "list_setting E V c cfg z_key key bin \<longleftrightarrow>
     list_api E \<and> (\<forall>n. hashmap_new E n = Some []) \<and> binop_api E \<and> operators_apart E \<and>
     policy_api (operate_struct V) \<and> operations_new V 1 = empty_ops 1 \<and>
     (\<forall>err. code (error_update_null V err) = code err) \<and> usable c \<and> as_client c = Some cfg \<and>
     z_hashtable_to_as_key E z_key as_error_init = (AEROSPIKE_OK, Some key, as_error_init) \<and>
     length bin \<le> bin_name_max_len E"

lemma list_settingD:
  assumes "list_setting E V c cfg z_key key bin"
  shows "list_api E" "hashmap_new E n = Some []" "operators_apart E" "policy_api (operate_struct V)"
    "operations_new V (Suc 0) = empty_ops (Suc 0)" "code (error_update_null V err) = code err"
    "usable c" "is_valid c" "is_connected c" "as_client c = Some cfg"
    "z_hashtable_to_as_key E z_key as_error_init = (AEROSPIKE_OK, Some key, as_error_init)"
    "length bin \<le> bin_name_max_len E"
    "add_binop E (empty_ops (Suc 0)) b = Some ((empty_ops (Suc 0))\<lparr>ops_binops := [b]\<rparr>)"
  using assms by (simp_all add: list_setting_def usable_def binop_apiD)

definition call_policy :: "('s, 'z) env_scheme \<Rightarrow> as_policy_operate" where
  "call_policy V = pol_init (operate_struct V)"

definition call_config :: "('s, 'z) env_scheme \<Rightarrow> config \<Rightarrow> config" where
  "call_config V cfg = cfg\<lparr>cfg_operate := call_policy V\<rparr>"

definition ran :: "('s, 'z) env_scheme \<Rightarrow> config \<Rightarrow> as_key \<Rightarrow> list_op \<Rightarrow> 's \<Rightarrow> (as_status \<times> 's) option" where
  "ran V cfg key b s =
     (case key_operate V (call_config V cfg) (Some (call_policy V)) key
        ((empty_ops 1)\<lparr>ops_binops := [ListOp b]\<rparr>) s of
        (err, r, s') \<Rightarrow> Some (code err, s'))"

lemma list_method_begins:
  assumes "list_setting E V c cfg z_key key bin"
  shows "list_method E V m out_bin out_setup body c (Some (z_key, bin, a, None)) s =
     body (set_operate_policy (reset_client_error c) cfg (call_policy V)) (call_config V cfg) key (call_policy V)
       (empty_ops (Suc 0)) as_error_init (c_str bin) None a"
  using list_settingD [OF assms]
  by (simp add: list_method_def VALIDATE_CLIENT_AND_CONNECTION_def CHECK_BIN_NAME_def Let_def
      setup_list_operation_variables_def call_policy_def call_config_def)

lemma list_serializer_None [simp]: "list_serializer V c out err None s k = k (ucast (ini_serializer V))"
  by (simp add: list_serializer_def set_serializer_from_policy_hash_def)

lemma operate_single:
  assumes "list_setting E V c cfg z_key key bin"
  shows "effect (operate_method E V c (Some (z_key, single_op op_type bin rest, False, None)) s) =
    (case add_op_to_operations E ((SKey ''op'', ZLong (ucast op_type)) # (SKey ''bin'', ZString bin) # rest)
        (empty_ops (Suc 0)) as_error_init (ucast (ini_serializer V)) of
       (st, ops, err) \<Rightarrow>
         if st \<noteq> AEROSPIKE_OK then Some (code err, s)
         else (case key_operate V (call_config V cfg) (Some (call_policy V)) key ops s of
                 (err, r, s') \<Rightarrow> Some (code err, s')))"
  using list_settingD [OF assms]
  by (simp add: operate_method_def operate_guards_def Let_def single_op_def call_policy_def call_config_def
      hashtable_is_list_def operate_answer_def set_serializer_from_policy_hash_def split: prod.split)

lemma effect_list_call:
  assumes "list_setting E V c cfg z_key key bin"
  shows "effect (list_call E V (call_config V cfg) (call_policy V) key (empty_ops (Suc 0)) b s fail
      (\<lambda>err rec. list_cleanup c' out err)) = ran V cfg key b s"
    and "effect (list_call_ignoring E V (call_config V cfg) (call_policy V) key (empty_ops (Suc 0)) b s
      (\<lambda>err rec. list_cleanup c' out err)) = ran V cfg key b s"
  using list_settingD [OF assms]
  by (simp_all add: list_call_def list_call_ignoring_def ran_def split: prod.split)

text \<open>What \<open>operate\<close> does with one operation whose arguments can be read.\<close>

lemma operate_list_op:
  assumes S: "list_setting E V c cfg z_key key bin" and "op_type \<in> set list_codes"
    and h: "H = (SKey ''op'', ZLong (ucast op_type)) # (SKey ''bin'', ZString bin) # rest"
    and "op_index_arg op_type H = Inr i"
    and "op_val_arg E op_type H as_error_init (ucast (ini_serializer V)) = Inr (z, v, e)"
    and "list_op_case E op_type (c_str bin) i z v (empty_ops (Suc 0)) e (ucast (ini_serializer V)) =
      Some (add_or_fail E (empty_ops (Suc 0)) (ListOp b) e')"
  shows "effect (operate_method E V c (Some (z_key, single_op op_type bin rest, False, None)) s) = ran V cfg key b s"
  using assms(4-6) unfolding h operate_single [OF S]
  by (subst add_list_op [OF list_settingD(3) [OF S] assms(2) list_settingD(12) [OF S]])
    (simp add: Let_def add_or_fail_def ran_def list_settingD(13) [OF S] split: prod.split)

lemma operate_list_op_fails:
  assumes S: "list_setting E V c cfg z_key key bin" and "op_type \<in> set list_codes"
    and h: "H = (SKey ''op'', ZLong (ucast op_type)) # (SKey ''bin'', ZString bin) # rest"
    and "op_index_arg op_type H = Inr i"
    and "op_val_arg E op_type H as_error_init (ucast (ini_serializer V)) = Inl m \<or>
      op_val_arg E op_type H as_error_init (ucast (ini_serializer V)) = Inr (z, v, e) \<and>
      list_op_case E op_type (c_str bin) i z v (empty_ops (Suc 0)) e (ucast (ini_serializer V)) =
        Some (AEROSPIKE_ERR_CLIENT, empty_ops (Suc 0), as_error_update e AEROSPIKE_ERR_PARAM m)"
  shows "effect (operate_method E V c (Some (z_key, single_op op_type bin rest, False, None)) s) =
    Some (AEROSPIKE_ERR_PARAM, s)"
  using assms(4-5) unfolding h operate_single [OF S]
  by (subst add_list_op [OF list_settingD(3) [OF S] assms(2) list_settingD(12) [OF S]]) (auto simp: Let_def)

lemmas list_arg_defs = op_index_arg_def op_val_arg_def list_requires_defs list_op_case_def Let_def op_codes

lemma operators_apart_numbers:
  assumes "list_setting E V c cfg z_key key bin" "n \<in> set list_codes"
  shows "AS_OPERATOR_WRITE E \<noteq> n" "AS_OPERATOR_READ E \<noteq> n" "AS_OPERATOR_TOUCH E \<noteq> n" "AS_OPERATOR_DELETE E \<noteq> n"
  using list_settingD(3) [OF assms(1)] assms(2) unfolding operators_apart_def by fastforce+

definition run_operation ::
  "'e operate_ext_scheme \<Rightarrow> ('s, 'z) env_scheme \<Rightarrow> client \<Rightarrow> htab \<Rightarrow> string \<Rightarrow> 's \<Rightarrow> cint \<Rightarrow> htab \<Rightarrow>
     (as_status \<times> 's) option" where
  "run_operation E V c z_key bin s op_type rest =
     effect (operate_method E V c (Some (z_key, single_op op_type bin rest, False, None)) s)"

lemma operate_plain:
  assumes S: "list_setting E V c cfg z_key key bin"
  shows "run_operation E V c z_key bin s OP_LIST_REMOVE [(SKey ''index'', ZLong i)] =
      ran V cfg key (OpListRemove (c_str bin) i) s"
    and "run_operation E V c z_key bin s OP_LIST_REMOVE_RANGE [(SKey ''index'', ZLong i), (SKey ''val'', ZLong n)] =
      ran V cfg key (OpListRemoveRange (c_str bin) i n) s"
    and "run_operation E V c z_key bin s OP_LIST_TRIM [(SKey ''index'', ZLong i), (SKey ''val'', ZLong n)] =
      ran V cfg key (OpListTrim (c_str bin) i n) s"
    and "run_operation E V c z_key bin s OP_LIST_CLEAR [] = ran V cfg key (OpListClear (c_str bin)) s"
    and "run_operation E V c z_key bin s OP_LIST_POP [(SKey ''index'', ZLong i)] =
      ran V cfg key (OpListPop (c_str bin) i) s"
    and "run_operation E V c z_key bin s OP_LIST_POP_RANGE [(SKey ''index'', ZLong i), (SKey ''val'', ZLong n)] =
      ran V cfg key (OpListPopRange (c_str bin) i n) s"
    and "run_operation E V c z_key bin s OP_LIST_GET [(SKey ''index'', ZLong i)] =
      ran V cfg key (OpListGet (c_str bin) i) s"
    and "run_operation E V c z_key bin s OP_LIST_GET_RANGE [(SKey ''index'', ZLong i), (SKey ''val'', ZLong n)] =
      ran V cfg key (OpListGetRange (c_str bin) i n) s"
    and "run_operation E V c z_key bin s OP_LIST_SIZE [] = ran V cfg key (OpListSize (c_str bin)) s"
  unfolding run_operation_def
  by (rule operate_list_op [OF S _ HOL.refl], simp add: list_codes_def, simp add: list_arg_defs,
      simp add: list_arg_defs operators_apart_numbers [OF S] list_codes_def, simp add: list_arg_defs)+

text \<open>With a value to convert: a value that cannot be converted is an error of the parameters.\<close>

definition converted ::
  "'e operate_ext_scheme \<Rightarrow> ('s, 'z) env_scheme \<Rightarrow> zval \<Rightarrow> 's \<Rightarrow> (as_val \<Rightarrow> (as_status \<times> 's) option) \<Rightarrow>
     (as_status \<times> 's) option" where
  "converted E V z s k =
     (case server_value E (ucast (ini_serializer V)) z of None \<Rightarrow> Some (AEROSPIKE_ERR_PARAM, s) | Some v \<Rightarrow> k v)"

lemma operate_value:
  assumes S: "list_setting E V c cfg z_key key bin"
  shows "run_operation E V c z_key bin s OP_LIST_APPEND [(SKey ''val'', z)] =
      converted E V z s (\<lambda>v. ran V cfg key (OpListAppend (c_str bin) v) s)"
    and "run_operation E V c z_key bin s OP_LIST_INSERT [(SKey ''index'', ZLong i), (SKey ''val'', z)] =
      converted E V z s (\<lambda>v. ran V cfg key (OpListInsert (c_str bin) i v) s)"
    and "run_operation E V c z_key bin s OP_LIST_SET [(SKey ''index'', ZLong i), (SKey ''val'', z)] =
      converted E V z s (\<lambda>v. ran V cfg key (OpListSet (c_str bin) i v) s)"
proof -
  have y: "yields as_error_init (server_value E (ucast (ini_serializer V)) z)
      (zval_to_as_val E z as_error_init (ucast (ini_serializer V)))"
    by (rule conversion_yields(1)) (use list_settingD [OF S] in simp_all)
  have "run_operation E V c z_key bin s OP_LIST_APPEND [(SKey ''val'', z)] =
      converted E V z s (\<lambda>v. ran V cfg key (OpListAppend (c_str bin) v) s) \<and>
    run_operation E V c z_key bin s OP_LIST_INSERT [(SKey ''index'', ZLong i), (SKey ''val'', z)] =
      converted E V z s (\<lambda>v. ran V cfg key (OpListInsert (c_str bin) i v) s) \<and>
    run_operation E V c z_key bin s OP_LIST_SET [(SKey ''index'', ZLong i), (SKey ''val'', z)] =
      converted E V z s (\<lambda>v. ran V cfg key (OpListSet (c_str bin) i v) s)"
  proof (cases "server_value E (ucast (ini_serializer V)) z")
    case None
    with y obtain m where z: "zval_to_as_val E z as_error_init (ucast (ini_serializer V)) =
        (AEROSPIKE_ERR_PARAM, None, as_error_update as_error_init AEROSPIKE_ERR_PARAM m)" by auto
    show ?thesis
      unfolding run_operation_def converted_def None option.case
      by (intro conjI; rule operate_list_op_fails [OF S _ HOL.refl, where m = "''Unable to convert value''"],
          simp add: list_codes_def, simp add: list_arg_defs,
          simp add: list_arg_defs operators_apart_numbers [OF S] list_codes_def z)
  next
    case (Some v)
    with y have z: "zval_to_as_val E z as_error_init (ucast (ini_serializer V)) =
        (AEROSPIKE_OK, Some v, as_error_init)" by simp
    show ?thesis
      unfolding run_operation_def converted_def Some option.case
      by (intro conjI; rule operate_list_op [OF S _ HOL.refl], simp add: list_codes_def, simp add: list_arg_defs,
          simp add: list_arg_defs operators_apart_numbers [OF S] list_codes_def z, simp add: list_arg_defs)
  qed
  then show "run_operation E V c z_key bin s OP_LIST_APPEND [(SKey ''val'', z)] =
      converted E V z s (\<lambda>v. ran V cfg key (OpListAppend (c_str bin) v) s)"
    "run_operation E V c z_key bin s OP_LIST_INSERT [(SKey ''index'', ZLong i), (SKey ''val'', z)] =
      converted E V z s (\<lambda>v. ran V cfg key (OpListInsert (c_str bin) i v) s)"
    "run_operation E V c z_key bin s OP_LIST_SET [(SKey ''index'', ZLong i), (SKey ''val'', z)] =
      converted E V z s (\<lambda>v. ran V cfg key (OpListSet (c_str bin) i v) s)"
    by simp_all
qed

text \<open>
  With items: an array that is no list is an error of the parameters; one whose items cannot be
  converted goes to the C client as a null list.
\<close>

definition converted_items ::
  "'e operate_ext_scheme \<Rightarrow> ('s, 'z) env_scheme \<Rightarrow> htab \<Rightarrow> 's \<Rightarrow> (as_list option \<Rightarrow> (as_status \<times> 's) option) \<Rightarrow>
     (as_status \<times> 's) option" where
  "converted_items E V items s k =
     (if hashtable_is_list items then k (those (map (\<lambda>kv. server_value E (ucast (ini_serializer V)) (snd kv)) items))
      else Some (AEROSPIKE_ERR_PARAM, s))"

lemma items_converted:
  assumes S: "list_setting E V c cfg z_key key bin"
  obtains e where "z_hashtable_to_as_list E items None as_error_init ser =
    (AEROSPIKE_OK, those (map (\<lambda>kv. server_value E ser (snd kv)) items), e)"
  using conversion_yields(2) [where E = E and err = as_error_init and lst = None and ser = ser and h = items]
    list_settingD [OF S]
  by (cases "those (map (\<lambda>kv. server_value E ser (snd kv)) items)") auto

lemma operate_items:
  assumes S: "list_setting E V c cfg z_key key bin"
  shows "run_operation E V c z_key bin s OP_LIST_MERGE [(SKey ''val'', ZArray items)] =
      converted_items E V items s (\<lambda>l. ran V cfg key (OpListAppendItems (c_str bin) l) s)"
    and "run_operation E V c z_key bin s OP_LIST_INSERT_ITEMS
        [(SKey ''index'', ZLong i), (SKey ''val'', ZArray items)] =
      converted_items E V items s (\<lambda>l. ran V cfg key (OpListInsertItems (c_str bin) i l) s)"
proof -
  let ?l = "those (map (\<lambda>kv. server_value E (ucast (ini_serializer V)) (snd kv)) items)"
  obtain e where z: "z_hashtable_to_as_list E items None as_error_init (ucast (ini_serializer V)) =
      (AEROSPIKE_OK, ?l, e)" by (rule items_converted [OF S])
  have "run_operation E V c z_key bin s OP_LIST_MERGE [(SKey ''val'', ZArray items)] =
      converted_items E V items s (\<lambda>l. ran V cfg key (OpListAppendItems (c_str bin) l) s) \<and>
    run_operation E V c z_key bin s OP_LIST_INSERT_ITEMS
        [(SKey ''index'', ZLong i), (SKey ''val'', ZArray items)] =
      converted_items E V items s (\<lambda>l. ran V cfg key (OpListInsertItems (c_str bin) i l) s)"
  proof (cases "hashtable_is_list items")
    case False
    then show ?thesis
      unfolding run_operation_def converted_items_def
      by (simp only: if_False) (intro conjI; rule operate_list_op_fails [OF S _ HOL.refl,
            where m = "''List Merge value must not be a map''" and z = "Some (ZArray items)" and v = None and
              e = as_error_init], simp add: list_codes_def, simp add: list_arg_defs,
          simp add: list_arg_defs operators_apart_numbers [OF S] list_codes_def add_list_items_op_def
            del: z_hashtable_to_as_list.simps)
  next
    case True
    then show ?thesis
      unfolding run_operation_def converted_items_def
      by (simp only: if_True) (intro conjI; rule operate_list_op [OF S _ HOL.refl], simp add: list_codes_def,
          simp add: list_arg_defs, simp add: list_arg_defs operators_apart_numbers [OF S] list_codes_def,
          simp add: list_arg_defs add_list_items_op_def z del: z_hashtable_to_as_list.simps)
  qed
  then show "run_operation E V c z_key bin s OP_LIST_MERGE [(SKey ''val'', ZArray items)] =
      converted_items E V items s (\<lambda>l. ran V cfg key (OpListAppendItems (c_str bin) l) s)"
    "run_operation E V c z_key bin s OP_LIST_INSERT_ITEMS
        [(SKey ''index'', ZLong i), (SKey ''val'', ZArray items)] =
      converted_items E V items s (\<lambda>l. ran V cfg key (OpListInsertItems (c_str bin) i l) s)"
    by simp_all
qed

section \<open>The list methods\<close>

lemma list_changes:
  assumes S: "list_setting E V c cfg z_key key bin"
  shows "effect (listAppend_method E V c (Some (z_key, bin, z, None)) s) =
      converted E V z s (\<lambda>v. ran V cfg key (OpListAppend (c_str bin) v) s)"
    and "effect (listInsert_method E V c (Some (z_key, bin, (i, z), None)) s) =
      converted E V z s (\<lambda>v. ran V cfg key (OpListInsert (c_str bin) i v) s)"
    and "effect (listSet_method E V c (Some (z_key, bin, (i, z), None)) s) =
      converted E V z s (\<lambda>v. ran V cfg key (OpListSet (c_str bin) i v) s)"
    and "effect (listMerge_method E V c (Some (z_key, bin, items, None)) s) =
      converted_items E V items s (\<lambda>l. ran V cfg key (OpListAppendItems (c_str bin) l) s)"
    and "effect (listInsertItems_method E V c (Some (z_key, bin, (i, items), None)) s) =
      converted_items E V items s (\<lambda>l. ran V cfg key (OpListInsertItems (c_str bin) i l) s)"
    and "effect (listRemove_method E V c (Some (z_key, bin, i, None)) s) =
      ran V cfg key (OpListRemove (c_str bin) i) s"
    and "effect (listRemoveRange_method E V c (Some (z_key, bin, (i, n), None)) s) =
      ran V cfg key (OpListRemoveRange (c_str bin) i n) s"
    and "effect (listTrim_method E V c (Some (z_key, bin, (i, n), None)) s) =
      ran V cfg key (OpListTrim (c_str bin) i n) s"
    and "effect (listClear_method E V c (Some (z_key, bin, u, None)) s) =
      ran V cfg key (OpListClear (c_str bin)) s"
proof -
  have y: "yields as_error_init (server_value E (ucast (ini_serializer V)) z)
      (zval_to_as_val E z as_error_init (ucast (ini_serializer V)))"
    by (rule conversion_yields(1)) (use list_settingD [OF S] in simp_all)
  note B = list_method_begins [OF S] effect_list_call [OF S] converted_def
  show "effect (listAppend_method E V c (Some (z_key, bin, z, None)) s) =
      converted E V z s (\<lambda>v. ran V cfg key (OpListAppend (c_str bin) v) s)"
    using y by (auto simp: listAppend_method_def B yields_def split: option.splits)
  show "effect (listInsert_method E V c (Some (z_key, bin, (i, z), None)) s) =
      converted E V z s (\<lambda>v. ran V cfg key (OpListInsert (c_str bin) i v) s)"
    using y by (auto simp: listInsert_method_def B yields_def split: option.splits)
  show "effect (listSet_method E V c (Some (z_key, bin, (i, z), None)) s) =
      converted E V z s (\<lambda>v. ran V cfg key (OpListSet (c_str bin) i v) s)"
    using y by (auto simp: listSet_method_def set_serializer_from_policy_hash_def B yields_def
        split: option.splits)
  obtain e where z: "z_hashtable_to_as_list E items None as_error_init (ucast (ini_serializer V)) =
      (AEROSPIKE_OK, those (map (\<lambda>kv. server_value E (ucast (ini_serializer V)) (snd kv)) items), e)"
    by (rule items_converted [OF S])
  show "effect (listMerge_method E V c (Some (z_key, bin, items, None)) s) =
      converted_items E V items s (\<lambda>l. ran V cfg key (OpListAppendItems (c_str bin) l) s)"
    by (simp add: listMerge_method_def B converted_items_def z del: z_hashtable_to_as_list.simps)
  show "effect (listInsertItems_method E V c (Some (z_key, bin, (i, items), None)) s) =
      converted_items E V items s (\<lambda>l. ran V cfg key (OpListInsertItems (c_str bin) i l) s)"
    by (simp add: listInsertItems_method_def B converted_items_def z del: z_hashtable_to_as_list.simps)
  show "effect (listRemove_method E V c (Some (z_key, bin, i, None)) s) =
      ran V cfg key (OpListRemove (c_str bin) i) s"
    "effect (listRemoveRange_method E V c (Some (z_key, bin, (i, n), None)) s) =
      ran V cfg key (OpListRemoveRange (c_str bin) i n) s"
    "effect (listTrim_method E V c (Some (z_key, bin, (i, n), None)) s) =
      ran V cfg key (OpListTrim (c_str bin) i n) s"
    "effect (listClear_method E V c (Some (z_key, bin, u, None)) s) =
      ran V cfg key (OpListClear (c_str bin)) s"
    by (simp_all add: listRemove_method_def listRemoveRange_method_def listTrim_method_def listClear_method_def B)
qed

text \<open>The methods that read, or the servers' state when the method reads through a null pointer.\<close>

definition same_server :: "(as_status \<times> 's) option \<Rightarrow> (as_status \<times> 's) option \<Rightarrow> bool" where
  "same_server r r' \<longleftrightarrow> (case r of None \<Rightarrow> True | Some (st, s) \<Rightarrow> map_option snd r' = Some s)"

lemma same_server_simps [simp]: "same_server None r" "same_server (Some (st, s)) (Some (st', s))"
  by (simp_all add: same_server_def)

lemma same_server_ran:
  assumes S: "list_setting E V c cfg z_key key bin"
    and k: "\<And>err rec s st. same_server (effect (k err rec s)) (Some (st, s))"
  shows "same_server (effect (list_call E V (call_config V cfg) (call_policy V) key (empty_ops (Suc 0)) b s fail k))
      (ran V cfg key b s)"
    and "same_server (effect (list_call_ignoring E V (call_config V cfg) (call_policy V) key (empty_ops (Suc 0)) b s k))
      (ran V cfg key b s)"
  using list_settingD [OF S] k
  by (simp_all add: list_call_def list_call_ignoring_def ran_def split: prod.split)

lemma list_value_server:
  "failed = popped_failed \<or> failed = returned_failed \<Longrightarrow>
   same_server (effect (list_value E V c bin absent failed err rec s)) (Some (st, s))"
  by (auto simp: list_value_def popped_failed_def returned_failed_def split: option.split prod.split)

lemma list_reads:
  assumes S: "list_setting E V c cfg z_key key bin"
  shows "same_server (effect (listSize_method E V c (Some (z_key, bin, u, None)) s))
      (ran V cfg key (OpListSize (c_str bin)) s)"
    and "same_server (effect (listPop_method E V c (Some (z_key, bin, i, None)) s))
      (ran V cfg key (OpListPop (c_str bin) i) s)"
    and "same_server (effect (listPopRange_method E V c (Some (z_key, bin, (i, n), None)) s))
      (ran V cfg key (OpListPopRange (c_str bin) i n) s)"
    and "same_server (effect (listGet_method E V c (Some (z_key, bin, i, None)) s))
      (ran V cfg key (OpListGet (c_str bin) i) s)"
    and "same_server (effect (listGetRange_method E V c (Some (z_key, bin, (i, n), None)) s))
      (ran V cfg key (OpListGetRange (c_str bin) i n) s)"
  by (simp_all add: listSize_method_def listPop_method_def listPopRange_method_def listGet_method_def
      listGetRange_method_def list_method_begins [OF S] same_server_ran [OF S] list_value_server
      split: option.split)

section \<open>The list methods and operate\<close>

text \<open>
  C12. Without options each list method does to the server what \<open>operate\<close> does with the one
  operation the method is named after, on the same key, bin and arguments. The nine methods that
  change a list also return the status \<open>operate\<close> returns; this includes the values and arrays
  that cannot be converted.
\<close>

theorem list_methods_agree_with_operate:
  assumes "list_setting E V c cfg z_key key bin"
  shows "(let run = run_operation E V c z_key bin s;
      index = (SKey ''index'', ZLong i); val = \<lambda>z. (SKey ''val'', z) in
    effect (listAppend_method E V c (Some (z_key, bin, z, None)) s) = run OP_LIST_APPEND [val z] \<and>
    effect (listMerge_method E V c (Some (z_key, bin, items, None)) s) = run OP_LIST_MERGE [val (ZArray items)] \<and>
    effect (listInsert_method E V c (Some (z_key, bin, (i, z), None)) s) = run OP_LIST_INSERT [index, val z] \<and>
    effect (listInsertItems_method E V c (Some (z_key, bin, (i, items), None)) s) =
      run OP_LIST_INSERT_ITEMS [index, val (ZArray items)] \<and>
    effect (listSet_method E V c (Some (z_key, bin, (i, z), None)) s) = run OP_LIST_SET [index, val z] \<and>
    effect (listRemove_method E V c (Some (z_key, bin, i, None)) s) = run OP_LIST_REMOVE [index] \<and>
    effect (listRemoveRange_method E V c (Some (z_key, bin, (i, n), None)) s) = run OP_LIST_REMOVE_RANGE [index, val (ZLong n)] \<and>
    effect (listTrim_method E V c (Some (z_key, bin, (i, n), None)) s) = run OP_LIST_TRIM [index, val (ZLong n)] \<and>
    effect (listClear_method E V c (Some (z_key, bin, (), None)) s) = run OP_LIST_CLEAR [] \<and>
    same_server (effect (listSize_method E V c (Some (z_key, bin, (), None)) s)) (run OP_LIST_SIZE []) \<and>
    same_server (effect (listPop_method E V c (Some (z_key, bin, i, None)) s)) (run OP_LIST_POP [index]) \<and>
    same_server (effect (listPopRange_method E V c (Some (z_key, bin, (i, n), None)) s)) (run OP_LIST_POP_RANGE [index, val (ZLong n)]) \<and>
    same_server (effect (listGet_method E V c (Some (z_key, bin, i, None)) s)) (run OP_LIST_GET [index]) \<and>
    same_server (effect (listGetRange_method E V c (Some (z_key, bin, (i, n), None)) s)) (run OP_LIST_GET_RANGE [index, val (ZLong n)]))"
  by (simp add: Let_def list_changes [OF assms] list_reads [OF assms] operate_plain [OF assms]
      operate_value [OF assms] operate_items [OF assms])

lemma list_method_sets_up:
  assumes "usable c" "as_client c = Some cfg" "length bin \<le> bin_name_max_len E"
    and "setup_list_operation_variables E V (reset_client_error c) cfg z_key z_policy =
      (c', Inr (cfg', key, p, ops, err))"
  shows "list_method E V m out_bin out_setup body c (Some (z_key, bin, a, z_policy)) s =
    body c' cfg' key p ops err (c_str bin) z_policy a"
  using assms by (simp add: list_method_def VALIDATE_CLIENT_AND_CONNECTION_def CHECK_BIN_NAME_def usable_def)

definition sample_list_env :: "store list_env" where
  "sample_list_env = env.extend sample_env \<lparr>
     record_get = (\<lambda>r name. map_of (rec_bins r) name), record_get_int64 = (\<lambda>r name d. d)\<rparr>"

lemma sample_list_setting:
  "list_setting sample_operate_ext sample_list_env sample_client sample_config sample_key_array sample_as_key ''tags''"
  by (simp add: list_setting_def operators_apart_def list_codes_def op_codes sample_list_env_def env.defs sample_env_def
      binop_apiD)

theorem list_methods_agree_with_operate_witness:
  "effect (listInsert_method sample_operate_ext sample_list_env sample_client
     (Some (sample_key_array, ''tags'', (2, ZString ''x''), None)) []) =
   run_operation sample_operate_ext sample_list_env sample_client sample_key_array ''tags'' []
     OP_LIST_INSERT [(SKey ''index'', ZLong 2), (SKey ''val'', ZString ''x'')]"
  using list_methods_agree_with_operate [OF sample_list_setting, where s = "[]" and z = "ZString ''x''" and i = 2]
  by (simp add: Let_def)

definition last_error :: "client \<Rightarrow> as_status \<times> string" where
  "last_error c = (code (client_error c), message (client_error c))"

definition fails_with :: "string \<Rightarrow> 's list_result \<Rightarrow> 's \<Rightarrow> bool" where
  "fails_with m r s \<longleftrightarrow> (case r of
     Some (st, out, c, s') \<Rightarrow> st = AEROSPIKE_ERR_PARAM \<and> last_error c = (AEROSPIKE_ERR_PARAM, m) \<and> s' = s
   | None \<Rightarrow> False)"

text \<open>
  When the serializer among the options of \<open>listAppend\<close>, \<open>listMerge\<close>, \<open>listInsert\<close>,
  \<open>listInsertItems\<close> or \<open>listPop\<close> is not an integer, the method returns and remembers
  \<open>AEROSPIKE_ERR_PARAM\<close>, but the message it has just stored is overwritten with an empty one.
  \<open>listSet\<close> keeps its message.
\<close>

theorem list_messages_lost:
  assumes c: "usable c" "as_client c = Some cfg" "length bin \<le> bin_name_max_len E"
    and begun: "setup_list_operation_variables E V (reset_client_error c) cfg z_key z_policy =
      (c', Inr (cfg', key, p, ops, as_error_init))"
    and "set_serializer_from_policy_hash (ini_serializer V) (ucast (ini_serializer V)) z_policy = (st, ser)"
      "st \<noteq> AEROSPIKE_OK"
  shows "fails_with [] (listAppend_method E V c (Some (z_key, bin, z, z_policy)) s) s \<and>
    fails_with [] (listMerge_method E V c (Some (z_key, bin, items, z_policy)) s) s \<and>
    fails_with [] (listInsert_method E V c (Some (z_key, bin, (i, z), z_policy)) s) s \<and>
    fails_with [] (listInsertItems_method E V c (Some (z_key, bin, (i, items), z_policy)) s) s \<and>
    fails_with [] (listPop_method E V c (Some (z_key, bin, i, z_policy)) s) s \<and>
    fails_with ''Invalid serializer value'' (listSet_method E V c (Some (z_key, bin, (i, z), z_policy)) s) s"
  using assms(5,6)
  by (simp add: Let_def listAppend_method_def listMerge_method_def listInsert_method_def
      listInsertItems_method_def listPop_method_def listSet_method_def list_method_sets_up [OF c begun]
      list_serializer_def fails_with_def list_fail_def list_cleanup_def last_error_def remember_def as_error_init_def)

definition sample_list_setup :: "client \<times> (as_error + config \<times> as_key \<times> as_policy_operate \<times> operations \<times> as_error)" where
  "sample_list_setup = setup_list_operation_variables sample_operate_ext sample_list_env
     (reset_client_error sample_client) sample_config sample_key_array
     (Some (ZArray [(IKey OPT_SERIALIZER, ZString ''php'')]))"

lemma sample_list_setup_ok:
  "case sample_list_setup of (_, Inr (_, _, _, _, err)) \<Rightarrow> err = as_error_init | _ \<Rightarrow> False"
  by code_simp

theorem list_messages_lost_witness:
  "fails_with [] (listPop_method sample_operate_ext sample_list_env sample_client
     (Some (sample_key_array, ''tags'', 0, Some (ZArray [(IKey OPT_SERIALIZER, ZString ''php'')]))) []) []"
proof -
  obtain c' cfg' key p ops where "sample_list_setup = (c', Inr (cfg', key, p, ops, as_error_init))"
    using sample_list_setup_ok by (auto split: prod.splits sum.splits)
  from list_messages_lost [OF sample_client_simps _ this [unfolded sample_list_setup_def]] show ?thesis
    by (simp add: set_serializer_from_policy_hash_def)
qed

end
