(* ===== verification/Scans.thy ===== *)
theory Scans
  imports ListMethods Queries
begin

text \<open>
  Scans, queries with a user-defined function and the callbacks they run: \<open>user_callbacks.c\<close>,
  \<open>client/scan.c\<close>, \<open>client/scan_apply.c\<close>, \<open>client/apply.c\<close>, \<open>client/scan_info.c\<close>,
  \<open>client/job_info.c\<close> and the methods \<open>queryApply\<close> and \<open>aggregate\<close> of \<open>client/query.c\<close>.

  A call of the C client that walks over records gets the callback as a function on the error
  structure it shares with the method and on the state of the servers and the script; it returns
  whether the walk goes on. Arguments and results are as in \<open>KeyValue\<close>.
\<close>

section \<open>Structures and calls\<close>

record user_scan = as_scan +
  s_ns :: string
  s_set :: string
  s_select :: "string list"
  s_apply :: "(string \<times> string \<times> as_list option) option" \<comment> \<open>a list that is \<open>None\<close> is a null pointer\<close>

record job_info =
  progress_pct :: u32
  records_read :: u32
  job_status :: u32

record 's scan_env = "'s list_env" +
  scan_struct :: "as_policy_scan policy_struct"
  apply_struct :: "as_policy_apply policy_struct"
  info_struct :: "as_policy_info policy_struct"
  scan_uninitialised :: user_scan \<comment> \<open>what a local variable holds before it is written\<close>
  scan_init :: "string \<Rightarrow> string \<Rightarrow> user_scan option"
  scan_select_inita :: "user_scan \<Rightarrow> nat \<Rightarrow> user_scan"
  scan_select :: "user_scan \<Rightarrow> string \<Rightarrow> user_scan"
  scan_apply_each :: "user_scan \<Rightarrow> string \<Rightarrow> string \<Rightarrow> as_list option \<Rightarrow> user_scan option"
  query_apply :: "as_query \<Rightarrow> string \<Rightarrow> string \<Rightarrow> as_list option \<Rightarrow> as_query option"
  scan_foreach :: "config \<Rightarrow> as_policy_scan \<Rightarrow> user_scan \<Rightarrow>
    (as_record option \<Rightarrow> as_error \<times> 's \<Rightarrow> bool \<times> as_error \<times> 's) \<Rightarrow> as_error \<times> 's \<Rightarrow> as_error \<times> 's"
  query_values :: "config \<Rightarrow> as_policy_query option \<Rightarrow> as_query \<Rightarrow>
    (as_val option \<Rightarrow> as_error \<times> htab \<Rightarrow> bool \<times> as_error \<times> htab) \<Rightarrow> as_error \<times> htab \<Rightarrow> 's \<Rightarrow>
    (as_error \<times> htab) \<times> 's" \<comment> \<open>\<open>aerospike_query_foreach\<close> of \<open>aggregate\<close>\<close>
  scan_background :: "config \<Rightarrow> as_policy_scan \<Rightarrow> user_scan \<Rightarrow> 's \<Rightarrow> as_error \<times> zlong \<times> 's"
  scan_wait :: "config \<Rightarrow> zlong \<Rightarrow> 's \<Rightarrow> as_error \<times> 's"
  query_background :: "config \<Rightarrow> as_policy_write \<Rightarrow> as_query \<Rightarrow> 's \<Rightarrow> as_error \<times> zlong \<times> 's"
  key_apply :: "config \<Rightarrow> as_policy_apply \<Rightarrow> as_key \<Rightarrow> string \<Rightarrow> string \<Rightarrow> as_list option \<Rightarrow> 's \<Rightarrow>
    as_error \<times> as_val option \<times> 's"
  server_job_info :: "config \<Rightarrow> as_policy_info \<Rightarrow> string \<Rightarrow> zlong \<Rightarrow> 's \<Rightarrow> as_error \<times> job_info \<times> 's"
  server_scan_info :: "config \<Rightarrow> as_policy_info \<Rightarrow> zlong \<Rightarrow> 's \<Rightarrow> as_error \<times> job_info \<times> 's"

section \<open>Callbacks\<close>

text \<open>The function of the script; \<open>None\<close>: \<open>zend_call_function\<close> fails.\<close>

type_synonym 's script = "zval \<Rightarrow> 's \<Rightarrow> zval option \<times> 's"

definition execute_user_callback ::
  "'e conv_ext_scheme \<Rightarrow> 's script \<Rightarrow> as_record \<Rightarrow> as_error \<times> 's \<Rightarrow> as_status \<times> zval \<times> as_error \<times> 's" where
  "execute_user_callback E f r st =
     (case st of
        (err, s) \<Rightarrow>
          (case as_record_to_zval E r None True err of
             (status, z_record, err) \<Rightarrow>
               if status \<noteq> AEROSPIKE_OK then (code err, ZNull, err, s)
               else
                 (case f z_record s of
                    (None, s) \<Rightarrow>
                      (AEROSPIKE_ERR_CLIENT, ZNull, err\<lparr>code := AEROSPIKE_ERR_CLIENT\<rparr>, s)
                  | (Some retval, s) \<Rightarrow> (AEROSPIKE_OK, retval, err, s))))"

definition user_callback_wrapper ::
  "'e conv_ext_scheme \<Rightarrow> 's script \<Rightarrow> as_record option \<Rightarrow> as_error \<times> 's \<Rightarrow> bool \<times> as_error \<times> 's" where
  "user_callback_wrapper E f val st =
     (case val of
        None \<Rightarrow> (False, st)
      | Some r \<Rightarrow>
          (case execute_user_callback E f r st of
             (status, retval, err, s) \<Rightarrow>
               if status \<noteq> AEROSPIKE_OK then
                 (False, as_error_update err AEROSPIKE_ERR_PARAM ''Callback raised an error'', s)
               else (retval \<noteq> ZFalse, err, s)))"

text \<open>The result of an aggregation is collected by the extension itself.\<close>

definition aggregate_callback_wrapper ::
  "'e conv_ext_scheme \<Rightarrow> as_val option \<Rightarrow> as_error \<times> htab \<Rightarrow> bool \<times> as_error \<times> htab" where
  "aggregate_callback_wrapper E val st =
     (case (val, st) of
        (None, _) \<Rightarrow> (False, st)
      | (Some v, err, aggregate_list) \<Rightarrow>
          (case as_val_to_zval E v ZNull err of
             (_, retval, err) \<Rightarrow>
               if code err \<noteq> AEROSPIKE_OK then (False, err, aggregate_list)
               else (True, err, add_next_index aggregate_list retval)))"

section \<open>scan\<close>

fun scan_select_bins ::
  "('s, 'z) scan_env_scheme \<Rightarrow> htab \<Rightarrow> user_scan \<Rightarrow> as_error \<Rightarrow> bool \<times> user_scan \<times> as_error" where
  "scan_select_bins V [] sc err = (True, sc, err)"
| "scan_select_bins V ((k, z) # h) sc err =
     (case z of
        ZString name \<Rightarrow> scan_select_bins V h (scan_select V sc (c_str name)) err
      | _ \<Rightarrow> (False, sc, as_error_update err AEROSPIKE_ERR_PARAM ''Bin names must be strings''))"

text \<open>
  The method ignores whether the scan could be made: \<open>None\<close>, it goes on with a structure that
  was never written.
\<close>

definition scan_method ::
  "bool \<Rightarrow> 'e conv_ext_scheme \<Rightarrow> ('s, 'z) scan_env_scheme \<Rightarrow> client \<Rightarrow>
     (string \<times> string \<times> 's script \<times> htab option \<times> zval option) option \<Rightarrow> 's \<Rightarrow>
     (as_status \<times> client \<times> 's) option" where
  "scan_method zts_build E V c args s =
     (let c = reset_client_error c;
          fail = (\<lambda>m. Some (AEROSPIKE_ERR_PARAM, update_client_error c AEROSPIKE_ERR_PARAM m False, s));
          cleanup = (\<lambda>err s. Some (code err, remember err c, s))
      in
      case check_object_and_connection c as_error_init of
        (st, err) \<Rightarrow>
          if st \<noteq> AEROSPIKE_OK then
            Some (code err, update_client_error c (code err) (message err) False, s)
          else
            (case (args, as_client c) of
               (Some (ns, set_name, f, select, z_policy), Some cfg) \<Rightarrow>
                 if ns = [] then fail ''Invalid namespace''
                 else
                   (case zval_to_as_policy_scan (scan_struct V) z_policy (cfg_scan cfg) of
                      (st, p) \<Rightarrow>
                        if st \<noteq> AEROSPIKE_OK then fail ''Invalid scan policy''
                        else
                          (case scan_init V (c_str ns) (c_str set_name) of
                             None \<Rightarrow> None
                           | Some sc \<Rightarrow>
                               (case set_scan_options_from_policy_hash zts_build sc z_policy of
                                  (st, sc) \<Rightarrow>
                                    if st \<noteq> AEROSPIKE_OK then
                                      cleanup (as_error_update err AEROSPIKE_ERR_PARAM ''Invalid scan options'') s
                                    else
                                      (case (case select of
                                               None \<Rightarrow> (True, sc, err)
                                             | Some [] \<Rightarrow> (True, sc, err)
                                             | Some bins \<Rightarrow>
                                                 scan_select_bins V bins (scan_select_inita V sc (length bins)) err) of
                                         (selected, sc, err) \<Rightarrow>
                                           if \<not> selected then cleanup err s
                                           else
                                             (case scan_foreach V cfg p sc (user_callback_wrapper E f) (err, s) of
                                                (err, s) \<Rightarrow> cleanup err s)))))
             | _ \<Rightarrow> fail ''Invalid arguments to scan''))"

section \<open>scanApply\<close>

text \<open>
  The options are written to the scan before it is initialised. The list of arguments is \<open>None\<close>
  when it could not be made although the conversion reports success.
\<close>

definition scanApply_run ::
  "'e conv_ext_scheme \<Rightarrow> ('s, 'z) scan_env_scheme \<Rightarrow> client \<Rightarrow> config \<Rightarrow> as_policy_scan \<Rightarrow>
     string \<Rightarrow> string \<Rightarrow> string \<Rightarrow> string \<Rightarrow> htab \<Rightarrow> as_error \<Rightarrow> 's \<Rightarrow> as_status \<times> zval option \<times> client \<times> 's" where
  "scanApply_run E V c cfg p ns set_name module fname args_list err s =
     (let cleanup = (\<lambda>out err s. (code err, Some out, remember err c, s)) in
      case z_hashtable_to_as_list E args_list None err (ucast (ini_serializer V)) of
        (st, as_args_list, err) \<Rightarrow>
          if st \<noteq> AEROSPIKE_OK then cleanup ZNull err s
          else
            (case scan_init V (c_str ns) (c_str set_name) of
               None \<Rightarrow> cleanup ZNull (as_error_update err AEROSPIKE_ERR_PARAM ''Unable to create scan'') s
             | Some sc \<Rightarrow>
                 (case scan_apply_each V sc (c_str module) (c_str fname) as_args_list of
                    None \<Rightarrow>
                      cleanup ZNull (as_error_update err AEROSPIKE_ERR_PARAM ''Failed to add UDF to scan'') s
                  | Some sc \<Rightarrow>
                      (case scan_background V cfg p sc s of
                         (err, scan_id, s) \<Rightarrow>
                           if code err \<noteq> AEROSPIKE_OK then cleanup ZNull err s
                           else
                             (case scan_wait V cfg scan_id s of
                                (err, s) \<Rightarrow>
                                  cleanup (if code err = AEROSPIKE_OK then ZLong scan_id else ZNull) err s)))))"

definition scanApply_method ::
  "bool \<Rightarrow> 'e conv_ext_scheme \<Rightarrow> ('s, 'z) scan_env_scheme \<Rightarrow> client \<Rightarrow>
     (string \<times> string \<times> string \<times> string \<times> htab \<times> zval option) option \<Rightarrow> 's \<Rightarrow>
     as_status \<times> zval option \<times> client \<times> 's" where
  "scanApply_method zts_build E V c args s =
     (let c = reset_client_error c;
          fail = (\<lambda>out m. (AEROSPIKE_ERR_PARAM, out, update_client_error c AEROSPIKE_ERR_PARAM m False, s))
      in
      case check_object_and_connection c as_error_init of
        (st, err) \<Rightarrow>
          if st \<noteq> AEROSPIKE_OK then
            (code err, None, update_client_error c (code err) (message err) False, s)
          else
            (case (args, as_client c) of
               (Some (ns, set_name, module, fname, args_list, z_policy), Some cfg) \<Rightarrow>
                 if ns = [] then fail (Some ZNull) ''Empty Namespace''
                 else if module = [] \<or> fname = [] then
                   fail (Some ZNull) ''Module and function must not be empty''
                 else
                   (case zval_to_as_policy_scan (scan_struct V) z_policy (cfg_scan cfg) of
                      (st, p) \<Rightarrow>
                        if st \<noteq> AEROSPIKE_OK then fail (Some ZNull) ''Invalid scan policy''
                        else
                          (case set_scan_options_from_policy_hash zts_build (scan_uninitialised V) z_policy of
                             (st, _) \<Rightarrow>
                               if st \<noteq> AEROSPIKE_OK then
                                 (let err = as_error_update err AEROSPIKE_ERR_PARAM ''Invalid scan options''
                                  in (code err, Some ZNull, remember err c, s))
                               else scanApply_run E V c cfg p ns set_name module fname args_list err s))
             | _ \<Rightarrow> fail None ''Invalid parameters to scanApply''))"

section \<open>apply\<close>

text \<open>
  The list of the arguments is empty without any. A null result that is asked for would be read
  through: \<open>None\<close>. The connection is checked before the error is reset.
\<close>

definition apply_arguments ::
  "'e conv_ext_scheme \<Rightarrow> htab option \<Rightarrow> as_error \<Rightarrow> cint \<Rightarrow> as_status \<times> as_list option \<times> as_error" where
  "apply_arguments E z_args err serializer_type =
     (case z_args of
        None \<Rightarrow> (AEROSPIKE_OK, arraylist_new E 0, err)
      | Some h \<Rightarrow> z_hashtable_to_as_list E h None err serializer_type)"

definition apply_method ::
  "'e conv_ext_scheme \<Rightarrow> ('s, 'z) scan_env_scheme \<Rightarrow> client \<Rightarrow>
     (htab \<times> string \<times> string \<times> htab option \<times> bool \<times> zval option) option \<Rightarrow> 's \<Rightarrow>
     (as_status \<times> zval option \<times> client \<times> 's) option" where
  "apply_method E V c args s =
     (case check_object_and_connection c as_error_init of
        (st, err) \<Rightarrow>
          if st \<noteq> AEROSPIKE_OK then Some (code err, None, remember err c, s)
          else
            (let c = reset_client_error c in
             case (args, as_client c) of
               (Some (z_key, module, fname, z_args, has_return, z_policy), Some cfg) \<Rightarrow>
                 (let out = (if has_return then Some ZNull else None);
                      cleanup = (\<lambda>out err s. Some (code err, out, remember err c, s))
                  in
                  case z_hashtable_to_as_key E z_key err of
                    (AEROSPIKE_OK, Some key, err) \<Rightarrow>
                      (case zval_to_as_policy_apply (apply_struct V) z_policy (cfg_apply cfg) of
                         (st, p) \<Rightarrow>
                           if st \<noteq> AEROSPIKE_OK then
                             cleanup out (as_error_update err AEROSPIKE_ERR_PARAM ''Invalid Policy.'') s
                           else
                             (case set_serializer_from_policy_hash (ini_serializer V) (ucast (ini_serializer V))
                                 z_policy of
                                (st, serializer_type) \<Rightarrow>
                                  if st \<noteq> AEROSPIKE_OK then
                                    cleanup out (as_error_update err AEROSPIKE_ERR_PARAM ''Invalid serializer type'') s
                                  else
                                    (case apply_arguments E z_args err serializer_type of
                                       (st, arg_list, err) \<Rightarrow>
                                         if st \<noteq> AEROSPIKE_OK then cleanup out err s
                                         else
                                           (case key_apply V cfg p key (c_str module) (c_str fname) arg_list s of
                                              (err, result, s) \<Rightarrow>
                                                if code err \<noteq> AEROSPIKE_OK \<or> \<not> has_return then cleanup out err s
                                                else
                                                  (case result of
                                                     None \<Rightarrow> None
                                                   | Some v \<Rightarrow>
                                                       (case as_val_to_zval E v ZNull err of
                                                          (st, z, err) \<Rightarrow>
                                                            cleanup (Some (if st \<noteq> AEROSPIKE_OK then ZNull else z))
                                                              err s))))))
                  | (_, _, err) \<Rightarrow> cleanup out (as_error_update err AEROSPIKE_ERR_PARAM ''Invalid key.'') s)
             | _ \<Rightarrow> Some (AEROSPIKE_ERR_PARAM, None,
                 update_client_error c AEROSPIKE_ERR_PARAM ''Invalid parameters for apply'' False, s)))"

section \<open>queryApply and aggregate\<close>

text \<open>What both do once the query is made: the where clause, the arguments and the function.\<close>

definition query_with_function ::
  "'e query_ext_scheme \<Rightarrow> ('s, 'z) scan_env_scheme \<Rightarrow> bool \<Rightarrow> string \<Rightarrow> as_query \<Rightarrow> htab \<Rightarrow> string \<Rightarrow> string \<Rightarrow>
     htab \<Rightarrow> as_error \<Rightarrow> as_query option \<times> as_error" where
  "query_with_function E V by_code m q predicate_array module fname z_udf_args err =
     (case (if predicate_array = [] then (AEROSPIKE_OK, q, err)
            else add_predicate_to_query E q predicate_array err) of
        (st, q, err) \<Rightarrow>
          if st \<noteq> AEROSPIKE_OK then (None, err)
          else
            (case z_hashtable_to_as_list E z_udf_args None err (ucast (ini_serializer V)) of
               (st, as_args_list, err) \<Rightarrow>
                 if (if by_code then code err else st) \<noteq> AEROSPIKE_OK then (None, err)
                 else
                   (case query_apply V q (c_str module) (c_str fname) as_args_list of
                      None \<Rightarrow> (None, as_error_update err AEROSPIKE_ERR_CLIENT m)
                    | Some q \<Rightarrow> (Some q, err))))"

text \<open>
  \<open>queryApply\<close> tests the status the conversion of the arguments returns, \<open>aggregate\<close> the code of
  the error structure.
\<close>

definition queryApply_method ::
  "'e query_ext_scheme \<Rightarrow> ('s, 'z) scan_env_scheme \<Rightarrow> client \<Rightarrow>
     (string \<times> string \<times> htab \<times> string \<times> string \<times> htab \<times> zval option) option \<Rightarrow> 's \<Rightarrow>
     as_status \<times> zval option \<times> client \<times> 's" where
  "queryApply_method E V c args s =
     (let c = reset_client_error c;
          fail = (\<lambda>out m. (AEROSPIKE_ERR_PARAM, out, update_client_error c AEROSPIKE_ERR_PARAM m False, s));
          cleanup = (\<lambda>out err s. (code err, Some out, remember err c, s))
      in
      case check_object_and_connection c as_error_init of
        (st, err) \<Rightarrow>
          if st \<noteq> AEROSPIKE_OK then
            (code err, None, update_client_error c (code err) (message err) False, s)
          else
            (case (args, as_client c) of
               (Some (ns, set_name, predicate_array, module, fname, z_udf_args, z_policy), Some cfg) \<Rightarrow>
                 if ns = [] then fail (Some ZNull) ''Invalid namespace''
                 else
                   (case zval_to_as_policy_write (write_struct V) z_policy (cfg_write cfg) of
                      (st, p) \<Rightarrow>
                        if st \<noteq> AEROSPIKE_OK then fail (Some ZNull) ''Invalid policy''
                        else
                          (case query_new V (c_str ns) (c_str set_name) of
                             None \<Rightarrow>
                               cleanup ZNull (as_error_update err AEROSPIKE_ERR_PARAM ''Unable to create query'') s
                           | Some q \<Rightarrow>
                               (case query_with_function E V False ''Failed to initialize arguments'' q
                                   predicate_array module fname z_udf_args err of
                                  (None, err) \<Rightarrow> cleanup ZNull err s
                                | (Some q, err) \<Rightarrow>
                                    (case query_background V cfg p q s of
                                       (err, job_id, s) \<Rightarrow>
                                         cleanup (if code err = AEROSPIKE_OK then ZLong job_id else ZNull) err s))))
             | _ \<Rightarrow> fail None ''Invalid arguments to queryApply''))"

definition aggregate_method ::
  "bool \<Rightarrow> 'e query_ext_scheme \<Rightarrow> ('s, 'z) scan_env_scheme \<Rightarrow> client \<Rightarrow>
     (string \<times> string \<times> htab \<times> string \<times> string \<times> htab \<times> zval option) option \<Rightarrow> 's \<Rightarrow>
     as_status \<times> zval option \<times> client \<times> 's" where
  "aggregate_method zts_build E V c args s =
     (let c = reset_client_error c;
          fail = (\<lambda>out m. (AEROSPIKE_ERR_PARAM, out, update_client_error c AEROSPIKE_ERR_PARAM m False, s));
          cleanup = (\<lambda>out err s. (code err, Some out, remember err c, s))
      in
      if zts_build then
        (AEROSPIKE_ERR_CLIENT, None,
         update_client_error c AEROSPIKE_ERR_CLIENT ''aggregate is not supported in ZTS environments'' False, s)
      else
        (case check_object_and_connection c as_error_init of
           (st, err) \<Rightarrow>
             if st \<noteq> AEROSPIKE_OK then
               (code err, None, update_client_error c (code err) (message err) False, s)
             else
               (case (args, as_client c) of
                  (Some (ns, set_name, predicate_array, module, fname, z_udf_args, z_policy), Some cfg) \<Rightarrow>
                    if ns = [] then fail (Some ZNull) ''Invalid namespace''
                    else if module = [] then fail (Some ZNull) ''Invalid module name''
                    else if fname = [] then fail (Some ZNull) ''Invalid function name''
                    else
                      (let p = (case z_policy of
                             None \<Rightarrow> None
                           | Some ZNull \<Rightarrow> None
                           | Some z \<Rightarrow> Some (zval_to_as_policy_query (query_struct V) (Some z) (cfg_query cfg)))
                       in
                       if (case p of Some (st, _) \<Rightarrow> st \<noteq> AEROSPIKE_OK | None \<Rightarrow> False) then
                         fail (Some ZNull) ''Invalid query policy''
                       else
                         (case query_new V (c_str ns) (c_str set_name) of
                            None \<Rightarrow>
                              cleanup ZNull (as_error_update err AEROSPIKE_ERR_PARAM ''Unable to create query'') s
                          | Some q \<Rightarrow>
                              (case query_with_function E V True ''Unable to initialize Argument list'' q
                                  predicate_array module fname z_udf_args err of
                                 (None, err) \<Rightarrow> cleanup ZNull err s
                               | (Some q, err) \<Rightarrow>
                                   (case query_values V cfg (map_option snd p) q (aggregate_callback_wrapper E)
                                       (err, []) s of
                                      ((err, result), s) \<Rightarrow> cleanup (ZArray result) err s))))
                | _ \<Rightarrow> fail None ''Invalid Parameters to aggregate'')))"

section \<open>jobInfo and scanInfo\<close>

definition info_array :: "'e conv_ext_scheme \<Rightarrow> job_info \<Rightarrow> zval" where
  "info_array E i =
     (let h = add_assoc_zval E [] ''progress_pct'' (ZLong (ucast (progress_pct i)));
          h = add_assoc_zval E h ''records_read'' (ZLong (ucast (records_read i)))
      in ZArray (add_assoc_zval E h ''status'' (ZLong (ucast (job_status i)))))"

definition jobInfo_method ::
  "'e conv_ext_scheme \<Rightarrow> ('s, 'z) scan_env_scheme \<Rightarrow> client \<Rightarrow> (zlong \<times> string \<times> zval option) option \<Rightarrow> 's \<Rightarrow>
     as_status \<times> zval option \<times> client \<times> 's" where
  "jobInfo_method E V c args s =
     (let c = reset_client_error c;
          fail = (\<lambda>out m. (AEROSPIKE_ERR_PARAM, out, update_client_error c AEROSPIKE_ERR_PARAM m False, s))
      in
      case check_object_and_connection c as_error_init of
        (st, err) \<Rightarrow>
          if st \<noteq> AEROSPIKE_OK then
            (code err, None, update_client_error c (code err) (message err) (in_doubt err), s)
          else
            (case (args, as_client c) of
               (Some (job_id, module, z_policy), Some cfg) \<Rightarrow>
                 if \<not> strcmp0 module ''query'' \<and> \<not> strcmp0 module ''scan'' then
                   fail (Some ZNull) ''Module argument must be query or scan''
                 else
                   (case zval_to_as_policy_info (info_struct V) z_policy (cfg_info cfg) of
                      (st, p) \<Rightarrow>
                        if st \<noteq> AEROSPIKE_OK then fail (Some ZNull) ''Invalid policy.''
                        else
                          (case server_job_info V cfg p (c_str module) job_id s of
                             (err, info, s) \<Rightarrow>
                               (code err, Some (if code err \<noteq> AEROSPIKE_OK then ZNull else info_array E info),
                                remember err c, s)))
             | _ \<Rightarrow> fail None ''Invalid arguments to job_info.''))"

definition scanInfo_method ::
  "'e conv_ext_scheme \<Rightarrow> ('s, 'z) scan_env_scheme \<Rightarrow> client \<Rightarrow> (zlong \<times> zval option) option \<Rightarrow> 's \<Rightarrow>
     as_status \<times> zval option \<times> client \<times> 's" where
  "scanInfo_method E V c args s =
     (let c = reset_client_error c;
          fail = (\<lambda>out m. (AEROSPIKE_ERR_PARAM, out, update_client_error c AEROSPIKE_ERR_PARAM m False, s))
      in
      case check_object_and_connection c as_error_init of
        (st, err) \<Rightarrow>
          if st \<noteq> AEROSPIKE_OK then
            (code err, None, update_client_error c (code err) (message err) False, s)
          else
            (case (args, as_client c) of
               (Some (scan_id, z_policy), Some cfg) \<Rightarrow>
                 (case zval_to_as_policy_info (info_struct V) z_policy (cfg_info cfg) of
                    (st, p) \<Rightarrow>
                      if st \<noteq> AEROSPIKE_OK then fail (Some ZNull) ''Invalid policy.''
                      else
                        (case server_scan_info V cfg p scan_id s of
                           (err, info, s) \<Rightarrow>
                             if code err \<noteq> AEROSPIKE_OK then
                               (code err, Some ZNull, update_client_error c (code err) (message err) (in_doubt err), s)
                             else (code err, Some (info_array E info), c, s)))
             | _ \<Rightarrow> fail None ''Invalid arguments to scan apply.''))"

end
