(* ===== verification/Batch.thy ===== *)
theory Batch
  imports Scans
begin

text \<open>
  The methods on many records, \<open>getMany\<close> of \<open>client/get_many.c\<close> and \<open>existsMany\<close> of
  \<open>client/exists_many.c\<close>. Arguments and results are as in \<open>KeyValue\<close>.
\<close>

text \<open>
  One entry of a batch: the key, the bins to read (\<open>None\<close>: all) and, after the call, the status
  and the record.
\<close>

record batch_read_record =
  br_key :: as_key
  br_bins :: "string list option"

record batch_result =
  res_key :: "as_key option"
  res_status :: as_status
  res_record :: as_record

record 's batch_env = "'s scan_env" +
  batch_struct :: "as_policy_batch policy_struct"
  batch_read :: "config \<Rightarrow> as_policy_batch option \<Rightarrow> batch_read_record list \<Rightarrow> 's \<Rightarrow>
    as_error \<times> batch_result list \<times> 's"
  batch_exists :: "config \<Rightarrow> as_policy_batch option \<Rightarrow> as_key list \<Rightarrow>
    (batch_result list \<Rightarrow> as_error \<times> htab \<Rightarrow> bool \<times> as_error \<times> htab) \<Rightarrow> as_error \<times> htab \<Rightarrow> 's \<Rightarrow>
    (as_error \<times> htab) \<times> 's"

section \<open>getMany\<close>

text \<open>The keys, or the error of the first that is none; its code may still be \<open>AEROSPIKE_OK\<close>.\<close>

fun batch_keys ::
  "'e conv_ext_scheme \<Rightarrow> string \<Rightarrow> htab \<Rightarrow> as_error \<Rightarrow> as_error + as_key list \<times> as_error" where
  "batch_keys E m [] err = Inr ([], err)"
| "batch_keys E m ((i, z) # h) err =
     (case z of
        ZArray z_key \<Rightarrow>
          (case z_hashtable_to_as_key E z_key err of
             (AEROSPIKE_OK, Some key, err) \<Rightarrow>
               (case batch_keys E m h err of
                  Inl err \<Rightarrow> Inl err
                | Inr (keys, err) \<Rightarrow> Inr (key # keys, err))
           | (_, _, err) \<Rightarrow> Inl err)
      | _ \<Rightarrow> Inl (as_error_update err AEROSPIKE_ERR_PARAM m))"

text \<open>One record of the answer: the error structure after it, and its entry.\<close>

definition batch_entry ::
  "'e conv_ext_scheme \<Rightarrow> batch_result \<Rightarrow> as_error \<Rightarrow> as_status \<times> zval \<times> as_error" where
  "batch_entry E b err =
     (if res_status b = AEROSPIKE_ERR_RECORD_NOT_FOUND then
        (case as_key_to_zval E (res_key b) True err of
           (st, z_key, err) \<Rightarrow>
             if st \<noteq> AEROSPIKE_OK then (st, ZUndef, err)
             else
               (let h = add_assoc_zval E [] ''key'' z_key;
                    h = add_assoc_zval E h ''metadata'' ZNull
                in (AEROSPIKE_OK, ZArray (add_assoc_zval E h ''bins'' ZNull), err)))
      else as_record_to_zval E (res_record b) (res_key b) True err)"

fun batch_entries ::
  "'e conv_ext_scheme \<Rightarrow> batch_result list \<Rightarrow> htab \<Rightarrow> as_error \<Rightarrow> htab \<times> as_error" where
  "batch_entries E [] h err = (h, err)"
| "batch_entries E (b # bs) h err =
     (case batch_entry E b err of
        (st, z, err) \<Rightarrow>
          if st \<noteq> AEROSPIKE_OK then (h, err) else batch_entries E bs (add_next_index h z) err)"

definition get_many_with_batch_read ::
  "'e conv_ext_scheme \<Rightarrow> ('s, 'z) batch_env_scheme \<Rightarrow> config \<Rightarrow> as_error \<Rightarrow> as_policy_batch option \<Rightarrow>
     string list option \<Rightarrow> htab \<Rightarrow> 's \<Rightarrow> zval \<times> as_error \<times> 's" where
  "get_many_with_batch_read E V cfg err p bins z_keys s =
     (let cleanup = (\<lambda>h err s. (if code err \<noteq> AEROSPIKE_OK then ZNull else ZArray h, err, s)) in
      case batch_keys E ''Keys must be arrays'' z_keys err of
        Inl err \<Rightarrow> cleanup [] err s
      | Inr (keys, err) \<Rightarrow>
          (case batch_read V cfg p (map (\<lambda>k. \<lparr>br_key = k, br_bins = bins\<rparr>) keys) s of
             (err, results, s) \<Rightarrow>
               if code err \<noteq> AEROSPIKE_OK then cleanup [] err s
               else (case batch_entries E results [] err of (h, err) \<Rightarrow> cleanup h err s)))"

definition getMany_method ::
  "'e conv_ext_scheme \<Rightarrow> ('s, 'z) batch_env_scheme \<Rightarrow> client \<Rightarrow>
     (htab \<times> htab option \<times> zval option) option \<Rightarrow> 's \<Rightarrow> as_status \<times> zval option \<times> client \<times> 's" where
  "getMany_method E V c args s =
     (let c = reset_client_error c;
          fail = (\<lambda>out m. (AEROSPIKE_ERR_PARAM, out, update_client_error c AEROSPIKE_ERR_PARAM m False, s));
          cleanup = (\<lambda>out err s. (code err, Some out, remember err c, s))
      in
      case check_object_and_connection c as_error_init of
        (st, err) \<Rightarrow>
          if st \<noteq> AEROSPIKE_OK then
            (code err, None, update_client_error c (code err) (message err) (in_doubt err), s)
          else
            (case (args, as_client c) of
               (Some (z_keys, z_filter, z_policy), Some cfg) \<Rightarrow>
                 (let p = map_option (\<lambda>z. zval_to_as_policy_batch (batch_struct V) (Some z) (cfg_batch cfg)) z_policy
                  in
                  if (case p of Some (st, _) \<Rightarrow> st \<noteq> AEROSPIKE_OK | None \<Rightarrow> False) then
                    fail (Some ZNull) ''Invalid batch policy''
                  else
                    (let run = (\<lambda>bins.
                           case get_many_with_batch_read E V cfg err (map_option snd p) bins z_keys s of
                             (z, err, s) \<Rightarrow> cleanup z err s)
                     in
                     case z_filter of
                       None \<Rightarrow> run None
                     | Some [] \<Rightarrow> run None
                     | Some h \<Rightarrow>
                         (case filter_bins E h of
                            Inl m \<Rightarrow> cleanup ZNull (as_error_update err AEROSPIKE_ERR_PARAM m) s
                          | Inr names \<Rightarrow> run (Some names))))
             | _ \<Rightarrow> fail None ''Invalid parameters to getMany''))"

section \<open>existsMany\<close>

text \<open>The loop of \<open>exists_callback\<close> over the results.\<close>

fun exists_callback ::
  "'e conv_ext_scheme \<Rightarrow> batch_result list \<Rightarrow> as_error \<times> htab \<Rightarrow> bool \<times> as_error \<times> htab" where
  "exists_callback E [] st = (True, st)"
| "exists_callback E (b # bs) (err, metadata) =
     (if res_status b \<noteq> AEROSPIKE_OK \<and> res_status b \<noteq> AEROSPIKE_ERR_RECORD_NOT_FOUND then
        (False, as_error_update err AEROSPIKE_ERR_CLIENT ''existsMany failed'', metadata)
      else
        (case res_key b of
           None \<Rightarrow>
             (False, as_error_update err AEROSPIKE_ERR_CLIENT ''existsMany returned a null key'', metadata)
         | Some key \<Rightarrow>
             (case as_key_to_zval E (Some key) True err of
                (st, key_entry, err) \<Rightarrow>
                  if st \<noteq> AEROSPIKE_OK then (False, err, metadata)
                  else
                    (case (if res_status b = AEROSPIKE_OK then
                             as_record_to_z_metadata E (res_record b) (ZArray []) err
                           else (AEROSPIKE_OK, ZNull, err)) of
                       (st, meta_entry, err) \<Rightarrow>
                         if st \<noteq> AEROSPIKE_OK then (False, err, metadata)
                         else
                           exists_callback E bs
                             (err, add_next_index metadata (ZArray
                               (add_assoc_zval E (add_assoc_zval E [] ''key'' key_entry) ''metadata'' meta_entry)))))))"

text \<open>The connection is checked before the remembered error is reset.\<close>

definition existsMany_method ::
  "'e conv_ext_scheme \<Rightarrow> ('s, 'z) batch_env_scheme \<Rightarrow> client \<Rightarrow> (htab \<times> zval option) option \<Rightarrow> 's \<Rightarrow>
     as_status \<times> zval option \<times> client \<times> 's" where
  "existsMany_method E V c args s =
     (case check_object_and_connection c as_error_init of
        (st, err) \<Rightarrow>
          if st \<noteq> AEROSPIKE_OK then (code err, None, remember err c, s)
          else
            (let c = reset_client_error c; cleanup = (\<lambda>out err s. (code err, out, remember err c, s)) in
             case (args, as_client c) of
               (Some (z_key_array, z_policy), Some cfg) \<Rightarrow>
                 (let p = map_option (\<lambda>z. zval_to_as_policy_batch (batch_struct V) (Some z) (cfg_batch cfg)) z_policy
                  in
                  if (case p of Some (st, _) \<Rightarrow> st \<noteq> AEROSPIKE_OK | None \<Rightarrow> False) then
                    cleanup (Some ZNull) (as_error_update err AEROSPIKE_ERR_PARAM ''Invalid batch policy'') s
                  else
                    (case batch_keys E ''Invalid Key'' z_key_array err of
                       Inl err \<Rightarrow> cleanup (Some ZNull) err s
                     | Inr (keys, err) \<Rightarrow>
                         (case batch_exists V cfg (map_option snd p) keys (exists_callback E) (err, []) s of
                            ((err, metadata), s) \<Rightarrow>
                              cleanup (Some (if code err \<noteq> AEROSPIKE_OK then ZNull else ZArray metadata)) err s)))
             | _ \<Rightarrow> cleanup None
                 (as_error_update err AEROSPIKE_ERR_PARAM ''Invalid arguments to existsMany'') s))"

end
