(* ===== verification/SampleCalls.thy ===== *)
theory SampleCalls
  imports Batch ListProps
begin

text \<open>
  The concrete server of \<open>SampleEnv\<close> with the calls on many records: scans and batches over the
  stored records, and background jobs that end at once.
\<close>

definition sample_scan_of :: "string \<Rightarrow> string \<Rightarrow> user_scan" where
  "sample_scan_of ns set_name = \<lparr>scan_concurrent = False, scan_no_bins = False, s_ns = ns, s_set = set_name,
     s_select = [], s_apply = None\<rparr>"

definition absent_record :: "as_key \<Rightarrow> as_record" where
  "absent_record k = \<lparr>rec_bins = [], rec_gen = 0, rec_ttl = 0, rec_key = k, rec_capacity = 0\<rparr>"

definition sample_result :: "store \<Rightarrow> as_key \<Rightarrow> batch_result" where
  "sample_result s k = (case map_of s (record_id k) of
     Some r \<Rightarrow> \<lparr>res_key = Some k, res_status = AEROSPIKE_OK, res_record = r\<rparr>
   | None \<Rightarrow> \<lparr>res_key = Some k, res_status = AEROSPIKE_ERR_RECORD_NOT_FOUND, res_record = absent_record k\<rparr>)"

text \<open>The walk of a scan: the callback is called on each record until it stops, at the end without one.\<close>

fun walk :: "('r option \<Rightarrow> 'st \<Rightarrow> bool \<times> 'st) \<Rightarrow> 'r list \<Rightarrow> 'st \<Rightarrow> 'st" where
  "walk cb [] st = snd (cb None st)"
| "walk cb (r # rs) st = (case cb (Some r) st of (go, st) \<Rightarrow> if go then walk cb rs st else st)"

definition sample_batch_env :: "store batch_env" where
  "sample_batch_env = scan_env.extend (list_env.extend sample_list_env \<lparr>
     scan_struct = sample_struct (sample_scan 1000), apply_struct = sample_struct (sample_apply 1000),
     info_struct = sample_struct \<lparr>in_timeout = 1000, in_rest = 0\<rparr>,
     scan_uninitialised = sample_scan_of [] [],
     scan_init = (\<lambda>ns set_name. Some (sample_scan_of ns set_name)),
     scan_select_inita = (\<lambda>sc n. sc),
     scan_select = (\<lambda>sc name. sc\<lparr>s_select := s_select sc @ [name]\<rparr>),
     scan_apply_each = (\<lambda>sc module fname l. Some (sc\<lparr>s_apply := Some (module, fname, l)\<rparr>)),
     query_apply = (\<lambda>q module fname l. Some q),
     scan_foreach = (\<lambda>cfg p sc cb st. walk cb (map snd (snd st)) st),
     query_values = (\<lambda>cfg p q cb st s. (walk cb [AsInteger (of_nat (length s))] st, s)),
     scan_background = (\<lambda>cfg p sc s. (as_error_init, 1, s)),
     scan_wait = (\<lambda>cfg n s. (as_error_init, s)),
     query_background = (\<lambda>cfg p q s. (as_error_init, 2, s)),
     key_apply = (\<lambda>cfg p k module fname l s. (as_error_init, Some (AsInteger 0), s)),
     server_job_info = (\<lambda>cfg p module n s. (as_error_init, \<lparr>progress_pct = 100, records_read = 0, job_status = 2\<rparr>, s)),
     server_scan_info = (\<lambda>cfg p n s. (as_error_init, \<lparr>progress_pct = 100, records_read = 0, job_status = 2\<rparr>, s))\<rparr>)
   \<lparr>batch_struct = sample_struct (sample_batch 1000),
     batch_read = (\<lambda>cfg p rs s. (as_error_init, map (\<lambda>r. sample_result s (br_key r)) rs, s)),
     batch_exists = (\<lambda>cfg p ks cb st s. (snd (cb (map (sample_result s) ks) st), s))\<rparr>"

lemmas sample_extensions = sample_batch_env_def scan_env.defs list_env.defs env.defs sample_list_env_def

lemma sample_batch_calls [simp]:
  "batch_read sample_batch_env cfg p rs s = (as_error_init, map (\<lambda>r. sample_result s (br_key r)) rs, s)"
  "batch_exists sample_batch_env cfg p' ks cb st s = (snd (cb (map (sample_result s) ks) st), s)"
  "scan_init sample_batch_env ns set_name = Some (sample_scan_of ns set_name)"
  "scan_foreach sample_batch_env cfg q sc scan_cb scan_st = walk scan_cb (map snd (snd scan_st)) scan_st"
  "scan_struct sample_batch_env = sample_struct (sample_scan 1000)"
  "scan_apply_each sample_batch_env sc module fname l = Some (sc\<lparr>s_apply := Some (module, fname, l)\<rparr>)"
  "query_apply sample_batch_env query module fname l = Some query"
  "query_values sample_batch_env cfg pq query query_cb query_st s =
    (walk query_cb [AsInteger (of_nat (length s))] query_st, s)"
  "query_background sample_batch_env cfg pw query s = (as_error_init, 2, s)"
  "query_new sample_batch_env ns set_name = Some (sample_new_query\<lparr>q_ns := ns, q_set := set_name\<rparr>)"
  by (simp_all add: sample_extensions sample_env_def)

lemma sample_query_lists [simp]: "list_api sample_query_ext" "hashmap_new sample_query_ext n = Some []"
  by (simp_all add: list_api_def sample_query_ext_def conv_ext.defs sample_ext_def)

definition sample_record :: as_record where
  "sample_record = \<lparr>rec_bins = [(''age'', AsInteger 42)], rec_gen = 3, rec_ttl = 60, rec_key = sample_as_key,
     rec_capacity = 1\<rparr>"

definition sample_store :: store where
  "sample_store = [(record_id sample_as_key, sample_record)]"

end
