(* ===== verification/BatchProps.thy ===== *)
theory BatchProps
  imports SampleCalls
begin

text \<open>
  Properties of \<open>getMany\<close> and \<open>existsMany\<close>: what the arrays they return hold, and what a key
  without a value does to them.
\<close>

section \<open>The entries of the answer\<close>

definition bins_value :: "'e conv_ext_scheme \<Rightarrow> (string \<times> as_val) list \<Rightarrow> htab option" where
  "bins_value E bs = map_option (\<lambda>kvs. zend.fill kvs [])
     (those (map (\<lambda>b. map_option (Pair (assoc_key E (fst b))) (php_value E (snd b))) bs))"

definition metadata_value :: "as_record \<Rightarrow> zval" where
  "metadata_value r = ZArray [(SKey ''ttl'', ZLong (ucast (rec_ttl r))), (SKey ''generation'', ZLong (ucast (rec_gen r)))]"

definition readable :: "'e conv_ext_scheme \<Rightarrow> batch_result \<Rightarrow> bool" where
  "readable E b \<longleftrightarrow> (case res_key b of Some k \<Rightarrow> nul_free (key_ns k) \<and> key_ns k \<noteq> [] | None \<Rightarrow> False) \<and>
     (res_status b = AEROSPIKE_ERR_RECORD_NOT_FOUND \<or> bins_value E (rec_bins (res_record b)) \<noteq> None)"

text \<open>The namespace stands for the key, of which the other entries are read in \<open>KeyProps\<close>.\<close>

definition shows_key :: "batch_result \<Rightarrow> htab \<Rightarrow> bool" where
  "shows_key b zk \<longleftrightarrow> (\<exists>k. res_key b = Some k \<and> str_find zk ''ns'' = Some (ZString (key_ns k)))"

definition shows_record :: "'e conv_ext_scheme \<Rightarrow> batch_result \<Rightarrow> zval \<Rightarrow> bool" where
  "shows_record E b z \<longleftrightarrow> (\<exists>zk. shows_key b zk \<and> z = ZArray
     (if res_status b = AEROSPIKE_ERR_RECORD_NOT_FOUND then
        [(SKey ''key'', ZArray zk), (SKey ''metadata'', ZNull), (SKey ''bins'', ZNull)]
      else
        [(SKey ''key'', ZArray zk), (SKey ''metadata'', metadata_value (res_record b)),
         (SKey ''bins'', ZArray (the (bins_value E (rec_bins (res_record b)))))]))"

definition shows_metadata :: "'e conv_ext_scheme \<Rightarrow> batch_result \<Rightarrow> zval \<Rightarrow> bool" where
  "shows_metadata E b z \<longleftrightarrow> (\<exists>zk. shows_key b zk \<and> z = ZArray [(SKey ''key'', ZArray zk), (SKey ''metadata'',
     if res_status b = AEROSPIKE_OK then metadata_value (res_record b) else ZNull)])"

definition indexed :: "zval list \<Rightarrow> htab" where
  "indexed zs = zip (map (\<lambda>i. IKey (of_nat i)) [0..<length zs]) zs"

lemma indexed_Nil [simp]: "indexed [] = []"
  by (simp add: indexed_def)

lemma add_next_indexed: "add_next_index (indexed zs) z = indexed (zs @ [z])"
  by (simp add: indexed_def add_next_index_def)

lemma as_bins_value:
  "bins_value E (rec_bins r) = Some h \<Longrightarrow> code err = AEROSPIKE_OK \<Longrightarrow>
   as_bins_to_zval E r err = (AEROSPIKE_OK, ZArray h, err)"
  using bins_entries_eq [of err E "rec_bins r" _ "[]"] by (auto simp: bins_value_def as_bins_to_zval_def)

lemma key_entry:
  assumes "keywords_plain E" "res_key b = Some k" "nul_free (key_ns k)" "key_ns k \<noteq> []"
  shows "\<exists>zk. as_key_to_zval E (Some k) True err = (AEROSPIKE_OK, ZArray zk, err) \<and> shows_key b zk"
  using assms
  by (auto simp: as_key_to_zval_def Let_def add_assoc_zval_def assoc_keywords [OF assms(1)]
      pk_entry_def hash_simps strlen_def shows_key_def split: option.splits as_val.splits)

lemma batch_entry_shows:
  assumes kw: "keywords_plain E" and b: "readable E b" and ok: "code err = AEROSPIKE_OK"
  shows "\<exists>z. batch_entry E b err = (AEROSPIKE_OK, z, err) \<and> shows_record E b z"
proof -
  from b obtain k where k: "res_key b = Some k" "nul_free (key_ns k)" "key_ns k \<noteq> []"
    by (auto simp: readable_def split: option.splits)
  show ?thesis
  proof (cases "res_status b = AEROSPIKE_ERR_RECORD_NOT_FOUND")
    case True
    with key_entry [OF kw k, of err] k(1) show ?thesis
      by (auto simp: batch_entry_def shows_record_def add_assoc_zval_def assoc_keywords [OF kw] hash_simps)
  next
    case False
    with b obtain h where h: "bins_value E (rec_bins (res_record b)) = Some h"
      by (auto simp: readable_def)
    from record_to_zval_shape [OF kw ok as_bins_value [OF h ok] k(2,3), of True] False k(1) h show ?thesis
      by (auto simp: batch_entry_def shows_record_def shows_key_def metadata_value_def)
  qed
qed

lemma batch_entries_show:
  assumes kw: "keywords_plain E" and ok: "code err = AEROSPIKE_OK"
  shows "\<forall>b \<in> set bs. readable E b \<Longrightarrow>
    \<exists>zs. batch_entries E bs (indexed zs\<^sub>0) err = (indexed (zs\<^sub>0 @ zs), err) \<and> list_all2 (shows_record E) bs zs"
proof (induction bs arbitrary: zs\<^sub>0)
  case Nil
  then show ?case by simp
next
  case (Cons b bs)
  from Cons.prems batch_entry_shows [OF kw _ ok, of b] obtain z where
    z: "batch_entry E b err = (AEROSPIKE_OK, z, err)" "shows_record E b z" by auto
  from Cons.IH [of "zs\<^sub>0 @ [z]"] Cons.prems obtain zs where
    "batch_entries E bs (indexed (zs\<^sub>0 @ [z])) err = (indexed (zs\<^sub>0 @ z # zs), err)" "list_all2 (shows_record E) bs zs"
    by auto
  with z show ?case by (intro exI [of _ "z # zs"]) (simp add: add_next_indexed)
qed

lemma metadata_entry:
  assumes "keywords_plain E"
  shows "as_record_to_z_metadata E r (ZArray []) err = (AEROSPIKE_OK, metadata_value r, err)"
  by (simp add: as_record_to_z_metadata_def metadata_value_def add_assoc_zval_def assoc_keywords [OF assms] hash_simps)

lemma exists_callback_shows:
  assumes kw: "keywords_plain E"
  shows "\<forall>b \<in> set bs. readable E b \<and> res_status b \<in> {AEROSPIKE_OK, AEROSPIKE_ERR_RECORD_NOT_FOUND} \<Longrightarrow>
    \<exists>zs. exists_callback E bs (err, indexed zs\<^sub>0) = (True, err, indexed (zs\<^sub>0 @ zs)) \<and>
      list_all2 (shows_metadata E) bs zs"
proof (induction bs arbitrary: zs\<^sub>0)
  case Nil
  then show ?case by simp
next
  case (Cons b bs)
  then have b: "readable E b" "res_status b = AEROSPIKE_OK \<or> res_status b = AEROSPIKE_ERR_RECORD_NOT_FOUND"
    by auto
  then obtain k where k: "res_key b = Some k" "nul_free (key_ns k)" "key_ns k \<noteq> []"
    by (auto simp: readable_def split: option.splits)
  from key_entry [OF kw k, of err] obtain zk where
    zk: "as_key_to_zval E (Some k) True err = (AEROSPIKE_OK, ZArray zk, err)" "shows_key b zk" by auto
  define z where "z = ZArray [(SKey ''key'', ZArray zk), (SKey ''metadata'',
     if res_status b = AEROSPIKE_OK then metadata_value (res_record b) else ZNull)]"
  from Cons.IH [of "zs\<^sub>0 @ [z]"] Cons.prems obtain zs where
    "exists_callback E bs (err, indexed (zs\<^sub>0 @ [z])) = (True, err, indexed (zs\<^sub>0 @ z # zs))"
    "list_all2 (shows_metadata E) bs zs" by auto
  moreover have "shows_metadata E b z" using zk(2) by (auto simp: shows_metadata_def z_def)
  ultimately show ?case using zk(1) b(2) k(1)
    by (intro exI [of _ "z # zs"]) (auto simp: metadata_entry [OF kw] z_def add_assoc_zval_def assoc_keywords [OF kw]
        hash_simps add_next_indexed)
qed

section \<open>The keys\<close>

definition key_of :: "'e conv_ext_scheme \<Rightarrow> php_key \<times> zval \<Rightarrow> as_key \<Rightarrow> bool" where
  "key_of E x k \<longleftrightarrow> (\<exists>h. snd x = ZArray h \<and>
     z_hashtable_to_as_key E h as_error_init = (AEROSPIKE_OK, Some k, as_error_init))"

lemma batch_keys_ok:
  "list_all2 (key_of E) z_keys keys \<Longrightarrow> batch_keys E m z_keys as_error_init = Inr (keys, as_error_init)"
proof (induction rule: list_all2_induct)
  case (Cons x xs k ks)
  then show ?case by (cases x) (auto simp: key_of_def)
qed simp

lemma batch_keys_stop:
  assumes "list_all2 (key_of E) before keys" "z_hashtable_to_as_key E h as_error_init = (st, None, as_error_init)"
  shows "batch_keys E m (before @ (i, ZArray h) # after) as_error_init = Inl as_error_init"
  using assms(1)
proof (induction rule: list_all2_induct)
  case Nil
  with assms(2) show ?case by (auto split: as_status.split)
next
  case (Cons x xs k ks)
  then show ?case by (cases x) (auto simp: key_of_def)
qed

section \<open>getMany and existsMany\<close>

text \<open>
  C27. \<open>getMany\<close> without options asks for all keys in one call, in their order, and returns one
  entry for each key, in that order: key, metadata and bins of the record, or the key with null
  metadata and bins when there is no such record.
\<close>

theorem getMany_in_order:
  assumes c: "usable c" "as_client c = Some cfg" and kw: "keywords_plain E"
    and keys: "list_all2 (key_of E) z_keys keys"
    and call: "batch_read V cfg None (map (\<lambda>k. \<lparr>br_key = k, br_bins = None\<rparr>) keys) s = (as_error_init, results, s')"
    and results: "map res_key results = map Some keys" "\<forall>b \<in> set results. readable E b"
  shows "\<exists>zs. getMany_method E V c (Some (z_keys, None, None)) s =
      (AEROSPIKE_OK, Some (ZArray (indexed zs)), reset_client_error c, s') \<and>
    length zs = length z_keys \<and> list_all2 (shows_record E) results zs"
proof -
  from batch_entries_show [OF kw _ results(2), of as_error_init "[]"] obtain zs where
    zs: "batch_entries E results [] as_error_init = (indexed zs, as_error_init)"
      "list_all2 (shows_record E) results zs" by auto
  have "length zs = length z_keys"
    using zs(2) results(1) keys by (metis length_map list_all2_lengthD)
  with c keys call zs show ?thesis
    by (simp add: getMany_method_def get_many_with_batch_read_def Let_def batch_keys_ok remember_def) (intro exI [of _ zs] conjI; simp)
qed

definition sample_missing_array :: htab where
  "sample_missing_array = [(SKey ''ns'', ZString ''test''), (SKey ''set'', ZString ''users''), (SKey ''key'', ZLong 8)]"

definition sample_missing_key :: as_key where
  "sample_missing_key = sample_as_key\<lparr>key_value := Some (AsInteger 8)\<rparr>"

lemma sample_missing_converts [simp]:
  "z_hashtable_to_as_key sample_ext sample_missing_array err = (AEROSPIKE_OK, Some sample_missing_key, err)"
  by (simp add: z_hashtable_to_as_key_def Let_def sample_missing_array_def sample_ext_def sample_key_def
      sample_missing_key_def sample_as_key_def nul_free_def NUL_def)

definition sample_keys :: htab where
  "sample_keys = [(IKey 0, ZArray sample_missing_array), (IKey 1, ZArray sample_key_array)]"

lemma sample_keys_converted: "list_all2 (key_of sample_ext) sample_keys [sample_missing_key, sample_as_key]"
  by (simp add: sample_keys_def key_of_def)

lemma sample_results:
  "sample_result sample_store sample_missing_key =
    \<lparr>res_key = Some sample_missing_key, res_status = AEROSPIKE_ERR_RECORD_NOT_FOUND,
     res_record = absent_record sample_missing_key\<rparr>"
  "sample_result sample_store sample_as_key =
    \<lparr>res_key = Some sample_as_key, res_status = AEROSPIKE_OK, res_record = sample_record\<rparr>"
  by (simp_all add: sample_result_def sample_store_def record_id_def sample_missing_key_def sample_as_key_def)

lemma sample_readable: "readable sample_ext (sample_result sample_store sample_missing_key)"
  "readable sample_ext (sample_result sample_store sample_as_key)"
  unfolding sample_results by (simp_all add: readable_def bins_value_def sample_record_def nul_free_def NUL_def
      sample_missing_key_def sample_as_key_def)

lemma sample_result_keys [simp]:
  "res_key (sample_result sample_store sample_missing_key) = Some sample_missing_key"
  "res_key (sample_result sample_store sample_as_key) = Some sample_as_key"
  "res_status (sample_result sample_store sample_missing_key) = AEROSPIKE_ERR_RECORD_NOT_FOUND"
  "res_status (sample_result sample_store sample_as_key) = AEROSPIKE_OK"
  by (simp_all add: sample_results)

theorem getMany_in_order_witness:
  "\<exists>zs. getMany_method sample_ext sample_batch_env sample_client (Some (sample_keys, None, None)) sample_store =
     (AEROSPIKE_OK, Some (ZArray (indexed zs)), reset_client_error sample_client, sample_store) \<and> length zs = 2"
  using getMany_in_order [OF sample_client_simps sample_keywords sample_keys_converted, of sample_batch_env sample_store]
  by (simp add: sample_readable) (auto simp: sample_keys_def)

text \<open>
  \<open>existsMany\<close> without options returns one entry for each key, in the order of the keys: the
  key with the metadata of the record, or with null when there is no such record. The C client
  hands the results of all keys to the callback at once.
\<close>

theorem existsMany_in_order:
  assumes c: "usable c" "as_client c = Some cfg" and kw: "keywords_plain E"
    and keys: "list_all2 (key_of E) z_keys keys"
    and call: "\<And>cb st. batch_exists V cfg None keys cb st s = (snd (cb results st), s')"
    and results: "map res_key results = map Some keys"
      "\<forall>b \<in> set results. readable E b \<and> res_status b \<in> {AEROSPIKE_OK, AEROSPIKE_ERR_RECORD_NOT_FOUND}"
  shows "\<exists>zs. existsMany_method E V c (Some (z_keys, None)) s =
      (AEROSPIKE_OK, Some (ZArray (indexed zs)), reset_client_error c, s') \<and>
    length zs = length z_keys \<and> list_all2 (shows_metadata E) results zs"
proof -
  from exists_callback_shows [OF kw results(2), of as_error_init "[]"] obtain zs where
    zs: "exists_callback E results (as_error_init, []) = (True, as_error_init, indexed zs)"
      "list_all2 (shows_metadata E) results zs" by auto
  have "length zs = length z_keys"
    using zs(2) results(1) keys by (metis length_map list_all2_lengthD)
  with c keys call zs show ?thesis
    by (simp add: existsMany_method_def Let_def batch_keys_ok remember_def) (intro exI [of _ zs] conjI; simp)
qed

theorem existsMany_in_order_witness:
  "\<exists>zs. existsMany_method sample_ext sample_batch_env sample_client (Some (sample_keys, None)) sample_store =
     (AEROSPIKE_OK, Some (ZArray (indexed zs)), reset_client_error sample_client, sample_store) \<and> length zs = 2"
  using existsMany_in_order [OF sample_client_simps sample_keywords sample_keys_converted, of sample_batch_env
      sample_store "[sample_result sample_store sample_missing_key, sample_result sample_store sample_as_key]"]
  by (simp add: sample_readable) (auto simp: sample_keys_def)

text \<open>
  A key array whose \<open>key\<close> entry is neither an integer nor a string (null, as \<open>get\<close> shows it
  for a record stored without its key) ends both methods: no call is made and the status is
  \<open>AEROSPIKE_OK\<close> with no error remembered, yet \<open>getMany\<close> hands out an empty array and
  \<open>existsMany\<close> null, whatever keys precede or follow it.
\<close>

theorem batch_null_key_succeeds:
  assumes c: "usable c" "as_client c = Some cfg"
    and before: "list_all2 (key_of E) before keys"
    and h: "str_find h ''ns'' = Some (ZString ns)" "str_find h ''set'' = Some (ZString set_name)"
      "str_find h ''key'' = Some v" "\<not> is_long v" "\<not> is_string v"
  shows "getMany_method E V c (Some (before @ (i, ZArray h) # after, None, None)) s =
      (AEROSPIKE_OK, Some (ZArray []), reset_client_error c, s) \<and>
    existsMany_method E V c (Some (before @ (i, ZArray h) # after, None)) s =
      (AEROSPIKE_OK, Some ZNull, reset_client_error c, s)"
proof -
  have "z_hashtable_to_as_key E h as_error_init = (AEROSPIKE_ERR_CLIENT, None, as_error_init)"
    using h by (cases v) (simp_all add: z_hashtable_to_as_key_def Let_def)
  from batch_keys_stop [OF before this] c show ?thesis
    by (simp add: getMany_method_def existsMany_method_def get_many_with_batch_read_def Let_def remember_def)
qed

theorem batch_null_key_succeeds_witness:
  "getMany_method sample_ext sample_batch_env sample_client
     (Some ([(IKey 0, ZArray sample_key_array), (IKey 1, ZArray [(SKey ''ns'', ZString ''test''),
        (SKey ''set'', ZString ''users''), (SKey ''key'', ZNull)])], None, None)) sample_store =
   (AEROSPIKE_OK, Some (ZArray []), reset_client_error sample_client, sample_store)"
  using batch_null_key_succeeds [OF sample_client_simps, of sample_ext "[(IKey 0, ZArray sample_key_array)]"
      "[sample_as_key]" "[(SKey ''ns'', ZString ''test''), (SKey ''set'', ZString ''users''), (SKey ''key'', ZNull)]"
      "''test''" "''users''" ZNull sample_batch_env "IKey 1" "[]" sample_store]
  by (simp add: key_of_def)

end
