(* ===== verification/ScanProps.thy ===== *)
theory ScanProps
  imports SampleCalls BatchProps
begin

text \<open>
  Properties of scans and of the calls of user-defined functions: what the script of a scan is
  given and when it stops, the options \<open>scanApply\<close> drops, and arguments that cannot be converted.
\<close>

section \<open>The script of a scan\<close>

text \<open>
  The records handed to the script one after the other, until it returns false or raises an error;
  whether it raised none, and the state it leaves.
\<close>

fun feed :: "'s script \<Rightarrow> zval list \<Rightarrow> 's \<Rightarrow> bool \<times> 's" where
  "feed f [] s = (True, s)"
| "feed f (z # zs) s =
     (case f z s of
        (None, s) \<Rightarrow> (False, s)
      | (Some v, s) \<Rightarrow> if v = ZFalse then (True, s) else feed f zs s)"

definition record_shown :: "'e conv_ext_scheme \<Rightarrow> as_record \<Rightarrow> zval \<Rightarrow> bool" where
  "record_shown E r z \<longleftrightarrow> (\<forall>err. code err = AEROSPIKE_OK \<longrightarrow> as_record_to_zval E r None True err = (AEROSPIKE_OK, z, err))"

definition scan_error :: as_error where
  "scan_error = as_error_update as_error_init AEROSPIKE_ERR_PARAM ''Callback raised an error''"

lemma walk_feeds:
  assumes "list_all2 (record_shown E) rs zs"
  shows "walk (user_callback_wrapper E f) rs (as_error_init, s) =
    (case feed f zs s of (ok, s) \<Rightarrow> (if ok then as_error_init else scan_error, s))"
  using assms
proof (induction arbitrary: s rule: list_all2_induct)
  case Nil
  then show ?case by (simp add: user_callback_wrapper_def)
next
  case (Cons r rs z zs)
  then have z: "as_record_to_zval E r None True as_error_init = (AEROSPIKE_OK, z, as_error_init)"
    by (simp add: record_shown_def)
  obtain v s' where f: "f z s = (v, s')" by (cases "f z s")
  with z Cons.IH [of s'] show ?case
    by (cases v) (auto simp: user_callback_wrapper_def execute_user_callback_def scan_error_def as_error_update_def)
qed

lemma scan_error_code [simp]: "code scan_error = AEROSPIKE_ERR_PARAM"
  by (simp add: scan_error_def)

lemma record_is_shown:
  assumes kw: "keywords_plain E" and "bins_value E (rec_bins r) \<noteq> None"
    and ns: "nul_free (key_ns (rec_key r))" "key_ns (rec_key r) \<noteq> []"
  shows "\<exists>z. record_shown E r z"
proof -
  obtain h where h: "bins_value E (rec_bins r) = Some h" using assms(2) by blast
  have "\<exists>zk. \<forall>err. as_key_to_zval E (Some (rec_key r)) True err = (AEROSPIKE_OK, ZArray zk, err)"
    using ns by (simp add: as_key_to_zval_def Let_def strlen_def)
  then obtain zk where "as_key_to_zval E (Some (rec_key r)) True err = (AEROSPIKE_OK, ZArray zk, err)" for err
    by blast
  then show ?thesis
    by (auto simp: record_shown_def as_record_to_zval_def as_bins_value [OF h] metadata_entry [OF kw])
qed

text \<open>
  C28. A scan without options gives the script the records the server returns, in their order and
  converted, and no more once the script has returned false; the method then reports success. A
  script that raises an error ends the scan, and the method reports it.
\<close>

theorem scan_delivers_records:
  assumes c: "usable c" "as_client c = Some cfg" and "ns \<noteq> []"
    and sc: "scan_init V (c_str ns) (c_str set_name) = Some sc"
    and walks: "\<And>p cb err. scan_foreach V cfg p sc cb (err, s) = walk cb rs (err, s)"
    and records: "list_all2 (record_shown E) rs zs"
  shows "scan_method zts_build E V c (Some (ns, set_name, f, None, None)) s =
    (case feed f zs s of
       (ok, s') \<Rightarrow>
         if ok then Some (AEROSPIKE_OK, reset_client_error c, s')
         else Some (AEROSPIKE_ERR_PARAM, remember scan_error (reset_client_error c), s'))"
  using assms
  by (simp add: scan_method_def Let_def zval_to_as_policy_scan_def set_scan_options_from_policy_hash_def walk_feeds
      remember_def split: prod.split)

theorem scan_delivers_records_witness:
  "scan_method False sample_ext sample_batch_env sample_client
     (Some (''test'', ''users'', \<lambda>z s. (Some ZFalse, []), None, None)) sample_store =
   Some (AEROSPIKE_OK, reset_client_error sample_client, [])"
proof -
  have "bins_value sample_ext (rec_bins sample_record) \<noteq> None" by (simp add: bins_value_def sample_record_def)
  then obtain z where z: "record_shown sample_ext sample_record z"
    using record_is_shown [OF sample_keywords, of sample_record]
    by (auto simp: sample_record_def sample_as_key_def nul_free_def NUL_def)
  show ?thesis
    using scan_delivers_records [OF sample_client_simps, of "''test''" sample_batch_env "''users''" "sample_scan_of ''test'' ''users''"
        sample_store "[sample_record]" sample_ext "[z]" False "\<lambda>z s. (Some ZFalse, [])"] z
    by (simp add: sample_store_def nul_free_def NUL_def)
qed

section \<open>The options of scanApply\<close>

definition scan_option_keys :: "php_key set" where
  "scan_option_keys = {IKey OPT_SCAN_CONCURRENTLY, IKey OPT_SCAN_NOBINS}"

definition without_scan_options :: "htab \<Rightarrow> htab" where
  "without_scan_options h = filter (\<lambda>kv. fst kv \<notin> scan_option_keys) h"

lemma without_scan_options_find [simp]:
  "map_of (without_scan_options h) k = (if k \<in> scan_option_keys then None else map_of h k)"
  by (induction h) (auto simp: without_scan_options_def)

lemma scan_policy_without_options:
  "zval_to_as_policy_scan P (Some (ZArray (without_scan_options h))) d = zval_to_as_policy_scan P (Some (ZArray h)) d"
proof -
  have t: "scan_timeout (without_scan_options h) = scan_timeout h"
    by (rule ext) (simp add: scan_timeout_def scan_option_keys_def opt_keys split: option.split zval.split)
  have r: "scan_rps_limit (without_scan_options h) = scan_rps_limit h"
    by (rule ext) (simp add: scan_rps_limit_def scan_option_keys_def opt_keys)
  have b: "set_base_policy_from_hash (without_scan_options h) = set_base_policy_from_hash h"
    by (rule ext) (simp add: set_base_policy_from_hash_def set_uint32t_policy_value_from_hash_index_def
        set_uint32t_policy_value_from_hash_key_def scan_option_keys_def opt_keys)
  have p: "set_scan_policy_from_hash (without_scan_options h) = set_scan_policy_from_hash h"
    by (rule ext) (simp add: set_scan_policy_from_hash_def b set_bool_policy_value_from_hash_index_def
        set_uint32t_policy_value_from_hash_index_def scan_option_keys_def opt_keys)
  show ?thesis unfolding zval_to_as_policy_scan_def option.case zval.case t r p by (rule HOL.refl)
qed

text \<open>
  \<open>scanApply\<close> checks the options for a concurrent scan and a scan without bins and then drops
  them: with an array of options in which they are booleans it does exactly what it does with the
  array without them, while \<open>scan\<close> hands them on.
\<close>

theorem scanApply_drops_options:
  assumes "pred_option is_bool (index_find h OPT_SCAN_CONCURRENTLY)" "pred_option is_bool (index_find h OPT_SCAN_NOBINS)"
  shows "scanApply_method zts_build E V c (Some (ns, set_name, module, fname, args_list, Some (ZArray h))) s =
    scanApply_method zts_build E V c
      (Some (ns, set_name, module, fname, args_list, Some (ZArray (without_scan_options h)))) s"
  using assms
  by (simp add: scanApply_method_def Let_def scan_policy_without_options set_scan_options_from_policy_hash_def
      split: prod.split option.split)

theorem scanApply_drops_options_witness:
  "scanApply_method False sample_ext sample_batch_env sample_client
     (Some (''test'', ''users'', ''m'', ''f'', [], Some (ZArray [(IKey OPT_SCAN_NOBINS, ZTrue)]))) sample_store =
   scanApply_method False sample_ext sample_batch_env sample_client
     (Some (''test'', ''users'', ''m'', ''f'', [], Some (ZArray []))) sample_store"
  using scanApply_drops_options [of "[(IKey OPT_SCAN_NOBINS, ZTrue)]" False sample_ext sample_batch_env
      sample_client "''test''" "''users''" "''m''" "''f''" "[]" sample_store]
  by (simp add: without_scan_options_def scan_option_keys_def opt_keys is_bool_def)

section \<open>Arguments of user-defined functions\<close>

text \<open>The policy of a call without options: a copy of the configured one.\<close>

definition unchanged :: "'p policy_struct \<Rightarrow> 'p \<Rightarrow> 'p" where
  "unchanged P d = pol_copy P d (pol_init P)"

lemma null_list:
  assumes "list_api E" "\<And>n. hashmap_new E n = Some []"
    and "those (map (\<lambda>kv. server_value E ser (snd kv)) args) = None"
  obtains m where "z_hashtable_to_as_list E args None as_error_init ser =
    (AEROSPIKE_OK, None, as_error_update as_error_init AEROSPIKE_ERR_PARAM m)"
  using conversion_yields(2) [where E = E and err = as_error_init and lst = None and ser = ser and h = args] assms
  by (auto simp del: z_hashtable_to_as_list.simps)

text \<open>
  When an argument for a user-defined function cannot be converted, \<open>aggregate\<close> makes no call
  and returns the error. \<open>apply\<close>, \<open>scanApply\<close> and \<open>queryApply\<close> do not notice: they run the
  function with a null list of arguments, and return what the server answers.
\<close>

theorem unconvertible_arguments_become_null:
  assumes E: "list_api E" "\<forall>n. hashmap_new E n = Some []"
    and c: "usable c" "as_client c = Some cfg"
    and args: "those (map (\<lambda>kv. server_value E (ucast (ini_serializer V)) (snd kv)) args) = None"
    and key: "z_hashtable_to_as_key E z_key as_error_init = (AEROSPIKE_OK, Some key, as_error_init)"
    and names: "ns \<noteq> []" "module \<noteq> []" "fname \<noteq> []"
    and scan: "scan_init V (c_str ns) (c_str set_name) = Some sc"
      "scan_apply_each V sc (c_str module) (c_str fname) None = Some sc'"
    and query: "query_new V (c_str ns) (c_str set_name) = Some q"
      "query_apply V q (c_str module) (c_str fname) None = Some q'"
  shows "apply_method E V c (Some (z_key, module, fname, Some args, False, None)) s =
      (case key_apply V cfg (unchanged (apply_struct V) (cfg_apply cfg)) key (c_str module) (c_str fname) None s of
         (err, r, s') \<Rightarrow> Some (code err, None, remember err (reset_client_error c), s')) \<and>
    map_prod id snd (scanApply_method False E V c (Some (ns, set_name, module, fname, args, None)) s) =
      (case scan_background V cfg (unchanged (scan_struct V) (cfg_scan cfg)) sc' s of
         (err, n, s') \<Rightarrow>
           if code err \<noteq> AEROSPIKE_OK then (code err, remember err (reset_client_error c), s')
           else (case scan_wait V cfg n s' of
             (err, s') \<Rightarrow> (code err, remember err (reset_client_error c), s'))) \<and>
    map_prod id snd (queryApply_method E V c (Some (ns, set_name, [], module, fname, args, None)) s) =
      (case query_background V cfg (unchanged (write_struct V) (cfg_write cfg)) q' s of
         (err, n, s') \<Rightarrow> (code err, remember err (reset_client_error c), s')) \<and>
    (\<exists>c'. aggregate_method False E V c (Some (ns, set_name, [], module, fname, args, None)) s =
      (AEROSPIKE_ERR_PARAM, Some ZNull, c', s))"
proof -
  obtain m where l: "z_hashtable_to_as_list E args None as_error_init (ucast (ini_serializer V)) =
      (AEROSPIKE_OK, None, as_error_update as_error_init AEROSPIKE_ERR_PARAM m)"
    by (rule null_list [OF E(1) _ args]) (use E(2) in simp)
  note d = unchanged_def Let_def set_serializer_from_policy_hash_def set_scan_options_from_policy_hash_def
  have "apply_method E V c (Some (z_key, module, fname, Some args, False, None)) s =
      (case key_apply V cfg (unchanged (apply_struct V) (cfg_apply cfg)) key (c_str module) (c_str fname) None s of
         (err, r, s') \<Rightarrow> Some (code err, None, remember err (reset_client_error c), s'))"
    using c by (simp add: apply_method_def apply_arguments_def key l d zval_to_as_policy_apply_def
        del: z_hashtable_to_as_list.simps)
  moreover have "map_prod id snd (scanApply_method False E V c (Some (ns, set_name, module, fname, args, None)) s) =
      (case scan_background V cfg (unchanged (scan_struct V) (cfg_scan cfg)) sc' s of
         (err, n, s') \<Rightarrow>
           if code err \<noteq> AEROSPIKE_OK then (code err, remember err (reset_client_error c), s')
           else (case scan_wait V cfg n s' of
             (err, s') \<Rightarrow> (code err, remember err (reset_client_error c), s')))"
    using c names scan by (simp add: scanApply_method_def scanApply_run_def l d zval_to_as_policy_scan_def
        del: z_hashtable_to_as_list.simps split: prod.split)
  moreover have "map_prod id snd (queryApply_method E V c (Some (ns, set_name, [], module, fname, args, None)) s) =
      (case query_background V cfg (unchanged (write_struct V) (cfg_write cfg)) q' s of
         (err, n, s') \<Rightarrow> (code err, remember err (reset_client_error c), s'))"
    using c names query by (simp add: queryApply_method_def query_with_function_def l d zval_to_as_policy_write_def
        del: z_hashtable_to_as_list.simps split: prod.split)
  moreover have "\<exists>c'. aggregate_method False E V c (Some (ns, set_name, [], module, fname, args, None)) s =
      (AEROSPIKE_ERR_PARAM, Some ZNull, c', s)"
    using c names query by (simp add: aggregate_method_def query_with_function_def l d
        del: z_hashtable_to_as_list.simps)
  ultimately show ?thesis by blast
qed

definition sample_bad_arguments :: htab where
  "sample_bad_arguments = [(IKey 0, ZLong 1), (IKey 1, ZObject ''Foo'' [])]"

lemma sample_bad_arguments:
  "those (map (\<lambda>kv. server_value sample_query_ext (ucast (ini_serializer sample_batch_env)) (snd kv))
     sample_bad_arguments) = None"
  unfolding sample_bad_arguments_def by code_simp

theorem unconvertible_arguments_become_null_witness:
  "(case queryApply_method sample_query_ext sample_batch_env sample_client
      (Some (''test'', ''users'', [], ''m'', ''f'', sample_bad_arguments, None)) [] of
      (st, out, r) \<Rightarrow> st = AEROSPIKE_OK) \<and>
   (case aggregate_method False sample_query_ext sample_batch_env sample_client
      (Some (''test'', ''users'', [], ''m'', ''f'', sample_bad_arguments, None)) [] of
      (st, out, r) \<Rightarrow> st = AEROSPIKE_ERR_PARAM)"
  using unconvertible_arguments_become_null [OF _ _ sample_client_simps sample_bad_arguments sample_key_converts(3),
      of "''test''" "''m''" "''f''" "''users''" "sample_scan_of ''test'' ''users''"
      "(sample_scan_of ''test'' ''users'')\<lparr>s_apply := Some (''m'', ''f'', None)\<rparr>"
      "sample_new_query\<lparr>q_ns := ''test'', q_set := ''users''\<rparr>" "sample_new_query\<lparr>q_ns := ''test'', q_set := ''users''\<rparr>" "[]"]
  by (auto simp: nul_free_def NUL_def split: prod.splits)

section \<open>Aggregation\<close>

lemma walk_collects:
  assumes "list_all2 (\<lambda>v z. php_value E v = Some z) vs zs"
  shows "walk (aggregate_callback_wrapper E) vs (as_error_init, indexed zs\<^sub>0) = (as_error_init, indexed (zs\<^sub>0 @ zs))"
  using assms
proof (induction arbitrary: zs\<^sub>0 rule: list_all2_induct)
  case Nil
  then show ?case by (simp add: aggregate_callback_wrapper_def)
next
  case (Cons v vs z zs)
  have "as_val_to_zval E v ZNull as_error_init = (AEROSPIKE_OK, z, as_error_init)"
    using as_val_returns(1) [OF code_as_error_init, of E ZNull v] Cons(1) by simp
  with Cons show ?case by (simp add: aggregate_callback_wrapper_def add_next_indexed)
qed

text \<open>
  \<open>aggregate\<close> without a predicate returns the values the aggregation yields, converted and in
  their order.
\<close>

theorem aggregate_in_order:
  assumes E: "list_api E" "\<forall>n. hashmap_new E n = Some []"
    and c: "usable c" "as_client c = Some cfg" and names: "ns \<noteq> []" "module \<noteq> []" "fname \<noteq> []"
    and args: "those (map (\<lambda>kv. server_value E (ucast (ini_serializer V)) (snd kv)) args) = Some l"
    and query: "query_new V (c_str ns) (c_str set_name) = Some q"
      "query_apply V q (c_str module) (c_str fname) (Some l) = Some q'"
    and walks: "\<And>cb st. query_values V cfg None q' cb st s = (walk cb vs st, s')"
    and results: "list_all2 (\<lambda>v z. php_value E v = Some z) vs zs"
  shows "aggregate_method False E V c (Some (ns, set_name, [], module, fname, args, None)) s =
    (AEROSPIKE_OK, Some (ZArray (indexed zs)), reset_client_error c, s')"
proof -
  have "z_hashtable_to_as_list E args None as_error_init (ucast (ini_serializer V)) =
      (AEROSPIKE_OK, Some l, as_error_init)"
    using conversion_yields(2) [where E = E and err = as_error_init and lst = None and
        ser = "ucast (ini_serializer V)" and h = args] E args by simp
  moreover have "walk (aggregate_callback_wrapper E) vs (as_error_init, []) = (as_error_init, indexed zs)"
    using walk_collects [OF results, of "[]"] by simp
  ultimately show ?thesis using c names query walks
    by (simp add: aggregate_method_def query_with_function_def Let_def remember_def
        del: z_hashtable_to_as_list.simps)
qed

theorem aggregate_in_order_witness:
  "aggregate_method False sample_query_ext sample_batch_env sample_client
     (Some (''test'', ''users'', [], ''m'', ''f'', [(IKey 0, ZLong 1)], None)) sample_store =
   (AEROSPIKE_OK, Some (ZArray (indexed [ZLong 1])), reset_client_error sample_client, sample_store)"
  by (rule aggregate_in_order [OF _ _ sample_client_simps, where vs = "[AsInteger 1]" and l = "[AsInteger 1]" and
        q = "sample_new_query\<lparr>q_ns := ''test'', q_set := ''users''\<rparr>"])
    (simp_all add: nul_free_def NUL_def sample_store_def)

end
