(* ===== verification/Globals.thy ===== *)
theory Globals
  imports Client
begin

text \<open>
  The module's state of one request: the callables of \<open>client/user_serializers.c\<close> and
  \<open>client/log_handlers.c\<close>, the start and the end of a request in \<open>aerospike.c\<close>, and the
  reference counts of the values that name the callables.
\<close>

section \<open>Callables and their reference counts\<close>

text \<open>
  The zval \<open>function_name\<close> of a \<open>zend_fcall_info\<close>: the interned name of a function, which is not
  counted, or a counted value (a closure, an array, a string) at an address.
\<close>

datatype callable = Interned string | Counted nat

text \<open>
  The slots of the module globals. An information block that is all zero names no function.
  \<open>callback_installed\<close> and \<open>threshold\<close> are what the logger of the C client was told last.
\<close>

record slots =
  serializer_info :: "callable option"
  is_serializer_registered :: bool
  deserializer_info :: "callable option"
  is_deserializer_registered :: bool
  log_callback_info :: "callable option"
  is_log_callback_registered :: bool

record module_globals = slots +
  global_error :: as_error
  callback_installed :: bool
  log_threshold :: "u32 option"

text \<open>
  The counted values. A value whose count drops to zero is released, and the code of its
  destructor runs at that moment: \<open>seen_at_release\<close> records the slots it finds.
  \<open>over_released\<close> records a release of a value that is gone.
\<close>

record counts =
  refs :: "nat \<Rightarrow> nat"
  over_released :: bool
  seen_at_release :: "(nat \<times> slots) list"

definition slots_of :: "module_globals \<Rightarrow> slots" where
  "slots_of G = slots.truncate G"

fun zval_dtor :: "callable option \<Rightarrow> module_globals \<Rightarrow> counts \<Rightarrow> counts" where
  "zval_dtor (Some (Counted a)) G H =
     (if refs H a = 0 then H\<lparr>over_released := True\<rparr>
      else H\<lparr>refs := (refs H)(a := refs H a - 1),
             seen_at_release := seen_at_release H @ (if refs H a = 1 then [(a, slots_of G)] else [])\<rparr>)"
| "zval_dtor _ G H = H"

fun Z_TRY_ADDREF :: "callable \<Rightarrow> counts \<Rightarrow> counts" where
  "Z_TRY_ADDREF (Counted a) H = H\<lparr>refs := (refs H)(a := refs H a + 1)\<rparr>"
| "Z_TRY_ADDREF (Interned f) H = H"

section \<open>The setters\<close>

text \<open>The argument is \<open>None\<close> where PHP's argument parser refuses what was passed.\<close>

definition setSerializer_method ::
  "callable option \<Rightarrow> module_globals \<Rightarrow> counts \<Rightarrow> as_status \<times> module_globals \<times> counts" where
  "setSerializer_method arg G H =
     (case arg of
        None \<Rightarrow> (AEROSPIKE_ERR_PARAM, G, H)
      | Some f \<Rightarrow>
          (let (G, H) = (if is_serializer_registered G
                         then (G\<lparr>is_serializer_registered := False\<rparr>, zval_dtor (serializer_info G) G H)
                         else (G, H));
               G = G\<lparr>serializer_info := Some f, is_serializer_registered := True\<rparr>;
               H = Z_TRY_ADDREF f H
           in (AEROSPIKE_OK, G, H)))"

definition setDeserializer_method ::
  "callable option \<Rightarrow> module_globals \<Rightarrow> counts \<Rightarrow> as_status \<times> module_globals \<times> counts" where
  "setDeserializer_method arg G H =
     (case arg of
        None \<Rightarrow> (AEROSPIKE_ERR_PARAM, G, H)
      | Some f \<Rightarrow>
          (let H = (if is_deserializer_registered G then zval_dtor (deserializer_info G) G H else H);
               G = G\<lparr>deserializer_info := Some f\<rparr>;
               H = Z_TRY_ADDREF f H;
               G = G\<lparr>is_deserializer_registered := True\<rparr>
           in (AEROSPIKE_OK, G, H)))"

definition setLogHandler_method ::
  "bool \<Rightarrow> client \<Rightarrow> callable option \<Rightarrow> module_globals \<Rightarrow> counts \<Rightarrow>
     as_status \<times> client \<times> module_globals \<times> counts" where
  "setLogHandler_method zts_build c arg G H =
     (let c = reset_client_error c in
      case arg of
        None \<Rightarrow> (AEROSPIKE_ERR_PARAM,
          update_client_error c AEROSPIKE_ERR_PARAM ''Invalid argument to setLogHandler'' False, G, H)
      | Some f \<Rightarrow>
          if zts_build then
            (AEROSPIKE_ERR_CLIENT, update_client_error c AEROSPIKE_ERR_CLIENT
               ''User log callback not currently supported in ZTS environments'' False, G, H)
          else
            (let (G, H) = (if is_log_callback_registered G
                           then (G\<lparr>is_log_callback_registered := False\<rparr>, zval_dtor (log_callback_info G) G H)
                           else (G, H));
                 H = Z_TRY_ADDREF f H;
                 G = G\<lparr>log_callback_info := Some f, is_log_callback_registered := True,
                       callback_installed := True\<rparr>
             in (AEROSPIKE_OK, c, G, H)))"

text \<open>The level is cast to the enumeration \<open>as_log_level\<close>.\<close>

definition setLogLevel_method ::
  "client \<Rightarrow> zlong option \<Rightarrow> module_globals \<Rightarrow> as_status \<times> client \<times> module_globals" where
  "setLogLevel_method c arg G =
     (let c = reset_client_error c in
      case arg of
        None \<Rightarrow> (AEROSPIKE_ERR_PARAM,
          update_client_error c AEROSPIKE_ERR_PARAM ''Invalid arguments to setLogLevel'' False, G)
      | Some l \<Rightarrow> (AEROSPIKE_OK, c, G\<lparr>log_threshold := Some (ucast l)\<rparr>))"

section \<open>The callback of the logger\<close>

text \<open>
  \<open>call\<close> runs a callable on its arguments: whether the call was possible, and the state after
  it. A null pointer is \<open>None\<close>.
\<close>

definition aerospike_helper_log_callback ::
  "(callable option \<Rightarrow> zval list \<Rightarrow> 's \<Rightarrow> bool \<times> 's) \<Rightarrow> bool \<Rightarrow> module_globals \<Rightarrow>
     u32 \<Rightarrow> string option \<Rightarrow> string option \<Rightarrow> u32 \<Rightarrow> 's \<Rightarrow> bool \<times> 's" where
  "aerospike_helper_log_callback call zts_build G level func file line s =
     (if zts_build then (True, s)
      else if \<not> is_log_callback_registered G then (False, s)
      else call (log_callback_info G)
             [ZLong (ucast level),
              ZString (case func of None \<Rightarrow> '''' | Some f \<Rightarrow> c_str f),
              ZString (case file of None \<Rightarrow> '''' | Some f \<Rightarrow> c_str f),
              ZLong (ucast line)] s)"

section \<open>The start and the end of a request\<close>

definition PHP_RINIT :: "module_globals \<Rightarrow> module_globals" where
  "PHP_RINIT G =
     G\<lparr>global_error := as_error_init,
       serializer_info := None, deserializer_info := None, log_callback_info := None,
       is_deserializer_registered := False, is_serializer_registered := False,
       is_log_callback_registered := False\<rparr>"

definition PHP_RSHUTDOWN :: "module_globals \<Rightarrow> counts \<Rightarrow> counts" where
  "PHP_RSHUTDOWN G H =
     (let H = (if is_serializer_registered G then zval_dtor (serializer_info G) G H else H);
          H = (if is_deserializer_registered G then zval_dtor (deserializer_info G) G H else H);
          H = (if is_log_callback_registered G then zval_dtor (log_callback_info G) G H else H)
      in H)"

end
