(* ===== verification/GlobalsProps.thy ===== *)
theory GlobalsProps
  imports Globals
begin

text \<open>
  A request as a state machine: the script shares, drops and creates counted values and calls the
  setters in any order. The extension holds exactly one reference for every registered callable,
  so that the end of the request gives back what it took.
\<close>

section \<open>The steps of a request\<close>

text \<open>\<open>held\<close> counts the references of the script; the caller of a setter holds its argument.\<close>

record request =
  req_globals :: module_globals
  req_counts :: counts
  held :: "nat \<Rightarrow> nat"

fun holds :: "request \<Rightarrow> callable option \<Rightarrow> bool" where
  "holds R (Some (Counted a)) = (0 < held R a)"
| "holds R _ = True"

inductive request_step :: "bool \<Rightarrow> request \<Rightarrow> request \<Rightarrow> bool" for zts_build :: bool where
  create: "refs (req_counts R) a = 0 \<Longrightarrow>
    request_step zts_build R (R\<lparr>req_counts := (req_counts R)\<lparr>refs := (refs (req_counts R))(a := 1)\<rparr>,
                                held := (held R)(a := 1)\<rparr>)"
| share: "0 < held R a \<Longrightarrow>
    request_step zts_build R (R\<lparr>req_counts := Z_TRY_ADDREF (Counted a) (req_counts R),
                                held := (held R)(a := held R a + 1)\<rparr>)"
| drop: "0 < held R a \<Longrightarrow>
    request_step zts_build R (R\<lparr>req_counts := zval_dtor (Some (Counted a)) (req_globals R) (req_counts R),
                                held := (held R)(a := held R a - 1)\<rparr>)"
| set_serializer: "holds R arg \<Longrightarrow>
    setSerializer_method arg (req_globals R) (req_counts R) = (st, G, H) \<Longrightarrow>
    request_step zts_build R (R\<lparr>req_globals := G, req_counts := H\<rparr>)"
| set_deserializer: "holds R arg \<Longrightarrow>
    setDeserializer_method arg (req_globals R) (req_counts R) = (st, G, H) \<Longrightarrow>
    request_step zts_build R (R\<lparr>req_globals := G, req_counts := H\<rparr>)"
| set_log_handler: "holds R arg \<Longrightarrow>
    setLogHandler_method zts_build c arg (req_globals R) (req_counts R) = (st, c', G, H) \<Longrightarrow>
    request_step zts_build R (R\<lparr>req_globals := G, req_counts := H\<rparr>)"
| set_log_level: "setLogLevel_method c l (req_globals R) = (st, c', G) \<Longrightarrow>
    request_step zts_build R (R\<lparr>req_globals := G\<rparr>)"

text \<open>The start of a request: every count is the script's, whatever the last request left.\<close>

definition request_start :: "module_globals \<Rightarrow> (nat \<Rightarrow> nat) \<Rightarrow> request" where
  "request_start G h = \<lparr>req_globals = PHP_RINIT G,
     req_counts = \<lparr>refs = h, over_released = False, seen_at_release = []\<rparr>, held = h\<rparr>"

section \<open>The invariant\<close>

definition slot_refs :: "bool \<Rightarrow> callable option \<Rightarrow> nat \<Rightarrow> nat" where
  "slot_refs registered f a = (if registered \<and> f = Some (Counted a) then 1 else 0)"

definition taken :: "module_globals \<Rightarrow> nat \<Rightarrow> nat" where
  "taken G a = slot_refs (is_serializer_registered G) (serializer_info G) a
             + slot_refs (is_deserializer_registered G) (deserializer_info G) a
             + slot_refs (is_log_callback_registered G) (log_callback_info G) a"

definition balanced :: "request \<Rightarrow> bool" where
  "balanced R \<longleftrightarrow>
     \<not> over_released (req_counts R) \<and>
     (\<forall>a. refs (req_counts R) a = held R a + taken (req_globals R) a) \<and>
     (is_serializer_registered (req_globals R) \<longrightarrow> serializer_info (req_globals R) \<noteq> None) \<and>
     (is_deserializer_registered (req_globals R) \<longrightarrow> deserializer_info (req_globals R) \<noteq> None) \<and>
     (is_log_callback_registered (req_globals R) \<longrightarrow> log_callback_info (req_globals R) \<noteq> None)"

lemmas setter_defs = setSerializer_method_def setDeserializer_method_def setLogHandler_method_def
  setLogLevel_method_def Let_def

lemma slot_refs_simps [simp]:
  "slot_refs False f a = 0" "slot_refs b None a = 0" "slot_refs b (Some (Interned g)) a = 0"
  "slot_refs True (Some (Counted d)) a = (if d = a then 1 else 0)"
  by (auto simp: slot_refs_def)

lemma request_start_balanced: "balanced (request_start G h)"
  by (simp add: balanced_def request_start_def PHP_RINIT_def taken_def)

lemma refs_dtor:
  assumes "\<And>b. f = Some (Counted b) \<Longrightarrow> 0 < refs H b"
  shows "refs (zval_dtor f G H) a = refs H a - slot_refs True f a"
    and "over_released (zval_dtor f G H) = over_released H"
  using assms by (cases f; cases "the f"; auto)+

lemma refs_addref:
  "refs (Z_TRY_ADDREF f H) a = refs H a + slot_refs True (Some f) a"
  "over_released (Z_TRY_ADDREF f H) = over_released H"
  by (cases f; simp)+

text \<open>
  The three setters share a contract: one slot holds at most one reference, whatever the others
  hold, and a setter gives back the reference of the old callable and takes one of the new.
\<close>

locale callable_slot =
  fixes registered :: "module_globals \<Rightarrow> bool"
    and info :: "module_globals \<Rightarrow> callable option"
    and others :: "module_globals \<Rightarrow> nat \<Rightarrow> nat"
  assumes taken_slot: "taken G a = slot_refs (registered G) (info G) a + others G a"
begin

definition release :: "module_globals \<Rightarrow> module_globals \<Rightarrow> counts \<Rightarrow> counts" where
  "release K G H = (if registered G then zval_dtor (info G) K H else H)"

lemma released:
  assumes "\<And>a. refs H a = h a + slot_refs (registered G) (info G) a"
  shows "refs (release K G H) a = h a" and "over_released (release K G H) = over_released H"
  using assms by (auto simp: release_def refs_dtor)

lemma replaced:
  assumes "\<And>a. refs H a = h a + taken G a" "\<not> over_released H"
    and "registered G'" "info G' = Some f" "others G' = others G"
  shows "refs (Z_TRY_ADDREF f (release K G H)) a = h a + taken G' a"
    and "\<not> over_released (Z_TRY_ADDREF f (release K G H))"
  using assms released [of H "\<lambda>a. h a + others G a" G K]
  by (simp_all add: taken_slot refs_addref)

end

interpretation serializer: callable_slot is_serializer_registered serializer_info
  "\<lambda>G a. slot_refs (is_deserializer_registered G) (deserializer_info G) a
       + slot_refs (is_log_callback_registered G) (log_callback_info G) a"
  by unfold_locales (simp add: taken_def)

interpretation deserializer: callable_slot is_deserializer_registered deserializer_info
  "\<lambda>G a. slot_refs (is_serializer_registered G) (serializer_info G) a
       + slot_refs (is_log_callback_registered G) (log_callback_info G) a"
  by unfold_locales (simp add: taken_def)

interpretation log_handler: callable_slot is_log_callback_registered log_callback_info
  "\<lambda>G a. slot_refs (is_serializer_registered G) (serializer_info G) a
       + slot_refs (is_deserializer_registered G) (deserializer_info G) a"
  by unfold_locales (simp add: taken_def)

lemmas release_defs = serializer.release_def deserializer.release_def log_handler.release_def

text \<open>The setters in these terms.\<close>

lemma setSerializer_eq:
  "setSerializer_method (Some f) G H = (AEROSPIKE_OK,
     G\<lparr>serializer_info := Some f, is_serializer_registered := True\<rparr>,
     Z_TRY_ADDREF f (serializer.release G G H))"
  by (simp add: setter_defs release_defs)

lemma setDeserializer_eq:
  "setDeserializer_method (Some f) G H = (AEROSPIKE_OK,
     G\<lparr>deserializer_info := Some f, is_deserializer_registered := True\<rparr>,
     Z_TRY_ADDREF f (deserializer.release G G H))"
  by (simp add: setter_defs release_defs)

lemma setLogHandler_eq:
  "setLogHandler_method False c (Some f) G H = (AEROSPIKE_OK, reset_client_error c,
     G\<lparr>log_callback_info := Some f, is_log_callback_registered := True, callback_installed := True\<rparr>,
     Z_TRY_ADDREF f (log_handler.release G G H))"
  by (simp add: setter_defs release_defs)

definition callables_named :: "module_globals \<Rightarrow> bool" where
  "callables_named G \<longleftrightarrow>
     (is_serializer_registered G \<longrightarrow> serializer_info G \<noteq> None) \<and>
     (is_deserializer_registered G \<longrightarrow> deserializer_info G \<noteq> None) \<and>
     (is_log_callback_registered G \<longrightarrow> log_callback_info G \<noteq> None)"

lemma balanced_named:
  "balanced R \<longleftrightarrow> \<not> over_released (req_counts R) \<and>
     (\<forall>a. refs (req_counts R) a = held R a + taken (req_globals R) a) \<and> callables_named (req_globals R)"
  by (simp add: balanced_def callables_named_def)

lemma unchanged [simp]: "R\<lparr>req_globals := req_globals R, req_counts := req_counts R\<rparr> = R"
  by simp

lemma balanced_step:
  assumes "request_step zts_build R R'" "balanced R"
  shows "balanced R'"
proof -
  let ?G = "req_globals R" and ?H = "req_counts R"
  have bal: "\<And>a. refs ?H a = held R a + taken ?G a" "\<not> over_released ?H" and named: "callables_named ?G"
    using assms(2) by (simp_all add: balanced_named)
  from assms(1) show ?thesis
  proof cases
    case (create a)
    then show ?thesis using assms(2) by (auto simp: balanced_def)
  next
    case (share a)
    then show ?thesis using assms(2) by (auto simp: balanced_def)
  next
    case (drop a)
    then show ?thesis using assms(2) by (auto simp: balanced_def)
  next
    case (set_serializer arg st G H)
    show ?thesis
    proof (cases arg)
      case None
      with set_serializer assms(2) show ?thesis by (auto simp: setSerializer_method_def)
    next
      case (Some f)
      with set_serializer serializer.replaced [OF bal, where G' = G and f = f and K = ?G] named show ?thesis
        by (auto simp: setSerializer_eq balanced_named callables_named_def)
    qed
  next
    case (set_deserializer arg st G H)
    show ?thesis
    proof (cases arg)
      case None
      with set_deserializer assms(2) show ?thesis by (auto simp: setDeserializer_method_def)
    next
      case (Some f)
      with set_deserializer deserializer.replaced [OF bal, where G' = G and f = f and K = ?G] named show ?thesis
        by (auto simp: setDeserializer_eq balanced_named callables_named_def)
    qed
  next
    case (set_log_handler arg c st c' G H)
    show ?thesis
    proof (cases "arg = None \<or> zts_build")
      case True
      with set_log_handler assms(2) show ?thesis by (auto simp: setLogHandler_method_def Let_def split: option.splits)
    next
      case False
      then obtain f where "arg = Some f" "\<not> zts_build" by (cases arg) simp_all
      with set_log_handler log_handler.replaced [OF bal, where G' = G and f = f and K = ?G] named show ?thesis
        by (auto simp: setLogHandler_eq balanced_named callables_named_def)
    qed
  next
    case (set_log_level c l st c' G)
    then show ?thesis using assms(2)
      by (cases l) (auto simp: setter_defs balanced_def taken_def)
  qed
qed

lemma balanced_steps:
  assumes "(request_step zts_build)\<^sup>*\<^sup>* (request_start G h) R"
  shows "balanced R"
  using assms by induction (auto intro: request_start_balanced balanced_step)

section \<open>The properties\<close>

lemma shutdown_releases:
  "PHP_RSHUTDOWN G H = log_handler.release G G (deserializer.release G G (serializer.release G G H))"
  by (simp add: PHP_RSHUTDOWN_def release_defs Let_def)

lemma shutdown_counts:
  assumes "balanced R"
  shows "refs (PHP_RSHUTDOWN (req_globals R) (req_counts R)) a = held R a"
    and "\<not> over_released (PHP_RSHUTDOWN (req_globals R) (req_counts R))"
proof -
  let ?G = "req_globals R" and ?H = "req_counts R"
  let ?l = "slot_refs (is_log_callback_registered ?G) (log_callback_info ?G)"
  let ?d = "slot_refs (is_deserializer_registered ?G) (deserializer_info ?G)"
  have r: "refs ?H b = held R b + ?l b + ?d b + slot_refs (is_serializer_registered ?G) (serializer_info ?G) b" for b
    using assms by (simp add: balanced_def taken_def)
  note 1 = serializer.released [where h = "\<lambda>b. held R b + ?l b + ?d b", OF r, of ?G]
  note 2 = deserializer.released [where h = "\<lambda>b. held R b + ?l b", OF 1(1), of ?G]
  note 3 = log_handler.released [where h = "held R", OF 2(1), of ?G]
  show "refs (PHP_RSHUTDOWN ?G ?H) a = held R a" "\<not> over_released (PHP_RSHUTDOWN ?G ?H)"
    using 1 2 3 assms by (simp_all add: shutdown_releases balanced_def)
qed

text \<open>
  C10. However a script creates, shares and drops callables and registers them as serializer,
  deserializer and log handler, in any order and any number of times, a registered callable is
  alive, and at the end of the request every count is what the script itself holds: the extension
  neither leaks a callable nor releases one too often.
\<close>

theorem request_balanced:
  assumes "(request_step zts_build)\<^sup>*\<^sup>* (request_start G h) R"
  shows "(\<forall>a. taken (req_globals R) a \<le> refs (req_counts R) a) \<and>
         refs (PHP_RSHUTDOWN (req_globals R) (req_counts R)) = held R \<and>
         \<not> over_released (PHP_RSHUTDOWN (req_globals R) (req_counts R))"
  using balanced_steps [OF assms] by (auto simp: shutdown_counts fun_eq_iff) (simp add: balanced_def)

text \<open>A request that registers a new closure as log handler and drops its own reference.\<close>

definition sample_globals :: module_globals where
  "sample_globals = \<lparr>serializer_info = Some (Counted 9), is_serializer_registered = True,
     deserializer_info = None, is_deserializer_registered = False,
     log_callback_info = None, is_log_callback_registered = False,
     global_error = as_error_init, callback_installed = False, log_threshold = None\<rparr>"

definition sample_request :: request where
  "sample_request =
     \<lparr>req_globals = (PHP_RINIT sample_globals)
        \<lparr>log_callback_info := Some (Counted 4), is_log_callback_registered := True,
         callback_installed := True\<rparr>,
      req_counts = \<lparr>refs = (\<lambda>a. 0)(4 := 1), over_released = False, seen_at_release = []\<rparr>,
      held = (\<lambda>a. 0)\<rparr>"

lemma sample_request_reached:
  "(request_step False)\<^sup>*\<^sup>* (request_start sample_globals (\<lambda>a. 0)) sample_request"
proof -
  let ?R0 = "request_start sample_globals (\<lambda>a. 0)"
  let ?R1 = "?R0\<lparr>req_counts := (req_counts ?R0)\<lparr>refs := (refs (req_counts ?R0))(4 := 1)\<rparr>,
                 held := (held ?R0)(4 := 1)\<rparr>"
  let ?G = "(req_globals ?R1)\<lparr>log_callback_info := Some (Counted 4),
              is_log_callback_registered := True, callback_installed := True\<rparr>"
  let ?R2 = "?R1\<lparr>req_globals := ?G, req_counts := Z_TRY_ADDREF (Counted 4) (req_counts ?R1)\<rparr>"
  let ?R3 = "?R2\<lparr>req_counts := zval_dtor (Some (Counted 4)) (req_globals ?R2) (req_counts ?R2),
                 held := (held ?R2)(4 := held ?R2 4 - 1)\<rparr>"
  have 1: "request_step False ?R0 ?R1"
    by (rule request_step.create) (simp add: request_start_def)
  have 2: "request_step False ?R1 ?R2"
    by (rule request_step.set_log_handler [where arg = "Some (Counted 4)"])
       (auto simp: request_start_def PHP_RINIT_def setLogHandler_method_def)
  have 3: "request_step False ?R2 ?R3"
    by (rule request_step.drop) (simp add: request_start_def)
  have "?R3 = sample_request"
    by (simp add: sample_request_def request_start_def fun_eq_iff)
  with 1 2 3 show ?thesis
    by (metis (no_types, lifting) rtranclp.rtrancl_into_rtrancl rtranclp.rtrancl_refl)
qed

theorem request_balanced_witness:
  "taken (req_globals sample_request) 4 = 1 \<and> held sample_request 4 = 0 \<and>
   refs (PHP_RSHUTDOWN (req_globals sample_request) (req_counts sample_request)) = (\<lambda>a. 0)"
  using request_balanced [OF sample_request_reached]
  by (simp add: sample_request_def taken_def fun_upd_def PHP_RINIT_def)

text \<open>
  C39. The end of a request leaves the flags as they are. A log handler only the extension holds is
  released there, and the logger of the C client, which stays installed and whose threads outlive
  the request, still calls it until the next request starts.
\<close>

theorem log_handler_outlives_request:
  assumes "(request_step False)\<^sup>*\<^sup>* (request_start G h) R"
    and "is_log_callback_registered (req_globals R)"
    and "log_callback_info (req_globals R) = Some (Counted a)" and "held R a = 0"
  shows "refs (PHP_RSHUTDOWN (req_globals R) (req_counts R)) a = 0 \<and>
         aerospike_helper_log_callback call False (req_globals R) level func file line s =
           call (Some (Counted a))
             [ZLong (ucast level), ZString (case func of None \<Rightarrow> '''' | Some f \<Rightarrow> c_str f),
              ZString (case file of None \<Rightarrow> '''' | Some f \<Rightarrow> c_str f), ZLong (ucast line)] s \<and>
         aerospike_helper_log_callback call False (PHP_RINIT (req_globals R)) level func file line s =
           (False, s)"
  using shutdown_counts(1) [OF balanced_steps [OF assms(1)], of a] assms(2-4)
  by (simp add: aerospike_helper_log_callback_def PHP_RINIT_def)

theorem log_handler_outlives_request_witness:
  "refs (PHP_RSHUTDOWN (req_globals sample_request) (req_counts sample_request)) 4 = 0 \<and>
   aerospike_helper_log_callback (\<lambda>f args n. (True, n + 1)) False (req_globals sample_request)
     3 (Some ''tend'') None 7 (0::nat) = (True, 1)"
  using log_handler_outlives_request [OF sample_request_reached, of 4 "\<lambda>f args n. (True, n + 1)" 3
      "Some ''tend''" None 7 "0::nat"]
  by (simp add: sample_request_def)

end
