(* ===== verification/Constants.thy ===== *)
theory Constants
  imports Client
begin

text \<open>
  The class constants of \<open>register_constants.c\<close>, \<open>register_policy_constants.c\<close> and \<open>logging.c\<close>:
  the tables of names and values, and their registration. The enumerations of the C client are a
  parameter: \<open>lib\<close> gives the value of a constant by its C name, extended to \<open>long\<close>.
\<close>

section \<open>The tables\<close>

definition aerospike_general_long_constants :: "(string \<Rightarrow> zlong) \<Rightarrow> (string \<times> zlong) list" where
  "aerospike_general_long_constants lib =
     [(''INDEX_STRING'', lib ''AS_INDEX_STRING''), (''INDEX_NUMERIC'', lib ''AS_INDEX_NUMERIC''),
      (''INDEX_TYPE_DEFAULT'', lib ''AS_INDEX_TYPE_DEFAULT''),
      (''INDEX_TYPE_LIST'', lib ''AS_INDEX_TYPE_LIST''),
      (''INDEX_TYPE_MAPKEYS'', lib ''AS_INDEX_TYPE_MAPKEYS''),
      (''INDEX_TYPE_MAPVALUES'', lib ''AS_INDEX_TYPE_MAPVALUES''),
      (''OPERATOR_WRITE'', lib ''AS_OPERATOR_WRITE''),
      (''OPERATOR_READ'', lib ''AS_OPERATOR_READ''), (''OPERATOR_INCR'', lib ''AS_OPERATOR_INCR''),
      (''OPERATOR_PREPEND'', lib ''AS_OPERATOR_PREPEND''),
      (''OPERATOR_APPEND'', lib ''AS_OPERATOR_APPEND''),
      (''OPERATOR_TOUCH'', lib ''AS_OPERATOR_TOUCH''),
      (''OPERATOR_DELETE'', lib ''AS_OPERATOR_DELETE''),
      (''INDEX_GEO2DSPHERE'', lib ''AS_INDEX_GEO2DSPHERE''),
      (''OP_LIST_APPEND'', scast OP_LIST_APPEND), (''OP_LIST_MERGE'', scast OP_LIST_MERGE),
      (''OP_LIST_INSERT'', scast OP_LIST_INSERT),
      (''OP_LIST_INSERT_ITEMS'', scast OP_LIST_INSERT_ITEMS), (''OP_LIST_POP'', scast OP_LIST_POP),
      (''OP_LIST_POP_RANGE'', scast OP_LIST_POP_RANGE), (''OP_LIST_REMOVE'', scast OP_LIST_REMOVE),
      (''OP_LIST_REMOVE_RANGE'', scast OP_LIST_REMOVE_RANGE),
      (''OP_LIST_CLEAR'', scast OP_LIST_CLEAR), (''OP_LIST_SET'', scast OP_LIST_SET),
      (''OP_LIST_GET'', scast OP_LIST_GET), (''OP_LIST_GET_RANGE'', scast OP_LIST_GET_RANGE),
      (''OP_LIST_TRIM'', scast OP_LIST_TRIM), (''OP_LIST_SIZE'', scast OP_LIST_SIZE),
      (''OP_MAP_SET_POLICY'', scast OP_MAP_SET_POLICY), (''OP_MAP_PUT'', scast OP_MAP_PUT),
      (''OP_MAP_PUT_ITEMS'', scast OP_MAP_PUT_ITEMS),
      (''OP_MAP_INCREMENT'', scast OP_MAP_INCREMENT),
      (''OP_MAP_DECREMENT'', scast OP_MAP_DECREMENT), (''OP_MAP_SIZE'', scast OP_MAP_SIZE),
      (''OP_MAP_CLEAR'', scast OP_MAP_CLEAR),
      (''OP_MAP_REMOVE_BY_KEY'', scast OP_MAP_REMOVE_BY_KEY),
      (''OP_MAP_REMOVE_BY_KEY_LIST'', scast OP_MAP_REMOVE_BY_KEY_LIST),
      (''OP_MAP_REMOVE_BY_KEY_RANGE'', scast OP_MAP_REMOVE_BY_KEY_RANGE),
      (''OP_MAP_REMOVE_BY_VALUE'', scast OP_MAP_REMOVE_BY_VALUE),
      (''OP_MAP_REMOVE_BY_VALUE_LIST'', scast OP_MAP_REMOVE_BY_VALUE_LIST),
      (''OP_MAP_REMOVE_BY_VALUE_RANGE'', scast OP_MAP_REMOVE_BY_VALUE_RANGE),
      (''OP_MAP_REMOVE_BY_INDEX'', scast OP_MAP_REMOVE_BY_INDEX),
      (''OP_MAP_REMOVE_BY_INDEX_RANGE'', scast OP_MAP_REMOVE_BY_INDEX_RANGE),
      (''OP_MAP_REMOVE_BY_RANK'', scast OP_MAP_REMOVE_BY_RANK),
      (''OP_MAP_REMOVE_BY_RANK_RANGE'', scast OP_MAP_REMOVE_BY_RANK_RANGE),
      (''OP_MAP_GET_BY_KEY'', scast OP_MAP_GET_BY_KEY),
      (''OP_MAP_GET_BY_KEY_RANGE'', scast OP_MAP_GET_BY_KEY_RANGE),
      (''OP_MAP_GET_BY_VALUE'', scast OP_MAP_GET_BY_VALUE),
      (''OP_MAP_GET_BY_VALUE_RANGE'', scast OP_MAP_GET_BY_VALUE_RANGE),
      (''OP_MAP_GET_BY_INDEX'', scast OP_MAP_GET_BY_INDEX),
      (''OP_MAP_GET_BY_INDEX_RANGE'', scast OP_MAP_GET_BY_INDEX_RANGE),
      (''OP_MAP_GET_BY_RANK'', scast OP_MAP_GET_BY_RANK),
      (''OP_MAP_GET_BY_RANK_RANGE'', scast OP_MAP_GET_BY_RANK_RANGE)]"

definition aerospike_status :: "(string \<Rightarrow> zlong) \<Rightarrow> (string \<times> zlong) list" where
  "aerospike_status lib =
     [(''ERR_CONNECTION'', lib ''AEROSPIKE_ERR_CONNECTION''),
      (''ERR_TLS'', lib ''AEROSPIKE_ERR_TLS_ERROR''),
      (''ERR_INVALID_NODE'', lib ''AEROSPIKE_ERR_INVALID_NODE''),
      (''ERR_NO_MORE_CONNECTIONS'', lib ''AEROSPIKE_ERR_NO_MORE_CONNECTIONS''),
      (''ERR_ASYNC_CONNECTION'', lib ''AEROSPIKE_ERR_ASYNC_CONNECTION''),
      (''ERR_CLIENT_ABORT'', lib ''AEROSPIKE_ERR_CLIENT_ABORT''),
      (''ERR_INVALID_HOST'', lib ''AEROSPIKE_ERR_INVALID_HOST''),
      (''ERR_PARAM'', lib ''AEROSPIKE_ERR_PARAM''), (''ERR_CLIENT'', lib ''AEROSPIKE_ERR_CLIENT''),
      (''OK'', lib ''AEROSPIKE_OK''), (''ERR_SERVER'', lib ''AEROSPIKE_ERR_SERVER''),
      (''ERR_RECORD_NOT_FOUND'', lib ''AEROSPIKE_ERR_RECORD_NOT_FOUND''),
      (''ERR_RECORD_GENERATION'', lib ''AEROSPIKE_ERR_RECORD_GENERATION''),
      (''ERR_REQUEST_INVALID'', lib ''AEROSPIKE_ERR_REQUEST_INVALID''),
      (''ERR_OP_NOT_APPLICABLE'', lib ''AEROSPIKE_ERR_OP_NOT_APPLICABLE''),
      (''ERR_RECORD_EXISTS'', lib ''AEROSPIKE_ERR_RECORD_EXISTS''),
      (''ERR_CLUSTER_CHANGE'', lib ''AEROSPIKE_ERR_CLUSTER_CHANGE''),
      (''ERR_SERVER_FULL'', lib ''AEROSPIKE_ERR_SERVER_FULL''),
      (''ERR_TIMEOUT'', lib ''AEROSPIKE_ERR_TIMEOUT''),
      (''ERR_ALWAYS_FORBIDDEN'', lib ''AEROSPIKE_ERR_ALWAYS_FORBIDDEN''),
      (''ERR_CLUSTER'', lib ''AEROSPIKE_ERR_CLUSTER''),
      (''ERR_BIN_INCOMPATIBLE_TYPE'', lib ''AEROSPIKE_ERR_BIN_INCOMPATIBLE_TYPE''),
      (''ERR_RECORD_TOO_BIG'', lib ''AEROSPIKE_ERR_RECORD_TOO_BIG''),
      (''ERR_RECORD_BUSY'', lib ''AEROSPIKE_ERR_RECORD_BUSY''),
      (''ERR_SCAN_ABORTED'', lib ''AEROSPIKE_ERR_SCAN_ABORTED''),
      (''ERR_UNSUPPORTED_FEATURE'', lib ''AEROSPIKE_ERR_UNSUPPORTED_FEATURE''),
      (''ERR_DEVICE_OVERLOAD'', lib ''AEROSPIKE_ERR_DEVICE_OVERLOAD''),
      (''ERR_RECORD_KEY_MISMATCH'', lib ''AEROSPIKE_ERR_RECORD_KEY_MISMATCH''),
      (''ERR_NAMESPACE_NOT_FOUND'', lib ''AEROSPIKE_ERR_NAMESPACE_NOT_FOUND''),
      (''ERR_BIN_NAME'', lib ''AEROSPIKE_ERR_BIN_NAME''),
      (''ERR_FORBIDDEN'', lib ''AEROSPIKE_ERR_FAIL_FORBIDDEN''),
      (''ERR_FAIL_NOT_FOUND'', lib ''AEROSPIKE_ERR_FAIL_ELEMENT_NOT_FOUND''),
      (''ERR_FAIL_ELEMENT_EXISTS'', lib ''AEROSPIKE_ERR_FAIL_ELEMENT_EXISTS''),
      (''ERR_QUERY_END'', lib ''AEROSPIKE_QUERY_END''), (''ERR_UDF'', lib ''AEROSPIKE_ERR_UDF''),
      (''ERR_BATCH_DISABLED'', lib ''AEROSPIKE_ERR_BATCH_DISABLED''),
      (''ERR_BATCH_MAX_REQUESTS_EXCEEDED'', lib ''AEROSPIKE_ERR_BATCH_MAX_REQUESTS_EXCEEDED''),
      (''ERR_BATCH_QUEUES_FULL '', lib ''AEROSPIKE_ERR_BATCH_QUEUES_FULL''),
      (''ERR_INDEX_FOUND'', lib ''AEROSPIKE_ERR_INDEX_FOUND''),
      (''ERR_INDEX_NOT_FOUND'', lib ''AEROSPIKE_ERR_INDEX_NOT_FOUND''),
      (''ERR_INDEX_OOM'', lib ''AEROSPIKE_ERR_INDEX_OOM''),
      (''ERR_INDEX_NOT_READABLE'', lib ''AEROSPIKE_ERR_INDEX_NOT_READABLE''),
      (''ERR_INDEX'', lib ''AEROSPIKE_ERR_INDEX''),
      (''ERR_INDEX_NAME_MAXLEN'', lib ''AEROSPIKE_ERR_INDEX_NAME_MAXLEN''),
      (''ERR_INDEX_MAXCOUNT'', lib ''AEROSPIKE_ERR_INDEX_MAXCOUNT''),
      (''ERR_QUERY_ABORTED'', lib ''AEROSPIKE_ERR_QUERY_ABORTED''),
      (''ERR_QUERY_QUEUE_FULL'', lib ''AEROSPIKE_ERR_QUERY_QUEUE_FULL''),
      (''ERR_QUERY_TIMEOUT'', lib ''AEROSPIKE_ERR_QUERY_TIMEOUT''),
      (''ERR_QUERY'', lib ''AEROSPIKE_ERR_QUERY''),
      (''ERR_UDF_NOT_FOUND'', lib ''AEROSPIKE_ERR_UDF_NOT_FOUND''),
      (''ERR_LUA_FILE_NOT_FOUND'', lib ''AEROSPIKE_ERR_LUA_FILE_NOT_FOUND''),
      (''ERR_SECURITY_NOT_SUPPORTED'', lib ''AEROSPIKE_SECURITY_NOT_SUPPORTED''),
      (''ERR_SECURITY_NOT_ENABLED'', lib ''AEROSPIKE_SECURITY_NOT_ENABLED''),
      (''ERR_SECURITY_SCHEME_NOT_SUPPORTED'', lib ''AEROSPIKE_SECURITY_SCHEME_NOT_SUPPORTED''),
      (''ERR_INVALID_USER'', lib ''AEROSPIKE_INVALID_USER''),
      (''ERR_USER_ALREADY_EXISTS'', lib ''AEROSPIKE_USER_ALREADY_EXISTS''),
      (''ERR_INVALID_PASSWORD'', lib ''AEROSPIKE_INVALID_PASSWORD''),
      (''ERR_EXPIRED_PASSWORD'', lib ''AEROSPIKE_EXPIRED_PASSWORD''),
      (''ERR_FORBIDDEN_PASSWORD'', lib ''AEROSPIKE_FORBIDDEN_PASSWORD''),
      (''ERR_INVALID_CREDENTIAL'', lib ''AEROSPIKE_INVALID_CREDENTIAL''),
      (''ERR_INVALID_ROLE'', lib ''AEROSPIKE_INVALID_ROLE''),
      (''ERR_INVALID_PRIVILEGE'', lib ''AEROSPIKE_INVALID_PRIVILEGE''),
      (''ERR_INVALID_COMMAND'', lib ''AEROSPIKE_INVALID_COMMAND''),
      (''ERR_INVALID_FIELD'', lib ''AEROSPIKE_INVALID_FIELD''),
      (''ERR_ILLEGAL_STATE'', lib ''AEROSPIKE_ILLEGAL_STATE''),
      (''ERR_NOT_AUTHENTICATED'', lib ''AEROSPIKE_NOT_AUTHENTICATED''),
      (''ERR_ROLE_VIOLATION'', lib ''AEROSPIKE_ROLE_VIOLATION''),
      (''ERR_ROLE_ALREADY_EXISTS'', lib ''AEROSPIKE_ROLE_ALREADY_EXISTS''),
      (''ERR_GEO_INVALID_GEOJSON'', lib ''AEROSPIKE_ERR_GEO_INVALID_GEOJSON'')]"

definition aerospike_general_string_constants :: "(string \<times> string) list" where
  "aerospike_general_string_constants =
     [(''OP_EQ'', ''=''), (''OP_BETWEEN'', ''BETWEEN''), (''OP_CONTAINS'', ''CONTAINS''),
      (''OP_RANGE'', ''RANGE''), (''OP_GEOWITHINREGION'', ''GEOWITHIN''),
      (''OP_GEOCONTAINSPOINT'', ''GEOCONTAINS''), (''JOB_QUERY'', ''query''),
      (''JOB_SCAN'', ''scan'')]"

definition aerospike_option_constants :: "(string \<Rightarrow> zlong) \<Rightarrow> (string \<times> zlong) list" where
  "aerospike_option_constants lib =
     [(''OPT_CONNECT_TIMEOUT'', OPT_CONNECT_TIMEOUT), (''OPT_READ_TIMEOUT'', OPT_READ_TIMEOUT),
      (''OPT_WRITE_TIMEOUT'', OPT_WRITE_TIMEOUT), (''OPT_POLICY_RETRY'', OPT_POLICY_RETRY),
      (''OPT_POLICY_EXISTS'', OPT_POLICY_EXISTS), (''OPT_POLICY_KEY'', OPT_POLICY_KEY),
      (''OPT_SERIALIZER'', OPT_SERIALIZER), (''OPT_SCAN_PRIORITY'', OPT_SCAN_PRIORITY),
      (''OPT_SCAN_RPS_LIMIT'', OPT_SCAN_RPS_LIMIT), (''OPT_SCAN_PERCENTAGE'', OPT_SCAN_PERCENTAGE),
      (''OPT_SCAN_CONCURRENTLY'', OPT_SCAN_CONCURRENTLY), (''OPT_SCAN_NOBINS'', OPT_SCAN_NOBINS),
      (''OPT_SCAN_INCLUDELDT'', OPT_SCAN_INCLUDELDT), (''OPT_POLICY_GEN'', OPT_POLICY_GEN),
      (''OPT_POLICY_REPLICA'', OPT_POLICY_REPLICA),
      (''OPT_POLICY_READ_MODE_AP'', OPT_POLICY_READ_MODE_AP),
      (''OPT_POLICY_READ_MODE_SC'', OPT_POLICY_READ_MODE_SC),
      (''OPT_POLICY_COMMIT_LEVEL'', OPT_POLICY_COMMIT_LEVEL), (''OPT_TTL'', OPT_TTL),
      (''USE_SERVICES_ALTERNATE'', USE_SERVICES_ALTERNATE),
      (''USE_BATCH_DIRECT'', USE_BATCH_DIRECT), (''COMPRESSION_THRESHOLD'', COMPRESSION_THRESHOLD),
      (''POLICY_RETRY_NONE'', lib ''AS_POLICY_RETRY_NONE''),
      (''POLICY_RETRY_ONCE'', lib ''AS_POLICY_RETRY_ONCE''),
      (''POLICY_EXISTS_IGNORE'', lib ''AS_POLICY_EXISTS_IGNORE''),
      (''POLICY_EXISTS_CREATE'', lib ''AS_POLICY_EXISTS_CREATE''),
      (''POLICY_EXISTS_UPDATE'', lib ''AS_POLICY_EXISTS_UPDATE''),
      (''POLICY_EXISTS_REPLACE'', lib ''AS_POLICY_EXISTS_REPLACE''),
      (''POLICY_EXISTS_CREATE_OR_REPLACE'', lib ''AS_POLICY_EXISTS_CREATE_OR_REPLACE''),
      (''SERIALIZER_NONE'', scast SERIALIZER_NONE), (''SERIALIZER_PHP'', scast SERIALIZER_PHP),
      (''SERIALIZER_USER'', scast SERIALIZER_USER), (''UDF_TYPE_LUA'', lib ''AS_UDF_TYPE_LUA''),
      (''SCAN_STATUS_UNDEF'', lib ''AS_SCAN_STATUS_UNDEF''),
      (''SCAN_STATUS_INPROGRESS'', lib ''AS_SCAN_STATUS_INPROGRESS''),
      (''SCAN_STATUS_ABORTED'', lib ''AS_SCAN_STATUS_ABORTED''),
      (''SCAN_STATUS_COMPLETED'', lib ''AS_SCAN_STATUS_COMPLETED''),
      (''JOB_STATUS_UNDEF'', lib ''AS_JOB_STATUS_UNDEF''),
      (''JOB_STATUS_INPROGRESS'', lib ''AS_JOB_STATUS_INPROGRESS''),
      (''JOB_STATUS_COMPLETED'', lib ''AS_JOB_STATUS_COMPLETED''),
      (''POLICY_KEY_DIGEST'', lib ''AS_POLICY_KEY_DIGEST''),
      (''POLICY_KEY_SEND'', lib ''AS_POLICY_KEY_SEND''),
      (''POLICY_GEN_IGNORE'', lib ''AS_POLICY_GEN_IGNORE''),
      (''POLICY_GEN_EQ'', lib ''AS_POLICY_GEN_EQ''), (''POLICY_GEN_GT'', lib ''AS_POLICY_GEN_GT''),
      (''POLICY_REPLICA_MASTER'', lib ''AS_POLICY_REPLICA_MASTER''),
      (''POLICY_REPLICA_ANY'', lib ''AS_POLICY_REPLICA_ANY''),
      (''POLICY_REPLICA_SEQUENCE'', lib ''AS_POLICY_REPLICA_SEQUENCE''),
      (''POLICY_REPLICA_PREFER_RACK'', lib ''AS_POLICY_REPLICA_PREFER_RACK''),
      (''POLICY_READ_MODE_AP_ONE'', lib ''AS_POLICY_READ_MODE_AP_ONE''),
      (''POLICY_READ_MODE_AP_ALL'', lib ''AS_POLICY_READ_MODE_AP_ALL''),
      (''POLICY_READ_MODE_SC_SESSION'', lib ''AS_POLICY_READ_MODE_SC_SESSION''),
      (''POLICY_READ_MODE_SC_LINEARIZE'', lib ''AS_POLICY_READ_MODE_SC_LINEARIZE''),
      (''POLICY_READ_MODE_SC_ALLOW_REPLICA'', lib ''AS_POLICY_READ_MODE_SC_ALLOW_REPLICA''),
      (''POLICY_READ_MODE_SC_ALLOW_UNAVAILABLE'', lib ''AS_POLICY_READ_MODE_SC_ALLOW_UNAVAILABLE''),
      (''POLICY_COMMIT_LEVEL_ALL'', lib ''AS_POLICY_COMMIT_LEVEL_ALL''),
      (''POLICY_COMMIT_LEVEL_MASTER'', lib ''AS_POLICY_COMMIT_LEVEL_MASTER''),
      (''PRIV_USER_ADMIN'', lib ''AS_PRIVILEGE_USER_ADMIN''),
      (''PRIV_SYS_ADMIN'', lib ''AS_PRIVILEGE_SYS_ADMIN''),
      (''PRIV_READ'', lib ''AS_PRIVILEGE_READ''),
      (''PRIV_READ_WRITE'', lib ''AS_PRIVILEGE_READ_WRITE''),
      (''PRIV_READ_WRITE_UDF'', lib ''AS_PRIVILEGE_READ_WRITE_UDF''),
      (''PRIV_DATA_ADMIN'', lib ''AS_PRIVILEGE_DATA_ADMIN''),
      (''OPT_POLICY_DURABLE_DELETE'', OPT_POLICY_DURABLE_DELETE),
      (''OPT_SOCKET_TIMEOUT'', OPT_SOCKET_TIMEOUT), (''OPT_MAP_ORDER'', OPT_MAP_ORDER),
      (''OPT_MAP_WRITE_MODE'', OPT_MAP_WRITE_MODE), (''OPT_MAP_WRITE_FLAGS'', OPT_MAP_WRITE_FLAGS),
      (''AS_MAP_UNORDERED'', lib ''AS_MAP_UNORDERED''),
      (''AS_MAP_KEY_ORDERED'', lib ''AS_MAP_KEY_ORDERED''),
      (''AS_MAP_KEY_VALUE_ORDERED'', lib ''AS_MAP_KEY_VALUE_ORDERED''),
      (''AS_MAP_UPDATE'', lib ''AS_MAP_UPDATE''),
      (''AS_MAP_UPDATE_ONLY'', lib ''AS_MAP_UPDATE_ONLY''),
      (''AS_MAP_CREATE_ONLY'', lib ''AS_MAP_CREATE_ONLY''),
      (''AS_MAP_WRITE_DEFAULT'', lib ''AS_MAP_WRITE_DEFAULT''),
      (''AS_MAP_WRITE_CREATE_ONLY'', lib ''AS_MAP_WRITE_CREATE_ONLY''),
      (''AS_MAP_WRITE_UPDATE_ONLY'', lib ''AS_MAP_WRITE_UPDATE_ONLY''),
      (''AS_MAP_WRITE_NO_FAIL'', lib ''AS_MAP_WRITE_NO_FAIL''),
      (''AS_MAP_WRITE_PARTIAL'', lib ''AS_MAP_WRITE_PARTIAL''),
      (''MAP_RETURN_NONE'', lib ''AS_MAP_RETURN_NONE''),
      (''MAP_RETURN_INDEX'', lib ''AS_MAP_RETURN_INDEX''),
      (''MAP_RETURN_REVERSE_INDEX'', lib ''AS_MAP_RETURN_REVERSE_INDEX''),
      (''MAP_RETURN_RANK'', lib ''AS_MAP_RETURN_RANK''),
      (''MAP_RETURN_REVERSE_RANK'', lib ''AS_MAP_RETURN_REVERSE_RANK''),
      (''MAP_RETURN_COUNT'', lib ''AS_MAP_RETURN_COUNT''),
      (''MAP_RETURN_KEY'', lib ''AS_MAP_RETURN_KEY''),
      (''MAP_RETURN_VALUE'', lib ''AS_MAP_RETURN_VALUE''),
      (''MAP_RETURN_KEY_VALUE'', lib ''AS_MAP_RETURN_KEY_VALUE''),
      (''OPT_TOTAL_TIMEOUT'', OPT_TOTAL_TIMEOUT), (''OPT_MAX_RETRIES'', OPT_MAX_RETRIES),
      (''OPT_FAIL_ON_CLUSTER_CHANGE'', OPT_FAIL_ON_CLUSTER_CHANGE),
      (''OPT_BATCH_CONCURRENT'', OPT_BATCH_CONCURRENT), (''OPT_ALLOW_INLINE'', OPT_ALLOW_INLINE),
      (''OPT_SEND_SET_NAME'', OPT_SEND_SET_NAME), (''OPT_TLS_CONFIG'', OPT_TLS_CONFIG),
      (''OPT_TLS_ENABLE'', OPT_TLS_ENABLE), (''OPT_TLS_CAFILE'', OPT_TLS_CAFILE),
      (''OPT_TLS_CAPATH'', OPT_TLS_CAPATH), (''OPT_TLS_PROTOCOLS'', OPT_TLS_PROTOCOLS),
      (''OPT_TLS_CIPHER_SUITE'', OPT_TLS_CIPHER_SUITE), (''OPT_TLS_CRL_CHECK'', OPT_TLS_CRL_CHECK),
      (''OPT_TLS_CRL_CHECK_ALL'', OPT_TLS_CRL_CHECK_ALL),
      (''OPT_TLS_CERT_BLACKLIST'', OPT_TLS_CERT_BLACKLIST),
      (''OPT_TLS_LOG_SESSION_INFO'', OPT_TLS_LOG_SESSION_INFO),
      (''OPT_TLS_KEYFILE'', OPT_TLS_KEYFILE), (''OPT_TLS_CERTFILE'', OPT_TLS_CERTFILE),
      (''OPT_READ_DEFAULT_POL'', OPT_READ_DEFAULT_POL),
      (''OPT_WRITE_DEFAULT_POL'', OPT_WRITE_DEFAULT_POL),
      (''OPT_REMOVE_DEFAULT_POL'', OPT_REMOVE_DEFAULT_POL),
      (''OPT_BATCH_DEFAULT_POL'', OPT_BATCH_DEFAULT_POL),
      (''OPT_OPERATE_DEFAULT_POL'', OPT_OPERATE_DEFAULT_POL),
      (''OPT_QUERY_DEFAULT_POL'', OPT_QUERY_DEFAULT_POL),
      (''OPT_SCAN_DEFAULT_POL'', OPT_SCAN_DEFAULT_POL),
      (''OPT_APPLY_DEFAULT_POL'', OPT_APPLY_DEFAULT_POL), (''OPT_QUERY_NOBINS'', OPT_QUERY_NOBINS)]"

definition aerospike_str_option_constants :: "(string \<times> string) list" where
  "aerospike_str_option_constants =
     [(''OPT_DESERIALIZE'', PHP_POLICY_OPT_DESERIALIZE),
      (''OPT_SLEEP_BETWEEN_RETRIES'', PHP_POLICY_OPT_SLEEP_BETWEEN_RETRIES)]"

definition aerospike_logger_constants :: "(string \<Rightarrow> zlong) \<Rightarrow> (string \<times> zlong) list" where
  "aerospike_logger_constants lib =
     [(''LOG_LEVEL_TRACE'', lib ''AS_LOG_LEVEL_TRACE''),
      (''LOG_LEVEL_DEBUG'', lib ''AS_LOG_LEVEL_DEBUG''),
      (''LOG_LEVEL_INFO'', lib ''AS_LOG_LEVEL_INFO''),
      (''LOG_LEVEL_WARN'', lib ''AS_LOG_LEVEL_WARN''),
      (''LOG_LEVEL_ERROR'', lib ''AS_LOG_LEVEL_ERROR'')]"

section \<open>Registration\<close>

text \<open>
  \<open>zend_declare_class_constant_long\<close> and \<open>zend_declare_class_constant_string\<close>: a name that is
  taken is a fatal error of PHP, \<open>None\<close>.
\<close>

type_synonym class_constants = "(string \<times> zval) list"

definition declare_constant :: "string \<Rightarrow> zval \<Rightarrow> class_constants \<Rightarrow> class_constants option" where
  "declare_constant name v cs = (if name \<in> set (map fst cs) then None else Some (cs @ [(name, v)]))"

fun declare_longs :: "(string \<times> zlong) list \<Rightarrow> class_constants \<Rightarrow> class_constants option" where
  "declare_longs [] cs = Some cs"
| "declare_longs ((name, v) # t) cs =
     (case declare_constant name (ZLong v) cs of None \<Rightarrow> None | Some cs \<Rightarrow> declare_longs t cs)"

text \<open>The value of a string constant is copied up to its end mark.\<close>

fun declare_strings :: "(string \<times> string) list \<Rightarrow> class_constants \<Rightarrow> class_constants option" where
  "declare_strings [] cs = Some cs"
| "declare_strings ((name, v) # t) cs =
     (case declare_constant name (ZString (c_str v)) cs of
        None \<Rightarrow> None
      | Some cs \<Rightarrow> declare_strings t cs)"

definition register_aerospike_status_codes ::
  "(string \<Rightarrow> zlong) \<Rightarrow> class_constants \<Rightarrow> class_constants option" where
  "register_aerospike_status_codes lib cs = declare_longs (aerospike_status lib) cs"

definition register_aerospike_class_constants ::
  "(string \<Rightarrow> zlong) \<Rightarrow> class_constants \<Rightarrow> class_constants option" where
  "register_aerospike_class_constants lib cs =
     (case declare_strings aerospike_general_string_constants cs of
        None \<Rightarrow> None
      | Some cs \<Rightarrow> declare_longs (aerospike_general_long_constants lib) cs)"

definition register_aerospike_option_constants ::
  "(string \<Rightarrow> zlong) \<Rightarrow> class_constants \<Rightarrow> class_constants option" where
  "register_aerospike_option_constants lib cs =
     (case declare_longs (aerospike_option_constants lib) cs of
        None \<Rightarrow> None
      | Some cs \<Rightarrow> declare_strings aerospike_str_option_constants cs)"

definition register_logger_constants ::
  "(string \<Rightarrow> zlong) \<Rightarrow> class_constants \<Rightarrow> class_constants option" where
  "register_logger_constants lib cs = declare_longs (aerospike_logger_constants lib) cs"

text \<open>The constants of the class, in the order of \<open>register_aerospike_class\<close>.\<close>

definition register_aerospike_class :: "(string \<Rightarrow> zlong) \<Rightarrow> class_constants option" where
  "register_aerospike_class lib =
     (case register_aerospike_status_codes lib [] of
        None \<Rightarrow> None
      | Some cs \<Rightarrow>
          (case register_aerospike_class_constants lib cs of
             None \<Rightarrow> None
           | Some cs \<Rightarrow>
               (case register_aerospike_option_constants lib cs of
                  None \<Rightarrow> None
                | Some cs \<Rightarrow> register_logger_constants lib cs)))"

end
