(* ===== verification/ConstantsProps.thy ===== *)
theory ConstantsProps
  imports Constants
begin

text \<open>
  The registration of the class constants: no name is declared twice, so that all of them are
  there, each with the value of its table, and what that means for the names scripts use.
\<close>

section \<open>The names of a table are distinct\<close>

lemma status_names_distinct: "distinct (map fst (aerospike_status lib))"
  by (simp add: aerospike_status_def)

lemma long_names_distinct: "distinct (map fst (aerospike_general_long_constants lib))"
  by (simp add: aerospike_general_long_constants_def)

lemma option_names_distinct: "distinct (map fst (aerospike_option_constants lib))"
  by (simp add: aerospike_option_constants_def)

text \<open>The first letters of the names of a table keep it apart from most other tables.\<close>

definition kinds :: "nat \<Rightarrow> string list \<Rightarrow> string list \<Rightarrow> bool" where
  "kinds n ps names = list_all (\<lambda>x. take n x \<in> set ps) names"

lemma kinds_apart:
  assumes "kinds n ps xs" "kinds n qs ys" "set ps \<inter> set qs = {}"
  shows "set xs \<inter> set ys = {}"
  using assms by (auto simp: kinds_def list_all_iff)

lemma status_kinds: "kinds 3 [''OK'', ''ERR''] (map fst (aerospike_status lib))"
  by (simp add: aerospike_status_def kinds_def)

lemma long_kinds:
  "kinds 3 [''IND'', ''OPE'', ''OP_''] (map fst (aerospike_general_long_constants lib))"
  by (simp add: aerospike_general_long_constants_def kinds_def)

lemma option_kinds:
  "kinds 3 [''OPT'', ''USE'', ''COM'', ''POL'', ''SER'', ''UDF'', ''SCA'', ''JOB'', ''PRI'', ''AS_'', ''MAP'']
     (map fst (aerospike_option_constants lib))"
  by (simp add: aerospike_option_constants_def kinds_def)

lemma string_kinds:
  "kinds 3 [''OP_'', ''JOB''] (map fst aerospike_general_string_constants)"
  "kinds 3 [''OPT''] (map fst aerospike_str_option_constants)"
  "kinds 3 [''LOG''] (map fst (aerospike_logger_constants lib))"
  by (simp_all add: aerospike_general_string_constants_def aerospike_str_option_constants_def
      aerospike_logger_constants_def kinds_def)

lemma strings_apart_longs:
  "set (map fst aerospike_general_string_constants) \<inter>
   set (map fst (aerospike_general_long_constants lib)) = {}"
  by (simp add: aerospike_general_string_constants_def aerospike_general_long_constants_def)

lemma strings_apart_options:
  "set (map fst aerospike_general_string_constants) \<inter>
   set (map fst (aerospike_option_constants lib)) = {}"
  by (simp add: aerospike_general_string_constants_def aerospike_option_constants_def)

lemma option_strings_apart:
  "set (map fst aerospike_str_option_constants) \<inter>
   set (map fst (aerospike_option_constants lib)) = {}"
  by (simp add: aerospike_str_option_constants_def aerospike_option_constants_def)

lemma small_tables_distinct:
  "distinct (map fst aerospike_general_string_constants)"
  "distinct (map fst aerospike_str_option_constants)"
  "distinct (map fst (aerospike_logger_constants lib))"
  by (simp_all add: aerospike_general_string_constants_def aerospike_str_option_constants_def
      aerospike_logger_constants_def)

section \<open>Registration\<close>

definition as_longs :: "(string \<times> zlong) list \<Rightarrow> class_constants" where
  "as_longs t = map (\<lambda>(n, v). (n, ZLong v)) t"

definition as_strings :: "(string \<times> string) list \<Rightarrow> class_constants" where
  "as_strings t = map (\<lambda>(n, v). (n, ZString (c_str v))) t"

definition class_table :: "(string \<Rightarrow> zlong) \<Rightarrow> class_constants" where
  "class_table lib =
     as_longs (aerospike_status lib) @ as_strings aerospike_general_string_constants @
     as_longs (aerospike_general_long_constants lib) @ as_longs (aerospike_option_constants lib) @
     as_strings aerospike_str_option_constants @ as_longs (aerospike_logger_constants lib)"

lemma names_of_table [simp]: "map fst (as_longs t) = map fst t" "map fst (as_strings u) = map fst u"
  by (induction t) (auto simp: as_longs_def as_strings_def)

lemma declare_longs_new:
  "distinct (map fst cs @ map fst t) \<Longrightarrow> declare_longs t cs = Some (cs @ as_longs t)"
  by (induction t cs rule: declare_longs.induct) (auto simp: declare_constant_def as_longs_def)

lemma declare_strings_new:
  "distinct (map fst cs @ map fst t) \<Longrightarrow> declare_strings t cs = Some (cs @ as_strings t)"
  by (induction t cs rule: declare_strings.induct) (auto simp: declare_constant_def as_strings_def)

lemma class_table_distinct: "distinct (map fst (class_table lib))"
  using kinds_apart [OF status_kinds long_kinds, of lib lib]
    kinds_apart [OF status_kinds option_kinds, of lib lib]
    kinds_apart [OF status_kinds string_kinds(1), of lib]
    kinds_apart [OF status_kinds string_kinds(2), of lib]
    kinds_apart [OF status_kinds string_kinds(3), of lib lib]
    kinds_apart [OF long_kinds option_kinds, of lib lib]
    kinds_apart [OF long_kinds string_kinds(2), of lib]
    kinds_apart [OF long_kinds string_kinds(3), of lib lib]
    kinds_apart [OF option_kinds string_kinds(3), of lib lib]
    kinds_apart [OF string_kinds(1,2)] kinds_apart [OF string_kinds(1,3), of lib]
    kinds_apart [OF string_kinds(2,3), of lib]
    strings_apart_longs [of lib] strings_apart_options [of lib] option_strings_apart [of lib]
    status_names_distinct [of lib] long_names_distinct [of lib] option_names_distinct [of lib]
    small_tables_distinct
  by (simp add: class_table_def Int_commute Int_Un_distrib)

lemma class_registered: "register_aerospike_class lib = Some (class_table lib)"
  using class_table_distinct [of lib]
  by (simp add: register_aerospike_class_def register_aerospike_status_codes_def
      register_aerospike_class_constants_def register_aerospike_option_constants_def
      register_logger_constants_def declare_longs_new declare_strings_new class_table_def
      Int_Un_distrib Int_Un_distrib2)

text \<open>
  C38. No two of the 252 class constants have the same name, so that the class is registered without a
  fatal error. A script reads each constant of the long tables with the value of its table; the
  names of the predicates have the strings the parser of where clauses compares with.
\<close>

theorem class_constants_registered:
  "\<exists>cs. register_aerospike_class lib = Some cs \<and> distinct (map fst cs) \<and> length cs = 252 \<and>
     list_all (\<lambda>(n, v). map_of cs n = Some (ZLong v))
       (aerospike_status lib @ aerospike_general_long_constants lib @ aerospike_option_constants lib @
        aerospike_logger_constants lib) \<and>
     list_all (\<lambda>(n, v). map_of cs n = Some (ZString v))
       [(''OP_EQ'', PHP_PREDICATE_EQUAL), (''OP_BETWEEN'', PHP_PREDICATE_BETWEEN),
        (''OP_CONTAINS'', PHP_PREDICATE_CONTAINS), (''OP_RANGE'', PHP_PREDICATE_RANGE),
        (''OP_GEOWITHINREGION'', PHP_PREDICATE_GEO_WITHIN),
        (''OP_GEOCONTAINSPOINT'', PHP_PREDICATE_GEO_CONTAINS)]"
proof (intro exI conjI)
  let ?cs = "class_table lib"
  have d: "distinct (map fst ?cs)" by (rule class_table_distinct)
  have l: "map_of ?cs n = Some v" if "(n, v) \<in> set ?cs" for n v
    using d that by (rule map_of_is_SomeI)
  show "list_all (\<lambda>(n, v). map_of ?cs n = Some (ZLong v))
       (aerospike_status lib @ aerospike_general_long_constants lib @ aerospike_option_constants lib @
        aerospike_logger_constants lib)"
  proof -
    have "(n, ZLong v) \<in> set ?cs" if "(n, v) \<in> set (aerospike_status lib @
        aerospike_general_long_constants lib @ aerospike_option_constants lib @
        aerospike_logger_constants lib)" for n v
      using that by (force simp: class_table_def as_longs_def)
    then show ?thesis by (auto simp: list_all_iff simp del: set_append intro!: l)
  qed
  show "list_all (\<lambda>(n, v). map_of ?cs n = Some (ZString v))
       [(''OP_EQ'', PHP_PREDICATE_EQUAL), (''OP_BETWEEN'', PHP_PREDICATE_BETWEEN),
        (''OP_CONTAINS'', PHP_PREDICATE_CONTAINS), (''OP_RANGE'', PHP_PREDICATE_RANGE),
        (''OP_GEOWITHINREGION'', PHP_PREDICATE_GEO_WITHIN),
        (''OP_GEOCONTAINSPOINT'', PHP_PREDICATE_GEO_CONTAINS)]"
  proof -
    have "(n, ZString v) \<in> set ?cs" if "(n, v) \<in> set aerospike_general_string_constants" "c_str v = v"
      for n v
      using that by (force simp: class_table_def as_strings_def)
    then show ?thesis
      by (simp add: l aerospike_general_string_constants_def predicate_op_defs c_str_def NUL_def)
  qed
  show "length ?cs = 252"
    by (simp add: class_table_def as_longs_def as_strings_def aerospike_status_def
        aerospike_general_string_constants_def aerospike_general_long_constants_def
        aerospike_option_constants_def aerospike_str_option_constants_def
        aerospike_logger_constants_def)
qed (simp_all add: class_registered class_table_distinct)

text \<open>
  The 54 option keys scripts name are 54 different numbers, the numbers 1 to 54: two options of a
  policy array never take the same key, whatever the enumerations of the C client are.
\<close>

definition option_keys :: "(string \<Rightarrow> zlong) \<Rightarrow> zlong list" where
  "option_keys lib = map snd (filter (\<lambda>(n, v). take 4 n \<in> {''OPT_'', ''USE_'', ''COMP''})
     (aerospike_option_constants lib))"

theorem option_keys_distinct:
  "distinct (option_keys lib) \<and> length (option_keys lib) = 54 \<and>
   list_all (\<lambda>k. 1 \<le> k \<and> k \<le> 54) (option_keys lib)"
proof -
  have "option_keys lib = map fst (filter (\<lambda>(v, n). take 4 n \<in> {''OPT_'', ''USE_'', ''COMP''})
     (map (\<lambda>(n, v). (v, n)) (aerospike_option_constants lib)))"
    by (simp add: option_keys_def filter_map comp_def case_prod_unfold)
  then show ?thesis
    by (simp add: aerospike_option_constants_def opt_keys)
qed

text \<open>Constants the documentation of the class lists (\<open>doc/phpdoc/aerospike.php\<close>).\<close>

definition documented_names :: "string list" where
  "documented_names =
     [''ERR_BATCH_QUEUES_FULL'', ''ERR_BIN_EXISTS'', ''ERR_BIN_NOT_FOUND'',
      ''ERR_FAIL_ELEMENT_NOT_FOUND'', ''ERR_FAIL_FORBIDDEN'', ''ERR_TLS_ERROR'', ''LOG_LEVEL_OFF'',
      ''SCAN_PRIORITY_AUTO'', ''SCAN_PRIORITY_HIGH'', ''SCAN_PRIORITY_LOW'', ''SCAN_PRIORITY_MEDIUM'']"

lemma not_status: "list_all (\<lambda>n. n \<notin> set (map fst (aerospike_status lib))) documented_names"
  by (simp add: documented_names_def aerospike_status_def)

lemma not_option: "list_all (\<lambda>n. n \<notin> set (map fst (aerospike_option_constants lib))) documented_names"
  by (simp add: documented_names_def aerospike_option_constants_def)

lemma not_other:
  "list_all (\<lambda>n. n \<notin> set (map fst (aerospike_general_long_constants lib) @
     map fst aerospike_general_string_constants @ map fst aerospike_str_option_constants @
     map fst (aerospike_logger_constants lib))) documented_names"
  by (simp add: documented_names_def aerospike_general_long_constants_def
      aerospike_general_string_constants_def aerospike_str_option_constants_def
      aerospike_logger_constants_def)

text \<open>
  Constants the documentation of the class promises and scripts cannot read: the name of one is
  registered with a blank behind it, others under another name or not at all.
\<close>

theorem documented_constants_missing:
  "\<exists>cs. register_aerospike_class lib = Some cs \<and>
     list_all (\<lambda>n. map_of cs n = None) documented_names \<and>
     map_of cs ''ERR_BATCH_QUEUES_FULL '' = Some (ZLong (lib ''AEROSPIKE_ERR_BATCH_QUEUES_FULL''))"
proof -
  have "set (map fst (class_table lib)) = set (map fst (aerospike_status lib)) \<union>
      set (map fst (aerospike_option_constants lib)) \<union>
      set (map fst (aerospike_general_long_constants lib) @
        map fst aerospike_general_string_constants @ map fst aerospike_str_option_constants @
        map fst (aerospike_logger_constants lib))"
    by (simp add: class_table_def image_Un del: set_map) auto
  then have "list_all (\<lambda>n. map_of (class_table lib) n = None) documented_names"
    using not_status [of lib] not_option [of lib] not_other [of lib]
    by (simp add: list_all_iff map_of_eq_None_iff del: set_append)
  moreover have "map_of (class_table lib) ''ERR_BATCH_QUEUES_FULL '' =
      Some (ZLong (lib ''AEROSPIKE_ERR_BATCH_QUEUES_FULL''))"
    by (rule map_of_is_SomeI [OF class_table_distinct])
       (simp add: class_table_def as_longs_def aerospike_status_def)
  ultimately show ?thesis by (simp add: class_registered)
qed

end
