(* ===== verification/Arguments.thy ===== *)
theory Arguments
  imports Prelude
begin


section \<open>Argument tables\<close>



















































































section \<open>Formats\<close>




section \<open>The methods\<close>




end
