(* ===== verification/Session.thy ===== *)
theory Session
  imports Lifecycle ListMethods
begin

text \<open>
  The session handler of \<open>client/aerospike_session.c\<close>: PHP sessions kept as records of one set. The
  state is the session PHP holds for the module (\<open>PS_GET_MOD_DATA\<close>) and the world of \<open>Persistent\<close>,
  since an open session uses a shared connection. A result is \<open>None\<close> when a structure that is gone
  would be used; its first component is whether the function reports \<open>SUCCESS\<close>.
\<close>

section \<open>Structures and calls\<close>

record session_data =
  ses_ns :: string
  ses_set :: string
  ses_client :: "php_object option"

record session_ext = life_ext +
  config_add_hosts :: "config \<Rightarrow> string \<Rightarrow> u16 \<Rightarrow> config option" \<comment> \<open>the default port\<close>
  record_set_raw :: "as_record \<Rightarrow> string \<Rightarrow> string \<Rightarrow> u32 \<Rightarrow> as_record option"
  add_touch :: "operations \<Rightarrow> operations"

text \<open>The calls with a null policy, and PHP's generator of session ids.\<close>

record 's session_env = "'s list_env" +
  default_get :: "config \<Rightarrow> as_key \<Rightarrow> 's \<Rightarrow> as_error \<times> as_record option \<times> 's"
  default_exists :: "config \<Rightarrow> as_key \<Rightarrow> 's \<Rightarrow> as_error \<times> 's"
  default_remove :: "config \<Rightarrow> as_key \<Rightarrow> 's \<Rightarrow> as_error \<times> 's"
  session_create_id :: "'s \<Rightarrow> string option \<times> 's"

definition AEROSPIKE_SESSION_BIN :: string where "AEROSPIKE_SESSION_BIN = ''PHP_SESSION''"

definition NS_SET_DELIM :: char where "NS_SET_DELIM = CHR 0x7C"

section \<open>Opening and closing\<close>

text \<open>What stands before the delimiter, if there is one, and what follows it.\<close>

definition cut_at_delim :: "string \<Rightarrow> (string \<times> string) option" where
  "cut_at_delim s =
     (if NS_SET_DELIM \<in> set s then
        Some (takeWhile (\<lambda>c. c \<noteq> NS_SET_DELIM) s, tl (dropWhile (\<lambda>c. c \<noteq> NS_SET_DELIM) s))
      else None)"

text \<open>The namespace, the set and the hosts of the save path.\<close>

definition parse_save_path :: "'e conv_ext_scheme \<Rightarrow> string \<Rightarrow> (string \<times> string \<times> string) option" where
  "parse_save_path E save_path =
     (case cut_at_delim (c_str save_path) of
        None \<Rightarrow> None
      | Some (ns, start) \<Rightarrow>
          if ns = [] \<or> namespace_max_size E \<le> length ns then None
          else if start = [] then None
          else
            (case cut_at_delim start of
               None \<Rightarrow> None
             | Some (set_name, start) \<Rightarrow>
                 if set_name = [] \<or> set_max_size E \<le> length set_name then None
                 else if start = [] then None
                 else Some (ns, set_name, start)))"

text \<open>The client the session makes; what \<open>malloc\<close> leaves in the remembered error is never read.\<close>

definition session_object :: "nat \<Rightarrow> php_object" where
  "session_object a = \<lparr>obj_client = Some a, obj_is_connected = False, obj_is_valid = True,
     obj_error = as_error_init, obj_is_persistent = True\<rparr>"

text \<open>\<open>aerospike_destroy\<close> of the structure the client points to, which has to be there.\<close>

definition destroy_client :: "php_object \<Rightarrow> 's world \<Rightarrow> 's world option" where
  "destroy_client obj w =
     (case obj_client obj of
        None \<Rightarrow> Some w
      | Some a \<Rightarrow> (case heap w a of None \<Rightarrow> None | Some _ \<Rightarrow> Some (destroy a w)))"

definition set_up_session_data_from_save_path ::
  "'e session_ext_scheme \<Rightarrow> ('s, 'z) session_env_scheme \<Rightarrow> ini_settings \<Rightarrow> string \<Rightarrow> 's world \<Rightarrow>
     (session_data option \<times> 's world) option" where
  "set_up_session_data_from_save_path E V i save_path w =
     (case parse_save_path E save_path of
        None \<Rightarrow> Some (None, w)
      | Some (ns, set_name, hosts) \<Rightarrow>
          (case config_add_hosts E (config_initial E) hosts 3000 of
             None \<Rightarrow> Some (None, w)
           | Some c \<Rightarrow>
               (let c = (if zts E then c\<lparr>cfg_thread_pool_size := 0\<rparr> else c);
                    c = fst (set_policy_defaults_from_ini E i c)
                in
                if \<not> aerospike_new_ok E c then Some (None, w)
                else
                  (case aerospike_new c w of
                     (a, w) \<Rightarrow>
                       (case persistent_connect V a (session_object a) w of
                          None \<Rightarrow> None
                        | Some (st, obj, w) \<Rightarrow>
                            if st \<noteq> AEROSPIKE_OK then map_option (\<lambda>w. (None, w)) (destroy_client obj w)
                            else
                              Some (Some \<lparr>ses_ns = ns, ses_set = set_name,
                                ses_client = Some (obj\<lparr>obj_is_connected := True\<rparr>)\<rparr>, w))))))"

text \<open>\<open>PS_OPEN_FUNC\<close>; the session that was open is freed, its connection is not.\<close>

definition ps_open ::
  "'e session_ext_scheme \<Rightarrow> ('s, 'z) session_env_scheme \<Rightarrow> ini_settings \<Rightarrow> string \<Rightarrow>
     session_data option \<times> 's world \<Rightarrow> (bool \<times> session_data option \<times> 's world) option" where
  "ps_open E V i save_path st =
     (case set_up_session_data_from_save_path E V i save_path (snd st) of
        None \<Rightarrow> None
      | Some (None, w) \<Rightarrow> Some (False, fst st, w)
      | Some (Some d, w) \<Rightarrow> Some (True, Some d, w))"

definition verify_session_data :: "session_data option \<Rightarrow> bool" where
  "verify_session_data session \<longleftrightarrow>
     (case session of
        None \<Rightarrow> False
      | Some d \<Rightarrow> (case ses_client d of None \<Rightarrow> False | Some obj \<Rightarrow> obj_client obj \<noteq> None))"

definition ps_close :: "session_data option \<times> 's world \<Rightarrow> bool \<times> session_data option \<times> 's world" where
  "ps_close st = (True, None, snd st)"

section \<open>The functions on an open session\<close>

text \<open>
  The beginning of each: \<open>FAILURE\<close> when the session is not valid or the key cannot be made;
  otherwise what follows, with the configuration the pointer of the client leads to.
\<close>

definition session_key :: "'e conv_ext_scheme \<Rightarrow> session_data \<Rightarrow> string \<Rightarrow> as_key option" where
  "session_key E d sid = key_init_value E (c_str (ses_ns d)) (c_str (ses_set d)) (AsString (c_str sid))"

definition with_session ::
  "'e conv_ext_scheme \<Rightarrow> session_data option \<Rightarrow> string \<Rightarrow> 's world \<Rightarrow> 'r \<Rightarrow>
     (config \<Rightarrow> as_key \<Rightarrow> ('r \<times> 's world) option) \<Rightarrow> ('r \<times> 's world) option" where
  "with_session E session sid w failure k =
     (case session of
        None \<Rightarrow> Some (failure, w)
      | Some d \<Rightarrow>
          (case Option.bind (ses_client d) obj_client of
             None \<Rightarrow> Some (failure, w)
           | Some a \<Rightarrow>
               (case session_key E d sid of
                  None \<Rightarrow> Some (failure, w)
                | Some key \<Rightarrow> (case heap w a of None \<Rightarrow> None | Some cfg \<Rightarrow> k cfg key))))"

definition ps_write ::
  "'e session_ext_scheme \<Rightarrow> ('s, 'z) session_env_scheme \<Rightarrow> session_data option \<Rightarrow> string \<Rightarrow> string \<Rightarrow> zlong \<Rightarrow>
     's world \<Rightarrow> (bool \<times> 's world) option" where
  "ps_write E V session key val maxlifetime w =
     with_session E session key w False (\<lambda>cfg write_key.
       (case record_set_raw E (record_new E 1) AEROSPIKE_SESSION_BIN val (bytes_php E) of
          None \<Rightarrow> Some (False, w)
        | Some r \<Rightarrow>
            (case key_put V cfg None write_key (r\<lparr>rec_ttl := ucast maxlifetime\<rparr>) (servers w) of
               (err, s) \<Rightarrow> Some (code err = AEROSPIKE_OK, w\<lparr>servers := s\<rparr>))))"

definition ps_destroy ::
  "'e session_ext_scheme \<Rightarrow> ('s, 'z) session_env_scheme \<Rightarrow> session_data option \<Rightarrow> string \<Rightarrow> 's world \<Rightarrow>
     (bool \<times> 's world) option" where
  "ps_destroy E V session key w =
     with_session E session key w False (\<lambda>cfg remove_key.
       (case default_remove V cfg remove_key (servers w) of
          (err, s) \<Rightarrow>
            Some (code err = AEROSPIKE_OK \<or> code err = AEROSPIKE_ERR_RECORD_NOT_FOUND, w\<lparr>servers := s\<rparr>)))"

definition ps_gc :: "session_data option \<Rightarrow> bool" where
  "ps_gc session = verify_session_data session"

text \<open>The data read, \<open>None\<close> when nothing is handed out; a record that is not there is read as empty.\<close>

definition session_value :: "as_val \<Rightarrow> bool \<times> string option" where
  "session_value v =
     (case v of
        AsBytes t s \<Rightarrow> (True, Some s)
      | AsString s \<Rightarrow> (True, Some s)
      | _ \<Rightarrow> (False, None))"

definition ps_read ::
  "'e session_ext_scheme \<Rightarrow> ('s, 'z) session_env_scheme \<Rightarrow> session_data option \<Rightarrow> string \<Rightarrow> 's world \<Rightarrow>
     ((bool \<times> string option) \<times> 's world) option" where
  "ps_read E V session key w =
     with_session E session key w (False, None) (\<lambda>cfg read_key.
       (case default_get V cfg read_key (servers w) of
          (err, rec, s) \<Rightarrow>
            (let w = w\<lparr>servers := s\<rparr> in
             if code err = AEROSPIKE_ERR_RECORD_NOT_FOUND then Some ((True, Some []), w)
             else if code err \<noteq> AEROSPIKE_OK then Some ((False, None), w)
             else
               (case rec of
                  None \<Rightarrow> None
                | Some r \<Rightarrow>
                    (case record_get V r AEROSPIKE_SESSION_BIN of
                       None \<Rightarrow> Some ((False, None), w)
                     | Some v \<Rightarrow> Some (session_value v, w))))))"

definition aerospike_session_exists ::
  "'e session_ext_scheme \<Rightarrow> ('s, 'z) session_env_scheme \<Rightarrow> session_data option \<Rightarrow> string \<Rightarrow> 's world \<Rightarrow>
     (bool \<times> 's world) option" where
  "aerospike_session_exists E V session sid w =
     with_session E session sid w False (\<lambda>cfg exists_key.
       (case default_exists V cfg exists_key (servers w) of
          (err, s) \<Rightarrow> Some (code err = AEROSPIKE_OK, w\<lparr>servers := s\<rparr>)))"

definition ps_validate_sid ::
  "'e session_ext_scheme \<Rightarrow> ('s, 'z) session_env_scheme \<Rightarrow> session_data option \<Rightarrow> string \<Rightarrow> 's world \<Rightarrow>
     (bool \<times> 's world) option" where
  "ps_validate_sid E V session key w = aerospike_session_exists E V session key w"

text \<open>The attempts to make an id that is not in use.\<close>

fun create_sid_loop ::
  "'e session_ext_scheme \<Rightarrow> ('s, 'z) session_env_scheme \<Rightarrow> session_data option \<Rightarrow> nat \<Rightarrow> 's world \<Rightarrow>
     (string option \<times> 's world) option" where
  "create_sid_loop E V session 0 w = Some (None, w)"
| "create_sid_loop E V session (Suc max_attempts) w =
     (case session_create_id V (servers w) of
        (None, s) \<Rightarrow> create_sid_loop E V session max_attempts (w\<lparr>servers := s\<rparr>)
      | (Some sid, s) \<Rightarrow>
          (case aerospike_session_exists E V session sid (w\<lparr>servers := s\<rparr>) of
             None \<Rightarrow> None
           | Some (True, w) \<Rightarrow> create_sid_loop E V session max_attempts w
           | Some (False, w) \<Rightarrow> Some (Some sid, w)))"

definition ps_create_sid ::
  "'e session_ext_scheme \<Rightarrow> ('s, 'z) session_env_scheme \<Rightarrow> session_data option \<Rightarrow> 's world \<Rightarrow>
     (string option \<times> 's world) option" where
  "ps_create_sid E V session w =
     (if \<not> verify_session_data session then Some (None, w) else create_sid_loop E V session 5 w)"

definition ps_update_timestamp ::
  "'e session_ext_scheme \<Rightarrow> ('s, 'z) session_env_scheme \<Rightarrow> session_data option \<Rightarrow> string \<Rightarrow> zlong \<Rightarrow> 's world \<Rightarrow>
     (bool \<times> 's world) option" where
  "ps_update_timestamp E V session key maxlifetime w =
     with_session E session key w False (\<lambda>cfg touch_key.
       (case key_operate V cfg None touch_key
          ((add_touch E (operations_new V 1))\<lparr>ops_ttl := ucast maxlifetime\<rparr>) (servers w) of
          (err, rec, s) \<Rightarrow> Some (code err = AEROSPIKE_OK, w\<lparr>servers := s\<rparr>)))"

end
