(* ===== verification/Simulation.thy ===== *)
theory Simulation
  imports Prelude
begin

text \<open>
  The interface between a component and what it promises: calls of the code on its state, calls of
  an abstract object, and the representation of one by the other. A component whose single calls
  are those of the object is the object for every sequence of calls.
\<close>

text \<open>Sequences of calls, on code that may go wrong (\<open>None\<close>) and on an object that answers always.\<close>

fun run_calls :: "('c \<Rightarrow> 's \<Rightarrow> ('r \<times> 's) option) \<Rightarrow> 'c list \<Rightarrow> 's \<Rightarrow> ('r list \<times> 's) option" where
  "run_calls f [] s = Some ([], s)"
| "run_calls f (call # calls) s =
     (case f call s of
        None \<Rightarrow> None
      | Some (reply, s) \<Rightarrow>
          (case run_calls f calls s of
             None \<Rightarrow> None
           | Some (replies, s) \<Rightarrow> Some (reply # replies, s)))"

fun run_object :: "('c \<Rightarrow> 'm \<Rightarrow> 'r \<times> 'm) \<Rightarrow> 'c list \<Rightarrow> 'm \<Rightarrow> 'r list \<times> 'm" where
  "run_object g [] m = ([], m)"
| "run_object g (call # calls) m =
     (case g call m of (reply, m) \<Rightarrow> case run_object g calls m of (replies, m) \<Rightarrow> (reply # replies, m))"

text \<open>
  \<open>rep\<close> says which objects a state represents, \<open>answers\<close> which replies of the code stand for a reply
  of the object.
\<close>

locale simulation =
  fixes code_call :: "'c \<Rightarrow> 's \<Rightarrow> ('r \<times> 's) option"
    and object_call :: "'c \<Rightarrow> 'm \<Rightarrow> 'q \<times> 'm"
    and allowed :: "'c \<Rightarrow> bool"
    and rep :: "'s \<Rightarrow> 'm \<Rightarrow> bool"
    and answers :: "'r \<Rightarrow> 'q \<Rightarrow> bool"
  assumes one_call: "rep s m \<Longrightarrow> allowed call \<Longrightarrow>
    \<exists>reply s'. code_call call s = Some (reply, s') \<and> answers reply (fst (object_call call m)) \<and>
      rep s' (snd (object_call call m))"
begin

lemma all_calls:
  "rep s m \<Longrightarrow> list_all allowed calls \<Longrightarrow>
   \<exists>replies s'. run_calls code_call calls s = Some (replies, s') \<and>
     list_all2 answers replies (fst (run_object object_call calls m)) \<and>
     rep s' (snd (run_object object_call calls m))"
proof (induction calls arbitrary: s m)
  case Nil
  then show ?case by simp
next
  case (Cons call calls)
  then obtain reply s' where "code_call call s = Some (reply, s')"
      "answers reply (fst (object_call call m))" "rep s' (snd (object_call call m))"
    using one_call [of s m call] by auto
  with Cons.IH [of s' "snd (object_call call m)"] Cons.prems show ?case
    by (auto simp: case_prod_unfold)
qed

lemma never_wrong: "rep s m \<Longrightarrow> list_all allowed calls \<Longrightarrow> run_calls code_call calls s \<noteq> None"
  using all_calls by fastforce

end

end
