(* ===== verification/SessionProps.thy ===== *)
theory SessionProps
  imports Session PersistentProps Simulation
begin

text \<open>
  The session handler: what a save path names, that opening a session is safe for the clients that
  share its connection, that the functions on an open session are an abstract store of sessions,
  and how a session id is made.
\<close>

section \<open>The save path\<close>

lemma cut_at_delim_iff:
  "cut_at_delim s = Some (a, b) \<longleftrightarrow> s = a @ NS_SET_DELIM # b \<and> NS_SET_DELIM \<notin> set a"
proof
  assume "cut_at_delim s = Some (a, b)"
  then have i: "NS_SET_DELIM \<in> set s" and a: "a = takeWhile (\<lambda>c. c \<noteq> NS_SET_DELIM) s"
    and b: "b = tl (dropWhile (\<lambda>c. c \<noteq> NS_SET_DELIM) s)"
    by (auto simp: cut_at_delim_def split: if_splits)
  from i obtain t where "dropWhile (\<lambda>c. c \<noteq> NS_SET_DELIM) s = NS_SET_DELIM # t"
    using dropWhile_eq_Nil_conv [of "\<lambda>c. c \<noteq> NS_SET_DELIM" s] hd_dropWhile [of "\<lambda>c. c \<noteq> NS_SET_DELIM" s]
    by (cases "dropWhile (\<lambda>c. c \<noteq> NS_SET_DELIM) s") auto
  with a b show "s = a @ NS_SET_DELIM # b \<and> NS_SET_DELIM \<notin> set a"
    using takeWhile_dropWhile_id [of "\<lambda>c. c \<noteq> NS_SET_DELIM" s] by (auto dest: set_takeWhileD)
next
  assume "s = a @ NS_SET_DELIM # b \<and> NS_SET_DELIM \<notin> set a"
  then show "cut_at_delim s = Some (a, b)"
    by (auto simp: cut_at_delim_def takeWhile_tail dropWhile_append)
qed

lemma parse_save_path_lengths:
  "parse_save_path E path = Some (ns, set_name, hosts) \<Longrightarrow>
   length ns < namespace_max_size E \<and> length set_name < set_max_size E"
  unfolding parse_save_path_def by (auto split: option.splits if_splits)

text \<open>
  A save path is accepted exactly when it is a namespace, a set and hosts with a bar between them,
  none of them empty; the namespace and the set, with their end marks, then fit the buffers of the
  session. The hosts may hold further bars.
\<close>

theorem parse_save_path_iff:
  "parse_save_path E path = Some (ns, set_name, hosts) \<longleftrightarrow>
     c_str path = ns @ NS_SET_DELIM # set_name @ NS_SET_DELIM # hosts \<and>
     NS_SET_DELIM \<notin> set ns \<and> NS_SET_DELIM \<notin> set set_name \<and>
     0 < length ns \<and> length ns + 1 \<le> namespace_max_size E \<and>
     0 < length set_name \<and> length set_name + 1 \<le> set_max_size E \<and> hosts \<noteq> []"
proof (intro iffI; (elim conjE)?)
  assume "parse_save_path E path = Some (ns, set_name, hosts)"
  then obtain start where "cut_at_delim (c_str path) = Some (ns, start)"
      "cut_at_delim start = Some (set_name, hosts)"
      "ns \<noteq> []" "length ns < namespace_max_size E" "set_name \<noteq> []" "length set_name < set_max_size E"
      "hosts \<noteq> []"
    unfolding parse_save_path_def by (auto split: option.splits if_splits)
  then show "c_str path = ns @ NS_SET_DELIM # set_name @ NS_SET_DELIM # hosts \<and>
     NS_SET_DELIM \<notin> set ns \<and> NS_SET_DELIM \<notin> set set_name \<and>
     0 < length ns \<and> length ns + 1 \<le> namespace_max_size E \<and>
     0 < length set_name \<and> length set_name + 1 \<le> set_max_size E \<and> hosts \<noteq> []"
    by (simp add: cut_at_delim_iff)
next
  assume "c_str path = ns @ NS_SET_DELIM # set_name @ NS_SET_DELIM # hosts"
    "NS_SET_DELIM \<notin> set ns" "NS_SET_DELIM \<notin> set set_name"
    "0 < length ns" "length ns + 1 \<le> namespace_max_size E"
    "0 < length set_name" "length set_name + 1 \<le> set_max_size E" "hosts \<noteq> []"
  moreover from this have "cut_at_delim (c_str path) = Some (ns, set_name @ NS_SET_DELIM # hosts)"
      "cut_at_delim (set_name @ NS_SET_DELIM # hosts) = Some (set_name, hosts)"
    by (simp_all add: cut_at_delim_iff)
  ultimately show "parse_save_path E path = Some (ns, set_name, hosts)"
    by (simp add: parse_save_path_def)
qed

section \<open>Opening a session\<close>

text \<open>Every shared structure is connected: nothing in the code ever clears the flag.\<close>

definition hosts_up :: "'s world \<Rightarrow> bool" where
  "hosts_up w \<longleftrightarrow> (\<forall>(k, h) \<in> set (plist w). host_is_connected h)"

lemma hosts_up_update [simp]:
  "hosts_up (w\<lparr>servers := s\<rparr>) = hosts_up w" "hosts_up (destroy a w) = hosts_up w"
  by (simp_all add: hosts_up_def)

lemma hosts_up_put: "hosts_up w \<Longrightarrow> host_is_connected h \<Longrightarrow> hosts_up (put_host k h w)"
  by (auto simp: hosts_up_def put_host_def)

lemma hosts_up_get: "hosts_up w \<Longrightarrow> get_persistent_host k w = Some h \<Longrightarrow> host_is_connected h"
  by (auto simp: hosts_up_def get_persistent_host_def dest!: map_of_SomeD)

text \<open>How a shared connection is made while all hosts are up.\<close>

lemma persistent_connect_up:
  assumes ok: "world_ok w" "hosts_up w" "heap w a = Some cfg" "a \<notin> shared w" "obj_client obj = Some a"
    and conn: "persistent_connect V a obj w = Some (st, obj', w')"
  shows "(st = AEROSPIKE_OK \<and> hosts_up w' \<and> world_ok w' \<and>
            (dom (heap w') = dom (heap w) - {a} \<and> shared w' = shared w \<and> obj_client obj' \<in> Some ` shared w \<or>
             dom (heap w') = dom (heap w) \<and> shared w' = insert a (shared w) \<and> obj_client obj' = Some a)) \<or>
         (st \<noteq> AEROSPIKE_OK \<and> obj_client obj' = Some a \<and> (\<exists>s. w' = w\<lparr>servers := s\<rparr>))"
proof (cases "get_persistent_host (search_string cfg) w")
  case None
  obtain err s where c: "connect_at V a w = Some (err, w\<lparr>servers := s\<rparr>)"
    using connect_at_cases [of a w V] ok(3) by auto
  have n: "get_persistent_host (search_string cfg) (w\<lparr>servers := s\<rparr>) = None"
    using None by (simp add: get_persistent_host_def)
  let ?w = "put_host (search_string cfg) \<lparr>host_ref_cnt = 1, host_conn_cnt = 1, host_is_connected = True,
      host_client = a\<rparr> (add_persistent_host (search_string cfg) a (w\<lparr>servers := s\<rparr>))"
  have "hosts_up ?w"
    using ok(2) by (auto simp: hosts_up_def put_host_def add_persistent_host_def)
  moreover have "world_ok ?w" "shared ?w = insert a (shared (w\<lparr>servers := s\<rparr>))"
    using ok(1,3,4) by (intro add_host_ok [OF _ n]; auto)+
  ultimately show ?thesis
    using conn None c ok(3,5) by (auto simp: persistent_connect_def Let_def split: if_splits)
next
  case (Some h)
  have up: "host_is_connected h" using ok(2) Some by (rule hosts_up_get)
  let ?w = "destroy a w"
  have w: "world_ok ?w" using ok(1,4) by (rule destroy_ok)
  have g: "get_persistent_host (search_string cfg) ?w = Some h"
    using Some by (simp add: get_persistent_host_def destroy_def)
  have "host_client h \<in> shared w"
    using Some by (force simp: get_persistent_host_def shared_def dest: map_of_SomeD)
  with put_host_ok [OF w g, of "h\<lparr>host_conn_cnt := host_conn_cnt h + 1, host_ref_cnt := host_ref_cnt h + 1\<rparr>"]
    hosts_up_put [of ?w "h\<lparr>host_conn_cnt := host_conn_cnt h + 1, host_ref_cnt := host_ref_cnt h + 1\<rparr>"]
  show ?thesis
    using conn Some ok up by (auto simp: persistent_connect_def Let_def simp flip: destroy_fields(4))
qed

lemma new_structure:
  assumes "world_ok w" "hosts_up w" "aerospike_new c w = (a, w1)"
  shows "world_ok w1" "hosts_up w1" "heap w1 a = Some c" "a \<notin> shared w1"
    "dom (heap w1) - {a} = dom (heap w)" "shared w1 = shared w" "servers w1 = servers w"
proof -
  have a: "a = next_addr w" "w1 = w\<lparr>heap := (heap w)(a \<mapsto> c), next_addr := Suc a\<rparr>"
    using assms(3) by (auto simp: aerospike_new_def Let_def)
  have new: "a \<notin> dom (heap w)" using assms(1) a(1) by (auto simp: world_ok_def)
  then show "a \<notin> shared w1" "dom (heap w1) - {a} = dom (heap w)" "heap w1 a = Some c"
      "shared w1 = shared w" "servers w1 = servers w"
    using a(2) assms(1) by (auto simp: world_ok_def)
  from a assms(2) show "hosts_up w1" by (simp add: hosts_up_def)
  have "\<forall>b \<in> dom (heap w1). b < next_addr w1" "shared w1 \<subseteq> dom (heap w1)"
    using a assms(1) by (auto simp: world_ok_def less_Suc_eq)
  with a assms(1) show "world_ok w1" by (simp add: world_ok_def)
qed

text \<open>What is there stays there, and what is new is shared.\<close>

definition only_adds_shared :: "'s world \<Rightarrow> 's world \<Rightarrow> bool" where
  "only_adds_shared w w' \<longleftrightarrow> dom (heap w) \<subseteq> dom (heap w') \<and> dom (heap w') \<subseteq> dom (heap w) \<union> shared w' \<and>
     shared w \<subseteq> shared w' \<and> shared w' \<inter> dom (heap w) \<subseteq> shared w"

lemma only_adds_shared_refl [simp]: "only_adds_shared w w"
  by (auto simp: only_adds_shared_def)

lemma only_adds_shared_cong:
  "dom (heap w') = dom (heap w) \<Longrightarrow> shared w' = shared w \<Longrightarrow> only_adds_shared w w'"
  "dom (heap w') = insert a (dom (heap w)) \<Longrightarrow> shared w' = insert a (shared w) \<Longrightarrow> a \<notin> dom (heap w) \<Longrightarrow>
     only_adds_shared w w'"
  by (simp_all add: only_adds_shared_def) blast

definition session_well :: "session_data \<Rightarrow> 's world \<Rightarrow> bool" where
  "session_well d w \<longleftrightarrow> (\<exists>a obj. ses_client d = Some obj \<and> obj_client obj = Some a \<and> a \<in> shared w)"

lemma set_up_session:
  assumes ok: "world_ok w" "hosts_up w"
  shows "\<exists>r w'. set_up_session_data_from_save_path E V i path w = Some (r, w') \<and>
    world_ok w' \<and> hosts_up w' \<and> only_adds_shared w w' \<and>
    (case r of None \<Rightarrow> True
     | Some d \<Rightarrow> session_well d w' \<and> (\<exists>hosts. parse_save_path E path = Some (ses_ns d, ses_set d, hosts)))"
proof (cases "parse_save_path E path")
  case None
  then show ?thesis using ok by (simp add: set_up_session_data_from_save_path_def)
next
  case (Some p)
  obtain ns set_name hosts where p: "p = (ns, set_name, hosts)" by (cases p)
  show ?thesis
  proof (cases "config_add_hosts E (config_initial E) hosts 3000")
    case None
    then show ?thesis using ok Some p by (simp add: set_up_session_data_from_save_path_def)
  next
    case (Some c)
    define c' where "c' = fst (set_policy_defaults_from_ini E i (if zts E then c\<lparr>cfg_thread_pool_size := 0\<rparr> else c))"
    obtain a w1 where n: "aerospike_new c' w = (a, w1)" by fastforce
    note new = new_structure [OF ok n]
    show ?thesis
    proof (cases "aerospike_new_ok E c'")
      case False
      then show ?thesis using ok \<open>parse_save_path E path = Some p\<close> p Some
        by (simp add: set_up_session_data_from_save_path_def c'_def Let_def)
    next
      case True
      have oc: "obj_client (session_object a) = Some a" by (simp add: session_object_def)
      obtain st obj w2 where conn: "persistent_connect V a (session_object a) w1 = Some (st, obj, w2)"
        using persistent_connect_ok [OF new(1) _ new(4) oc] new(3) by blast
      note up = persistent_connect_up [OF new(1-4) oc conn]
      have eq: "set_up_session_data_from_save_path E V i path w =
          (if st \<noteq> AEROSPIKE_OK then map_option (\<lambda>w. (None, w)) (destroy_client obj w2)
           else Some (Some \<lparr>ses_ns = ns, ses_set = set_name, ses_client = Some (obj\<lparr>obj_is_connected := True\<rparr>)\<rparr>, w2))"
        using \<open>parse_save_path E path = Some p\<close> p Some True n conn
        by (simp add: set_up_session_data_from_save_path_def c'_def Let_def)
      show ?thesis
      proof (cases "st = AEROSPIKE_OK")
        case True
        have d: "dom (heap w1) = insert a (dom (heap w))" "a \<notin> dom (heap w)" using new(3,5) by blast+
        from True up have "world_ok w2 \<and> hosts_up w2 \<and> only_adds_shared w w2 \<and> obj_client obj \<in> Some ` shared w2"
          using d new(6) by (auto intro: only_adds_shared_cong(1) only_adds_shared_cong(2) [where a = a])
        with True eq \<open>parse_save_path E path = Some p\<close> p show ?thesis
          by (auto simp: session_well_def)
      next
        case False
        with up obtain s where f: "obj_client obj = Some a" "w2 = w1\<lparr>servers := s\<rparr>" by auto
        then have "destroy_client obj w2 = Some (destroy a (w1\<lparr>servers := s\<rparr>))"
          using new(3) by (simp add: destroy_client_def)
        moreover have "world_ok (destroy a (w1\<lparr>servers := s\<rparr>))"
          using new(1,4) by (intro destroy_ok) simp_all
        ultimately show ?thesis
          using False eq new(2,5,6) by (simp add: only_adds_shared_cong(1))
      qed
    qed
  qed
qed

lemma ps_open_outcome:
  assumes "world_ok w" "hosts_up w"
  shows "\<exists>ok session' w'. ps_open E V i path (session, w) = Some (ok, session', w') \<and>
    world_ok w' \<and> hosts_up w' \<and> only_adds_shared w w' \<and>
    (if ok then \<exists>d hosts. session' = Some d \<and> session_well d w' \<and>
       parse_save_path E path = Some (ses_ns d, ses_set d, hosts)
     else session' = session)"
proof -
  obtain r w' where r: "set_up_session_data_from_save_path E V i path w = Some (r, w')"
      "world_ok w' \<and> hosts_up w' \<and> only_adds_shared w w'"
      "case r of None \<Rightarrow> True
       | Some d \<Rightarrow> session_well d w' \<and> (\<exists>hosts. parse_save_path E path = Some (ses_ns d, ses_set d, hosts))"
    using set_up_session [OF assms] by blast
  show ?thesis
    using r by (cases r) (auto simp: ps_open_def)
qed

text \<open>
  C29. Opening a session never uses a structure that is gone and never destroys one that was there,
  whoever else uses it; whether or not it succeeds the list of shared connections stays well
  formed. A session it leaves open uses one of the shared connections, and the names of its
  save path. In every state a process can reach both hypotheses hold (\<open>process_reachable_inv\<close>).
\<close>

theorem ps_open_safe:
  assumes "world_ok w" "hosts_up w"
  shows "\<exists>ok session' w'. ps_open E V i path (session, w) = Some (ok, session', w') \<and>
    world_ok w' \<and> hosts_up w' \<and> dom (heap w) \<subseteq> dom (heap w') \<and>
    (if ok then \<exists>d hosts. session' = Some d \<and> session_well d w' \<and>
       parse_save_path E path = Some (ses_ns d, ses_set d, hosts)
     else session' = session)"
  using ps_open_outcome [OF assms, of E V i path session] unfolding only_adds_shared_def by blast

section \<open>An open session is a store\<close>

text \<open>
  The abstract store: the data of a session by its id. A call answers with data, with success, or
  (\<open>None\<close>) with failure.
\<close>

datatype session_call =
    Write_session string string zlong
  | Destroy_session string
  | Read_session string
  | Validate_sid string
  | Update_timestamp string zlong

datatype session_reply = Session_data string | Success

type_synonym session_store = "string \<rightharpoonup> string"

fun store_call :: "session_call \<Rightarrow> session_store \<Rightarrow> session_reply option \<times> session_store" where
  "store_call (Write_session sid val ttl) m = (Some Success, m(sid \<mapsto> val))"
| "store_call (Destroy_session sid) m = (Some Success, m(sid := None))"
| "store_call (Read_session sid) m = (Some (Session_data (case m sid of None \<Rightarrow> [] | Some val \<Rightarrow> val)), m)"
| "store_call (Validate_sid sid) m = (if m sid = None then None else Some Success, m)"
| "store_call (Update_timestamp sid ttl) m = (if m sid = None then None else Some Success, m)"

fun call_sid :: "session_call \<Rightarrow> string" where
  "call_sid (Write_session sid val ttl) = sid"
| "call_sid (Destroy_session sid) = sid"
| "call_sid (Read_session sid) = sid"
| "call_sid (Validate_sid sid) = sid"
| "call_sid (Update_timestamp sid ttl) = sid"

text \<open>The same calls on the model of the code.\<close>

definition success :: "(bool \<times> 's world) option \<Rightarrow> (session_reply option \<times> 's world) option" where
  "success r = map_option (\<lambda>(ok, w). (if ok then Some Success else None, w)) r"

fun session_call_on ::
  "'e session_ext_scheme \<Rightarrow> ('s, 'z) session_env_scheme \<Rightarrow> session_data option \<Rightarrow> session_call \<Rightarrow> 's world \<Rightarrow>
     (session_reply option \<times> 's world) option" where
  "session_call_on E V session (Write_session sid val ttl) w = success (ps_write E V session sid val ttl w)"
| "session_call_on E V session (Destroy_session sid) w = success (ps_destroy E V session sid w)"
| "session_call_on E V session (Read_session sid) w =
     map_option (\<lambda>((ok, val), w). (if ok then map_option Session_data val else None, w)) (ps_read E V session sid w)"
| "session_call_on E V session (Validate_sid sid) w = success (ps_validate_sid E V session sid w)"
| "session_call_on E V session (Update_timestamp sid ttl) w =
     success (ps_update_timestamp E V session sid ttl w)"

text \<open>
  The documented behaviour of the calls of the C client, on servers that work: \<open>db\<close> gives the bins
  of the stored records. A put adds its bins to the record, a removed record is gone, and reading,
  checking or touching a record leaves the bins as they are; a record that is not there is reported
  as such.
\<close>

definition record_there :: "as_error \<Rightarrow> 'm option \<Rightarrow> bool" where
  "record_there err m \<longleftrightarrow> code err = (if m = None then AEROSPIKE_ERR_RECORD_NOT_FOUND else AEROSPIKE_OK)"

definition raw_works :: "'e session_ext_scheme \<Rightarrow> bool" where
  "raw_works E \<longleftrightarrow>
     (\<forall>val. \<exists>r. record_set_raw E (record_new E 1) AEROSPIKE_SESSION_BIN val (bytes_php E) = Some r \<and>
        map_of (rec_bins r) = [AEROSPIKE_SESSION_BIN \<mapsto> AsBytes (bytes_php E) val])"

definition put_works ::
  "('s, 'z) session_env_scheme \<Rightarrow> ('s \<Rightarrow> as_key \<Rightarrow> (string \<rightharpoonup> as_val) option) \<Rightarrow> bool" where
  "put_works V db \<longleftrightarrow>
     (\<forall>cfg k r s. \<exists>err s'. key_put V cfg None k r s = (err, s') \<and> code err = AEROSPIKE_OK \<and>
        db s' = (db s)(k \<mapsto> (case db s k of None \<Rightarrow> Map.empty | Some m \<Rightarrow> m) ++ map_of (rec_bins r)))"

definition remove_works ::
  "('s, 'z) session_env_scheme \<Rightarrow> ('s \<Rightarrow> as_key \<Rightarrow> (string \<rightharpoonup> as_val) option) \<Rightarrow> bool" where
  "remove_works V db \<longleftrightarrow>
     (\<forall>cfg k s. \<exists>err s'. default_remove V cfg k s = (err, s') \<and> record_there err (db s k) \<and>
        db s' = (db s)(k := None))"

definition get_works ::
  "('s, 'z) session_env_scheme \<Rightarrow> ('s \<Rightarrow> as_key \<Rightarrow> (string \<rightharpoonup> as_val) option) \<Rightarrow> bool" where
  "get_works V db \<longleftrightarrow>
     (\<forall>cfg k s. \<exists>err rec s'. default_get V cfg k s = (err, rec, s') \<and> record_there err (db s k) \<and>
        db s' = db s \<and> map_option (record_get V) rec = db s k)"

definition exists_works ::
  "('s, 'z) session_env_scheme \<Rightarrow> ('s \<Rightarrow> as_key \<Rightarrow> (string \<rightharpoonup> as_val) option) \<Rightarrow> bool" where
  "exists_works V db \<longleftrightarrow>
     (\<forall>cfg k s. \<exists>err s'. default_exists V cfg k s = (err, s') \<and> record_there err (db s k) \<and> db s' = db s)"

definition touch_works ::
  "'e session_ext_scheme \<Rightarrow> ('s, 'z) session_env_scheme \<Rightarrow> ('s \<Rightarrow> as_key \<Rightarrow> (string \<rightharpoonup> as_val) option) \<Rightarrow> bool" where
  "touch_works E V db \<longleftrightarrow>
     (\<forall>cfg k n s. \<exists>err rec s'.
        key_operate V cfg None k ((add_touch E (operations_new V 1))\<lparr>ops_ttl := n\<rparr>) s = (err, rec, s') \<and>
        record_there err (db s k) \<and> db s' = db s)"

definition session_api ::
  "'e session_ext_scheme \<Rightarrow> ('s, 'z) session_env_scheme \<Rightarrow> ('s \<Rightarrow> as_key \<Rightarrow> (string \<rightharpoonup> as_val) option) \<Rightarrow> bool" where
  "session_api E V db \<longleftrightarrow> key_api E \<and> raw_works E \<and> put_works V db \<and> remove_works V db \<and>
     get_works V db \<and> exists_works V db \<and> touch_works E V db"

lemma session_apiD:
  assumes "session_api E V db"
  shows "key_api E" "raw_works E" "put_works V db" "remove_works V db" "get_works V db"
    "exists_works V db" "touch_works E V db"
  using assms by (simp_all add: session_api_def)

lemmas worksD = raw_works_def [THEN iffD1, rule_format] put_works_def [THEN iffD1, rule_format]
  remove_works_def [THEN iffD1, rule_format] get_works_def [THEN iffD1, rule_format]
  exists_works_def [THEN iffD1, rule_format] touch_works_def [THEN iffD1, rule_format]

text \<open>What the records hold: the data of the session bin. Only sessions are kept in the set.\<close>

definition bin_data :: "(string \<rightharpoonup> as_val) \<Rightarrow> string option" where
  "bin_data m = Option.bind (m AEROSPIKE_SESSION_BIN) (\<lambda>v. snd (session_value v))"

definition sid_key :: "session_data \<Rightarrow> string \<Rightarrow> as_key" where
  "sid_key d sid = \<lparr>key_ns = c_str (ses_ns d), key_set = c_str (ses_set d),
     key_value = Some (AsString sid), key_digest = None\<rparr>"

definition sessions :: "('s \<Rightarrow> as_key \<Rightarrow> (string \<rightharpoonup> as_val) option) \<Rightarrow> session_data \<Rightarrow> 's world \<Rightarrow> session_store" where
  "sessions db d w sid = (if nul_free sid then Option.bind (db (servers w) (sid_key d sid)) bin_data else None)"

definition only_sessions :: "('s \<Rightarrow> as_key \<Rightarrow> (string \<rightharpoonup> as_val) option) \<Rightarrow> session_data \<Rightarrow> 's world \<Rightarrow> bool" where
  "only_sessions db d w \<longleftrightarrow> (\<forall>sid m. db (servers w) (sid_key d sid) = Some m \<longrightarrow> bin_data m \<noteq> None)"

definition session_fits :: "'e session_ext_scheme \<Rightarrow> session_data \<Rightarrow> 's world \<Rightarrow> bool" where
  "session_fits E d w \<longleftrightarrow> session_well d w \<and> world_ok w \<and>
     length (ses_ns d) < namespace_max_size E \<and> length (ses_set d) < set_max_size E"

lemma sid_key_inj [simp]: "sid_key d sid = sid_key d sid' \<longleftrightarrow> sid = sid'"
  by (simp add: sid_key_def)

lemma session_fits_servers [simp]: "session_fits E d (w\<lparr>servers := s\<rparr>) = session_fits E d w"
  by (simp add: session_fits_def session_well_def)

definition session_config :: "session_data \<Rightarrow> 's world \<Rightarrow> config" where
  "session_config d w = the (Option.bind (Option.bind (ses_client d) obj_client) (heap w))"

lemma with_session_fits:
  assumes "session_api E V db" "session_fits E d w" "nul_free sid"
  shows "with_session E (Some d) sid w failure k = k (session_config d w) (sid_key d sid)"
proof -
  obtain a obj where a: "ses_client d = Some obj" "obj_client obj = Some a" "a \<in> shared w"
    using assms(2) by (auto simp: session_fits_def session_well_def)
  obtain cfg where "heap w a = Some cfg"
    using shared_allocated [OF _ a(3)] assms(2) by (auto simp: session_fits_def)
  moreover have "strlen (c_str (ses_ns d)) < namespace_max_size E" "strlen (c_str (ses_set d)) < set_max_size E"
    using assms(2) by (auto simp: session_fits_def strlen_def intro: le_less_trans)
  then have "session_key E d sid = Some (sid_key d sid)"
    using session_apiD(1) [OF assms(1)] assms(3) by (simp add: session_key_def key_apiD sid_key_def)
  ultimately show ?thesis using a by (simp add: with_session_def session_config_def)
qed

text \<open>The store after a change of one record, or of none.\<close>

lemma sessions_put:
  assumes "db s = (db (servers w))(sid_key d sid \<mapsto> m)" "bin_data m = Some val" "nul_free sid"
  shows "sessions db d (w\<lparr>servers := s\<rparr>) = (sessions db d w)(sid \<mapsto> val)"
    and "only_sessions db d w \<Longrightarrow> only_sessions db d (w\<lparr>servers := s\<rparr>)"
  using assms(2-) by (auto simp: sessions_def only_sessions_def assms(1) intro!: ext split: if_splits)

lemma sessions_remove:
  assumes "db s = (db (servers w))(sid_key d sid := None)" "nul_free sid"
  shows "sessions db d (w\<lparr>servers := s\<rparr>) = (sessions db d w)(sid := None)"
    and "only_sessions db d w \<Longrightarrow> only_sessions db d (w\<lparr>servers := s\<rparr>)"
  using assms(2) by (auto simp: sessions_def only_sessions_def assms(1) intro!: ext split: if_splits)

lemma sessions_same:
  assumes "db s = db (servers w)"
  shows "sessions db d (w\<lparr>servers := s\<rparr>) = sessions db d w"
    and "only_sessions db d w \<Longrightarrow> only_sessions db d (w\<lparr>servers := s\<rparr>)"
  using assms by (simp_all add: sessions_def fun_eq_iff only_sessions_def)

lemma sessions_at:
  assumes "only_sessions db d w" "nul_free sid"
  shows "sessions db d w sid = None \<longleftrightarrow> db (servers w) (sid_key d sid) = None"
  using assms by (cases "db (servers w) (sid_key d sid)") (auto simp: sessions_def only_sessions_def)

lemma api_put:
  assumes "session_api E V db"
  obtains r where "record_set_raw E (record_new E 1) AEROSPIKE_SESSION_BIN val (bytes_php E) = Some r"
    "\<And>cfg k t s. \<exists>err s'. key_put V cfg None k (r\<lparr>rec_ttl := t\<rparr>) s = (err, s') \<and> code err = AEROSPIKE_OK \<and>
       (\<exists>m. db s' = (db s)(k \<mapsto> m) \<and> bin_data m = Some val)"
proof -
  obtain r where r: "record_set_raw E (record_new E 1) AEROSPIKE_SESSION_BIN val (bytes_php E) = Some r"
      "map_of (rec_bins r) = [AEROSPIKE_SESSION_BIN \<mapsto> AsBytes (bytes_php E) val]"
    using worksD(1) [OF session_apiD(2) [OF assms]] by blast
  have put: "\<exists>err s'. key_put V cfg None k r' s = (err, s') \<and> code err = AEROSPIKE_OK \<and>
      db s' = (db s)(k \<mapsto> (case db s k of None \<Rightarrow> Map.empty | Some m \<Rightarrow> m) ++ map_of (rec_bins r'))" for cfg k r' s
    by (rule worksD(2) [OF session_apiD(3) [OF assms]])
  have "bin_data (m ++ map_of (rec_bins (r\<lparr>rec_ttl := t\<rparr>))) = Some val" for m t
    using r(2) by (simp add: bin_data_def session_value_def)
  then have "\<exists>err s'. key_put V cfg None k (r\<lparr>rec_ttl := t\<rparr>) s = (err, s') \<and> code err = AEROSPIKE_OK \<and>
       (\<exists>m. db s' = (db s)(k \<mapsto> m) \<and> bin_data m = Some val)" for cfg k t s
    using put [of cfg k "r\<lparr>rec_ttl := t\<rparr>" s] by blast
  with r(1) show thesis by (rule that)
qed

text \<open>One call of the code does one call of the store.\<close>

definition refines :: "'e session_ext_scheme \<Rightarrow> ('s, 'z) session_env_scheme \<Rightarrow>
    ('s \<Rightarrow> as_key \<Rightarrow> (string \<rightharpoonup> as_val) option) \<Rightarrow> session_data \<Rightarrow> 's world \<Rightarrow> session_call \<Rightarrow> bool" where
  "refines E V db d w call \<longleftrightarrow> (\<exists>s'. session_call_on E V (Some d) call w =
      Some (fst (store_call call (sessions db d w)), w\<lparr>servers := s'\<rparr>) \<and>
    sessions db d (w\<lparr>servers := s'\<rparr>) = snd (store_call call (sessions db d w)) \<and>
    only_sessions db d (w\<lparr>servers := s'\<rparr>))"

lemma write_refines:
  assumes api: "session_api E V db" and fit: "session_fits E d w" and only: "only_sessions db d w"
    and sid: "nul_free key"
  shows "refines E V db d w (Write_session key val ttl)"
proof -
  obtain r where r: "record_set_raw E (record_new E 1) AEROSPIKE_SESSION_BIN val (bytes_php E) = Some r"
    "\<And>cfg k t s. \<exists>err s'. key_put V cfg None k (r\<lparr>rec_ttl := t\<rparr>) s = (err, s') \<and> code err = AEROSPIKE_OK \<and>
       (\<exists>m. db s' = (db s)(k \<mapsto> m) \<and> bin_data m = Some val)"
    using api_put [OF api] by metis
  let ?cfg = "session_config d w"
  have c: "ps_write E V (Some d) key val ttl w =
      (case key_put V ?cfg None (sid_key d key) (r\<lparr>rec_ttl := ucast ttl\<rparr>) (servers w) of
         (err, s) \<Rightarrow> Some (code err = AEROSPIKE_OK, w\<lparr>servers := s\<rparr>))"
    by (simp add: ps_write_def with_session_fits [OF api fit sid] r(1) del: One_nat_def)
  obtain err s' m where "key_put V ?cfg None (sid_key d key) (r\<lparr>rec_ttl := ucast ttl\<rparr>) (servers w) = (err, s')"
      "code err = AEROSPIKE_OK" "db s' = (db (servers w))(sid_key d key \<mapsto> m)" "bin_data m = Some val"
    using r(2) by blast
  with c sessions_put [OF this(3,4) sid] only show ?thesis
    by (auto simp: refines_def success_def intro!: exI [of _ s'])
qed

lemma destroy_refines:
  assumes api: "session_api E V db" and fit: "session_fits E d w" and only: "only_sessions db d w"
    and sid: "nul_free key"
  shows "refines E V db d w (Destroy_session key)"
proof -
  let ?cfg = "session_config d w"
  have c: "ps_destroy E V (Some d) key w =
      (case default_remove V ?cfg (sid_key d key) (servers w) of
         (err, s) \<Rightarrow> Some (code err = AEROSPIKE_OK \<or> code err = AEROSPIKE_ERR_RECORD_NOT_FOUND, w\<lparr>servers := s\<rparr>))"
    by (simp add: ps_destroy_def with_session_fits [OF api fit sid])
  obtain err s' where "default_remove V ?cfg (sid_key d key) (servers w) = (err, s')"
      "record_there err (db (servers w) (sid_key d key))" "db s' = (db (servers w))(sid_key d key := None)"
    using worksD(3) [OF session_apiD(4) [OF api]] by metis
  with c sessions_remove [OF this(3) sid] only show ?thesis
    by (auto simp: refines_def success_def record_there_def intro!: exI [of _ s'] split: if_splits)
qed

lemma validate_refines:
  assumes api: "session_api E V db" and fit: "session_fits E d w" and only: "only_sessions db d w"
    and sid: "nul_free key"
  shows "refines E V db d w (Validate_sid key)"
proof -
  let ?cfg = "session_config d w"
  have c: "aerospike_session_exists E V (Some d) key w =
      (case default_exists V ?cfg (sid_key d key) (servers w) of
         (err, s) \<Rightarrow> Some (code err = AEROSPIKE_OK, w\<lparr>servers := s\<rparr>))"
    by (simp add: aerospike_session_exists_def with_session_fits [OF api fit sid])
  obtain err s' where "default_exists V ?cfg (sid_key d key) (servers w) = (err, s')"
      "record_there err (db (servers w) (sid_key d key))" "db s' = db (servers w)"
    using worksD(5) [OF session_apiD(6) [OF api]] by metis
  with c sessions_same [where db = db, OF this(3)] only sessions_at [OF only sid] show ?thesis
    by (auto simp: refines_def success_def record_there_def ps_validate_sid_def intro!: exI [of _ s']
        split: if_splits)
qed

lemma touch_refines:
  assumes api: "session_api E V db" and fit: "session_fits E d w" and only: "only_sessions db d w"
    and sid: "nul_free key"
  shows "refines E V db d w (Update_timestamp key ttl)"
proof -
  let ?ops = "(add_touch E (operations_new V 1))\<lparr>ops_ttl := ucast ttl\<rparr>"
  let ?cfg = "session_config d w"
  have c: "ps_update_timestamp E V (Some d) key ttl w =
      (case key_operate V ?cfg None (sid_key d key) ?ops (servers w) of
         (err, rec, s) \<Rightarrow> Some (code err = AEROSPIKE_OK, w\<lparr>servers := s\<rparr>))"
    by (simp add: ps_update_timestamp_def with_session_fits [OF api fit sid])
  obtain err rec s' where "key_operate V ?cfg None (sid_key d key) ?ops (servers w) = (err, rec, s')"
      "record_there err (db (servers w) (sid_key d key))" "db s' = db (servers w)"
    using worksD(6) [OF session_apiD(7) [OF api]] by metis
  with c sessions_same [where db = db, OF this(3)] only sessions_at [OF only sid] show ?thesis
    by (auto simp: refines_def success_def record_there_def intro!: exI [of _ s'] split: if_splits)
qed

lemma read_refines:
  assumes api: "session_api E V db" and fit: "session_fits E d w" and only: "only_sessions db d w"
    and sid: "nul_free key"
  shows "refines E V db d w (Read_session key)"
proof -
  let ?cfg = "session_config d w"
  have c: "ps_read E V (Some d) key w =
       (case default_get V ?cfg (sid_key d key) (servers w) of
          (err, rec, s) \<Rightarrow>
            (let w = w\<lparr>servers := s\<rparr> in
             if code err = AEROSPIKE_ERR_RECORD_NOT_FOUND then Some ((True, Some []), w)
             else if code err \<noteq> AEROSPIKE_OK then Some ((False, None), w)
             else
               (case rec of
                  None \<Rightarrow> None
                | Some r \<Rightarrow>
                    (case record_get V r AEROSPIKE_SESSION_BIN of
                       None \<Rightarrow> Some ((False, None), w)
                     | Some v \<Rightarrow> Some (session_value v, w)))))"
    by (simp add: ps_read_def with_session_fits [OF api fit sid])
  obtain err rec s' where g: "default_get V ?cfg (sid_key d key) (servers w) = (err, rec, s')"
      "record_there err (db (servers w) (sid_key d key))" "db s' = db (servers w)"
      "map_option (record_get V) rec = db (servers w) (sid_key d key)"
    using worksD(4) [OF session_apiD(5) [OF api]] by metis
  note same = sessions_same [where db = db, OF g(3)]
  show ?thesis
  proof (cases "db (servers w) (sid_key d key)")
    case None
    then have "sessions db d w key = None" by (simp add: sessions_at [OF only sid])
    with c g None same only show ?thesis
      by (auto simp: refines_def record_there_def Let_def intro!: exI [of _ s'])
  next
    case (Some m)
    then obtain r where "rec = Some r" "record_get V r = m"
      using g(4) by auto
    moreover obtain val where "bin_data m = Some val"
      using Some only by (auto simp: only_sessions_def)
    ultimately have r: "rec = Some r" "record_get V r = m" "bin_data m = Some val" by simp_all
    then obtain v where v: "m AEROSPIKE_SESSION_BIN = Some v" "snd (session_value v) = Some val"
      by (auto simp: bin_data_def bind_eq_Some_conv)
    then have "session_value v = (True, Some val)"
      by (simp add: session_value_def split: as_val.splits)
    moreover have "sessions db d w key = Some val"
      using Some r(3) sid by (simp add: sessions_def)
    ultimately show ?thesis
      using c g Some same only r v
      by (auto simp: refines_def record_there_def Let_def intro!: exI [of _ s'])
  qed
qed

lemma session_call_refines:
  assumes "session_api E V db" "session_fits E d w" "only_sessions db d w" "nul_free (call_sid call)"
  shows "refines E V db d w call"
  using assms write_refines destroy_refines read_refines validate_refines touch_refines
  by (cases call) simp_all

interpretation session_store: simulation "session_call_on E V (Some d)" store_call "nul_free \<circ> call_sid"
  "\<lambda>w m. session_api E V db \<and> session_fits E d w \<and> only_sessions db d w \<and> m = sessions db d w" "(=)"
  for E V db d
  by unfold_locales (use session_call_refines in \<open>fastforce simp: refines_def\<close>)

lemma opened_session_fits:
  assumes "world_ok w" "hosts_up w" "ps_open E V i path (session, w) = Some (True, Some d, w0)"
  shows "session_fits E d w0"
proof -
  from ps_open_outcome [OF assms(1,2), of E V i path session] assms(3)
  obtain hosts where "world_ok w0" "session_well d w0"
      "parse_save_path E path = Some (ses_ns d, ses_set d, hosts)" by auto
  then show ?thesis using parse_save_path_lengths [of E path] by (simp add: session_fits_def)
qed

text \<open>
  C5. On servers that work, once a session is open, any sequence of calls gives the answers of the
  abstract store, and leaves the records of the set showing the store after the same calls: what
  was written last is read, what was destroyed reads as empty and is no valid id.
\<close>

theorem sessions_refine_store:
  assumes "session_api E V db" "world_ok w" "hosts_up w"
    and "ps_open E V i path (session, w) = Some (True, Some d, w0)"
    and "only_sessions db d w0" "list_all (nul_free \<circ> call_sid) calls"
  shows "\<exists>w'. run_calls (session_call_on E V (Some d)) calls w0 =
      Some (fst (run_object store_call calls (sessions db d w0)), w') \<and>
    sessions db d w' = snd (run_object store_call calls (sessions db d w0))"
  using session_store.all_calls [of E V db d w0 "sessions db d w0" calls] assms(1,5,6)
    opened_session_fits [OF assms(2-4)] by (auto simp: list.rel_eq)

section \<open>Session ids\<close>

text \<open>
  PHP's generator gives the \<open>n\<close>-th id \<open>gen n\<close>, or none; \<open>made\<close> is how often it was called, which
  the calls of the client leave alone, as it leaves the records alone.
\<close>

definition ids_work ::
  "('s, 'z) session_env_scheme \<Rightarrow> ('s \<Rightarrow> as_key \<Rightarrow> (string \<rightharpoonup> as_val) option) \<Rightarrow> (nat \<Rightarrow> string option) \<Rightarrow>
     ('s \<Rightarrow> nat) \<Rightarrow> bool" where
  "ids_work V db gen made \<longleftrightarrow>
     (\<forall>s. \<exists>s'. session_create_id V s = (gen (made s), s') \<and> made s' = Suc (made s) \<and> db s' = db s) \<and>
     (\<forall>n. pred_option nul_free (gen n)) \<and>
     (\<forall>cfg k s. made (snd (default_exists V cfg k s)) = made s)"

definition first_unused :: "session_store \<Rightarrow> string option list \<Rightarrow> string option" where
  "first_unused m ids = find (\<lambda>sid. m sid = None) (List.map_filter id ids)"

lemma first_unused_simps [simp]:
  "first_unused m [] = None"
  "first_unused m (None # ids) = first_unused m ids"
  "first_unused m (Some sid # ids) = (if m sid = None then Some sid else first_unused m ids)"
  by (simp_all add: first_unused_def map_filter_def)

lemma exists_on_session:
  assumes api: "session_api E V db" and ids: "ids_work V db gen made" and fit: "session_fits E d w"
    and only: "only_sessions db d w" and sid: "nul_free sid"
  shows "\<exists>s. aerospike_session_exists E V (Some d) sid w = Some (sessions db d w sid \<noteq> None, w\<lparr>servers := s\<rparr>) \<and>
     db s = db (servers w) \<and> made s = made (servers w)"
proof -
  let ?cfg = "session_config d w"
  obtain err s where e: "default_exists V ?cfg (sid_key d sid) (servers w) = (err, s)"
      "record_there err (db (servers w) (sid_key d sid))" "db s = db (servers w)"
    using worksD(5) [OF session_apiD(6) [OF api]] by metis
  moreover have "made (snd (default_exists V ?cfg (sid_key d sid) (servers w))) = made (servers w)"
    using ids unfolding ids_work_def by blast
  moreover have "aerospike_session_exists E V (Some d) sid w =
      (case default_exists V ?cfg (sid_key d sid) (servers w) of
         (err, s) \<Rightarrow> Some (code err = AEROSPIKE_OK, w\<lparr>servers := s\<rparr>))"
    by (simp add: aerospike_session_exists_def with_session_fits [OF api fit sid])
  ultimately show ?thesis
    using sessions_at [OF only sid] by (auto simp: record_there_def split: if_splits)
qed

lemma create_sid_loop_finds:
  assumes api: "session_api E V db" and ids: "ids_work V db gen made"
  shows "session_fits E d w \<Longrightarrow> only_sessions db d w \<Longrightarrow>
    \<exists>s. create_sid_loop E V (Some d) n w =
        Some (first_unused (sessions db d w) (map gen [made (servers w)..<made (servers w) + n]), w\<lparr>servers := s\<rparr>) \<and>
      db s = db (servers w)"
proof (induction n arbitrary: w)
  case 0
  show ?case by (auto intro!: exI [of _ "servers w"])
next
  case (Suc n)
  let ?c = "made (servers w)"
  obtain s where s: "session_create_id V (servers w) = (gen ?c, s)" "made s = Suc ?c" "db s = db (servers w)"
    using ids unfolding ids_work_def by blast
  let ?w = "w\<lparr>servers := s\<rparr>"
  have w: "session_fits E d ?w" "only_sessions db d ?w" "sessions db d ?w = sessions db d w"
    using Suc.prems sessions_same [where db = db, OF s(3), of d] by simp_all
  have range: "map gen [?c..<?c + Suc n] = gen ?c # map gen [Suc ?c..<Suc ?c + n]"
    by (simp add: upt_conv_Cons del: upt_Suc)
  show ?case
  proof (cases "gen ?c")
    case None
    with Suc.IH [OF w(1,2)] s w(3) show ?thesis
      by (auto simp: range simp del: upt_Suc add_Suc add_Suc_right)
  next
    case (Some sid)
    moreover have "nul_free sid"
      using ids Some unfolding ids_work_def by (metis option.pred_inject(2))
    then obtain t where t: "aerospike_session_exists E V (Some d) sid ?w = Some (sessions db d w sid \<noteq> None, ?w\<lparr>servers := t\<rparr>)"
        "db t = db s" "made t = made s"
      using exists_on_session [OF api ids w(1,2)] w(3) by auto
    have w': "session_fits E d (w\<lparr>servers := t\<rparr>)" "only_sessions db d (w\<lparr>servers := t\<rparr>)"
        "sessions db d (w\<lparr>servers := t\<rparr>) = sessions db d w" "db t = db (servers w)"
      using Suc.prems t(2) s(3) sessions_same [where db = db, of t w d] by simp_all
    ultimately show ?thesis
      using Suc.IH [OF w'(1,2)] w'(3,4) s t
      by (cases "sessions db d w sid = None") (auto simp: range simp del: upt_Suc add_Suc add_Suc_right)
  qed
qed

text \<open>
  C30. Making a session id always ends, after at most five attempts: on servers that work the result is
  the first of the next five generated ids that no session uses, and no id only if there is no
  such id among them.
\<close>

theorem create_sid_first_unused:
  assumes "session_api E V db" "ids_work V db gen made" "session_fits E d w" "only_sessions db d w"
  shows "\<exists>s. ps_create_sid E V (Some d) w =
      Some (first_unused (sessions db d w) (map gen [made (servers w)..<made (servers w) + 5]), w\<lparr>servers := s\<rparr>) \<and>
    sessions db d (w\<lparr>servers := s\<rparr>) = sessions db d w"
proof -
  have "verify_session_data (Some d)"
    using assms(3) by (auto simp: verify_session_data_def session_fits_def session_well_def)
  with create_sid_loop_finds [OF assms(1,2,3,4), of 5] show ?thesis
    by (auto simp: ps_create_sid_def sessions_same [where db = db])
qed


section \<open>Applications\<close>

text \<open>Records by key, and how many ids were made.\<close>

type_synonym session_server = "(as_key \<times> as_record) list \<times> nat"

definition server_db :: "session_server \<Rightarrow> as_key \<Rightarrow> (string \<rightharpoonup> as_val) option" where
  "server_db s k = map_option (\<lambda>r. map_of (rec_bins r)) (map_of (fst s) k)"

definition server_status :: "session_server \<Rightarrow> as_key \<Rightarrow> as_error" where
  "server_status s k = (if map_of (fst s) k = None then not_found else as_error_init)"

definition server_put :: "as_key \<Rightarrow> as_record \<Rightarrow> session_server \<Rightarrow> session_server" where
  "server_put k r s =
     ((k, r\<lparr>rec_bins := rec_bins r @ (case map_of (fst s) k of None \<Rightarrow> [] | Some r' \<Rightarrow> rec_bins r')\<rparr>) # fst s, snd s)"

definition sample_sid :: "nat \<Rightarrow> string option" where
  "sample_sid n = Some (CHR ''s'' # replicate n (CHR ''a''))"

definition sample_session_env :: "session_server session_env" where
  "sample_session_env = list_env.extend (env.extend \<lparr>
     ini_serializer = 1,
     read_struct = sample_struct (sample_read 1000), write_struct = sample_struct (sample_write 1000),
     remove_struct = sample_struct (sample_remove 1000),
     operate_struct = sample_struct (sample_operate 1000 0),
     query_struct = sample_struct (sample_query 1000),
     AS_POLICY_KEY_SEND = 1, operations_new = empty_ops, error_update_null = (\<lambda>err. err),
     record_set_nil = (\<lambda>r name. r),
     query_new = (\<lambda>ns s. None), query_select_inita = (\<lambda>q n. q), query_select = (\<lambda>q name. q),
     aerospike_connect = (\<lambda>cfg s. (as_error_init, s)), aerospike_close = (\<lambda>cfg s. (as_error_init, s)),
     cluster_is_connected = (\<lambda>cfg s. True),
     key_put = (\<lambda>cfg p k r s. (as_error_init, server_put k r s)),
     key_get = (\<lambda>cfg p k s. (server_status s k, map_of (fst s) k, k, s)),
     key_select = (\<lambda>cfg p k names s. (server_status s k, map_of (fst s) k, k, s)),
     key_exists = (\<lambda>cfg p k s. (server_status s k, map_of (fst s) k, s)),
     key_remove = (\<lambda>cfg p k s. (server_status s k, (filter (\<lambda>x. fst x \<noteq> k) (fst s), snd s))),
     key_operate = (\<lambda>cfg p k ops s. (server_status s k, None, s)),
     query_foreach = (\<lambda>cfg p q s. (as_error_init, s))\<rparr>
   \<lparr>record_get = (\<lambda>r name. map_of (rec_bins r) name), record_get_int64 = (\<lambda>r name d. d)\<rparr>)
   \<lparr>default_get = (\<lambda>cfg k s. (server_status s k, map_of (fst s) k, s)),
    default_exists = (\<lambda>cfg k s. (server_status s k, s)),
    default_remove = (\<lambda>cfg k s. (server_status s k, (filter (\<lambda>x. fst x \<noteq> k) (fst s), snd s))),
    session_create_id = (\<lambda>s. (sample_sid (snd s), (fst s, Suc (snd s))))\<rparr>"

definition sample_session_ext :: session_ext where
  "sample_session_ext = life_ext.extend sample_life_ext \<lparr>
     config_add_hosts = (\<lambda>c s p. Some (c\<lparr>cfg_hosts := cfg_hosts c @ [\<lparr>host_name = s, host_tls_name = None, host_port = p\<rparr>]\<rparr>)),
     record_set_raw = (\<lambda>r n val t. Some (r\<lparr>rec_bins := rec_bins r @ [(n, AsBytes t val)]\<rparr>)),
     add_touch = (\<lambda>ops. ops)\<rparr>"

lemmas sample_session_defs = sample_session_env_def list_env.defs env.defs
lemmas sample_session_exts = sample_session_ext_def life_ext.defs sample_life_ext_def conv_ext.defs sample_ext_def

lemma map_of_filter_key: "map_of (filter (\<lambda>x. fst x \<noteq> k) l) = (map_of l)(k := None)"
  by (induction l) auto

lemma sample_session_api: "session_api sample_session_ext sample_session_env server_db"
proof -
  have "key_api sample_session_ext"
    using sample_key_api by (simp add: key_api_def sample_session_exts)
  moreover have "raw_works sample_session_ext"
    by (simp add: raw_works_def sample_session_exts)
  moreover have "put_works sample_session_env server_db"
    by (auto simp: put_works_def sample_session_defs server_db_def server_put_def fun_eq_iff split: option.splits)
  moreover have "remove_works sample_session_env server_db"
    by (auto simp: remove_works_def sample_session_defs server_db_def server_status_def record_there_def
        map_of_filter_key not_found_def)
  moreover have "get_works sample_session_env server_db"
    by (auto simp: get_works_def sample_session_defs server_db_def server_status_def record_there_def
        not_found_def intro!: option.map_cong0)
  moreover have "exists_works sample_session_env server_db"
    by (auto simp: exists_works_def sample_session_defs server_db_def server_status_def record_there_def not_found_def)
  moreover have "touch_works sample_session_ext sample_session_env server_db"
    by (auto simp: touch_works_def sample_session_defs server_db_def server_status_def record_there_def not_found_def)
  ultimately show ?thesis by (simp add: session_api_def)
qed

definition empty_world :: "session_server world" where
  "empty_world = \<lparr>heap = Map.empty, next_addr = 0, plist = [], servers = ([], 0)\<rparr>"

lemma empty_world_ok: "world_ok empty_world" "hosts_up empty_world"
  by (simp_all add: empty_world_def world_ok_def hosts_up_def shared_def)

definition sample_open :: "(bool \<times> session_data option \<times> session_server world) option" where
  "sample_open = ps_open sample_session_ext sample_session_env sample_ini ''test|php|db:3000'' (None, empty_world)"

lemma sample_opened:
  "\<exists>d w. sample_open = Some (True, Some d, w) \<and> ses_ns d = ''test'' \<and> ses_set d = ''php'' \<and> servers w = ([], 0)"
proof -
  have "case sample_open of Some (True, Some d, w) \<Rightarrow> ses_ns d = ''test'' \<and> ses_set d = ''php'' \<and> servers w = ([], 0)
      | _ \<Rightarrow> False"
    by code_simp
  then show ?thesis by (auto split: option.splits bool.splits prod.splits)
qed


lemma sample_only_sessions: "servers w = ([], 0) \<Longrightarrow> only_sessions server_db d w"
  by (simp add: only_sessions_def server_db_def)

lemma sample_sessions: "servers w = ([], 0) \<Longrightarrow> sessions server_db d w = Map.empty"
  by (simp add: sessions_def server_db_def fun_eq_iff)

theorem ps_open_safe_witness:
  "\<exists>ok session w. ps_open sample_session_ext sample_session_env sample_ini ''test|php|'' (None, empty_world) =
     Some (ok, session, w) \<and> world_ok w"
  using ps_open_safe [OF empty_world_ok, where E = sample_session_ext and V = sample_session_env
      and i = sample_ini and path = "''test|php|''" and session = None]
  by blast

definition sample_calls :: "session_call list" where
  "sample_calls = [Write_session ''a1'' ''x=1'' 60, Read_session ''a1'', Read_session ''b2'',
     Destroy_session ''a1'', Validate_sid ''a1'', Read_session ''a1'']"

theorem sessions_refine_store_witness:
  "\<exists>d w0 w'. sample_open = Some (True, Some d, w0) \<and>
     run_calls (session_call_on sample_session_ext sample_session_env (Some d)) sample_calls w0 =
       Some ([Some Success, Some (Session_data ''x=1''), Some (Session_data []), Some Success, None,
              Some (Session_data [])], w')"
proof -
  obtain d w0 where o: "sample_open = Some (True, Some d, w0)" "servers w0 = ([], 0)"
    using sample_opened by blast
  have "list_all (nul_free \<circ> call_sid) sample_calls"
    by (simp add: sample_calls_def nul_free_def NUL_def)
  from sessions_refine_store [OF sample_session_api empty_world_ok o(1) [unfolded sample_open_def]
      sample_only_sessions [OF o(2)] this] o
  show ?thesis by (auto simp: sample_calls_def sample_sessions)
qed

lemma sample_ids_work: "ids_work sample_session_env server_db sample_sid snd"
  by (auto simp: ids_work_def sample_session_defs server_db_def sample_sid_def nul_free_def NUL_def)

theorem create_sid_first_unused_witness:
  "\<exists>d w0 w'. sample_open = Some (True, Some d, w0) \<and>
     ps_create_sid sample_session_ext sample_session_env (Some d) w0 = Some (Some ''s'', w')"
proof -
  obtain d w0 where o: "sample_open = Some (True, Some d, w0)" "servers w0 = ([], 0)"
    using sample_opened by blast
  from create_sid_first_unused [OF sample_session_api sample_ids_work
      opened_session_fits [OF empty_world_ok o(1) [unfolded sample_open_def]] sample_only_sessions [OF o(2)]] o
  show ?thesis by (auto simp: sample_sessions sample_sid_def upt_conv_Cons)
qed

end
