(* ===== verification/Admin.thy ===== *)
theory Admin
  imports Client
begin

text \<open>
  The fourteen methods of \<open>client/admin.c\<close> on users, roles and privileges. Arguments and results
  are as in \<open>KeyValue\<close>; the second component of a result is the value assigned to the argument
  passed by reference, when the method has one and reaches it.
\<close>

section \<open>Structures and calls\<close>

record as_user =
  user_name :: string
  user_roles :: "string list"

text \<open>A null policy is \<open>None\<close>, as are a role, a user or an array the C client leaves null.\<close>

record 's admin_env = "'s env" +
  admin_struct :: "as_policy_admin policy_struct"
  AS_ROLE_SIZE :: nat
  AS_USER_SIZE :: nat
  create_role :: "config \<Rightarrow> as_policy_admin option \<Rightarrow> string \<Rightarrow> as_privilege list \<Rightarrow> 's \<Rightarrow> as_error \<times> 's"
  query_role :: "config \<Rightarrow> as_policy_admin option \<Rightarrow> string \<Rightarrow> 's \<Rightarrow> as_error \<times> as_role option \<times> 's"
  query_roles :: "config \<Rightarrow> as_policy_admin option \<Rightarrow> 's \<Rightarrow> as_error \<times> (as_role option list option \<times> nat) \<times> 's"
  drop_role :: "config \<Rightarrow> as_policy_admin option \<Rightarrow> string \<Rightarrow> 's \<Rightarrow> as_error \<times> 's"
  create_user :: "config \<Rightarrow> as_policy_admin option \<Rightarrow> string \<Rightarrow> string \<Rightarrow> string list \<Rightarrow> 's \<Rightarrow> as_error \<times> 's"
  grant_privileges :: "config \<Rightarrow> as_policy_admin option \<Rightarrow> string \<Rightarrow> as_privilege list \<Rightarrow> 's \<Rightarrow> as_error \<times> 's"
  revoke_privileges :: "config \<Rightarrow> as_policy_admin option \<Rightarrow> string \<Rightarrow> as_privilege list \<Rightarrow> 's \<Rightarrow> as_error \<times> 's"
  change_password :: "config \<Rightarrow> as_policy_admin option \<Rightarrow> string \<Rightarrow> string \<Rightarrow> 's \<Rightarrow> as_error \<times> 's"
  set_password :: "config \<Rightarrow> as_policy_admin option \<Rightarrow> string \<Rightarrow> string \<Rightarrow> 's \<Rightarrow> as_error \<times> 's"
  grant_roles :: "config \<Rightarrow> as_policy_admin option \<Rightarrow> string \<Rightarrow> string list \<Rightarrow> 's \<Rightarrow> as_error \<times> 's"
  revoke_roles :: "config \<Rightarrow> as_policy_admin option \<Rightarrow> string \<Rightarrow> string list \<Rightarrow> 's \<Rightarrow> as_error \<times> 's"
  query_user :: "config \<Rightarrow> as_policy_admin option \<Rightarrow> string \<Rightarrow> 's \<Rightarrow> as_error \<times> as_user option \<times> 's"
  query_users :: "config \<Rightarrow> as_policy_admin option \<Rightarrow> 's \<Rightarrow> as_error \<times> as_user list option \<times> 's"
  drop_user :: "config \<Rightarrow> as_policy_admin option \<Rightarrow> string \<Rightarrow> 's \<Rightarrow> as_error \<times> 's"

type_synonym 's admin_result = "as_status \<times> zval option \<times> client \<times> 's"

section \<open>What the methods share\<close>

text \<open>The label \<open>CLEANUP\<close>, and an error of the parameters on the way to it.\<close>

definition admin_cleanup :: "client \<Rightarrow> zval option \<Rightarrow> as_error \<Rightarrow> 's \<Rightarrow> 's admin_result" where
  "admin_cleanup c out err s = (code err, out, remember err c, s)"

definition admin_fail :: "client \<Rightarrow> zval option \<Rightarrow> as_error \<Rightarrow> string \<Rightarrow> 's \<Rightarrow> 's admin_result" where
  "admin_fail c out err m s = admin_cleanup c out (as_error_update err AEROSPIKE_ERR_PARAM m) s"

text \<open>
  The beginning: \<open>late\<close> when the remembered error is reset after the check of the connection,
  \<open>forget\<close> when the error of that check is returned but not remembered; \<open>m\<close> is the message for
  arguments PHP refuses.
\<close>

definition admin_method ::
  "bool \<Rightarrow> bool \<Rightarrow> string \<Rightarrow> (client \<Rightarrow> config \<Rightarrow> 'a \<Rightarrow> as_error \<Rightarrow> 's admin_result) \<Rightarrow>
     client \<Rightarrow> 'a option \<Rightarrow> 's \<Rightarrow> 's admin_result" where
  "admin_method late forget m body c args s =
     (let c = (if late then c else reset_client_error c) in
      case check_object_and_connection c as_error_init of
        (st, err) \<Rightarrow>
          if st \<noteq> AEROSPIKE_OK then
            if forget then (code err, None, c, s) else admin_cleanup c None err s
          else
            (let c = reset_client_error c in
             case (args, as_client c) of
               (Some a, Some cfg) \<Rightarrow> body c cfg a err
             | _ \<Rightarrow> admin_fail c None err m s))"

definition with_admin_policy ::
  "('s, 'z) admin_env_scheme \<Rightarrow> client \<Rightarrow> config \<Rightarrow> zval option \<Rightarrow> zval option \<Rightarrow> as_error \<Rightarrow> string \<Rightarrow> 's \<Rightarrow>
     (as_policy_admin option \<Rightarrow> 's admin_result) \<Rightarrow> 's admin_result" where
  "with_admin_policy V c cfg z_policy out err m s k =
     (case z_policy of
        None \<Rightarrow> k None
      | Some z \<Rightarrow>
          (case zval_to_as_policy_admin (admin_struct V) (Some z) (cfg_admin cfg) of
             (st, p) \<Rightarrow> if st \<noteq> AEROSPIKE_OK then admin_fail c out err m s else k (Some p)))"

definition with_user_name ::
  "('s, 'z) admin_env_scheme \<Rightarrow> client \<Rightarrow> string \<Rightarrow> zval option \<Rightarrow> as_error \<Rightarrow> string \<Rightarrow> 's \<Rightarrow> 's admin_result \<Rightarrow>
     's admin_result" where
  "with_user_name V c user out err too_long s k =
     (if AS_USER_SIZE V \<le> length user then admin_fail c out err too_long s
      else if user = [] then admin_fail c out err ''user name must not be empty'' s
      else k)"

text \<open>The names of roles in an array with one slot for each.\<close>

definition with_roles ::
  "('s, 'z) admin_env_scheme \<Rightarrow> client \<Rightarrow> htab \<Rightarrow> as_error \<Rightarrow> 's \<Rightarrow> (string list \<Rightarrow> as_error \<Rightarrow> 's admin_result) \<Rightarrow>
     's admin_result" where
  "with_roles V c z_roles err s k =
     (case z_hash_to_str_array z_roles False (AS_ROLE_SIZE V) (length z_roles) err of
        (st, roles, err) \<Rightarrow> if st \<noteq> AEROSPIKE_OK then admin_cleanup c None err s else k roles err)"

section \<open>Roles\<close>

definition createRole_method ::
  "'e conv_ext_scheme \<Rightarrow> ('s, 'z) admin_env_scheme \<Rightarrow> client \<Rightarrow> (string \<times> htab \<times> zval option) option \<Rightarrow> 's \<Rightarrow>
     's admin_result" where
  "createRole_method E V c args s =
     admin_method True False ''Invalid Parameters for createUser''
       (\<lambda>c cfg (rolename, z_priv_hash, z_policy) err.
          if rolename = [] then admin_fail c None err ''Role must not be empty'' s
          else if AS_ROLE_SIZE V \<le> length rolename then admin_fail c None err ''Role name is too long'' s
          else
            with_admin_policy V c cfg z_policy None err ''Invalid_policy'' s (\<lambda>p.
              (case (if z_priv_hash = [] then (AEROSPIKE_OK, [], err)
                     else z_hashtable_to_as_privileges E z_priv_hash err) of
                 (st, privileges, err) \<Rightarrow>
                   if st \<noteq> AEROSPIKE_OK then admin_cleanup c None err s
                   else
                     (case create_role V cfg p (c_str rolename) privileges s of
                        (err, s) \<Rightarrow> admin_cleanup c None err s))))
       c args s"

definition queryRole_method ::
  "'e conv_ext_scheme \<Rightarrow> ('s, 'z) admin_env_scheme \<Rightarrow> client \<Rightarrow> (string \<times> zval option) option \<Rightarrow> 's \<Rightarrow>
     's admin_result" where
  "queryRole_method E V c args s =
     admin_method True False ''Invalid arguments to queryRole''
       (\<lambda>c cfg (rolename, z_policy) err.
          with_admin_policy V c cfg z_policy (Some ZNull) err ''Invalid policy to queryRole'' s (\<lambda>p.
            (case query_role V cfg p (c_str rolename) s of
               (err, role, s) \<Rightarrow>
                 if code err \<noteq> AEROSPIKE_OK then admin_cleanup c (Some ZNull) err s
                 else
                   (case as_role_to_zval E role ZNull err of
                      (_, z, err) \<Rightarrow>
                        admin_cleanup c (Some (if code err \<noteq> AEROSPIKE_OK then ZNull else z)) err s))))
       c args s"

definition queryRoles_method ::
  "'e conv_ext_scheme \<Rightarrow> ('s, 'z) admin_env_scheme \<Rightarrow> client \<Rightarrow> zval option option \<Rightarrow> 's \<Rightarrow> 's admin_result" where
  "queryRoles_method E V c args s =
     admin_method False False ''Invalid parameters for queryRoles''
       (\<lambda>c cfg z_policy err.
          with_admin_policy V c cfg z_policy (Some ZNull) err ''Invalid policy for queryRoles'' s (\<lambda>p.
            (case query_roles V cfg p s of
               (err, (roles, roles_size), s) \<Rightarrow>
                 if code err \<noteq> AEROSPIKE_OK then admin_cleanup c (Some ZNull) err s
                 else
                   (case as_roles_to_zval E roles roles_size ZNull err of
                      (_, z, err) \<Rightarrow>
                        admin_cleanup c (Some (if code err \<noteq> AEROSPIKE_OK then ZNull else z)) err s))))
       c args s"

definition dropRole_method ::
  "('s, 'z) admin_env_scheme \<Rightarrow> client \<Rightarrow> (string \<times> zval option) option \<Rightarrow> 's \<Rightarrow> 's admin_result" where
  "dropRole_method V c args s =
     admin_method False False ''Invalid parameters for dropRole''
       (\<lambda>c cfg (role, z_policy) err.
          with_admin_policy V c cfg z_policy None err ''Invalid policy for dropRole'' s (\<lambda>p.
            (case drop_role V cfg p (c_str role) s of (err, s) \<Rightarrow> admin_cleanup c None err s)))
       c args s"

section \<open>Privileges\<close>

definition grantPrivileges_method ::
  "'e conv_ext_scheme \<Rightarrow> ('s, 'z) admin_env_scheme \<Rightarrow> client \<Rightarrow> (string \<times> htab \<times> zval option) option \<Rightarrow> 's \<Rightarrow>
     's admin_result" where
  "grantPrivileges_method E V c args s =
     admin_method False False ''Invalid parameters for grantPrivileges''
       (\<lambda>c cfg (role, z_privs, z_policy) err.
          with_admin_policy V c cfg z_policy None err ''Invalid policy for grantPrivileges'' s (\<lambda>p.
            if z_privs = [] then admin_fail c None err ''Privileges must not be empty'' s
            else
              (case z_hashtable_to_as_privileges E z_privs err of
                 (st, privileges, err) \<Rightarrow>
                   if st \<noteq> AEROSPIKE_OK then admin_cleanup c None err s
                   else
                     (case grant_privileges V cfg p (c_str role) privileges s of
                        (err, s) \<Rightarrow> admin_cleanup c None err s))))
       c args s"

definition revokePrivileges_method ::
  "'e conv_ext_scheme \<Rightarrow> ('s, 'z) admin_env_scheme \<Rightarrow> client \<Rightarrow> (string \<times> htab \<times> zval option) option \<Rightarrow> 's \<Rightarrow>
     's admin_result" where
  "revokePrivileges_method E V c args s =
     admin_method False False ''Invalid parameters for revokePrivileges''
       (\<lambda>c cfg (role, z_privs, z_policy) err.
          with_admin_policy V c cfg z_policy None err ''Invalid policy for revokePrivileges'' s (\<lambda>p.
            if z_privs = [] then admin_fail c None err ''Privileges must not be empty'' s
            else
              (case z_hashtable_to_as_privileges E z_privs err of
                 (st, privileges, err) \<Rightarrow>
                   if st \<noteq> AEROSPIKE_OK then admin_cleanup c None err s
                   else
                     (case revoke_privileges V cfg p (c_str role) privileges s of
                        (err, s) \<Rightarrow> admin_cleanup c None err s))))
       c args s"

section \<open>Users\<close>

definition createUser_method ::
  "('s, 'z) admin_env_scheme \<Rightarrow> client \<Rightarrow> (string \<times> string \<times> htab \<times> zval option) option \<Rightarrow> 's \<Rightarrow>
     's admin_result" where
  "createUser_method V c args s =
     admin_method False False ''Invalid parameters for createUser''
       (\<lambda>c cfg (user, pass, z_roles, z_policy) err.
          with_admin_policy V c cfg z_policy None err ''Invalid policy for createUser'' s (\<lambda>p.
            with_user_name V c user None err ''user name is too long'' s
              (if pass = [] then admin_fail c None err ''password must not be empty'' s
               else
                 (let call = (\<lambda>roles err.
                        (case create_user V cfg p (c_str user) (c_str pass) roles s of
                           (err, s) \<Rightarrow> admin_cleanup c None err s))
                  in if z_roles = [] then call [] err else with_roles V c z_roles err s call))))
       c args s"

definition changePassword_method ::
  "('s, 'z) admin_env_scheme \<Rightarrow> client \<Rightarrow> (string \<times> string \<times> zval option) option \<Rightarrow> 's \<Rightarrow> 's admin_result" where
  "changePassword_method V c args s =
     admin_method False True ''Invalid parameters to changePassword''
       (\<lambda>c cfg (user, pass, z_policy) err.
          with_user_name V c user None err ''username is too long'' s
            (if pass = [] then admin_fail c None err ''user name must not be empty'' s
             else
               with_admin_policy V c cfg z_policy None err ''Invalid policy for changePassword'' s (\<lambda>p.
                 (case change_password V cfg p (c_str user) (c_str pass) s of
                    (err, s) \<Rightarrow> admin_cleanup c None err s))))
       c args s"

definition setPassword_method ::
  "('s, 'z) admin_env_scheme \<Rightarrow> client \<Rightarrow> (string \<times> string \<times> zval option) option \<Rightarrow> 's \<Rightarrow> 's admin_result" where
  "setPassword_method V c args s =
     admin_method True False ''Invalid parameters to changePassword''
       (\<lambda>c cfg (user, pass, z_policy) err.
          with_user_name V c user None err ''username is too long'' s
            (if pass = [] then admin_fail c None err ''user name must not be empty'' s
             else
               with_admin_policy V c cfg z_policy None err ''Invalid policy for changePassword'' s (\<lambda>p.
                 (case set_password V cfg p (c_str user) (c_str pass) s of
                    (err, s) \<Rightarrow> admin_cleanup c None err s))))
       c args s"

definition grantRoles_method ::
  "('s, 'z) admin_env_scheme \<Rightarrow> client \<Rightarrow> (string \<times> htab \<times> zval option) option \<Rightarrow> 's \<Rightarrow> 's admin_result" where
  "grantRoles_method V c args s =
     admin_method False False ''Invalid parameters to grantRoles''
       (\<lambda>c cfg (user, z_roles, z_policy) err.
          with_user_name V c user None err ''username too long'' s
            (with_admin_policy V c cfg z_policy None err ''Invalid policy for grantRoles'' s (\<lambda>p.
               if z_roles = [] then admin_fail c None err ''Invalid policy for grantRoles'' s
               else
                 with_roles V c z_roles err s (\<lambda>roles err.
                   (case grant_roles V cfg p (c_str user) roles s of
                      (err, s) \<Rightarrow> admin_cleanup c None err s)))))
       c args s"

definition revokeRoles_method ::
  "('s, 'z) admin_env_scheme \<Rightarrow> client \<Rightarrow> (string \<times> htab \<times> zval option) option \<Rightarrow> 's \<Rightarrow> 's admin_result" where
  "revokeRoles_method V c args s =
     admin_method False False ''Invalid parameters to grantRoles''
       (\<lambda>c cfg (user, z_roles, z_policy) err.
          with_user_name V c user None err ''username too long'' s
            (with_admin_policy V c cfg z_policy None err ''Invalid policy for grantRoles'' s (\<lambda>p.
               if z_roles = [] then admin_fail c None err ''Invalid policy for grantRoles'' s
               else
                 with_roles V c z_roles err s (\<lambda>roles err.
                   (case revoke_roles V cfg p (c_str user) roles s of
                      (err, s) \<Rightarrow> admin_cleanup c None err s)))))
       c args s"

definition roles_array :: "as_user \<Rightarrow> zval" where
  "roles_array u = ZArray (foldl (\<lambda>h r. add_next_index h (ZString (c_str r))) [] (user_roles u))"

definition queryUser_method ::
  "('s, 'z) admin_env_scheme \<Rightarrow> client \<Rightarrow> (string \<times> zval option) option \<Rightarrow> 's \<Rightarrow> 's admin_result" where
  "queryUser_method V c args s =
     admin_method False False ''Invalid parameters to queryUser''
       (\<lambda>c cfg (username, z_policy) err.
          with_user_name V c username (Some ZNull) err ''Username too long'' s
            (with_admin_policy V c cfg z_policy (Some ZNull) err ''Invalid policy for query User'' s (\<lambda>p.
               (case query_user V cfg p (c_str username) s of
                  (err, user, s) \<Rightarrow>
                    if code err \<noteq> AEROSPIKE_OK then admin_cleanup c (Some ZNull) err s
                    else admin_cleanup c (Some (case user of None \<Rightarrow> ZArray [] | Some u \<Rightarrow> roles_array u)) err s))))
       c args s"

definition users_array :: "'e conv_ext_scheme \<Rightarrow> as_user list \<Rightarrow> htab" where
  "users_array E users = foldl (\<lambda>h u. add_assoc_zval E h (user_name u) (roles_array u)) [] users"

definition queryUsers_method ::
  "'e conv_ext_scheme \<Rightarrow> ('s, 'z) admin_env_scheme \<Rightarrow> client \<Rightarrow> zval option option \<Rightarrow> 's \<Rightarrow> 's admin_result" where
  "queryUsers_method E V c args s =
     admin_method False False ''Invalid parameters to queryUsers''
       (\<lambda>c cfg z_policy err.
          with_admin_policy V c cfg z_policy (Some ZNull) err ''Invalid policy for query User'' s (\<lambda>p.
            (case query_users V cfg p s of
               (err, users, s) \<Rightarrow>
                 if code err \<noteq> AEROSPIKE_OK then admin_cleanup c (Some ZNull) err s
                 else
                   admin_cleanup c (Some (ZArray (case users of None \<Rightarrow> [] | Some us \<Rightarrow> users_array E us))) err s)))
       c args s"

definition dropUser_method ::
  "('s, 'z) admin_env_scheme \<Rightarrow> client \<Rightarrow> (string \<times> zval option) option \<Rightarrow> 's \<Rightarrow> 's admin_result" where
  "dropUser_method V c args s =
     admin_method False False ''Invalid parameters to dropUser''
       (\<lambda>c cfg (user, z_policy) err.
          with_user_name V c user None err ''username too long'' s
            (with_admin_policy V c cfg z_policy None err ''Invalid policy for query User'' s (\<lambda>p.
               (case drop_user V cfg p (c_str user) s of (err, s) \<Rightarrow> admin_cleanup c None err s))))
       c args s"

end
