(* ===== verification/AdminProps.thy ===== *)
theory AdminProps
  imports Admin MethodErrors KeyProps
begin

text \<open>
  The methods on users, roles and privileges: the error they remember, and that what is stored
  for a role or a user is what comes back.
\<close>

section \<open>The remembered error\<close>

lemma cleanup_reports [simp]:
  "errorno_method c = AEROSPIKE_OK \<or> code err \<noteq> AEROSPIKE_OK \<Longrightarrow> out_reports (admin_cleanup c out err s)"
  by (auto simp: admin_cleanup_def remember_def errorno_method_def)

lemma fail_reports [simp]: "out_reports (admin_fail c out err m s)"
  by (simp add: admin_fail_def)

lemma policy_reports [simp]:
  "(\<And>p. out_reports (k p)) \<Longrightarrow> out_reports (with_admin_policy V c cfg z_policy out err m s k)"
  by (simp add: with_admin_policy_def split: option.split prod.split)

lemma user_name_reports [simp]:
  "out_reports k \<Longrightarrow> out_reports (with_user_name V c user out err m s k)"
  by (simp add: with_user_name_def)

lemma roles_reports [simp]:
  "errorno_method c = AEROSPIKE_OK \<Longrightarrow> (\<And>roles err. out_reports (k roles err)) \<Longrightarrow>
     out_reports (with_roles V c z_roles err s k)"
  by (simp add: with_roles_def split: prod.split)

lemma admin_method_reports:
  assumes "\<And>c cfg a err. errorno_method c = AEROSPIKE_OK \<Longrightarrow> out_reports (body c cfg a err)"
    and "\<not> forget \<or> usable c"
  shows "out_reports (admin_method late forget m body c args s)"
proof -
  have "errorno_method (reset_client_error c') = AEROSPIKE_OK" for c' by simp
  with assms show ?thesis
    by (auto simp: admin_method_def Let_def check_object_and_connection_def usable_def
        split: option.split)
qed

lemmas admin_splits = option.split prod.split

lemma role_methods_report:
  "out_reports (createRole_method E V c a s)" "out_reports (queryRole_method E V c a' s)"
  "out_reports (queryRoles_method E V c a'' s)" "out_reports (dropRole_method V c b s)"
  "out_reports (grantPrivileges_method E V c a s)" "out_reports (revokePrivileges_method E V c a s)"
  unfolding createRole_method_def queryRole_method_def queryRoles_method_def dropRole_method_def
    grantPrivileges_method_def revokePrivileges_method_def
  by (rule admin_method_reports; simp split: admin_splits)+

lemma user_methods_report:
  "out_reports (createUser_method V c a s)" "out_reports (setPassword_method V c p s)"
  "out_reports (grantRoles_method V c r s)" "out_reports (revokeRoles_method V c r s)"
  "out_reports (queryUser_method V c q s)" "out_reports (queryUsers_method E V c q' s)"
  "out_reports (dropUser_method V c q s)"
  unfolding createUser_method_def setPassword_method_def grantRoles_method_def revokeRoles_method_def
    queryUser_method_def queryUsers_method_def dropUser_method_def Let_def
  by (rule admin_method_reports; simp split: admin_splits)+

lemma changePassword_reports:
  "usable c \<Longrightarrow> out_reports (changePassword_method V c p s)"
  unfolding changePassword_method_def
  by (rule admin_method_reports; simp split: admin_splits)

lemma changePassword_forgets:
  "\<not> usable c \<Longrightarrow> fst (changePassword_method V c p s) \<noteq> AEROSPIKE_OK \<and>
     snd (snd (changePassword_method V c p s)) = (reset_client_error c, s)"
  by (auto simp: changePassword_method_def admin_method_def Let_def check_object_and_connection_def usable_def
      reset_client_error_def)

text \<open>
  C31. Every administrative method remembers the status it returns, whatever its arguments and whatever
  the servers answer; except that \<open>changePassword\<close> on a client that is not valid or not connected
  returns an error, makes no call, and remembers no error at all.
\<close>

theorem admin_errors_reported:
  "out_reports (createRole_method E V c role_args s) \<and> out_reports (queryRole_method E V c name_args s) \<and>
   out_reports (queryRoles_method E V c policy_args s) \<and> out_reports (dropRole_method V c name_args s) \<and>
   out_reports (grantPrivileges_method E V c role_args s) \<and>
   out_reports (revokePrivileges_method E V c role_args s) \<and>
   out_reports (createUser_method V c user_args s) \<and> out_reports (setPassword_method V c pass_args s) \<and>
   out_reports (grantRoles_method V c role_args s) \<and> out_reports (revokeRoles_method V c role_args s) \<and>
   out_reports (queryUser_method V c name_args s) \<and> out_reports (queryUsers_method E V c policy_args s) \<and>
   out_reports (dropUser_method V c name_args s) \<and>
   (if usable c then out_reports (changePassword_method V c pass_args s)
    else fst (changePassword_method V c pass_args s) \<noteq> AEROSPIKE_OK \<and>
         snd (snd (changePassword_method V c pass_args s)) = (reset_client_error c, s))"
  using changePassword_reports [of c V pass_args s] changePassword_forgets [of c V pass_args s]
  by (simp add: role_methods_report user_methods_report)

section \<open>Roles and users come back\<close>

lemma no_policy [simp]: "with_admin_policy V c cfg None out err m s k = k None"
  by (simp add: with_admin_policy_def)

lemma admin_method_usable:
  assumes "usable c" "as_client c = Some cfg"
  shows "admin_method late forget m body c (Some a) s = body (reset_client_error c) cfg a as_error_init"
  using assms by (simp add: admin_method_def Let_def check_object_and_connection_def usable_def reset_client_error_def)

text \<open>
  A role created from an array of privileges, on servers that keep what they are sent, is queried
  back as an array that reads as the same privileges in the same order.
\<close>

theorem created_role_queried:
  assumes c: "usable c" "as_client c = Some cfg"
    and kw: "keywords_plain E" "0 < namespace_max_size E" "0 < set_max_size E"
    and name: "role \<noteq> []" "length role < AS_ROLE_SIZE V"
    and privs: "z_hashtable_to_as_privileges E z_privs as_error_init = (AEROSPIKE_OK, ps, as_error_init)"
    and kept: "create_role V cfg None (c_str role) ps s = (as_error_init, s')"
      "query_role V cfg None (c_str role) s' =
         (as_error_init, Some \<lparr>role_name = c_str role, role_privileges = ps\<rparr>, s'')"
  shows "createRole_method E V c (Some (role, z_privs, None)) s =
      (AEROSPIKE_OK, None, reset_client_error c, s') \<and>
    (\<exists>h. queryRole_method E V c (Some (role, None)) s' =
        (AEROSPIKE_OK, Some (ZArray h), reset_client_error c, s'') \<and>
      z_hashtable_to_as_privileges E h as_error_init = (AEROSPIKE_OK, ps, as_error_init))"
proof
  have "ps = [] \<and> as_error_init = (as_error_init :: as_error)" if "z_privs = []"
    using privs that by (simp add: z_hashtable_to_as_privileges_def)
  with privs kept(1) name show "createRole_method E V c (Some (role, z_privs, None)) s =
      (AEROSPIKE_OK, None, reset_client_error c, s')"
    by (auto simp: createRole_method_def admin_method_usable [OF c] admin_cleanup_def remember_def)
  let ?r = "\<lparr>role_name = c_str role, role_privileges = ps\<rparr>"
  have "list_all (privilege_fits E) (role_privileges ?r)"
    using privileges_entries_fit [OF kw(2,3), of "[]" z_privs as_error_init] privs
    by (simp add: z_hashtable_to_as_privileges_def case_prod_beta)
  moreover have "length (index_keys 0 (length ps)) = length ps" by (simp add: index_keys_def)
  ultimately have "\<exists>h. as_role_to_zval E (Some ?r) ZNull as_error_init = (AEROSPIKE_OK, ZArray h, as_error_init) \<and>
      z_hashtable_to_as_privileges E h as_error_init = (AEROSPIKE_OK, ps, as_error_init)"
    using privileges_entries_of_zval [OF kw(1), of ps "index_keys 0 (length ps)" "[]" as_error_init]
    by (simp add: as_role_to_zval_def z_hashtable_to_as_privileges_def add_next_index_foldl)
  with kept(2) show "\<exists>h. queryRole_method E V c (Some (role, None)) s' =
        (AEROSPIKE_OK, Some (ZArray h), reset_client_error c, s'') \<and>
      z_hashtable_to_as_privileges E h as_error_init = (AEROSPIKE_OK, ps, as_error_init)"
    by (auto simp: queryRole_method_def admin_method_usable [OF c] admin_cleanup_def remember_def)
qed


lemma str_array_of_names:
  "list_all (\<lambda>r. nul_free r \<and> length r < n) rs \<Longrightarrow> length ks = length rs \<Longrightarrow>
    length roles + length rs \<le> slots \<Longrightarrow>
    str_array_entries (zip ks (map ZString rs)) n slots roles err = (roles @ rs, err)"
  by (induction rs arbitrary: ks roles) (auto simp: length_Suc_conv)

lemma roles_array_names:
  "list_all nul_free rs \<Longrightarrow>
    roles_array \<lparr>user_name = u, user_roles = rs\<rparr> = ZArray (zip (index_keys 0 (length rs)) (map ZString rs))"
  by (auto simp: roles_array_def add_next_index_foldl zip_map2 list_all_iff dest: set_zip_rightD)

text \<open>
  A user created with a list of roles, on servers that keep what they are sent, is queried back with
  the same roles: the array returned is the array given when that was a list.
\<close>

theorem created_user_queried:
  assumes c: "usable c" "as_client c = Some cfg"
    and user: "user \<noteq> []" "length user < AS_USER_SIZE V" and "pass \<noteq> []"
    and roles: "list_all (\<lambda>r. nul_free r \<and> length r < AS_ROLE_SIZE V) rs" "length ks = length rs"
    and kept: "create_user V cfg None (c_str user) (c_str pass) rs s = (as_error_init, s')"
      "query_user V cfg None (c_str user) s' =
         (as_error_init, Some \<lparr>user_name = c_str user, user_roles = rs\<rparr>, s'')"
  shows "createUser_method V c (Some (user, pass, zip ks (map ZString rs), None)) s =
      (AEROSPIKE_OK, None, reset_client_error c, s') \<and>
    queryUser_method V c (Some (user, None)) s' =
      (AEROSPIKE_OK, Some (ZArray (zip (index_keys 0 (length rs)) (map ZString rs))),
       reset_client_error c, s'')"
proof
  have "str_array_entries (zip ks (map ZString rs)) (AS_ROLE_SIZE V) (length rs) [] as_error_init = (rs, as_error_init)"
    using str_array_of_names [OF roles, of "[]"] by simp
  moreover have "zip ks (map ZString rs) = [] \<longleftrightarrow> rs = []" using roles(2) by (cases rs; cases ks) simp_all
  ultimately show "createUser_method V c (Some (user, pass, zip ks (map ZString rs), None)) s =
      (AEROSPIKE_OK, None, reset_client_error c, s')"
    using user assms(5) roles(2) kept(1)
    by (auto simp: createUser_method_def admin_method_usable [OF c] with_user_name_def with_roles_def
        z_hash_to_str_array_def admin_cleanup_def remember_def Let_def)
  have "list_all nul_free rs" using roles(1) by (simp add: list_all_iff)
  then show "queryUser_method V c (Some (user, None)) s' =
      (AEROSPIKE_OK, Some (ZArray (zip (index_keys 0 (length rs)) (map ZString rs))),
       reset_client_error c, s'')"
    using user kept(2)
    by (simp add: queryUser_method_def admin_method_usable [OF c] with_user_name_def admin_cleanup_def
        remember_def roles_array_names)
qed

section \<open>Applications\<close>

text \<open>Servers with one role and one user.\<close>

definition sample_admin_env :: "store admin_env" where
  "sample_admin_env = env.extend sample_env \<lparr>
     admin_struct = sample_struct \<lparr>ad_timeout = 1000, ad_rest = 0\<rparr>, AS_ROLE_SIZE = 64, AS_USER_SIZE = 64,
     create_role = (\<lambda>cfg p r ps s. (as_error_init, s)),
     query_role = (\<lambda>cfg p r s. (as_error_init,
       Some \<lparr>role_name = r, role_privileges = [\<lparr>priv_code = 10, priv_ns = ''test'', priv_set = []\<rparr>]\<rparr>, s)),
     query_roles = (\<lambda>cfg p s. (as_error_init, (None, 0), s)),
     drop_role = (\<lambda>cfg p r s. (as_error_init, s)),
     create_user = (\<lambda>cfg p u w rs s. (as_error_init, s)),
     grant_privileges = (\<lambda>cfg p r ps s. (as_error_init, s)),
     revoke_privileges = (\<lambda>cfg p r ps s. (as_error_init, s)),
     change_password = (\<lambda>cfg p u w s. (as_error_init, s)), set_password = (\<lambda>cfg p u w s. (as_error_init, s)),
     grant_roles = (\<lambda>cfg p u rs s. (as_error_init, s)), revoke_roles = (\<lambda>cfg p u rs s. (as_error_init, s)),
     query_user = (\<lambda>cfg p u s. (as_error_init, Some \<lparr>user_name = u, user_roles = [''read'', ''write'']\<rparr>, s)),
     query_users = (\<lambda>cfg p s. (as_error_init, None, s)),
     drop_user = (\<lambda>cfg p u s. (as_error_init, s))\<rparr>"

definition sample_privileges :: htab where
  "sample_privileges = [(IKey 0, ZArray [(SKey ''code'', ZLong 10), (SKey ''ns'', ZString ''test'')])]"

theorem created_role_queried_witness:
  "\<exists>h. queryRole_method sample_ext sample_admin_env sample_client (Some (''ops'', None)) [] =
      (AEROSPIKE_OK, Some (ZArray h), reset_client_error sample_client, []) \<and>
    z_hashtable_to_as_privileges sample_ext h as_error_init =
      z_hashtable_to_as_privileges sample_ext sample_privileges as_error_init"
proof -
  have p: "z_hashtable_to_as_privileges sample_ext sample_privileges as_error_init =
      (AEROSPIKE_OK, [\<lparr>priv_code = 10, priv_ns = ''test'', priv_set = []\<rparr>], as_error_init)"
    by code_simp
  show ?thesis
    using created_role_queried [OF sample_client_simps sample_keywords _ _ _ _ p, where V = sample_admin_env
        and role = "''ops''" and s = "[]" and s' = "[]" and s'' = "[]"] p
    by (simp add: sample_admin_env_def env.defs c_str_def NUL_def)
qed

theorem created_user_queried_witness:
  "queryUser_method sample_admin_env sample_client (Some (''ann'', None)) [] =
    (AEROSPIKE_OK, Some (ZArray [(IKey 0, ZString ''read''), (IKey 1, ZString ''write'')]),
     reset_client_error sample_client, [])"
  using created_user_queried [OF sample_client_simps, where V = sample_admin_env and user = "''ann''"
      and pass = "''secret''" and rs = "[''read'', ''write'']" and ks = "[IKey 0, IKey 1]"
      and s = "[]" and s' = "[]" and s'' = "[]"]
  by (simp add: sample_admin_env_def env.defs c_str_def NUL_def nul_free_def index_keys_def)

end
