(* ===== verification/Info.thy ===== *)
theory Info
  imports Persistent
begin

text \<open>
  The info commands of \<open>client/info.c\<close>: \<open>info\<close> to one node, and \<open>infoMany\<close> with its filter of hosts
  and the callback that collects the responses. Arguments and results are as in \<open>KeyValue\<close>.
\<close>

section \<open>Structures and calls\<close>

record as_node =
  node_name :: string
  node_address :: string \<comment> \<open>\<open>as_node_get_address_string\<close>\<close>

text \<open>A null policy or response is \<open>None\<close>; so is a null node the callback is called with.\<close>

record 's info_env = "'s env" +
  info_policy_struct :: "as_policy_info policy_struct"
  AS_HOSTNAME_SIZE :: nat
  info_host :: "config \<Rightarrow> as_policy_info option \<Rightarrow> string \<Rightarrow> u16 \<Rightarrow> string \<Rightarrow> 's \<Rightarrow> as_error \<times> string option \<times> 's"
  info_foreach :: "config \<Rightarrow> as_policy_info option \<Rightarrow> string \<Rightarrow>
    (as_node option \<times> string option \<Rightarrow> as_error \<times> htab \<Rightarrow> bool \<times> as_error \<times> htab) \<Rightarrow> as_error \<times> htab \<Rightarrow> 's \<Rightarrow>
    (as_error \<times> htab) \<times> 's"

section \<open>info\<close>

text \<open>The host of the arguments, or the message of the error; the first configured host without one.\<close>

definition info_destination :: "htab option \<Rightarrow> host \<Rightarrow> string + string \<times> u16" where
  "info_destination destination_host h =
     (case destination_host of
        None \<Rightarrow> Inr (host_name h, host_port h)
      | Some d \<Rightarrow>
          (case str_find d ''addr'' of
             None \<Rightarrow> Inl ''Host entry must contain an addr''
           | Some (ZString host_str) \<Rightarrow>
               (case str_find d ''port'' of
                  None \<Rightarrow> Inl ''Host entry must contain a port''
                | Some (ZLong n) \<Rightarrow> Inr (c_str host_str, ucast n)
                | Some _ \<Rightarrow> Inl ''port entry must be an integer'')
           | Some _ \<Rightarrow> Inl ''addr entry must be a string''))"

text \<open>A configuration without hosts has no vector to read the first from: \<open>None\<close>.\<close>

definition info_method ::
  "('s, 'z) info_env_scheme \<Rightarrow> client \<Rightarrow> (string \<times> htab option \<times> zval option) option \<Rightarrow> 's \<Rightarrow>
     (as_status \<times> zval option \<times> client \<times> 's) option" where
  "info_method V c args s =
     (let c = reset_client_error c;
          fail = (\<lambda>out m. Some (AEROSPIKE_ERR_PARAM, out, update_client_error c AEROSPIKE_ERR_PARAM m False, s));
          cleanup = (\<lambda>out err s. Some (code err, Some out, remember err c, s))
      in
      case check_object_and_connection c as_error_init of
        (st, err) \<Rightarrow>
          if st \<noteq> AEROSPIKE_OK then
            Some (code err, None, update_client_error c (code err) (message err) (in_doubt err), s)
          else
            (case as_client c of
               None \<Rightarrow> None
             | Some cfg \<Rightarrow>
                 (case cfg_hosts cfg of
                    [] \<Rightarrow> None
                  | h # _ \<Rightarrow>
                      (case args of
                         None \<Rightarrow> fail None ''Invalid arguments to info''
                       | Some (request, destination_host, z_policy) \<Rightarrow>
                           (let p = map_option (\<lambda>z. zval_to_as_policy_info (info_policy_struct V) (Some z)
                                      (cfg_info cfg)) z_policy
                            in
                            if (case p of Some (st, _) \<Rightarrow> st \<noteq> AEROSPIKE_OK | None \<Rightarrow> False) then
                              fail (Some ZNull) ''Invalid policy.''
                            else
                              (case info_destination destination_host h of
                                 Inl m \<Rightarrow> cleanup ZNull (as_error_update err AEROSPIKE_ERR_PARAM m) s
                               | Inr (host_str, port_number) \<Rightarrow>
                                   (case info_host V cfg (map_option snd p) host_str port_number (c_str request) s of
                                      (err, response, s) \<Rightarrow>
                                        cleanup
                                          (if code err \<noteq> AEROSPIKE_OK then ZNull
                                           else case response of None \<Rightarrow> ZNull | Some r \<Rightarrow> ZString (c_str r))
                                          err s)))))))"

section \<open>infoMany\<close>

definition valid_host_pair :: "zval \<Rightarrow> bool" where
  "valid_host_pair z \<longleftrightarrow>
     (case z of
        ZArray p \<Rightarrow>
          length p = 2 \<and> pred_option is_string (str_find p ''addr'') \<and> str_find p ''addr'' \<noteq> None \<and>
          pred_option is_long (str_find p ''port'') \<and> str_find p ''port'' \<noteq> None
      | _ \<Rightarrow> False)"

definition is_valid_hosts_list :: "htab \<Rightarrow> bool" where
  "is_valid_hosts_list h \<longleftrightarrow>
     (case str_find h ''hosts'' of
        Some (ZArray hosts) \<Rightarrow> list_all (\<lambda>kv. valid_host_pair (snd kv)) hosts
      | _ \<Rightarrow> False)"

text \<open>\<open>sprintf\<close> of a signed integer.\<close>

definition show_long :: "zlong \<Rightarrow> string" where
  "show_long n = (if sint n < 0 then ''-'' @ show_base 10 (nat (- sint n)) else show_base 10 (nat (sint n)))"

text \<open>The address \<open>snprintf\<close> leaves in the buffer.\<close>

definition pair_address :: "('s, 'z) info_env_scheme \<Rightarrow> zval \<Rightarrow> string" where
  "pair_address V z =
     (case z of
        ZArray p \<Rightarrow>
          (case (str_find p ''addr'', str_find p ''port'') of
             (Some (ZString a), Some (ZLong n)) \<Rightarrow>
               take (AS_HOSTNAME_SIZE V - 1) (c_str a @ '':'' @ show_long n)
           | _ \<Rightarrow> [])
      | _ \<Rightarrow> [])"

fun node_in_hosts_list :: "('s, 'z) info_env_scheme \<Rightarrow> as_node \<Rightarrow> htab \<Rightarrow> bool" where
  "node_in_hosts_list V node [] = False"
| "node_in_hosts_list V node ((k, z) # hosts) =
     (if pair_address V z = c_str (node_address node) then True else node_in_hosts_list V node hosts)"

definition AerospikeClient_Info_each ::
  "'e conv_ext_scheme \<Rightarrow> ('s, 'z) info_env_scheme \<Rightarrow> htab option \<Rightarrow> as_node option \<times> string option \<Rightarrow>
     as_error \<times> htab \<Rightarrow> bool \<times> as_error \<times> htab" where
  "AerospikeClient_Info_each E V filter_hosts answer st =
     (case (answer, st) of
        ((None, _), err, h) \<Rightarrow>
          (False, as_error_update err AEROSPIKE_ERR_CLIENT ''Null node passed in infoMany'', h)
      | ((Some node, res), err, h) \<Rightarrow>
          (True, err,
           if (case filter_hosts of None \<Rightarrow> True | Some hosts \<Rightarrow> node_in_hosts_list V node hosts) then
             add_assoc_zval E h (node_name node) (case res of None \<Rightarrow> ZNull | Some r \<Rightarrow> ZString (c_str r))
           else h))"

text \<open>The method returns its value itself.\<close>

definition infoMany_method ::
  "'e conv_ext_scheme \<Rightarrow> ('s, 'z) info_env_scheme \<Rightarrow> client \<Rightarrow> (string \<times> htab option \<times> zval option) option \<Rightarrow>
     's \<Rightarrow> zval \<times> client \<times> 's" where
  "infoMany_method E V c args s =
     (let c = reset_client_error c;
          fail = (\<lambda>m. (ZNull, update_client_error c AEROSPIKE_ERR_PARAM m False, s))
      in
      case check_object_and_connection c as_error_init of
        (st, err) \<Rightarrow>
          if st \<noteq> AEROSPIKE_OK then (ZNull, update_client_error c (code err) (message err) (in_doubt err), s)
          else
            (case (args, as_client c) of
               (Some (request, filter_hosts, z_policy), Some cfg) \<Rightarrow>
                 if (case filter_hosts of Some h \<Rightarrow> \<not> is_valid_hosts_list h | None \<Rightarrow> False) then
                   fail ''Invalid list of hosts.''
                 else
                   (let hosts = (case filter_hosts of
                          Some h \<Rightarrow> (case str_find h ''hosts'' of Some (ZArray hosts) \<Rightarrow> Some hosts | _ \<Rightarrow> None)
                        | None \<Rightarrow> None);
                        p = map_option (\<lambda>z. zval_to_as_policy_info (info_policy_struct V) (Some z) (cfg_info cfg))
                          z_policy
                    in
                    if (case p of Some (st, _) \<Rightarrow> st \<noteq> AEROSPIKE_OK | None \<Rightarrow> False) then
                      fail ''Invalid policy for infoMany.''
                    else
                      (case info_foreach V cfg (map_option snd p) (c_str request)
                          (AerospikeClient_Info_each E V hosts) (err, []) s of
                         ((err, h), s) \<Rightarrow>
                           if code err \<noteq> AEROSPIKE_OK then
                             (ZNull, update_client_error c (code err) (message err) (in_doubt err), s)
                           else (ZArray h, c, s)))
             | _ \<Rightarrow> fail ''Invalid parameters for infoMany.''))"

end
