(* ===== verification/Maintenance.thy ===== *)
theory Maintenance
  imports Info
begin

text \<open>
  Indexes, truncation, digests and nodes: \<open>client/secondary_index.c\<close>, \<open>client/truncate.c\<close>,
  \<open>client/get_key_digest.c\<close> and \<open>client/get_nodes.c\<close>. Arguments and results are as in \<open>KeyValue\<close>.
\<close>

record 's maintenance_env = "'s info_env" +
  index_create :: "config \<Rightarrow> as_policy_info \<Rightarrow> string \<times> string \<times> string \<times> string \<Rightarrow> cint \<Rightarrow> cint \<Rightarrow> 's \<Rightarrow> as_error \<times> 's"
  index_create_wait :: "'s \<Rightarrow> as_error \<times> 's" \<comment> \<open>for the index made last\<close>
  index_remove :: "config \<Rightarrow> as_policy_info \<Rightarrow> string \<Rightarrow> string \<Rightarrow> 's \<Rightarrow> as_error \<times> 's"
  server_truncate :: "config \<Rightarrow> as_policy_info \<Rightarrow> string \<Rightarrow> string option \<Rightarrow> 64 word \<Rightarrow> 's \<Rightarrow> as_error \<times> 's"
  as_key_digest :: "as_key \<Rightarrow> string option"
  cluster_nodes :: "config \<Rightarrow> 's \<Rightarrow> as_node list option" \<comment> \<open>\<open>None\<close>: there is no cluster\<close>

section \<open>Indexes\<close>

definition addIndex_method ::
  "'e conv_ext_scheme \<Rightarrow> ('s, 'z) maintenance_env_scheme \<Rightarrow> client \<Rightarrow>
     ((string \<times> string \<times> string \<times> string) \<times> zlong \<times> zlong \<times> zval option) option \<Rightarrow> 's \<Rightarrow> as_status \<times> client \<times> 's" where
  "addIndex_method E V c args s =
     (let c = reset_client_error c;
          fail = (\<lambda>m. (AEROSPIKE_ERR_PARAM, update_client_error c AEROSPIKE_ERR_PARAM m False, s))
      in
      case check_object_and_connection c as_error_init of
        (st, err) \<Rightarrow>
          if st \<noteq> AEROSPIKE_OK then (code err, update_client_error c (code err) (message err) False, s)
          else
            (case (args, as_client c) of
               (Some ((ns, set_name, bin, index_name), index_type, data_type, z_policy), Some cfg) \<Rightarrow>
                 (case zval_to_as_policy_info (info_policy_struct V) z_policy (cfg_info cfg) of
                    (st, p) \<Rightarrow>
                      if st \<noteq> AEROSPIKE_OK then fail ''Invalid info policy''
                      else if bin_name_max_len E < length bin then fail ''Bin name is too long''
                      else
                        (case index_create V cfg p (c_str ns, c_str set_name, c_str bin, c_str index_name)
                            (ucast index_type) (ucast data_type) s of
                           (err, s) \<Rightarrow>
                             if code err \<noteq> AEROSPIKE_OK then
                               (code err, update_client_error c (code err) (message err) (in_doubt err), s)
                             else
                               (case index_create_wait V s of
                                  (err, s) \<Rightarrow> (code err, remember err c, s))))
             | _ \<Rightarrow> fail ''Invalid arguments to addIndex''))"

definition dropIndex_method ::
  "('s, 'z) maintenance_env_scheme \<Rightarrow> client \<Rightarrow> (string \<times> string \<times> zval option) option \<Rightarrow> 's \<Rightarrow>
     as_status \<times> client \<times> 's" where
  "dropIndex_method V c args s =
     (let c = reset_client_error c;
          fail = (\<lambda>m. (AEROSPIKE_ERR_PARAM, update_client_error c AEROSPIKE_ERR_PARAM m False, s))
      in
      case check_object_and_connection c as_error_init of
        (st, err) \<Rightarrow>
          if st \<noteq> AEROSPIKE_OK then (code err, update_client_error c (code err) (message err) False, s)
          else
            (case (args, as_client c) of
               (Some (ns, index_name, z_policy), Some cfg) \<Rightarrow>
                 (case zval_to_as_policy_info (info_policy_struct V) z_policy (cfg_info cfg) of
                    (st, p) \<Rightarrow>
                      if st \<noteq> AEROSPIKE_OK then fail ''Invalid info policy''
                      else
                        (case index_remove V cfg p (c_str ns) (c_str index_name) s of
                           (err, s) \<Rightarrow> (code err, remember err c, s)))
             | _ \<Rightarrow> fail ''Invalid arguments to dropIndex''))"

section \<open>truncate\<close>

text \<open>The set may be null.\<close>

definition truncate_method ::
  "'e conv_ext_scheme \<Rightarrow> ('s, 'z) maintenance_env_scheme \<Rightarrow> client \<Rightarrow>
     (string \<times> string option \<times> zlong \<times> zval option) option \<Rightarrow> 's \<Rightarrow> as_status \<times> client \<times> 's" where
  "truncate_method E V c args s =
     (let c = reset_client_error c;
          fail = (\<lambda>m. (AEROSPIKE_ERR_PARAM, update_client_error c AEROSPIKE_ERR_PARAM m False, s))
      in
      case check_object_and_connection c as_error_init of
        (st, err) \<Rightarrow>
          if st \<noteq> AEROSPIKE_OK then (code err, update_client_error c (code err) (message err) False, s)
          else
            (case (args, as_client c) of
               (Some (ns, set_name, nanos, z_policy), Some cfg) \<Rightarrow>
                 if sint nanos < 0 then fail ''Nanos arg must not be negative''
                 else if ns = [] then fail ''Namespace must not be empty''
                 else if namespace_max_size E \<le> length ns then fail ''Namespace too long''
                 else if (case set_name of Some n \<Rightarrow> set_max_size E \<le> length n | None \<Rightarrow> False) then
                   fail ''Set too long''
                 else
                   (case zval_to_as_policy_info (info_policy_struct V) z_policy (cfg_info cfg) of
                      (st, p) \<Rightarrow>
                        if st \<noteq> AEROSPIKE_OK then fail ''Invalid policy''
                        else
                          (case server_truncate V cfg p (c_str ns) (map_option c_str set_name) nanos s of
                             (err, s) \<Rightarrow> (code err, remember err c, s)))
             | _ \<Rightarrow> fail ''Invalid parameters to truncate''))"

section \<open>getKeyDigest\<close>

text \<open>The value returned is null whenever no digest is computed, and no error is remembered.\<close>

definition getKeyDigest_method ::
  "'e conv_ext_scheme \<Rightarrow> ('s, 'z) maintenance_env_scheme \<Rightarrow> client \<Rightarrow> (string \<times> string \<times> zval) option \<Rightarrow>
     zval \<times> client" where
  "getKeyDigest_method E V c args =
     (let c = reset_client_error c in
      case args of
        None \<Rightarrow> (ZNull, c)
      | Some (ns, set_name, primary_key) \<Rightarrow>
          if \<not> is_string primary_key \<and> \<not> is_long primary_key then (ZNull, c)
          else
            (let h = add_assoc_zval E [] ''ns'' (ZString (c_str ns));
                 h = add_assoc_zval E h ''set'' (ZString (c_str set_name));
                 h = add_assoc_zval E h ''key'' primary_key
             in
             case z_hashtable_to_as_key E h as_error_init of
               (AEROSPIKE_OK, Some key, _) \<Rightarrow>
                 ((case as_key_digest V key of None \<Rightarrow> ZNull | Some d \<Rightarrow> ZString d), c)
             | _ \<Rightarrow> (ZNull, c)))"

section \<open>getNodes\<close>

text \<open>\<open>strrchr\<close> of a colon: what stands before the last one and after it.\<close>

definition split_last_colon :: "string \<Rightarrow> (string \<times> string) option" where
  "split_last_colon a =
     (if CHR '':'' \<in> set a then
        Some (rev (tl (dropWhile (\<lambda>x. x \<noteq> CHR '':'') (rev a))), rev (takeWhile (\<lambda>x. x \<noteq> CHR '':'') (rev a)))
      else None)"

fun node_entries :: "'e conv_ext_scheme \<Rightarrow> as_node list \<Rightarrow> htab \<Rightarrow> htab" where
  "node_entries E [] h = h"
| "node_entries E (n # ns) h =
     (case split_last_colon (c_str (node_address n)) of
        None \<Rightarrow> h
      | Some (addr, port) \<Rightarrow>
          node_entries E ns (add_next_index h (ZArray (add_assoc_zval E (add_assoc_zval E []
            ''addr'' (ZString addr)) ''port'' (ZString port)))))"

text \<open>The method returns an array, or the number of the error.\<close>

definition getNodes_method ::
  "'e conv_ext_scheme \<Rightarrow> ('s, 'z) maintenance_env_scheme \<Rightarrow> client \<Rightarrow> 's \<Rightarrow> (as_status + zval) \<times> client" where
  "getNodes_method E V c s =
     (let c = reset_client_error c in
      case check_object_and_connection c as_error_init of
        (st, err) \<Rightarrow>
          if st \<noteq> AEROSPIKE_OK then
            (Inl (code err), update_client_error c (code err) (message err) (in_doubt err))
          else
            (case as_client c of
               None \<Rightarrow> (Inl AEROSPIKE_ERR_CLIENT, c)
             | Some cfg \<Rightarrow>
                 (case cluster_nodes V cfg s of
                    None \<Rightarrow> (Inl AEROSPIKE_ERR_CLUSTER,
                      update_client_error c AEROSPIKE_ERR_CLUSTER ''Invalid cluster'' False)
                  | Some nodes \<Rightarrow> (Inr (ZArray (node_entries E nodes [])), c))))"

end
