(* ===== verification/Udf.thy ===== *)
theory Udf
  imports Maintenance
begin

text \<open>
  The registration of user-defined functions of \<open>client/udf.c\<close>. \<open>register\<close> copies the file to the
  user path on the way, so the model has the files of the machine; the other methods are as in
  \<open>KeyValue\<close>.
\<close>

section \<open>Structures and calls\<close>

record udf_file =
  udf_name :: string
  udf_type :: cint
  udf_content :: string

record 's udf_env = "'s maintenance_env" +
  lua_user_path :: "string option" \<comment> \<open>\<open>INI_STR("aerospike.udf.lua_user_path")\<close>\<close>
  AS_CONFIG_PATH_MAX_SIZE :: nat
  AEROSPIKE_ERR_UDF :: as_status
  AEROSPIKE_ERR_UDF_NOT_FOUND :: as_status
  AEROSPIKE_ERR_LUA_FILE_NOT_FOUND :: as_status
  udf_get :: "config \<Rightarrow> as_policy_info \<Rightarrow> string \<Rightarrow> cint \<Rightarrow> 's \<Rightarrow> as_error \<times> udf_file \<times> 's"
  udf_put :: "config \<Rightarrow> as_policy_info \<Rightarrow> string \<Rightarrow> cint \<Rightarrow> string \<Rightarrow> 's \<Rightarrow> as_error \<times> 's"
  udf_put_wait :: "config \<Rightarrow> as_policy_info \<Rightarrow> string \<Rightarrow> 's \<Rightarrow> as_error \<times> 's"
  udf_remove :: "config \<Rightarrow> as_policy_info \<Rightarrow> string \<Rightarrow> 's \<Rightarrow> as_error \<times> 's"
  udf_list :: "config \<Rightarrow> as_policy_info \<Rightarrow> 's \<Rightarrow> as_error \<times> udf_file list \<times> 's"

text \<open>
  The files: the contents under each path, the paths that can be opened for writing, and how many
  bytes can still be written.
\<close>

record files =
  file_at :: "string \<Rightarrow> string option"
  writable :: "string \<Rightarrow> bool"
  room_left :: nat

definition SCRIPT_LEN_MAX :: nat where "SCRIPT_LEN_MAX = 1048576"

definition LUA_FILE_BUFFER_FRAME :: nat where "LUA_FILE_BUFFER_FRAME = 512"

section \<open>The standard library on files\<close>

definition fopen_write :: "string \<Rightarrow> files \<Rightarrow> files option" where
  "fopen_write path fs =
     (if writable fs path then
        Some (fs\<lparr>file_at := (file_at fs)(path \<mapsto> []),
                 room_left := room_left fs + (case file_at fs path of None \<Rightarrow> 0 | Some b \<Rightarrow> length b)\<rparr>)
      else None)"

definition fwrite :: "string \<Rightarrow> string \<Rightarrow> files \<Rightarrow> nat \<times> files" where
  "fwrite path b fs =
     (let n = min (length b) (room_left fs) in
      (n, fs\<lparr>file_at := (file_at fs)(path \<mapsto> (case file_at fs path of None \<Rightarrow> [] | Some old \<Rightarrow> old) @ take n b),
             room_left := room_left fs - n\<rparr>))"

section \<open>The copy of the file\<close>

text \<open>
  The path of the copy: the user path with a slash, and what follows the last slash of the path
  given; \<open>None\<close> when the buffer of the path is read or written out of its bounds.
\<close>

definition base_directory :: "nat \<Rightarrow> string \<Rightarrow> string option" where
  "base_directory capacity user_base_path =
     (let base = c_str user_base_path in
      if capacity < length base \<or> base = [] then None
      else if last base = CHR ''/'' then Some base
      else if length base = capacity then None
      else Some (base @ ''/''))"

text \<open>The name of the file; \<open>path_len\<close> is the length PHP reports.\<close>

definition udf_base_name :: "string \<Rightarrow> nat \<Rightarrow> string option" where
  "udf_base_name file_path path_len =
     (if CHR ''/'' \<notin> set file_path then Some file_path
      else
        (let name = rev (takeWhile (\<lambda>c. c \<noteq> CHR ''/'') (rev file_path)) in
         if length file_path - length name = path_len then None else Some name))"

text \<open>
  The loop: \<open>chunk\<close> has been read into the buffer behind \<open>done\<close> and written to the copy, \<open>rest\<close> is
  still to be read. It stops when nothing can be written; \<open>None\<close> when the buffer is too small.
  A copy onto the file itself never gets here, since there is nothing left to read.
\<close>

function copy_chunks ::
  "string \<Rightarrow> string \<Rightarrow> string \<Rightarrow> string \<Rightarrow> files \<Rightarrow> (string \<times> files) option" where
  "copy_chunks path chunk rest done fs =
     (if chunk = [] then Some (done, fs)
      else
        (let next = take LUA_FILE_BUFFER_FRAME rest; rest = drop LUA_FILE_BUFFER_FRAME rest; done = done @ chunk in
         if SCRIPT_LEN_MAX < length done + length next then None
         else
           (case fwrite path next fs of
              (n, fs) \<Rightarrow> if n = 0 then Some (done, fs) else copy_chunks path next rest done fs)))"
  by pat_completeness auto

termination
  by (relation "measure (\<lambda>(path, chunk, rest, done, fs). length chunk + length rest)") (auto simp: min_def neq_Nil_conv)

declare copy_chunks.simps [simp del]

text \<open>The contents for the server, or the message when nothing can be copied.\<close>

definition copy_udf_file :: "string \<Rightarrow> string \<Rightarrow> files \<Rightarrow> (string + string \<times> files) option" where
  "copy_udf_file source path fs =
     (let contents = (case file_at fs source of None \<Rightarrow> [] | Some b \<Rightarrow> b);
          chunk = take LUA_FILE_BUFFER_FRAME contents
      in
      case fwrite path chunk fs of
        (n, fs) \<Rightarrow>
          if chunk \<noteq> [] \<and> n \<noteq> 0 then
            map_option Inr (copy_chunks path chunk (drop LUA_FILE_BUFFER_FRAME contents) [] fs)
          else Some (Inl ''Unable to write to user path''))"

section \<open>register\<close>

text \<open>The size of the file as the code has it, a 32-bit number.\<close>

definition ftell_size :: "string \<Rightarrow> u32" where
  "ftell_size b = of_nat (length b)"

definition register_checked ::
  "('s, 'z) udf_env_scheme \<Rightarrow> client \<Rightarrow> config \<Rightarrow> as_policy_info \<Rightarrow> string \<Rightarrow> string \<Rightarrow> zlong \<Rightarrow> as_error \<Rightarrow>
     's \<Rightarrow> files \<Rightarrow> (as_status \<times> client \<times> 's \<times> files) option" where
  "register_checked V c cfg p file_path module udf_language err s fs =
     (let cleanup = (\<lambda>err s fs. Some (code err, remember err c, s, fs));
          fail = (\<lambda>st m fs. Some (st, remember (as_error_update err st m) c, s, fs));
          source = c_str file_path; capacity = 2 * AS_CONFIG_PATH_MAX_SIZE V
      in
      case file_at fs source of
        None \<Rightarrow> fail (AEROSPIKE_ERR_UDF_NOT_FOUND V) ''Unable to open UDF file'' fs
      | Some contents \<Rightarrow>
          if ftell_size contents = 0 then fail (AEROSPIKE_ERR_UDF V) ''UDF file is empty'' fs
          else if SCRIPT_LEN_MAX \<le> unat (ftell_size contents) then
            fail (AEROSPIKE_ERR_UDF V) ''UDF file is too large'' fs
          else
            (case lua_user_path V of
               None \<Rightarrow> fail AEROSPIKE_ERR_CLIENT ''Base path not found'' fs
             | Some user_base_path \<Rightarrow>
                 (case base_directory capacity user_base_path of
                    None \<Rightarrow> None
                  | Some directory \<Rightarrow>
                      (case udf_base_name source (length file_path) of
                         None \<Rightarrow> fail AEROSPIKE_ERR_CLIENT ''Base path not found'' fs
                       | Some name \<Rightarrow>
                           if capacity - 1 < length directory + length name then
                             fail AEROSPIKE_ERR_PARAM ''Path name too long'' fs
                           else
                             (case fopen_write (directory @ name) fs of
                                None \<Rightarrow>
                                  fail (AEROSPIKE_ERR_LUA_FILE_NOT_FOUND V)
                                    ''Unable to open the destination UDF file'' fs
                              | Some fs \<Rightarrow>
                                  (case copy_udf_file source (directory @ name) fs of
                                     None \<Rightarrow> None
                                   | Some (Inl m) \<Rightarrow> fail AEROSPIKE_ERR_CLIENT m fs
                                   | Some (Inr (script, fs)) \<Rightarrow>
                                       (case udf_put V cfg p (c_str module) (ucast udf_language) script s of
                                          (err, s) \<Rightarrow>
                                            if code err \<noteq> AEROSPIKE_OK then cleanup err s fs
                                            else
                                              (case udf_put_wait V cfg p (c_str module) s of
                                                 (err, s) \<Rightarrow> cleanup err s fs))))))))"

definition register_method ::
  "('s, 'z) udf_env_scheme \<Rightarrow> client \<Rightarrow> (string \<times> string \<times> zlong \<times> zval option) option \<Rightarrow> 's \<Rightarrow> files \<Rightarrow>
     (as_status \<times> client \<times> 's \<times> files) option" where
  "register_method V c args s fs =
     (let c = reset_client_error c;
          fail = (\<lambda>m. Some (AEROSPIKE_ERR_PARAM, update_client_error c AEROSPIKE_ERR_PARAM m False, s, fs))
      in
      case check_object_and_connection c as_error_init of
        (st, err) \<Rightarrow>
          if st \<noteq> AEROSPIKE_OK then
            Some (code err, update_client_error c (code err) (message err) False, s, fs)
          else
            (case (args, as_client c) of
               (Some (file_path, module, udf_language, z_policy), Some cfg) \<Rightarrow>
                 if module = [] then fail ''Empty filename for udf''
                 else
                   (case zval_to_as_policy_info (info_policy_struct V) z_policy (cfg_info cfg) of
                      (st, p) \<Rightarrow>
                        if st \<noteq> AEROSPIKE_OK then fail ''Invalid information policy''
                        else register_checked V c cfg p file_path module udf_language err s fs)
             | _ \<Rightarrow> fail ''Invalid Parameters for register''))"

section \<open>The other methods\<close>

definition getRegistered_method ::
  "('s, 'z) udf_env_scheme \<Rightarrow> client \<Rightarrow> (string \<times> zlong \<times> zval option) option \<Rightarrow> 's \<Rightarrow>
     as_status \<times> zval option \<times> client \<times> 's" where
  "getRegistered_method V c args s =
     (let c = reset_client_error c;
          fail = (\<lambda>out m. (AEROSPIKE_ERR_PARAM, out, update_client_error c AEROSPIKE_ERR_PARAM m False, s))
      in
      case check_object_and_connection c as_error_init of
        (st, err) \<Rightarrow>
          if st \<noteq> AEROSPIKE_OK then
            (code err, None, update_client_error c (code err) (message err) (in_doubt err), s)
          else
            (case (args, as_client c) of
               (Some (module, language, z_policy), Some cfg) \<Rightarrow>
                 (case zval_to_as_policy_info (info_policy_struct V) z_policy (cfg_info cfg) of
                    (st, p) \<Rightarrow>
                      if st \<noteq> AEROSPIKE_OK then fail (Some ZNull) ''Invalid information policy''
                      else
                        (case udf_get V cfg p (c_str module) (ucast language) s of
                           (err, file, s) \<Rightarrow>
                             (code err,
                              Some (if code err \<noteq> AEROSPIKE_OK then ZNull else ZString (udf_content file)),
                              remember err c, s)))
             | _ \<Rightarrow> fail None ''Invalid Parameters for getRegistered''))"

definition deregister_method ::
  "('s, 'z) udf_env_scheme \<Rightarrow> client \<Rightarrow> (string \<times> zval option) option \<Rightarrow> 's \<Rightarrow> as_status \<times> client \<times> 's" where
  "deregister_method V c args s =
     (let c = reset_client_error c;
          fail = (\<lambda>m. (AEROSPIKE_ERR_PARAM, update_client_error c AEROSPIKE_ERR_PARAM m False, s))
      in
      case check_object_and_connection c as_error_init of
        (st, err) \<Rightarrow>
          if st \<noteq> AEROSPIKE_OK then (code err, update_client_error c (code err) (message err) False, s)
          else
            (case (args, as_client c) of
               (Some (module, z_policy), Some cfg) \<Rightarrow>
                 (case zval_to_as_policy_info (info_policy_struct V) z_policy (cfg_info cfg) of
                    (st, p) \<Rightarrow>
                      if st \<noteq> AEROSPIKE_OK then fail ''Invalid information policy''
                      else
                        (case udf_remove V cfg p (c_str module) s of
                           (err, s) \<Rightarrow> (code err, remember err c, s)))
             | _ \<Rightarrow> fail ''Invalid parameters for deregister''))"

fun module_entries :: "'e conv_ext_scheme \<Rightarrow> zlong \<Rightarrow> udf_file list \<Rightarrow> htab \<Rightarrow> htab" where
  "module_entries E language [] h = h"
| "module_entries E language (f # fs) h =
     module_entries E language fs
       (if ucast (udf_type f) = language then
          add_next_index h (ZArray (add_assoc_zval E (add_assoc_zval E []
            ''name'' (ZString (c_str (udf_name f)))) ''type'' (ZLong (ucast (udf_type f)))))
        else h)"

definition listRegistered_method ::
  "'e conv_ext_scheme \<Rightarrow> ('s, 'z) udf_env_scheme \<Rightarrow> client \<Rightarrow> (zlong \<times> zval option) option \<Rightarrow> 's \<Rightarrow>
     as_status \<times> zval option \<times> client \<times> 's" where
  "listRegistered_method E V c args s =
     (let c = reset_client_error c;
          fail = (\<lambda>out m. (AEROSPIKE_ERR_PARAM, out, update_client_error c AEROSPIKE_ERR_PARAM m False, s))
      in
      case check_object_and_connection c as_error_init of
        (st, err) \<Rightarrow>
          if st \<noteq> AEROSPIKE_OK then
            (code err, None, update_client_error c (code err) (message err) (in_doubt err), s)
          else
            (case (args, as_client c) of
               (Some (language, z_policy), Some cfg) \<Rightarrow>
                 (case zval_to_as_policy_info (info_policy_struct V) z_policy (cfg_info cfg) of
                    (st, p) \<Rightarrow>
                      if st \<noteq> AEROSPIKE_OK then fail (Some ZNull) ''Invalid information policy''
                      else
                        (case udf_list V cfg p s of
                           (err, files, s) \<Rightarrow>
                             if code err \<noteq> AEROSPIKE_OK then (code err, Some ZNull, remember err c, s)
                             else (code err, Some (ZArray (module_entries E language files [])), c, s)))
             | _ \<Rightarrow> fail None ''Invalid parameters for deRegister''))"

end
