(* ===== verification/InfoProps.thy ===== *)
theory InfoProps
  imports Maintenance SampleEnv KeyProps
begin

text \<open>
  The nodes \<open>infoMany\<close> answers for, and the key whose digest \<open>getKeyDigest\<close> computes.
\<close>

section \<open>infoMany\<close>

text \<open>\<open>aerospike_info_foreach\<close>: the callback on the answer of every node until it returns false.\<close>

fun info_walk :: "('a \<Rightarrow> 'st \<Rightarrow> bool \<times> 'st) \<Rightarrow> 'a list \<Rightarrow> 'st \<Rightarrow> 'st" where
  "info_walk cb [] st = st"
| "info_walk cb (a # answers) st = (case cb a st of (go, st) \<Rightarrow> if go then info_walk cb answers st else st)"

text \<open>
  A node is named by a filter when the filter has its address: the host and the port with a colon
  between them, as much of it as the buffer holds. Without a filter every node is.
\<close>

definition pair_names :: "('s, 'z) info_env_scheme \<Rightarrow> zval \<Rightarrow> as_node \<Rightarrow> bool" where
  "pair_names V z n \<longleftrightarrow> (\<exists>p a port. z = ZArray p \<and> str_find p ''addr'' = Some (ZString a) \<and>
     str_find p ''port'' = Some (ZLong port) \<and>
     c_str (node_address n) = take (AS_HOSTNAME_SIZE V - 1) (c_str a @ '':'' @ show_long port))"

definition named_in :: "('s, 'z) info_env_scheme \<Rightarrow> htab option \<Rightarrow> as_node \<Rightarrow> bool" where
  "named_in V hosts n \<longleftrightarrow>
     (case hosts of None \<Rightarrow> True | Some h \<Rightarrow> list_ex (\<lambda>(k, z). pair_names V z n) h)"

definition answer_value :: "string option \<Rightarrow> zval" where
  "answer_value r = (case r of None \<Rightarrow> ZNull | Some r \<Rightarrow> ZString (c_str r))"

lemma pair_address_valid:
  "valid_host_pair z \<Longrightarrow> pair_address V z = c_str (node_address n) \<longleftrightarrow> pair_names V z n"
  by (auto simp: valid_host_pair_def pair_address_def pair_names_def elim!: is_string.elims is_long.elims
      split: zval.splits)

lemma node_in_hosts_list_iff:
  "list_all (\<lambda>kv. valid_host_pair (snd kv)) h \<Longrightarrow> node_in_hosts_list V n h \<longleftrightarrow> named_in V (Some h) n"
  by (induction h) (auto simp: named_in_def pair_address_valid split: if_splits)

lemma info_walk_collects:
  assumes "case hosts of None \<Rightarrow> True | Some h \<Rightarrow> list_all (\<lambda>kv. valid_host_pair (snd kv)) h"
  shows "distinct (map fst h @ map (\<lambda>(n, r). assoc_key E (node_name n)) nodes) \<Longrightarrow>
    info_walk (AerospikeClient_Info_each E V hosts) (map (\<lambda>(n, r). (Some n, r)) nodes) (err, h) =
      (err, h @ map (\<lambda>(n, r). (assoc_key E (node_name n), answer_value r))
                 (filter (\<lambda>(n, r). named_in V hosts n) nodes))"
proof (induction nodes arbitrary: h)
  case Nil
  then show ?case by simp
next
  case (Cons nr nodes)
  obtain n r where nr: "nr = (n, r)" by (cases nr)
  have sel: "(case hosts of None \<Rightarrow> True | Some h \<Rightarrow> node_in_hosts_list V n h) = named_in V hosts n"
    using assms node_in_hosts_list_iff [of _ V n] by (cases hosts) (simp_all add: named_in_def)
  have new: "assoc_key E (node_name n) \<notin> fst ` set h" using Cons.prems nr by auto
  from Cons.IH [of "if named_in V hosts n then h @ [(assoc_key E (node_name n), answer_value r)] else h"]
    Cons.prems nr show ?case
    by (auto simp: AerospikeClient_Info_each_def sel add_assoc_zval_def hash_update_new [OF new] answer_value_def)
qed

text \<open>
  C23. Where the callback is called on the answer of every node, \<open>infoMany\<close> returns the answers of
  exactly the nodes the filter names, in order, each under the name of its node; of all nodes
  without a filter.
\<close>

theorem infoMany_selects:
  assumes c: "usable c" "as_client c = Some cfg"
    and valid: "pred_option is_valid_hosts_list filter_hosts"
    and hosts: "hosts = (case filter_hosts of None \<Rightarrow> None
      | Some f \<Rightarrow> (case str_find f ''hosts'' of Some (ZArray h) \<Rightarrow> Some h | _ \<Rightarrow> None))"
    and names: "distinct (map (\<lambda>(n, r). assoc_key E (node_name n)) nodes)"
    and walk: "\<And>cb :: as_node option \<times> string option \<Rightarrow> as_error \<times> htab \<Rightarrow> bool \<times> as_error \<times> htab. \<And>st.
      info_foreach V cfg None (c_str req) cb st s = (info_walk cb (map (\<lambda>(n, r). (Some n, r)) nodes) st, s')"
  shows "infoMany_method E V c (Some (req, filter_hosts, None)) s =
    (ZArray (map (\<lambda>(n, r). (assoc_key E (node_name n), answer_value r))
       (filter (\<lambda>(n, r). named_in V hosts n) nodes)), reset_client_error c, s')"
proof -
  have "case hosts of None \<Rightarrow> True | Some h \<Rightarrow> list_all (\<lambda>kv. valid_host_pair (snd kv)) h"
    using valid hosts
    by (auto simp: is_valid_hosts_list_def split: option.splits zval.splits)
  from info_walk_collects [OF this, of "[]" E nodes V as_error_init] names
  have w: "info_foreach V cfg None (c_str req) (AerospikeClient_Info_each E V hosts) (as_error_init, []) s =
      ((as_error_init, map (\<lambda>(n, r). (assoc_key E (node_name n), answer_value r))
                 (filter (\<lambda>(n, r). named_in V hosts n) nodes)), s')"
    by (simp add: walk)
  have v: "\<not> (case filter_hosts of Some h \<Rightarrow> \<not> is_valid_hosts_list h | None \<Rightarrow> False)"
    using valid by (cases filter_hosts) simp_all
  have h: "(case filter_hosts of
      Some h \<Rightarrow> (case str_find h ''hosts'' of Some (ZArray hosts) \<Rightarrow> Some hosts | _ \<Rightarrow> None) | None \<Rightarrow> None) = hosts"
    using hosts by (simp split: option.split)
  show ?thesis
    using c v
    by (simp add: infoMany_method_def Let_def check_object_and_connection_def usable_def
        reset_client_error_def h w)
qed

section \<open>getKeyDigest\<close>

text \<open>
  For a namespace, a set and a primary key that \<open>initKey\<close> makes a key array of, \<open>getKeyDigest\<close>
  returns the digest of the key this array names.
\<close>

theorem digest_of_named_key:
  assumes "key_api E" and kw: "keywords_plain E" and "nul_free ns" "ns \<noteq> []" "nul_free set_name"
    and "length ns < namespace_max_size E" "length set_name < set_max_size E"
    and pk: "is_string pk \<or> is_long pk"
  shows "\<exists>h k. initKey E (Some (ns, set_name, pk, False)) = (ZArray h, as_error_init) \<and>
    z_hashtable_to_as_key E h as_error_init = (AEROSPIKE_OK, Some k, as_error_init) \<and>
    getKeyDigest_method E V c (Some (ns, set_name, pk)) =
      ((case as_key_digest V k of None \<Rightarrow> ZNull | Some d \<Rightarrow> ZString d), reset_client_error c)"
  using assms
  by (cases pk)
    (auto simp: initKey_def z_hashtable_to_as_key_def getKeyDigest_method_def Let_def add_assoc_zval_def
        assoc_keywords [OF kw] key_apiD)

section \<open>Applications\<close>

definition sample_nodes :: "(as_node \<times> string option) list" where
  "sample_nodes = [(\<lparr>node_name = ''BB1'', node_address = ''10.0.0.1:3000''\<rparr>, Some ''ok''),
     (\<lparr>node_name = ''BB2'', node_address = ''10.0.0.2:3000''\<rparr>, None)]"

definition sample_maintenance_env :: "store maintenance_env" where
  "sample_maintenance_env = info_env.extend (env.extend sample_env \<lparr>
     info_policy_struct = sample_struct \<lparr>in_timeout = 1000, in_rest = 0\<rparr>, AS_HOSTNAME_SIZE = 256,
     info_host = (\<lambda>cfg p h port req s. (as_error_init, Some ''ok'', s)),
     info_foreach = (\<lambda>cfg p req cb st s. (info_walk cb (map (\<lambda>(n, r). (Some n, r)) sample_nodes) st, s))\<rparr>)
   \<lparr>index_create = (\<lambda>cfg p names t d s. (as_error_init, s)), index_create_wait = (\<lambda>s. (as_error_init, s)),
    index_remove = (\<lambda>cfg p ns n s. (as_error_init, s)),
    server_truncate = (\<lambda>cfg p ns set_name t s. (as_error_init, s)),
    as_key_digest = (\<lambda>k. Some (replicate 20 (CHR ''d''))),
    cluster_nodes = (\<lambda>cfg s. Some (map fst sample_nodes))\<rparr>"

lemmas sample_maintenance_defs = sample_maintenance_env_def info_env.defs env.defs

definition sample_filter :: htab where
  "sample_filter = [(SKey ''hosts'', ZArray [(IKey 0, ZArray [(SKey ''addr'', ZString ''10.0.0.2''),
     (SKey ''port'', ZLong 3000)])])]"

theorem infoMany_selects_witness:
  "\<exists>h. infoMany_method sample_ext sample_maintenance_env sample_client (Some (''build'', Some sample_filter, None)) [] =
    (ZArray h, reset_client_error sample_client, []) \<and> map fst h = [SKey ''BB2'']"
proof -
  define hosts where "hosts = (case str_find sample_filter ''hosts'' of Some (ZArray h) \<Rightarrow> Some h | _ \<Rightarrow> None)"
  have v: "pred_option is_valid_hosts_list (Some sample_filter)" by code_simp
  have h: "hosts = (case Some sample_filter of None \<Rightarrow> None
      | Some f \<Rightarrow> (case str_find f ''hosts'' of Some (ZArray h) \<Rightarrow> Some h | _ \<Rightarrow> None))"
    by (simp add: hosts_def)
  have d: "distinct (map (\<lambda>(n, r). assoc_key sample_ext (node_name n)) sample_nodes)" by code_simp
  have w: "info_foreach sample_maintenance_env sample_config None (c_str ''build'') cb st [] =
      (info_walk cb (map (\<lambda>(n, r). (Some n, r)) sample_nodes) st, [])"
    for cb :: "as_node option \<times> string option \<Rightarrow> as_error \<times> htab \<Rightarrow> bool \<times> as_error \<times> htab" and st
    by (simp add: sample_maintenance_defs)
  have "node_in_hosts_list sample_maintenance_env (fst (sample_nodes ! 0)) (the hosts) = False"
      "node_in_hosts_list sample_maintenance_env (fst (sample_nodes ! 1)) (the hosts) = True"
      "list_all (\<lambda>kv. valid_host_pair (snd kv)) (the hosts)" "hosts = Some (the hosts)"
    unfolding hosts_def by code_simp+
  then have "\<not> named_in sample_maintenance_env hosts (fst (sample_nodes ! 0))"
      "named_in sample_maintenance_env hosts (fst (sample_nodes ! 1))"
    using node_in_hosts_list_iff [of "the hosts" sample_maintenance_env] by metis+
  moreover have "assoc_key sample_ext ''BB2'' = SKey ''BB2''" by code_simp
  ultimately show ?thesis
    using infoMany_selects [OF sample_client_simps v h d w]
    by (simp add: sample_nodes_def)
qed

theorem digest_of_named_key_witness:
  "\<exists>h k. initKey sample_ext (Some (''test'', ''users'', ZLong 7, False)) = (ZArray h, as_error_init) \<and>
    z_hashtable_to_as_key sample_ext h as_error_init = (AEROSPIKE_OK, Some k, as_error_init) \<and>
    getKeyDigest_method sample_ext sample_maintenance_env sample_client (Some (''test'', ''users'', ZLong 7)) =
      ((case as_key_digest sample_maintenance_env k of None \<Rightarrow> ZNull | Some d \<Rightarrow> ZString d),
       reset_client_error sample_client)"
  by (rule digest_of_named_key) (simp_all add: nul_free_def NUL_def)

end
