(* ===== verification/UdfProps.thy ===== *)
theory UdfProps
  imports Udf InfoProps
begin

text \<open>
  What \<open>register\<close> sends to the servers and what it leaves on the disk.
\<close>

section \<open>The copy loop\<close>

text \<open>
  The bytes that are sent when the file has \<open>n\<close> bytes and \<open>r\<close> bytes can be written: a frame counts as
  soon as one byte of it was written.
\<close>

definition frames :: "nat \<Rightarrow> nat" where
  "frames r = LUA_FILE_BUFFER_FRAME * ((r + (LUA_FILE_BUFFER_FRAME - 1)) div LUA_FILE_BUFFER_FRAME)"

lemma frames_0 [simp]: "frames 0 = 0"
  by (simp add: frames_def LUA_FILE_BUFFER_FRAME_def)








section \<open>register\<close>






section \<open>Applications\<close>

text \<open>Servers that keep what was put last, and a disk with the file \<open>/src/a.lua\<close>.\<close>

definition sample_udf_env :: "string udf_env" where
  "sample_udf_env = maintenance_env.extend (info_env.extend (env.extend \<lparr>
     ini_serializer = 1,
     read_struct = sample_struct (sample_read 1000), write_struct = sample_struct (sample_write 1000),
     remove_struct = sample_struct (sample_remove 1000),
     operate_struct = sample_struct (sample_operate 1000 0),
     query_struct = sample_struct (sample_query 1000),
     AS_POLICY_KEY_SEND = 1, operations_new = empty_ops, error_update_null = (\<lambda>err. err),
     record_set_nil = (\<lambda>r name. r),
     query_new = (\<lambda>ns s. None), query_select_inita = (\<lambda>q n. q), query_select = (\<lambda>q name. q),
     aerospike_connect = (\<lambda>cfg s. (as_error_init, s)), aerospike_close = (\<lambda>cfg s. (as_error_init, s)),
     cluster_is_connected = (\<lambda>cfg s. True),
     key_put = (\<lambda>cfg p k r s. (as_error_init, s)), key_get = (\<lambda>cfg p k s. (not_found, None, k, s)),
     key_select = (\<lambda>cfg p k names s. (not_found, None, k, s)), key_exists = (\<lambda>cfg p k s. (not_found, None, s)),
     key_remove = (\<lambda>cfg p k s. (not_found, s)), key_operate = (\<lambda>cfg p k ops s. (not_found, None, s)),
     query_foreach = (\<lambda>cfg p q s. (as_error_init, s))\<rparr>
   \<lparr>info_policy_struct = sample_struct \<lparr>in_timeout = 1000, in_rest = 0\<rparr>, AS_HOSTNAME_SIZE = 256,
    info_host = (\<lambda>cfg p h port req s. (as_error_init, None, s)), info_foreach = (\<lambda>cfg p req cb st s. (st, s))\<rparr>)
   \<lparr>index_create = (\<lambda>cfg p names t d s. (as_error_init, s)), index_create_wait = (\<lambda>s. (as_error_init, s)),
    index_remove = (\<lambda>cfg p ns n s. (as_error_init, s)),
    server_truncate = (\<lambda>cfg p ns set_name t s. (as_error_init, s)), as_key_digest = (\<lambda>k. None),
    cluster_nodes = (\<lambda>cfg s. None)\<rparr>)
   \<lparr>lua_user_path = Some ''/lua'', AS_CONFIG_PATH_MAX_SIZE = 256,
    AEROSPIKE_ERR_UDF = AEROSPIKE_STATUS 100, AEROSPIKE_ERR_UDF_NOT_FOUND = AEROSPIKE_STATUS 1301,
    AEROSPIKE_ERR_LUA_FILE_NOT_FOUND = AEROSPIKE_STATUS 1302,
    udf_get = (\<lambda>cfg p m t s. (as_error_init, \<lparr>udf_name = m, udf_type = t, udf_content = s\<rparr>, s)),
    udf_put = (\<lambda>cfg p m t b s. (as_error_init, b)), udf_put_wait = (\<lambda>cfg p m s. (as_error_init, s)),
    udf_remove = (\<lambda>cfg p m s. (as_error_init, [])), udf_list = (\<lambda>cfg p s. (as_error_init, [], s))\<rparr>"

lemmas sample_udf_defs = sample_udf_env_def maintenance_env.defs info_env.defs env.defs

definition sample_files :: "string \<Rightarrow> string \<Rightarrow> nat \<Rightarrow> files" where
  "sample_files path b r = \<lparr>file_at = [path \<mapsto> b], writable = (\<lambda>p. True), room_left = r\<rparr>"

lemma sample_udf_calls [simp]:
  "udf_put sample_udf_env cfg p m t b s = (as_error_init, b)"
  "udf_put_wait sample_udf_env cfg p m s = (as_error_init, s)"
  by (simp_all add: sample_udf_defs)

lemma sample_files_fields [simp]:
  "file_at (sample_files path b r) = [path \<mapsto> b]" "writable (sample_files path b r) p"
  by (simp_all add: sample_files_def)





end
