(* ===== verification/ModuleIni.thy ===== *)
theory ModuleIni
  imports Configuration
begin

text \<open>
  The ini entries of \<open>aerospike.c\<close>: the table with its defaults, the handlers that store each
  setting in the module globals of \<open>php_aerospike.h\<close> when it is registered or changed, and the
  reads by name (\<open>INI_INT\<close>, \<open>INI_STR\<close>, \<open>INI_BOOL\<close>) that the other files use.
\<close>

section \<open>Numbers in settings\<close>

text \<open>\<open>strtol\<close> with base 0: blanks, a sign, the prefix of the base, digits; out of range it saturates.\<close>

definition is_blank :: "char \<Rightarrow> bool" where
  "is_blank c = (let n = of_char c :: nat in n = 32 \<or> 9 \<le> n \<and> n \<le> 13)"

definition digit_of :: "nat \<Rightarrow> char \<Rightarrow> nat option" where
  "digit_of base c =
     (let n = of_char c :: nat;
          d = (if 48 \<le> n \<and> n \<le> 57 then Some (n - 48)
               else if 65 \<le> n \<and> n \<le> 90 then Some (n - 55)
               else if 97 \<le> n \<and> n \<le> 122 then Some (n - 87) else None)
      in case d of None \<Rightarrow> None | Some v \<Rightarrow> if v < base then Some v else None)"

fun digits_value :: "nat \<Rightarrow> int \<Rightarrow> string \<Rightarrow> int" where
  "digits_value base acc [] = acc"
| "digits_value base acc (c # cs) =
     (case digit_of base c of None \<Rightarrow> acc | Some d \<Rightarrow> digits_value base (acc * int base + int d) cs)"

definition strtol_magnitude :: "string \<Rightarrow> int" where
  "strtol_magnitude s =
     (case s of
        c # x # d # cs \<Rightarrow>
          if c = CHR ''0'' \<and> (x = CHR ''x'' \<or> x = CHR ''X'') \<and> digit_of 16 d \<noteq> None
          then digits_value 16 0 (d # cs)
          else if c = CHR ''0'' then digits_value 8 0 s else digits_value 10 0 s
      | c # cs \<Rightarrow> if c = CHR ''0'' then digits_value 8 0 s else digits_value 10 0 s
      | [] \<Rightarrow> 0)"

definition saturate :: "int \<Rightarrow> zlong" where
  "saturate v = word_of_int (max (- (2 ^ 63)) (min (2 ^ 63 - 1) v))"

definition signed_number :: "(string \<Rightarrow> int) \<Rightarrow> string \<Rightarrow> zlong" where
  "signed_number magnitude s =
     (let s = dropWhile is_blank s
      in saturate (case s of
           [] \<Rightarrow> 0
         | c # cs \<Rightarrow> if c = CHR ''-'' then - magnitude cs
                     else if c = CHR ''+'' then magnitude cs else magnitude s))"

definition strtol :: "string \<Rightarrow> zlong" where
  "strtol s = signed_number strtol_magnitude s"

definition atoi :: "string \<Rightarrow> cint" where
  "atoi s = ucast (signed_number (digits_value 10 0) s)"

text \<open>\<open>zend_atol\<close> multiplies by the unit at the end.\<close>

definition zend_atol :: "string \<Rightarrow> zlong" where
  "zend_atol s =
     (if s = [] then 0
      else if last s \<in> {CHR ''g'', CHR ''G''} then strtol s * 2 ^ 30
      else if last s \<in> {CHR ''m'', CHR ''M''} then strtol s * 2 ^ 20
      else if last s \<in> {CHR ''k'', CHR ''K''} then strtol s * 2 ^ 10
      else strtol s)"

text \<open>\<open>zend_ini_parse_bool\<close> compares without regard to case.\<close>

definition lower :: "char \<Rightarrow> char" where
  "lower c = (let n = of_char c :: nat in if 65 \<le> n \<and> n \<le> 90 then char_of (n + 32) else c)"

definition zend_ini_parse_bool :: "string \<Rightarrow> bool" where
  "zend_ini_parse_bool v = (map lower v \<in> {''true'', ''yes'', ''on''} \<or> atoi v \<noteq> 0)"

section \<open>The table\<close>

datatype on_update = OnUpdateLong | OnUpdateString | OnUpdateBool

record ini_entry =
  entry_name :: string
  entry_default :: "string option"
  entry_handler :: on_update
  entry_field :: string

definition STD_PHP_INI_ENTRY :: "string \<Rightarrow> string option \<Rightarrow> on_update \<Rightarrow> string \<Rightarrow> ini_entry" where
  "STD_PHP_INI_ENTRY n v h f = \<lparr>entry_name = n, entry_default = v, entry_handler = h, entry_field = f\<rparr>"

definition PHP_INI :: "ini_entry list" where
  "PHP_INI = [
     STD_PHP_INI_ENTRY ''aerospike.nesting_depth'' (Some ''3'') OnUpdateLong ''nesting_depth'',
     STD_PHP_INI_ENTRY ''aerospike.connect_timeout'' (Some ''1000'') OnUpdateLong ''connect_timeout'',
     STD_PHP_INI_ENTRY ''aerospike.read_timeout'' (Some ''1000'') OnUpdateLong ''read_timeout'',
     STD_PHP_INI_ENTRY ''aerospike.write_timeout'' (Some ''1000'') OnUpdateLong ''write_timeout'',
     STD_PHP_INI_ENTRY ''aerospike.log_path'' None OnUpdateString ''log_path'',
     STD_PHP_INI_ENTRY ''aerospike.log_level'' None OnUpdateString ''log_level'',
     STD_PHP_INI_ENTRY ''aerospike.serializer'' (Some ''1'') OnUpdateLong ''serializer'',
     STD_PHP_INI_ENTRY ''aerospike.udf.lua_user_path'' (Some ''/usr/local/aerospike/usr-lua'')
       OnUpdateString ''lua_user_path'',
     STD_PHP_INI_ENTRY ''aerospike.key_policy'' (Some ''0'') OnUpdateLong ''key_policy'',
     STD_PHP_INI_ENTRY ''aerospike.key_gen'' (Some ''0'') OnUpdateLong ''key_gen'',
     STD_PHP_INI_ENTRY ''aerospike.shm.use'' (Some ''false'') OnUpdateBool ''shm_use'',
     STD_PHP_INI_ENTRY ''aerospike.shm.key'' (Some ''0xA8000000'') OnUpdateLong ''shm_key'',
     STD_PHP_INI_ENTRY ''aerospike.shm.max_nodes'' (Some ''16'') OnUpdateLong ''shm_max_nodes'',
     STD_PHP_INI_ENTRY ''aerospike.shm.max_namespaces'' (Some ''8'') OnUpdateLong ''shm_max_namespaces'',
     STD_PHP_INI_ENTRY ''aerospike.shm.takeover_threshold_sec'' (Some ''30'') OnUpdateLong
       ''shm_takeover_threshold_sec'',
     STD_PHP_INI_ENTRY ''aerospike.max_threads'' (Some ''300'') OnUpdateLong ''max_threads'',
     STD_PHP_INI_ENTRY ''aerospike.thread_pool_size'' (Some ''16'') OnUpdateLong ''thread_pool_size'',
     STD_PHP_INI_ENTRY ''aerospike.compression_threshold'' (Some ''0'') OnUpdateLong ''compression_threshold'']"

section \<open>Reading by name\<close>

text \<open>The values PHP keeps for the registered names; a value may be null.\<close>

type_synonym ini_values = "string \<Rightarrow> string option option"

definition default_values :: ini_values where
  "default_values = map_of (map (\<lambda>e. (entry_name e, entry_default e)) PHP_INI)"

definition INI_INT :: "ini_values \<Rightarrow> string \<Rightarrow> zlong" where
  "INI_INT i n = (case i n of Some (Some v) \<Rightarrow> strtol v | _ \<Rightarrow> 0)"

definition INI_BOOL :: "ini_values \<Rightarrow> string \<Rightarrow> bool" where
  "INI_BOOL i n = (INI_INT i n \<noteq> 0)"

definition INI_STR :: "ini_values \<Rightarrow> string \<Rightarrow> string option" where
  "INI_STR i n = (case i n of None \<Rightarrow> None | Some None \<Rightarrow> Some '''' | Some (Some v) \<Rightarrow> Some v)"

text \<open>The settings of \<open>Configuration\<close> are the reads that its two functions make.\<close>

definition ini_settings_of :: "ini_values \<Rightarrow> ini_settings" where
  "ini_settings_of i = \<lparr>
     ini_connect_timeout = INI_INT i ''aerospike.connect_timeout'',
     ini_read_timeout = INI_INT i ''aerospike.read_timeout'',
     ini_write_timeout = INI_INT i ''aerospike.write_timeout'',
     ini_key_policy = INI_INT i ''aerospike.key_policy'',
     ini_key_gen = INI_INT i ''aerospike.key_gen'',
     ini_compression_threshold = INI_INT i ''aerospike.compression_threshold'',
     ini_serializer_setting = INI_INT i ''aerospike.serializer'',
     ini_lua_user_path = INI_STR i ''aerospike.udf.lua_user_path'',
     ini_shm_use = INI_BOOL i ''aerospike.shm.use'',
     ini_shm_key = INI_INT i ''aerospike.shm.key'',
     ini_shm_max_namespaces = INI_INT i ''aerospike.shm.max_namespaces'',
     ini_shm_takeover = INI_INT i ''aerospike.shm.takeover_threshold_sec'',
     ini_shm_max_nodes = INI_INT i ''aerospike.shm.max_nodes'',
     ini_thread_pool_size = INI_INT i ''aerospike.thread_pool_size'',
     ini_max_threads = INI_INT i ''aerospike.max_threads''\<rparr>"

section \<open>The module globals in memory\<close>

text \<open>
  The fields the handlers write, in their order, with the size of each on a 64-bit machine; a field
  is aligned to its size. The error structure behind them is aligned to eight bytes.
\<close>

definition globals_fields :: "(string \<times> nat) list" where
  "globals_fields = [
     (''nesting_depth'', 4), (''connect_timeout'', 4), (''read_timeout'', 4), (''write_timeout'', 4),
     (''log_path'', 8), (''log_level'', 8), (''serializer'', 4), (''lua_user_path'', 8),
     (''key_policy'', 4), (''key_gen'', 4), (''shm_use'', 1), (''use_batch_direct'', 1),
     (''max_threads'', 4), (''thread_pool_size'', 4), (''shm_max_nodes'', 4), (''shm_max_namespaces'', 4),
     (''shm_takeover_threshold_sec'', 4), (''shm_key'', 4), (''shm_key_counter'', 4),
     (''compression_threshold'', 4), (''global_error'', 8)]"

fun struct_layout :: "nat \<Rightarrow> (string \<times> nat) list \<Rightarrow> (string \<times> nat) list" where
  "struct_layout at [] = []"
| "struct_layout at ((f, n) # fs) = (let a = (at + n - 1) div n * n in (f, a) # struct_layout (a + n) fs)"

definition offset_of :: "string \<Rightarrow> nat" where
  "offset_of f = (case map_of (struct_layout 0 globals_fields) f of None \<Rightarrow> 0 | Some a \<Rightarrow> a)"

type_synonym memory = "nat \<Rightarrow> 8 word"

definition store_bytes :: "nat \<Rightarrow> nat \<Rightarrow> 64 word \<Rightarrow> memory \<Rightarrow> memory" where
  "store_bytes a n v m = (\<lambda>i. if a \<le> i \<and> i < a + n then ucast (drop_bit (8 * (i - a)) v) else m i)"

definition load_int :: "nat \<Rightarrow> memory \<Rightarrow> cint" where
  "load_int a m =
     (\<Sum>i\<leftarrow>[0, 1, 2, 3]. push_bit (8 * i) (ucast (m (a + i))))"

text \<open>
  A handler writes at the offset of its entry's field; \<open>address\<close> is where PHP holds the string of a
  setting, null for none. \<open>OnUpdateLong\<close> writes a \<open>zend_long\<close>.
\<close>

definition on_modify :: "(string option \<Rightarrow> 64 word) \<Rightarrow> ini_entry \<Rightarrow> string option \<Rightarrow> memory \<Rightarrow> memory" where
  "on_modify address e v m =
     (let a = offset_of (entry_field e) in
      case entry_handler e of
        OnUpdateLong \<Rightarrow> store_bytes a 8 (case v of None \<Rightarrow> 0 | Some s \<Rightarrow> zend_atol s) m
      | OnUpdateString \<Rightarrow> store_bytes a 8 (address v) m
      | OnUpdateBool \<Rightarrow> store_bytes a 1 (case v of None \<Rightarrow> 0 | Some s \<Rightarrow> if zend_ini_parse_bool s then 1 else 0) m)"

text \<open>
  A sequence of settings, as \<open>ini_set\<close> makes them; \<open>REGISTER_INI_ENTRIES\<close> sets every entry to its
  default, in the order of the table.
\<close>

definition ini_updates ::
  "(string option \<Rightarrow> 64 word) \<Rightarrow> (ini_entry \<times> string option) list \<Rightarrow> memory \<Rightarrow> memory" where
  "ini_updates address us m = fold (\<lambda>(e, v). on_modify address e v) us m"

definition REGISTER_INI_ENTRIES :: "(string option \<Rightarrow> 64 word) \<Rightarrow> memory \<Rightarrow> memory" where
  "REGISTER_INI_ENTRIES address m = ini_updates address (map (\<lambda>e. (e, entry_default e)) PHP_INI) m"

section \<open>Facts about the layout\<close>

lemma globals_layout:
  "struct_layout 0 globals_fields = [
     (''nesting_depth'', 0), (''connect_timeout'', 4), (''read_timeout'', 8), (''write_timeout'', 12),
     (''log_path'', 16), (''log_level'', 24), (''serializer'', 32), (''lua_user_path'', 40),
     (''key_policy'', 48), (''key_gen'', 52), (''shm_use'', 56), (''use_batch_direct'', 57),
     (''max_threads'', 60), (''thread_pool_size'', 64), (''shm_max_nodes'', 68), (''shm_max_namespaces'', 72),
     (''shm_takeover_threshold_sec'', 76), (''shm_key'', 80), (''shm_key_counter'', 84),
     (''compression_threshold'', 88), (''global_error'', 96)]"
  by code_simp

lemma offsets [simp]:
  "offset_of ''nesting_depth'' = 0" "offset_of ''connect_timeout'' = 4" "offset_of ''read_timeout'' = 8"
  "offset_of ''write_timeout'' = 12" "offset_of ''log_path'' = 16" "offset_of ''log_level'' = 24"
  "offset_of ''serializer'' = 32" "offset_of ''lua_user_path'' = 40" "offset_of ''key_policy'' = 48"
  "offset_of ''key_gen'' = 52" "offset_of ''shm_use'' = 56" "offset_of ''max_threads'' = 60"
  "offset_of ''thread_pool_size'' = 64" "offset_of ''shm_max_nodes'' = 68"
  "offset_of ''shm_max_namespaces'' = 72" "offset_of ''shm_takeover_threshold_sec'' = 76"
  "offset_of ''shm_key'' = 80" "offset_of ''compression_threshold'' = 88" "offset_of ''global_error'' = 96"
  by (simp_all only: offset_of_def globals_layout map_of.simps fun_upd_def fst_conv snd_conv list.inject char.inject
      list.distinct option.case simp_thms if_True if_False)

lemma store_bytes_apply:
  "store_bytes a n v m i = (if a \<le> i \<and> i < a + n then ucast (drop_bit (8 * (i - a)) v) else m i)"
  by (simp add: store_bytes_def)

lemma default_values_simps [simp]:
  "default_values ''aerospike.connect_timeout'' = Some (Some ''1000'')"
  "default_values ''aerospike.read_timeout'' = Some (Some ''1000'')"
  "default_values ''aerospike.write_timeout'' = Some (Some ''1000'')"
  "default_values ''aerospike.key_policy'' = Some (Some ''0'')"
  "default_values ''aerospike.key_gen'' = Some (Some ''0'')"
  "default_values ''aerospike.compression_threshold'' = Some (Some ''0'')"
  "default_values ''aerospike.serializer'' = Some (Some ''1'')"
  "default_values ''aerospike.udf.lua_user_path'' = Some (Some ''/usr/local/aerospike/usr-lua'')"
  "default_values ''aerospike.shm.use'' = Some (Some ''false'')"
  "default_values ''aerospike.shm.key'' = Some (Some ''0xA8000000'')"
  "default_values ''aerospike.shm.max_namespaces'' = Some (Some ''8'')"
  "default_values ''aerospike.shm.takeover_threshold_sec'' = Some (Some ''30'')"
  "default_values ''aerospike.shm.max_nodes'' = Some (Some ''16'')"
  "default_values ''aerospike.thread_pool_size'' = Some (Some ''16'')"
  "default_values ''aerospike.max_threads'' = Some (Some ''300'')"
  by (simp_all only: default_values_def PHP_INI_def STD_PHP_INI_ENTRY_def list.map ini_entry.simps map_of.simps
      fun_upd_def fst_conv snd_conv list.inject char.inject list.distinct simp_thms if_True if_False)

lemma numbers [simp]:
  "strtol ''0'' = 0" "strtol ''1'' = 1" "strtol ''3'' = 3" "strtol ''8'' = 8" "strtol ''16'' = 16"
  "strtol ''30'' = 30" "strtol ''300'' = 300" "strtol ''1000'' = 1000" "strtol ''false'' = 0"
  "strtol ''0xA8000000'' = 0xA8000000"
  by (code_simp)+

section \<open>Properties\<close>

text \<open>The last string set for a field, and a byte of it.\<close>

fun last_setting :: "string \<Rightarrow> (ini_entry \<times> string option) list \<Rightarrow> string option option" where
  "last_setting f [] = None"
| "last_setting f ((e, v) # us) =
     (case last_setting f us of Some w \<Rightarrow> Some w | None \<Rightarrow> if entry_field e = f then Some v else None)"

lemma on_modify_string_field:
  assumes "e \<in> set PHP_INI" and "f \<in> {''log_level'', ''lua_user_path''}" and "k < 8"
  shows "on_modify address e v m (offset_of f + k) =
    (if entry_field e = f then ucast (drop_bit (8 * k) (address v)) else m (offset_of f + k))"
  using assms
  by (auto simp: PHP_INI_def STD_PHP_INI_ENTRY_def on_modify_def Let_def store_bytes_apply)

lemma on_modify_outside:
  assumes "e \<in> set PHP_INI" and "offset_of ''global_error'' \<le> i"
  shows "on_modify address e v m i = m i"
  using assms
  by (auto simp: PHP_INI_def STD_PHP_INI_ENTRY_def on_modify_def Let_def store_bytes_apply)

lemma ini_updates_Cons [simp]:
  "ini_updates address ((e, v) # us) m = ini_updates address us (on_modify address e v m)"
  by (simp add: ini_updates_def)

lemma ini_updates_Nil [simp]: "ini_updates address [] m = m"
  by (simp add: ini_updates_def)

text \<open>
  C35. Most numeric fields are half as wide as the number that is stored in them, so a setting writes
  over the fields behind its own. Whatever is set in whatever order, nothing from the error structure on is
  written, and the pointers to the user path and the log level are always those of the last string
  set for them.
\<close>

theorem ini_updates_confined:
  assumes "set (map fst us) \<subseteq> set PHP_INI"
  shows "(offset_of ''global_error'' \<le> i \<longrightarrow> ini_updates address us m i = m i) \<and>
    (f \<in> {''log_level'', ''lua_user_path''} \<and> k < 8 \<longrightarrow>
      ini_updates address us m (offset_of f + k) =
        (case last_setting f us of
           None \<Rightarrow> m (offset_of f + k)
         | Some v \<Rightarrow> ucast (drop_bit (8 * k) (address v))))"
  using assms
proof (induction us arbitrary: m)
  case Nil
  then show ?case by simp
next
  case (Cons u us)
  obtain e v where u: "u = (e, v)" by (cases u)
  with Cons.prems have e: "e \<in> set PHP_INI" and "set (map fst us) \<subseteq> set PHP_INI" by auto
  then show ?case
    using Cons.IH [of "on_modify address e v m"] on_modify_outside [OF e, of i]
      on_modify_string_field [OF e, of f k]
    by (simp add: u split: option.split del: offsets insert_iff)
qed

definition sample_updates :: "(ini_entry \<times> string option) list" where
  "sample_updates =
     [(STD_PHP_INI_ENTRY ''aerospike.compression_threshold'' (Some ''0'') OnUpdateLong ''compression_threshold'',
       Some ''-1''),
      (STD_PHP_INI_ENTRY ''aerospike.log_level'' None OnUpdateString ''log_level'', Some ''3'')]"

theorem ini_updates_confined_witness:
  "ini_updates (\<lambda>_. 7) sample_updates (\<lambda>_. 0) 96 = 0 \<and> ini_updates (\<lambda>_. 7) sample_updates (\<lambda>_. 0) 24 = 7"
  using ini_updates_confined [of sample_updates 96 "\<lambda>_. 7" "\<lambda>_. 0" "''log_level''" 0]
  by (simp add: sample_updates_def PHP_INI_def STD_PHP_INI_ENTRY_def del: ini_updates_Cons)

lemma register_ini_fields:
  "load_int (offset_of ''shm_max_nodes'') (REGISTER_INI_ENTRIES address m) = 0"
  "load_int (offset_of ''shm_key'') (REGISTER_INI_ENTRIES address m) = 0"
  "load_int (offset_of ''shm_max_namespaces'') (REGISTER_INI_ENTRIES address m) = 8"
  by (simp_all add: REGISTER_INI_ENTRIES_def PHP_INI_def STD_PHP_INI_ENTRY_def load_int_def on_modify_def
      store_bytes_apply zend_atol_def Let_def)

lemma settings_default:
  "ini_settings_of default_values = \<lparr>
     ini_connect_timeout = 1000, ini_read_timeout = 1000, ini_write_timeout = 1000, ini_key_policy = 0,
     ini_key_gen = 0, ini_compression_threshold = 0, ini_serializer_setting = 1,
     ini_lua_user_path = Some ''/usr/local/aerospike/usr-lua'', ini_shm_use = False,
     ini_shm_key = 0xA8000000, ini_shm_max_namespaces = 8, ini_shm_takeover = 30, ini_shm_max_nodes = 16,
     ini_thread_pool_size = 16, ini_max_threads = 300\<rparr>"
  by (simp add: ini_settings_of_def INI_INT_def INI_BOOL_def INI_STR_def)

lemma set_timeouts_fields:
  "cfg_conn_timeout (set_read_timeouts t c) = cfg_conn_timeout c"
  "total_timeout (rd_base (cfg_read (set_read_timeouts t c))) = t"
  "cfg_conn_timeout (set_write_timeouts t c) = cfg_conn_timeout c"
  "cfg_read (set_write_timeouts t c) = cfg_read c"
  "total_timeout (wr_base (cfg_write (set_write_timeouts t c))) = t"
  "total_timeout (rm_base (cfg_remove (set_write_timeouts t c))) = t"
  by (simp_all add: set_read_timeouts_def set_write_timeouts_def)

lemma set_key_policies_fields:
  "cfg_conn_timeout (set_key_policies k c) = cfg_conn_timeout c"
  "rd_base (cfg_read (set_key_policies k c)) = rd_base (cfg_read c)"
  "wr_base (cfg_write (set_key_policies k c)) = wr_base (cfg_write c)"
  "rm_base (cfg_remove (set_key_policies k c)) = rm_base (cfg_remove c)"
  by (simp_all add: set_key_policies_def)

lemma set_policy_defaults_fields:
  assumes "set_policy_defaults_from_ini E i c = (d, n)"
  shows "n = ucast (ini_serializer_setting i)"
    and "cfg_conn_timeout d = ucast (ini_connect_timeout i)"
    and "total_timeout (rd_base (cfg_read d)) = ucast (ini_read_timeout i)"
    and "total_timeout (wr_base (cfg_write d)) = ucast (ini_write_timeout i)"
    and "total_timeout (rm_base (cfg_remove d)) = ucast (ini_write_timeout i)"
  using assms
  by (auto simp: set_policy_defaults_from_ini_def Let_def set_timeouts_fields set_key_policies_fields
      split: option.splits if_splits)

text \<open>
  C36. The defaults of the table, as the code reads them by name, give the configuration that the
  documentation of the settings describes. The fields that shared memory settings are stored in do
  not hold them: at the end of the registration the number of nodes and the key are 0. No code reads these
  fields.
\<close>

theorem defaults_reach_configuration:
  "(case set_policy_defaults_from_ini E (ini_settings_of default_values) c of (c, serializer) \<Rightarrow>
     (let cfg = set_as_config_from_ini E (ini_settings_of default_values) c in
      serializer = 1 \<and> cfg_conn_timeout cfg = 1000 \<and> total_timeout (rd_base (cfg_read cfg)) = 1000 \<and>
      total_timeout (wr_base (cfg_write cfg)) = 1000 \<and> total_timeout (rm_base (cfg_remove cfg)) = 1000 \<and>
      \<not> cfg_use_shm cfg \<and> cfg_shm_key cfg = 0xA8000000 \<and> cfg_shm_max_nodes cfg = 16 \<and>
      cfg_shm_max_namespaces cfg = 8 \<and> cfg_shm_takeover cfg = 30 \<and> cfg_max_conns_per_node cfg = 300 \<and>
      wr_compression_threshold (cfg_write cfg) = 0)) \<and>
   load_int (offset_of ''shm_max_nodes'') (REGISTER_INI_ENTRIES address m) = 0 \<and>
   load_int (offset_of ''shm_key'') (REGISTER_INI_ENTRIES address m) = 0 \<and>
   load_int (offset_of ''shm_max_namespaces'') (REGISTER_INI_ENTRIES address m) = 8"
proof -
  obtain d n where D: "set_policy_defaults_from_ini E (ini_settings_of default_values) c = (d, n)"
    by (cases "set_policy_defaults_from_ini E (ini_settings_of default_values) c")
  show ?thesis
    using set_policy_defaults_fields [OF D] register_ini_fields [of address m]
    by (simp add: D [unfolded settings_default] settings_default set_as_config_from_ini_def)
qed

end
