(* ===== verification/KeyValueStore.thy ===== *)
theory KeyValueStore
  imports HandlerProps SessionProps
begin

text \<open>
  The methods \<open>put\<close>, \<open>get\<close>, \<open>exists\<close> and \<open>remove\<close> together: what an array of bins is to a script
  is a map from names to PHP values, and the methods of one client are a store of such maps.
\<close>

section \<open>The abstract store\<close>

type_synonym php_record = "string \<rightharpoonup> zval"
type_synonym record_store = "as_key \<rightharpoonup> php_record"

datatype kv_call = Put_record htab htab | Get_record htab | Exists_record htab | Remove_record htab

fun call_key :: "kv_call \<Rightarrow> htab" where
  "call_key (Put_record z_key rows) = z_key"
| "call_key (Get_record z_key) = z_key"
| "call_key (Exists_record z_key) = z_key"
| "call_key (Remove_record z_key) = z_key"

definition php_bins :: "htab \<Rightarrow> php_record" where
  "php_bins rows n = map_of rows (SKey n)"

definition present :: "'m option \<Rightarrow> as_status" where
  "present m = (if m = None then AEROSPIKE_ERR_RECORD_NOT_FOUND else AEROSPIKE_OK)"

text \<open>A reply is the status and, for a get, the record. Two arrays that name one key are one.\<close>

definition named_key :: "'e conv_ext_scheme \<Rightarrow> htab \<Rightarrow> as_key" where
  "named_key E z_key = (case z_hashtable_to_as_key E z_key as_error_init of (_, k, _) \<Rightarrow> the k)"

fun record_call ::
  "'e conv_ext_scheme \<Rightarrow> kv_call \<Rightarrow> record_store \<Rightarrow> (as_status \<times> php_record option) \<times> record_store" where
  "record_call E (Put_record z_key rows) m =
     (let k = named_key E z_key; old = (case m k of None \<Rightarrow> Map.empty | Some r \<Rightarrow> r)
      in ((AEROSPIKE_OK, None), m(k \<mapsto> old ++ php_bins rows)))"
| "record_call E (Get_record z_key) m = ((present (m (named_key E z_key)), m (named_key E z_key)), m)"
| "record_call E (Exists_record z_key) m = ((present (m (named_key E z_key)), None), m)"
| "record_call E (Remove_record z_key) m =
     ((present (m (named_key E z_key)), None), m(named_key E z_key := None))"

section \<open>The calls of the code\<close>

text \<open>
  The methods without options; a reply is the status, the error \<open>errorno\<close> gives afterwards and the
  value left in the reference.
\<close>

fun method_call_on ::
  "'e conv_ext_scheme \<Rightarrow> ('s, 'z) env_scheme \<Rightarrow> kv_call \<Rightarrow> client \<times> 's \<Rightarrow>
     ((as_status \<times> as_status \<times> zval option) \<times> client \<times> 's) option" where
  "method_call_on E V (Put_record z_key rows) (c, s) =
     map_option (\<lambda>(st, c, s). ((st, errorno_method c, None), c, s))
       (put_method E V c (Some (z_key, ZArray rows, None, None)) s)"
| "method_call_on E V (Get_record z_key) (c, s) =
     map_option (\<lambda>(st, out, c, s). ((st, errorno_method c, out), c, s))
       (get_method E V c (Some (z_key, None, None)) s)"
| "method_call_on E V (Exists_record z_key) (c, s) =
     (case exists_method E V c (Some (z_key, None)) s of
        (st, out, c, s) \<Rightarrow> Some ((st, errorno_method c, out), c, s))"
| "method_call_on E V (Remove_record z_key) (c, s) =
     map_option (\<lambda>(st, c, s). ((st, errorno_method c, None), c, s))
       (remove_method E V c (Some (z_key, None)) s)"

text \<open>The array of bins in what \<open>get\<close> returns, and the reply of the store it stands for.\<close>

definition returned_bins :: "zval option \<Rightarrow> htab option" where
  "returned_bins out =
     (case out of
        Some (ZArray h) \<Rightarrow> (case str_find h ''bins'' of Some (ZArray bins) \<Rightarrow> Some bins | _ \<Rightarrow> None)
      | _ \<Rightarrow> None)"

definition answers :: "as_status \<times> as_status \<times> zval option \<Rightarrow> as_status \<times> php_record option \<Rightarrow> bool" where
  "answers reply answer \<longleftrightarrow>
     (case (reply, answer) of
        ((st, errorno, out), st', record) \<Rightarrow>
          st = st' \<and> errorno = st \<and>
          (case record of
             None \<Rightarrow> True
           | Some r \<Rightarrow>
               (case returned_bins out of
                  None \<Rightarrow> False
                | Some bins \<Rightarrow> distinct (map fst bins) \<and> (\<forall>n. rel_option php_eq (r n) (php_bins bins n)))))"

section \<open>The servers\<close>

text \<open>
  The documented behaviour of the calls under the configuration \<open>cfg\<close>, on servers that work: \<open>recs\<close>
  gives the bins of the stored records. A put adds its bins to the record, a removed record is
  gone, reads find the bins and leave them as they are, and a record that is not there is reported.
\<close>

definition put_stores :: "('s, 'z) env_scheme \<Rightarrow> config \<Rightarrow> ('s \<Rightarrow> as_key \<Rightarrow> (string \<times> as_val) list option) \<Rightarrow> bool" where
  "put_stores V cfg recs \<longleftrightarrow>
     (\<forall>k r s. \<exists>err s' bs. key_put V cfg None k r s = (err, s') \<and> code err = AEROSPIKE_OK \<and>
        recs s' = (recs s)(k \<mapsto> bs) \<and> distinct (map fst bs) \<and>
        map_of bs = map_of (case recs s k of None \<Rightarrow> [] | Some old \<Rightarrow> old) ++ map_of (rec_bins r))"

definition get_finds :: "('s, 'z) env_scheme \<Rightarrow> config \<Rightarrow> ('s \<Rightarrow> as_key \<Rightarrow> (string \<times> as_val) list option) \<Rightarrow> bool" where
  "get_finds V cfg recs \<longleftrightarrow>
     (\<forall>p k s. \<exists>err r d s'. key_get V cfg p k s = (err, r, k\<lparr>key_digest := d\<rparr>, s') \<and>
        code err = present (recs s k) \<and> map_option rec_bins r = recs s k \<and> recs s' = recs s)"

definition exists_finds :: "('s, 'z) env_scheme \<Rightarrow> config \<Rightarrow> ('s \<Rightarrow> as_key \<Rightarrow> (string \<times> as_val) list option) \<Rightarrow> bool" where
  "exists_finds V cfg recs \<longleftrightarrow>
     (\<forall>p k s. \<exists>err r s'. key_exists V cfg p k s = (err, r, s') \<and> code err = present (recs s k) \<and>
        recs s' = recs s)"

definition remove_deletes :: "('s, 'z) env_scheme \<Rightarrow> config \<Rightarrow> ('s \<Rightarrow> as_key \<Rightarrow> (string \<times> as_val) list option) \<Rightarrow> bool" where
  "remove_deletes V cfg recs \<longleftrightarrow>
     (\<forall>p k s. \<exists>err s'. key_remove V cfg p k s = (err, s') \<and> code err = present (recs s k) \<and>
        recs s' = (recs s)(k := None))"

definition store_api :: "('s, 'z) env_scheme \<Rightarrow> config \<Rightarrow> ('s \<Rightarrow> as_key \<Rightarrow> (string \<times> as_val) list option) \<Rightarrow> bool" where
  "store_api V cfg recs \<longleftrightarrow> put_stores V cfg recs \<and> get_finds V cfg recs \<and> exists_finds V cfg recs \<and>
     remove_deletes V cfg recs"

lemmas store_apiD = store_api_def [THEN iffD1]
  put_stores_def [THEN iffD1, rule_format] get_finds_def [THEN iffD1, rule_format]
  exists_finds_def [THEN iffD1, rule_format] remove_deletes_def [THEN iffD1, rule_format]

definition client_api :: "'e conv_ext_scheme \<Rightarrow> bool" where
  "client_api E \<longleftrightarrow> list_api E \<and> map_api E \<and> bytes_api E \<and> bytes_php E \<noteq> bytes_blob E \<and>
     record_api E \<and> keywords_plain E"

section \<open>Representation\<close>

text \<open>A server value shows a PHP value it is converted back to; the names of the bins are plain.\<close>

definition shows_value :: "'e conv_ext_scheme \<Rightarrow> as_val \<Rightarrow> zval \<Rightarrow> bool" where
  "shows_value E v z \<longleftrightarrow> (\<exists>z'. php_value E v = Some z' \<and> php_eq z z')"

definition shows_bins :: "'e conv_ext_scheme \<Rightarrow> (string \<times> as_val) list \<Rightarrow> php_record \<Rightarrow> bool" where
  "shows_bins E bs r \<longleftrightarrow> distinct (map fst bs) \<and> (\<forall>n \<in> fst ` set bs. plain_key E n) \<and>
     (\<forall>n. rel_option (shows_value E) (map_of bs n) (r n))"

definition represents ::
  "'e conv_ext_scheme \<Rightarrow> ('s, 'z) env_scheme \<Rightarrow> config \<Rightarrow> ('s \<Rightarrow> as_key \<Rightarrow> (string \<times> as_val) list option) \<Rightarrow>
     client \<times> 's \<Rightarrow> record_store \<Rightarrow> bool" where
  "represents E V cfg recs x m \<longleftrightarrow> client_api E \<and> store_api V cfg recs \<and> usable (fst x) \<and>
     as_client (fst x) = Some cfg \<and> (\<forall>k. rel_option (shows_bins E) (recs (snd x) k) (m k))"

text \<open>The calls: a key array that names a key, and bins that can be stored.\<close>

definition allowed_call :: "'e conv_ext_scheme \<Rightarrow> ('s, 'z) env_scheme \<Rightarrow> kv_call \<Rightarrow> bool" where
  "allowed_call E V call \<longleftrightarrow>
     z_hashtable_to_as_key E (call_key call) as_error_init =
       (AEROSPIKE_OK, Some (named_key E (call_key call)), as_error_init) \<and>
     nul_free (key_ns (named_key E (call_key call))) \<and> key_ns (named_key E (call_key call)) \<noteq> [] \<and>
     (case call of
        Put_record z_key rows \<Rightarrow> rows \<noteq> [] \<and> storable_record E (ucast (ini_serializer V)) rows
      | _ \<Rightarrow> True)"

lemma server_bins_show:
  assumes "map_api E" "bytes_api E" "bytes_php E \<noteq> bytes_blob E"
  shows "\<forall>kv \<in> set h. bin_name_ok E (fst kv) \<and> storable E ser (snd kv) \<Longrightarrow>
    \<exists>bs. server_bins E ser h = Bins bs \<and> (\<forall>n \<in> fst ` set bs. plain_key E n) \<and>
      (\<forall>n. rel_option (shows_value E) (map_of bs n) (php_bins h n))"
proof (induction h)
  case Nil
  then show ?case by (simp add: php_bins_def)
next
  case (Cons kv h)
  obtain k z where kv: "kv = (k, z)" by (cases kv)
  from Cons.prems obtain s where k: "k = SKey s" "nul_free s" "numeric_str E s = None"
      "length s \<le> bin_name_max_len E" by (auto simp: kv elim!: bin_name_okE)
  from Cons.prems obtain v z' where v: "server_value E ser z = Some v" "php_value E v = Some z'"
      "php_eq z z'" using value_round_trip [OF assms, of ser z] by (auto simp: kv)
  then have shown: "shows_value E v z" by (auto simp: shows_value_def)
  from Cons obtain bs where b: "server_bins E ser h = Bins bs" "\<forall>n \<in> fst ` set bs. plain_key E n"
      "\<forall>n. rel_option (shows_value E) (map_of bs n) (php_bins h n)"
    by auto
  show ?case
    by (intro exI [of _ "(c_str s, v) # bs"])
      (use k v(1) b shown in \<open>auto simp: kv php_bins_def plain_key_def\<close>)
qed

lemma shown_bins_back:
  assumes bs: "shows_bins E bs r" and ok: "code err = AEROSPIKE_OK"
  shows "\<exists>h. (\<forall>rc. rec_bins rc = bs \<longrightarrow> as_bins_to_zval E rc err = (AEROSPIKE_OK, ZArray h, err)) \<and>
    distinct (map fst h) \<and> (\<forall>n. rel_option php_eq (r n) (php_bins h n))"
proof -
  let ?h = "map (\<lambda>b. (SKey (fst b), the (php_value E (snd b)))) bs"
  have at: "rel_option (shows_value E) (map_of bs n) (r n)" for n using bs by (simp add: shows_bins_def)
  have v: "php_value E (snd b) \<noteq> None" if "b \<in> set bs" for b
  proof -
    have "map_of bs (fst b) = Some (snd b)"
      using bs that by (simp add: shows_bins_def)
    with at [of "fst b"] show ?thesis by (auto simp: shows_value_def option_rel_Some1)
  qed
  have t: "those (map (\<lambda>b. map_option (Pair (assoc_key E (fst b))) (php_value E (snd b))) bs) = Some ?h"
  proof (rule those_map_Some)
    fix b assume b: "b \<in> set bs"
    then have "plain_key E (fst b)" using bs by (simp add: shows_bins_def)
    with v [OF b] show "map_option (Pair (assoc_key E (fst b))) (php_value E (snd b)) =
        Some (SKey (fst b), the (php_value E (snd b)))" by auto
  qed
  have d: "distinct (map fst ?h)"
    using bs by (auto simp: shows_bins_def distinct_map inj_on_def)
  have m: "map_of ?h (SKey n) = map_option (\<lambda>v. the (php_value E v)) (map_of bs n)" for n
    by (induction bs) auto
  have "rel_option php_eq (r n) (php_bins ?h n)" for n
    using at [of n] unfolding php_bins_def m
    by (cases "map_of bs n"; cases "r n") (auto simp: shows_value_def)
  moreover have "zend.fill ?h [] = ?h" using d by (subst fill_append_distinct) simp_all
  ultimately show ?thesis
    using bins_entries_eq [OF ok t, of "[]"] d ok by (intro exI [of _ ?h]) (simp add: as_bins_to_zval_def)
qed

lemma shows_bins_add:
  assumes "distinct (map fst new)" "map_of new = map_of (case a of None \<Rightarrow> [] | Some old \<Rightarrow> old) ++ map_of bs"
    and "rel_option (shows_bins E) a p"
    and "\<forall>n \<in> fst ` set bs. plain_key E n" "\<forall>n. rel_option (shows_value E) (map_of bs n) (q n)"
  shows "shows_bins E new ((case p of None \<Rightarrow> Map.empty | Some r \<Rightarrow> r) ++ q)"
proof -
  let ?old = "case a of None \<Rightarrow> [] | Some old \<Rightarrow> old" and ?r = "case p of None \<Rightarrow> Map.empty | Some r \<Rightarrow> r"
  have old: "\<forall>n \<in> fst ` set ?old. plain_key E n" "\<And>n. rel_option (shows_value E) (map_of ?old n) (?r n)"
    using assms(3) by (cases a; cases p; simp add: shows_bins_def)+
  have "plain_key E n" if "n \<in> fst ` set new" for n
  proof -
    have "map_of new n \<noteq> None" using that by (simp add: map_of_eq_None_iff)
    then have "map_of ?old n \<noteq> None \<or> map_of bs n \<noteq> None"
      unfolding assms(2) by (simp add: map_add_def split: option.splits)
    then have "n \<in> fst ` set ?old \<or> n \<in> fst ` set bs" by (simp only: map_of_eq_None_iff not_not)
    then show ?thesis using old(1) assms(4) by blast
  qed
  moreover have "rel_option (shows_value E) (map_of new n) ((?r ++ q) n)" for n
    using old(2) [of n] assms(5) [rule_format, of n] unfolding assms(2) map_add_def
    by (cases "map_of bs n"; cases "q n") auto
  ultimately show ?thesis using assms(1) by (simp add: shows_bins_def)
qed

section \<open>One call\<close>

lemma represents_put:
  assumes rep: "represents E V cfg recs (c, s) m" and call: "allowed_call E V (Put_record z_key rows)"
  shows "\<exists>reply x. method_call_on E V (Put_record z_key rows) (c, s) = Some (reply, x) \<and>
    answers reply (fst (record_call E (Put_record z_key rows) m)) \<and>
    represents E V cfg recs x (snd (record_call E (Put_record z_key rows) m))"
proof -
  let ?ser = "ucast (ini_serializer V) :: cint" and ?k = "named_key E z_key"
  have E: "list_api E" "map_api E" "bytes_api E" "bytes_php E \<noteq> bytes_blob E" "record_api E"
    and api: "store_api V cfg recs" and c: "usable c" "as_client c = Some cfg"
    and r: "\<And>k. rel_option (shows_bins E) (recs s k) (m k)"
    using rep by (simp_all add: represents_def client_api_def)
  have key: "z_hashtable_to_as_key E z_key as_error_init = (AEROSPIKE_OK, Some ?k, as_error_init)"
    and rows: "rows \<noteq> []" "storable_record E ?ser rows" using call by (simp_all add: allowed_call_def)
  from rows(2) obtain bs where bs: "server_bins E ?ser rows = Bins bs"
      "\<forall>n \<in> fst ` set bs. plain_key E n" "\<forall>n. rel_option (shows_value E) (map_of bs n) (php_bins rows n)"
    using server_bins_show [OF E(2-4), of rows ?ser] by (auto simp: storable_record_def)
  have len: "length rows < 2 ^ 16" using rows(2) by (simp add: storable_record_def)
  let ?r = "(record_new E (length rows))\<lparr>rec_bins := bs\<rparr>"
  have rc: "z_hashtable_to_as_record E rows as_error_init ?ser = Some (AEROSPIKE_OK, ?r, as_error_init)"
    using z_hashtable_to_as_record_eq [OF E(1) map_apiD(1) [OF E(2)] E(5) code_as_error_init len
        bin_keys_distinct [OF rows(2)], of ?ser] bs(1) by simp
  obtain err s' new where put: "key_put V cfg None ?k ?r s = (err, s')" "code err = AEROSPIKE_OK"
      "recs s' = (recs s)(?k \<mapsto> new)" "distinct (map fst new)"
      "map_of new = map_of (case recs s ?k of None \<Rightarrow> [] | Some old \<Rightarrow> old) ++ map_of bs"
    using store_apiD(2) [OF conjunct1 [OF store_apiD(1) [OF api]], of ?k ?r s] by auto
  have run: "put_method E V c (Some (z_key, ZArray rows, None, None)) s =
      Some (AEROSPIKE_OK, reset_client_error c, s')"
    using c rows(1) by (simp add: put_method_def put_checked_def key rc put(1,2)
        set_serializer_from_policy_hash_def set_record_generation_from_write_policy_def)
  let ?old = "case m ?k of None \<Rightarrow> Map.empty | Some x \<Rightarrow> x"
  have "shows_bins E new (?old ++ php_bins rows)"
    by (rule shows_bins_add [OF put(4,5) r bs(2,3)])
  with r put(3) c have "represents E V cfg recs (reset_client_error c, s') (m(?k \<mapsto> ?old ++ php_bins rows))"
    using rep by (simp add: represents_def)
  then show ?thesis by (simp add: run answers_def Let_def)
qed

lemma present_rel: "rel_option P a b \<Longrightarrow> present a = present b"
  by (cases a; cases b) (simp_all add: present_def)

lemma represents_get:
  assumes rep: "represents E V cfg recs (c, s) m" and call: "allowed_call E V (Get_record z_key)"
  shows "\<exists>reply x. method_call_on E V (Get_record z_key) (c, s) = Some (reply, x) \<and>
    answers reply (fst (record_call E (Get_record z_key) m)) \<and>
    represents E V cfg recs x (snd (record_call E (Get_record z_key) m))"
proof -
  let ?k = "named_key E z_key"
  have kw: "keywords_plain E" and api: "store_api V cfg recs" and c: "usable c" "as_client c = Some cfg"
    and r: "\<And>k. rel_option (shows_bins E) (recs s k) (m k)"
    using rep by (simp_all add: represents_def client_api_def)
  have key: "z_hashtable_to_as_key E z_key as_error_init = (AEROSPIKE_OK, Some ?k, as_error_init)"
    and ns: "nul_free (key_ns ?k)" "key_ns ?k \<noteq> []" using call by (simp_all add: allowed_call_def)
  obtain p where g: "get_method E V c (Some (z_key, None, None)) s =
      get_answer E V (reset_client_error c) p (key_get V cfg p ?k s)"
    using get_method_reads [OF c key, of None V s] by auto
  obtain err rc d s' where kg: "key_get V cfg p ?k s = (err, rc, ?k\<lparr>key_digest := d\<rparr>, s')"
      "code err = present (recs s ?k)" "map_option rec_bins rc = recs s ?k" "recs s' = recs s"
    using store_apiD(3) [OF conjunct1 [OF conjunct2 [OF store_apiD(1) [OF api]]]] by metis
  have rep': "represents E V cfg recs (c', s') m" if "usable c'" "as_client c' = Some cfg" for c'
    using rep that kg(4) by (simp add: represents_def)
  show ?thesis
  proof (cases "m ?k")
    case None
    then have "code err = AEROSPIKE_ERR_RECORD_NOT_FOUND"
      using present_rel [OF r [of ?k]] kg(2) by (simp add: present_def)
    with None c g kg(1) rep' [of "remember err (reset_client_error c)"] show ?thesis
      by (simp add: get_answer_def answers_def present_def)
  next
    case (Some q)
    then obtain bs where bs: "recs s ?k = Some bs" "shows_bins E bs q"
      using r [of ?k] by (auto simp: option_rel_Some2)
    then have ok: "code err = AEROSPIKE_OK" using kg(2) by (simp add: present_def)
    obtain rec where rec: "rc = Some rec" "rec_bins rec = bs" using kg(3) bs(1) by auto
    obtain h where h: "as_bins_to_zval E rec err = (AEROSPIKE_OK, ZArray h, err)" "distinct (map fst h)"
        "\<forall>n. rel_option php_eq (q n) (php_bins h n)"
      using shown_bins_back [OF bs(2) ok] rec(2) by metis
    have "nul_free (key_ns (?k\<lparr>key_digest := d\<rparr>))" "key_ns (?k\<lparr>key_digest := d\<rparr>) \<noteq> []" using ns by simp_all
    then obtain zk where zk: "as_record_to_zval E rec (Some (?k\<lparr>key_digest := d\<rparr>)) (rd_key p = AS_POLICY_KEY_SEND V) err =
      (AEROSPIKE_OK, ZArray [(SKey ''key'', ZArray zk),
         (SKey ''metadata'', ZArray [(SKey ''ttl'', ZLong (ucast (rec_ttl rec))),
                                     (SKey ''generation'', ZLong (ucast (rec_gen rec)))]),
         (SKey ''bins'', ZArray h)], err)"
      using record_to_zval_shape [OF kw ok h(1)] by blast
    show ?thesis
      using Some g kg(1) ok rec(1) zk h(2,3) rep' [of "reset_client_error c"] c
      by (simp add: get_answer_def answers_def present_def returned_bins_def)
  qed
qed

lemma represents_exists:
  assumes rep: "represents E V cfg recs (c, s) m" and call: "allowed_call E V (Exists_record z_key)"
  shows "\<exists>reply x. method_call_on E V (Exists_record z_key) (c, s) = Some (reply, x) \<and>
    answers reply (fst (record_call E (Exists_record z_key) m)) \<and>
    represents E V cfg recs x (snd (record_call E (Exists_record z_key) m))"
proof -
  let ?k = "named_key E z_key"
  have api: "store_api V cfg recs" and c: "usable c" "as_client c = Some cfg"
    and r: "\<And>k. rel_option (shows_bins E) (recs s k) (m k)"
    using rep by (simp_all add: represents_def)
  have key: "z_hashtable_to_as_key E z_key as_error_init = (AEROSPIKE_OK, Some ?k, as_error_init)"
    using call by (simp add: allowed_call_def)
  obtain p where p: "zval_to_as_policy_read (read_struct V) None (cfg_read cfg) = (AEROSPIKE_OK, p)"
    using policy_read_status [of "read_struct V" None "cfg_read cfg"] by (metis option.pred_inject(1) prod.collapse)
  obtain err rc s' where ke: "key_exists V cfg p ?k s = (err, rc, s')" "code err = present (recs s ?k)"
      "recs s' = recs s"
    using store_apiD(4) [OF conjunct1 [OF conjunct2 [OF conjunct2 [OF store_apiD(1) [OF api]]]]] by metis
  obtain out where run: "exists_method E V c (Some (z_key, None)) s =
      (code err, out, remember err (reset_client_error c), s')"
    using c by (cases rc) (simp_all add: exists_method_def key p ke(1) as_record_to_z_metadata_def Let_def)
  have "represents E V cfg recs (remember err (reset_client_error c), s') m"
    using rep c ke(3) by (simp add: represents_def)
  with run ke(2) present_rel [OF r [of ?k]] show ?thesis by (simp add: answers_def)
qed

lemma represents_remove:
  assumes rep: "represents E V cfg recs (c, s) m" and call: "allowed_call E V (Remove_record z_key)"
  shows "\<exists>reply x. method_call_on E V (Remove_record z_key) (c, s) = Some (reply, x) \<and>
    answers reply (fst (record_call E (Remove_record z_key) m)) \<and>
    represents E V cfg recs x (snd (record_call E (Remove_record z_key) m))"
proof -
  let ?k = "named_key E z_key"
  have api: "store_api V cfg recs" and c: "usable c" "as_client c = Some cfg"
    and r: "\<And>k. rel_option (shows_bins E) (recs s k) (m k)"
    using rep by (simp_all add: represents_def)
  have key: "z_hashtable_to_as_key E z_key as_error_init = (AEROSPIKE_OK, Some ?k, as_error_init)"
    using call by (simp add: allowed_call_def)
  obtain p where p: "zval_to_as_policy_remove E (remove_struct V) None (cfg_remove cfg) = Some (AEROSPIKE_OK, p)"
    by (simp add: zval_to_as_policy_remove_def Let_def)
  obtain err s' where kr: "key_remove V cfg p ?k s = (err, s')" "code err = present (recs s ?k)"
      "recs s' = (recs s)(?k := None)"
    using store_apiD(5) [OF conjunct2 [OF conjunct2 [OF conjunct2 [OF store_apiD(1) [OF api]]]]] by metis
  have run: "remove_method E V c (Some (z_key, None)) s = Some (code err, remember err (reset_client_error c), s')"
    using c by (simp add: remove_method_def key p kr(1) Let_def)
  have "represents E V cfg recs (remember err (reset_client_error c), s') (m(?k := None))"
    using rep c kr(3) by (simp add: represents_def)
  with run kr(2) present_rel [OF r [of ?k]] show ?thesis by (simp add: answers_def)
qed

section \<open>Sequences of calls\<close>

interpretation record_store: simulation "method_call_on E V" "record_call E" "allowed_call E V"
  "represents E V cfg recs" answers for E V cfg recs
proof unfold_locales
  fix x m call
  assume "represents E V cfg recs x m" "allowed_call E V call"
  then show "\<exists>reply y. method_call_on E V call x = Some (reply, y) \<and>
      answers reply (fst (record_call E call m)) \<and> represents E V cfg recs y (snd (record_call E call m))"
    by (cases x; cases call) (simp_all only: represents_put represents_get represents_exists represents_remove)
qed

text \<open>
  On servers that work, any sequence of \<open>put\<close>, \<open>get\<close>, \<open>exists\<close> and \<open>remove\<close> on a connected client
  gives the answers of the abstract store: a put adds its bins to those of the record, a get returns
  for every bin the value that was put last, a removed record is not found, \<open>errorno\<close> is the status
  of each call, and the records of the servers show the store afterwards.
\<close>

theorem key_value_refines_store:
  assumes "client_api E" "store_api V cfg recs" "usable c" "as_client c = Some cfg"
    and "\<forall>k. rel_option (shows_bins E) (recs s k) (m k)" "list_all (allowed_call E V) calls"
  shows "\<exists>replies c' s'. run_calls (method_call_on E V) calls (c, s) = Some (replies, c', s') \<and>
    list_all2 answers replies (fst (run_object (record_call E) calls m)) \<and>
    (\<forall>k. rel_option (shows_bins E) (recs s' k) (snd (run_object (record_call E) calls m) k))"
  using record_store.all_calls [of E V cfg recs "(c, s)" m calls] assms by (auto simp: represents_def)

section \<open>An application\<close>

text \<open>Servers that add the bins of a put to those they have.\<close>

definition merging_put :: "as_key \<Rightarrow> as_record \<Rightarrow> session_server \<Rightarrow> session_server" where
  "merging_put k r s =
     ((k, r\<lparr>rec_bins := AList.clearjunk (rec_bins r @ (case map_of (fst s) k of None \<Rightarrow> [] | Some r' \<Rightarrow> rec_bins r'))\<rparr>)
        # fst s, snd s)"

definition sample_store_env :: "session_server session_env" where
  "sample_store_env = sample_session_env\<lparr>key_put := \<lambda>cfg p k r s. (as_error_init, merging_put k r s)\<rparr>"

definition stored_bins :: "session_server \<Rightarrow> as_key \<Rightarrow> (string \<times> as_val) list option" where
  "stored_bins s k = map_option rec_bins (map_of (fst s) k)"

lemma sample_store_calls:
  "key_put sample_store_env cfg p k r s = (as_error_init, merging_put k r s)"
  "key_get sample_store_env cfg q k s = (server_status s k, map_of (fst s) k, k, s)"
  "key_exists sample_store_env cfg q k s = (server_status s k, map_of (fst s) k, s)"
  "key_remove sample_store_env cfg t k s = (server_status s k, (filter (\<lambda>x. fst x \<noteq> k) (fst s), snd s))"
  "ini_serializer sample_store_env = 1"
  by (simp_all add: sample_store_env_def sample_session_defs)

lemma code_server_status: "code (server_status s k) = present (stored_bins s k)"
  by (simp add: server_status_def stored_bins_def present_def not_found_def)

lemma same_digest: "k = k\<lparr>key_digest := key_digest k\<rparr>"
  by simp

lemma sample_store_api: "store_api sample_store_env cfg stored_bins"
proof -
  have "put_stores sample_store_env cfg stored_bins"
    by (auto simp: put_stores_def sample_store_calls merging_put_def stored_bins_def fun_eq_iff
        map_of_clearjunk distinct_clearjunk split: option.split)
  moreover have "get_finds sample_store_env cfg stored_bins"
    unfolding get_finds_def sample_store_calls by (intro allI exI) (auto simp: code_server_status stored_bins_def intro!: same_digest)
  moreover have "exists_finds sample_store_env cfg stored_bins"
    by (simp add: exists_finds_def sample_store_calls code_server_status)
  moreover have "remove_deletes sample_store_env cfg stored_bins"
    by (simp add: remove_deletes_def sample_store_calls code_server_status stored_bins_def fun_eq_iff map_of_filter_key)
  ultimately show ?thesis by (simp add: store_api_def)
qed

definition sample_kv_calls :: "kv_call list" where
  "sample_kv_calls = [Put_record sample_key_array [(SKey ''a'', ZLong 5)],
     Put_record sample_key_array [(SKey ''b'', ZString ''x'')], Get_record sample_key_array,
     Remove_record sample_key_array, Exists_record sample_key_array]"

lemma sample_named_key: "named_key sample_ext sample_key_array = sample_as_key"
  by (simp add: named_key_def)

lemma sample_kv_calls_allowed: "list_all (allowed_call sample_ext sample_store_env) sample_kv_calls"
  by (simp add: sample_kv_calls_def allowed_call_def sample_named_key sample_store_calls storable_record_def
      wf_hash_def bin_name_ok_def plain_key_def sample_numeric_def digit_value_def nul_free_def NUL_def)

theorem key_value_refines_store_witness:
  "\<exists>replies c' s'. run_calls (method_call_on sample_ext sample_store_env) sample_kv_calls (sample_client, ([], 0)) =
      Some (replies, c', s') \<and>
    list_all2 answers replies [(AEROSPIKE_OK, None), (AEROSPIKE_OK, None),
      (AEROSPIKE_OK, Some [''a'' \<mapsto> ZLong 5, ''b'' \<mapsto> ZString ''x'']), (AEROSPIKE_OK, None),
      (AEROSPIKE_ERR_RECORD_NOT_FOUND, None)]"
proof -
  have "fst (run_object (record_call sample_ext) sample_kv_calls Map.empty) =
     [(AEROSPIKE_OK, None), (AEROSPIKE_OK, None), (AEROSPIKE_OK, Some [''a'' \<mapsto> ZLong 5, ''b'' \<mapsto> ZString ''x'']),
      (AEROSPIKE_OK, None), (AEROSPIKE_ERR_RECORD_NOT_FOUND, None)]"
    by (simp add: sample_kv_calls_def sample_named_key present_def php_bins_def fun_eq_iff map_add_def Let_def)
  moreover have "client_api sample_ext" by (simp add: client_api_def)
  ultimately show ?thesis
    using key_value_refines_store [OF _ sample_store_api sample_client_simps _ sample_kv_calls_allowed,
        of "([], 0)" Map.empty]
    by (auto simp: stored_bins_def)
qed

end
