(* ===== verification/AllMethods.thy ===== *)
theory AllMethods
  imports MethodFrame Batch Admin Udf Globals
begin

text \<open>
  Every method of the class on one object: what one call can do to the client and to the servers,
  and that none of them changes the pointer, the validity or the sharing of its object.
\<close>

section \<open>The list methods\<close>

lemma same_object_from [simp]:
  "same_object (reset_client_error c) c' = same_object c c'"
  by (simp add: same_object_def)

abbreviation kept :: "client \<Rightarrow> 's list_result \<Rightarrow> bool" where
  "kept c r \<equiv> pred_option (\<lambda>(st, out, c', s'). same_object c c') r"

lemma list_cleanup_kept [simp]: "kept c (list_cleanup c' out err s) = same_object c c'"
  by (simp add: list_cleanup_def)

lemma list_fail_kept [simp]: "kept c (list_fail c' out err st m s) = same_object c c'"
  by (simp add: list_fail_def)

lemma list_serializer_kept:
  "same_object c c' \<Longrightarrow> (\<And>t. kept c (k t)) \<Longrightarrow> kept c (list_serializer V c' out err z s k)"
  by (simp add: list_serializer_def split: prod.split)

lemma list_call_kept:
  "kept c fail \<Longrightarrow> (\<And>err rec s. kept c (k err rec s)) \<Longrightarrow> kept c (list_call E V cfg p key ops b s fail k)"
  by (simp add: list_call_def split: prod.split option.split)

lemma list_call_ignoring_kept:
  "(\<And>err rec s. kept c (k err rec s)) \<Longrightarrow> kept c (list_call_ignoring E V cfg p key ops b s k)"
  by (simp add: list_call_ignoring_def split: prod.split option.split)

lemma list_value_kept:
  "same_object c c' \<Longrightarrow> (\<And>z err s. kept c (failed c' z err s)) \<Longrightarrow>
     kept c (list_value E V c' bin absent failed err rec s)"
  by (simp add: list_value_def split: prod.split option.split)

lemma conversion_failed_kept [simp]:
  "kept c (popped_failed c' z err s) = same_object c c'" "kept c (returned_failed c' z err s) = same_object c c'"
  by (simp_all add: popped_failed_def returned_failed_def)

lemma setup_list_kept:
  assumes "as_client c \<noteq> None"
  shows "same_object c (fst (setup_list_operation_variables E V c cfg z_key z_operate_policy))"
  using assms
  by (simp add: setup_list_operation_variables_def Let_def split: prod.split option.split as_status.split)

lemma list_method_kept:
  assumes body: "\<And>c' cfg key p ops err bin z a. same_object c c' \<Longrightarrow> kept c (body c' cfg key p ops err bin z a)"
  shows "kept c (list_method E V m out_bin out_setup body c args s)"
proof (cases "\<exists>z_key bin a z cfg. args = Some (z_key, bin, a, z) \<and> as_client c = Some cfg")
  case True
  then obtain z_key bin a z cfg where x: "args = Some (z_key, bin, a, z)" "as_client c = Some cfg" by blast
  have "as_client (reset_client_error c) \<noteq> None" using x by simp
  note kept = setup_list_kept [OF this, of E V cfg z_key z]
  obtain c' r where r: "setup_list_operation_variables E V (reset_client_error c) cfg z_key z = (c', r)"
    by (cases "setup_list_operation_variables E V (reset_client_error c) cfg z_key z")
  with kept have "same_object c c'" by simp
  with x r show ?thesis
    by (simp add: list_method_def VALIDATE_CLIENT_AND_CONNECTION_def CHECK_BIN_NAME_def Let_def body
        split: sum.split)
next
  case False
  then show ?thesis
    by (auto simp: list_method_def VALIDATE_CLIENT_AND_CONNECTION_def Let_def split: option.split)
qed

named_theorems list_kept

lemmas [list_kept] = list_serializer_kept list_call_kept list_call_ignoring_kept list_value_kept

lemma listAppend_keeps: "kept c (listAppend_method E V c args s)"
  unfolding listAppend_method_def
  by (rule list_method_kept) (auto simp: Let_def intro!: list_kept split: prod.split option.split)

lemma listMerge_keeps: "kept c (listMerge_method E V c args s)"
  unfolding listMerge_method_def
  by (rule list_method_kept) (auto simp: Let_def intro!: list_kept split: prod.split option.split)

lemma listInsert_keeps: "kept c (listInsert_method E V c args s)"
  unfolding listInsert_method_def
  by (rule list_method_kept) (auto simp: Let_def intro!: list_kept split: prod.split option.split)

lemma listInsertItems_keeps: "kept c (listInsertItems_method E V c args s)"
  unfolding listInsertItems_method_def
  by (rule list_method_kept) (auto simp: Let_def intro!: list_kept split: prod.split option.split)

lemma listSet_keeps: "kept c (listSet_method E V c args s)"
  unfolding listSet_method_def
  by (rule list_method_kept) (auto simp: Let_def intro!: list_kept split: prod.split option.split)

lemma listRemove_keeps: "kept c (listRemove_method E V c args s)"
  unfolding listRemove_method_def
  by (rule list_method_kept) (auto simp: Let_def intro!: list_kept split: prod.split option.split)

lemma listRemoveRange_keeps: "kept c (listRemoveRange_method E V c args s)"
  unfolding listRemoveRange_method_def
  by (rule list_method_kept) (auto simp: Let_def intro!: list_kept split: prod.split option.split)

lemma listTrim_keeps: "kept c (listTrim_method E V c args s)"
  unfolding listTrim_method_def
  by (rule list_method_kept) (auto simp: Let_def intro!: list_kept split: prod.split option.split)

lemma listClear_keeps: "kept c (listClear_method E V c args s)"
  unfolding listClear_method_def
  by (rule list_method_kept) (auto simp: Let_def intro!: list_kept split: prod.split option.split)

lemma listSize_keeps: "kept c (listSize_method E V c args s)"
  unfolding listSize_method_def
  by (rule list_method_kept) (auto simp: Let_def intro!: list_kept split: prod.split option.split)

lemma listPop_keeps: "kept c (listPop_method E V c args s)"
  unfolding listPop_method_def
  by (rule list_method_kept) (auto simp: Let_def intro!: list_kept split: prod.split option.split)

lemma listPopRange_keeps: "kept c (listPopRange_method E V c args s)"
  unfolding listPopRange_method_def
  by (rule list_method_kept) (auto simp: Let_def intro!: list_kept split: prod.split option.split)

lemma listGet_keeps: "kept c (listGet_method E V c args s)"
  unfolding listGet_method_def
  by (rule list_method_kept) (auto simp: Let_def intro!: list_kept split: prod.split option.split)

lemma listGetRange_keeps: "kept c (listGetRange_method E V c args s)"
  unfolding listGetRange_method_def
  by (rule list_method_kept) (auto simp: Let_def intro!: list_kept split: prod.split option.split)

section \<open>Administration\<close>

abbreviation admin_kept :: "client \<Rightarrow> 's admin_result \<Rightarrow> bool" where
  "admin_kept c r \<equiv> same_object c (fst (snd (snd r)))"

lemma admin_ends_kept [simp]:
  "admin_kept c (admin_cleanup c' out err s) = same_object c c'"
  "admin_kept c (admin_fail c' out err m s) = same_object c c'"
  by (simp_all add: admin_fail_def admin_cleanup_def)

named_theorems admin_keep

lemma with_admin_policy_kept [admin_keep]:
  "same_object c c' \<Longrightarrow> (\<And>p. admin_kept c (k p)) \<Longrightarrow>
     admin_kept c (with_admin_policy V c' cfg z out err m s k)"
  by (simp add: with_admin_policy_def split: prod.split option.split)

lemma with_user_name_kept [admin_keep]:
  "same_object c c' \<Longrightarrow> admin_kept c k \<Longrightarrow> admin_kept c (with_user_name V c' user out err m s k)"
  by (simp add: with_user_name_def)

lemma with_roles_kept [admin_keep]:
  "same_object c c' \<Longrightarrow> (\<And>roles err. admin_kept c (k roles err)) \<Longrightarrow>
     admin_kept c (with_roles V c' z_roles err s k)"
  by (simp add: with_roles_def split: prod.split)

lemma admin_method_kept:
  assumes body: "\<And>c' cfg a err. same_object c c' \<Longrightarrow> admin_kept c (body c' cfg a err)"
  shows "admin_kept c (admin_method late forget m body c args s)"
  by (simp add: admin_method_def Let_def body split: prod.split option.split)

lemma createRole_keeps: "admin_kept c (createRole_method E V c args s)"
  unfolding createRole_method_def
  by (rule admin_method_kept) (auto simp: Let_def intro!: admin_keep split: prod.split option.split)

lemma queryRole_keeps: "admin_kept c (queryRole_method E V c args s)"
  unfolding queryRole_method_def
  by (rule admin_method_kept) (auto simp: Let_def intro!: admin_keep split: prod.split option.split)

lemma queryRoles_keeps: "admin_kept c (queryRoles_method E V c args s)"
  unfolding queryRoles_method_def
  by (rule admin_method_kept) (auto simp: Let_def intro!: admin_keep split: prod.split option.split)

lemma dropRole_keeps: "admin_kept c (dropRole_method V c args s)"
  unfolding dropRole_method_def
  by (rule admin_method_kept) (auto simp: Let_def intro!: admin_keep split: prod.split option.split)

lemma grantPrivileges_keeps: "admin_kept c (grantPrivileges_method E V c args s)"
  unfolding grantPrivileges_method_def
  by (rule admin_method_kept) (auto simp: Let_def intro!: admin_keep split: prod.split option.split)

lemma revokePrivileges_keeps: "admin_kept c (revokePrivileges_method E V c args s)"
  unfolding revokePrivileges_method_def
  by (rule admin_method_kept) (auto simp: Let_def intro!: admin_keep split: prod.split option.split)

lemma createUser_keeps: "admin_kept c (createUser_method V c args s)"
  unfolding createUser_method_def
  by (rule admin_method_kept) (auto simp: Let_def intro!: admin_keep split: prod.split option.split)

lemma changePassword_keeps: "admin_kept c (changePassword_method V c args s)"
  unfolding changePassword_method_def
  by (rule admin_method_kept) (auto simp: Let_def intro!: admin_keep split: prod.split option.split)

lemma setPassword_keeps: "admin_kept c (setPassword_method V c args s)"
  unfolding setPassword_method_def
  by (rule admin_method_kept) (auto simp: Let_def intro!: admin_keep split: prod.split option.split)

lemma grantRoles_keeps: "admin_kept c (grantRoles_method V c args s)"
  unfolding grantRoles_method_def
  by (rule admin_method_kept) (auto simp: Let_def intro!: admin_keep split: prod.split option.split)

lemma revokeRoles_keeps: "admin_kept c (revokeRoles_method V c args s)"
  unfolding revokeRoles_method_def
  by (rule admin_method_kept) (auto simp: Let_def intro!: admin_keep split: prod.split option.split)

lemma queryUser_keeps: "admin_kept c (queryUser_method V c args s)"
  unfolding queryUser_method_def
  by (rule admin_method_kept) (auto simp: Let_def intro!: admin_keep split: prod.split option.split)

lemma queryUsers_keeps: "admin_kept c (queryUsers_method E V c args s)"
  unfolding queryUsers_method_def
  by (rule admin_method_kept) (auto simp: Let_def intro!: admin_keep split: prod.split option.split)

lemma dropUser_keeps: "admin_kept c (dropUser_method V c args s)"
  unfolding dropUser_method_def
  by (rule admin_method_kept) (auto simp: Let_def intro!: admin_keep split: prod.split option.split)

section \<open>Scans, batches, info commands and modules\<close>

lemma scan_keeps:
  "pred_option (\<lambda>(st, c', s'). same_object c c') (scan_method z E V c args s)"
  by (simp add: scan_method_def Let_def
      split: prod.split option.split list.split zval.split sum.split as_status.split)

lemma scanApply_keeps:
  "case scanApply_method z E V c args s of (st, out, c', s') \<Rightarrow> same_object c c'"
  by (simp add: scanApply_method_def scanApply_run_def Let_def
      split: prod.split option.split list.split zval.split sum.split as_status.split)

lemma apply_keeps:
  "pred_option (\<lambda>(st, out, c', s'). same_object c c') (apply_method E V c args s)"
  by (simp add: apply_method_def Let_def
      split: prod.split option.split list.split zval.split sum.split as_status.split)

lemma queryApply_keeps:
  "case queryApply_method E V c args s of (st, out, c', s') \<Rightarrow> same_object c c'"
  by (simp add: queryApply_method_def Let_def
      split: prod.split option.split list.split zval.split sum.split as_status.split)

lemma aggregate_keeps:
  "case aggregate_method z E V c args s of (st, out, c', s') \<Rightarrow> same_object c c'"
  by (simp add: aggregate_method_def Let_def
      split: prod.split option.split list.split zval.split sum.split as_status.split)

lemma jobInfo_keeps:
  "case jobInfo_method E V c args s of (st, out, c', s') \<Rightarrow> same_object c c'"
  by (simp add: jobInfo_method_def Let_def
      split: prod.split option.split list.split zval.split sum.split as_status.split)

lemma scanInfo_keeps:
  "case scanInfo_method E V c args s of (st, out, c', s') \<Rightarrow> same_object c c'"
  by (simp add: scanInfo_method_def Let_def
      split: prod.split option.split list.split zval.split sum.split as_status.split)

lemma getMany_keeps:
  "case getMany_method E V c args s of (st, out, c', s') \<Rightarrow> same_object c c'"
  by (simp add: getMany_method_def Let_def
      split: prod.split option.split list.split zval.split sum.split as_status.split)

lemma existsMany_keeps:
  "case existsMany_method E V c args s of (st, out, c', s') \<Rightarrow> same_object c c'"
  by (simp add: existsMany_method_def Let_def
      split: prod.split option.split list.split zval.split sum.split as_status.split)

lemma info_keeps:
  "pred_option (\<lambda>(st, out, c', s'). same_object c c') (info_method V c args s)"
  by (simp add: info_method_def Let_def
      split: prod.split option.split list.split zval.split sum.split as_status.split)

lemma infoMany_keeps:
  "case infoMany_method E V c args s of (st, c', s') \<Rightarrow> same_object c c'"
  by (simp add: infoMany_method_def Let_def
      split: prod.split option.split list.split zval.split sum.split as_status.split)

lemma addIndex_keeps:
  "case addIndex_method E V c args s of (st, c', s') \<Rightarrow> same_object c c'"
  by (simp add: addIndex_method_def Let_def
      split: prod.split option.split list.split zval.split sum.split as_status.split)

lemma dropIndex_keeps:
  "case dropIndex_method V c args s of (st, c', s') \<Rightarrow> same_object c c'"
  by (simp add: dropIndex_method_def Let_def
      split: prod.split option.split list.split zval.split sum.split as_status.split)

lemma truncate_keeps:
  "case truncate_method E V c args s of (st, c', s') \<Rightarrow> same_object c c'"
  by (simp add: truncate_method_def Let_def
      split: prod.split option.split list.split zval.split sum.split as_status.split)

lemma getKeyDigest_keeps:
  "case getKeyDigest_method E V c args of (st, c') \<Rightarrow> same_object c c'"
  by (simp add: getKeyDigest_method_def Let_def
      split: prod.split option.split list.split zval.split sum.split as_status.split)

lemma getNodes_keeps:
  "case getNodes_method E V c s of (st, c') \<Rightarrow> same_object c c'"
  by (simp add: getNodes_method_def Let_def
      split: prod.split option.split list.split zval.split sum.split as_status.split)

lemma register_keeps:
  "pred_option (\<lambda>(st, c', s', fs'). same_object c c') (register_method V c args s fs)"
  by (simp add: register_method_def register_checked_def Let_def
      split: prod.split option.split list.split zval.split sum.split as_status.split)

lemma getRegistered_keeps:
  "case getRegistered_method V c args s of (st, out, c', s') \<Rightarrow> same_object c c'"
  by (simp add: getRegistered_method_def Let_def
      split: prod.split option.split list.split zval.split sum.split as_status.split)

lemma deregister_keeps:
  "case deregister_method V c args s of (st, c', s') \<Rightarrow> same_object c c'"
  by (simp add: deregister_method_def Let_def
      split: prod.split option.split list.split zval.split sum.split as_status.split)

lemma listRegistered_keeps:
  "case listRegistered_method E V c args s of (st, out, c', s') \<Rightarrow> same_object c c'"
  by (simp add: listRegistered_method_def Let_def
      split: prod.split option.split list.split zval.split sum.split as_status.split)

lemma setLogHandler_keeps:
  "case setLogHandler_method z c f G H of (st, c', G', H') \<Rightarrow> same_object c c'"
  by (simp add: setLogHandler_method_def Let_def
      split: prod.split option.split list.split zval.split sum.split as_status.split)

lemma setLogLevel_keeps:
  "case setLogLevel_method c l G of (st, c', s') \<Rightarrow> same_object c c'"
  by (simp add: setLogLevel_method_def Let_def
      split: prod.split option.split list.split zval.split sum.split as_status.split)

section \<open>One call of any method\<close>

text \<open>
  A method that works on the files of the machine or on the module's globals is given them as they
  happen to be; what it does to them is in \<open>Udf\<close> and \<open>Globals\<close>. The calls outside the repository are
  the ones of each component: \<open>V\<close> for lists, scans and batches, \<open>A\<close> for the administration, \<open>U\<close> for
  info commands, indexes and modules.
\<close>

inductive any_method ::
  "'e operate_ext_scheme \<Rightarrow> 'f query_ext_scheme \<Rightarrow> ('s, 'z) batch_env_scheme \<Rightarrow> ('s, 'y) admin_env_scheme \<Rightarrow>
     ('s, 'x) udf_env_scheme \<Rightarrow> client \<times> 's \<Rightarrow> client \<times> 's \<Rightarrow> bool"
  for E F V A U where
  single: "method_call E F V (c, s) (c', s') \<Longrightarrow> any_method E F V A U (c, s) (c', s')"
| listAppend_called: "listAppend_method E V c args s = Some (st, out, c', s') \<Longrightarrow>
    any_method E F V A U (c, s) (c', s')"
| listMerge_called: "listMerge_method E V c args s = Some (st, out, c', s') \<Longrightarrow>
    any_method E F V A U (c, s) (c', s')"
| listInsert_called: "listInsert_method E V c args s = Some (st, out, c', s') \<Longrightarrow>
    any_method E F V A U (c, s) (c', s')"
| listInsertItems_called: "listInsertItems_method E V c args s = Some (st, out, c', s') \<Longrightarrow>
    any_method E F V A U (c, s) (c', s')"
| listSet_called: "listSet_method E V c args s = Some (st, out, c', s') \<Longrightarrow>
    any_method E F V A U (c, s) (c', s')"
| listRemove_called: "listRemove_method E V c args s = Some (st, out, c', s') \<Longrightarrow>
    any_method E F V A U (c, s) (c', s')"
| listRemoveRange_called: "listRemoveRange_method E V c args s = Some (st, out, c', s') \<Longrightarrow>
    any_method E F V A U (c, s) (c', s')"
| listTrim_called: "listTrim_method E V c args s = Some (st, out, c', s') \<Longrightarrow>
    any_method E F V A U (c, s) (c', s')"
| listClear_called: "listClear_method E V c args s = Some (st, out, c', s') \<Longrightarrow>
    any_method E F V A U (c, s) (c', s')"
| listSize_called: "listSize_method E V c args s = Some (st, out, c', s') \<Longrightarrow>
    any_method E F V A U (c, s) (c', s')"
| listPop_called: "listPop_method E V c args s = Some (st, out, c', s') \<Longrightarrow>
    any_method E F V A U (c, s) (c', s')"
| listPopRange_called: "listPopRange_method E V c args s = Some (st, out, c', s') \<Longrightarrow>
    any_method E F V A U (c, s) (c', s')"
| listGet_called: "listGet_method E V c args s = Some (st, out, c', s') \<Longrightarrow>
    any_method E F V A U (c, s) (c', s')"
| listGetRange_called: "listGetRange_method E V c args s = Some (st, out, c', s') \<Longrightarrow>
    any_method E F V A U (c, s) (c', s')"
| createRole_called: "createRole_method E A c args s = (st, out, c', s') \<Longrightarrow>
    any_method E F V A U (c, s) (c', s')"
| queryRole_called: "queryRole_method E A c args s = (st, out, c', s') \<Longrightarrow>
    any_method E F V A U (c, s) (c', s')"
| queryRoles_called: "queryRoles_method E A c args s = (st, out, c', s') \<Longrightarrow>
    any_method E F V A U (c, s) (c', s')"
| dropRole_called: "dropRole_method A c args s = (st, out, c', s') \<Longrightarrow>
    any_method E F V A U (c, s) (c', s')"
| grantPrivileges_called: "grantPrivileges_method E A c args s = (st, out, c', s') \<Longrightarrow>
    any_method E F V A U (c, s) (c', s')"
| revokePrivileges_called: "revokePrivileges_method E A c args s = (st, out, c', s') \<Longrightarrow>
    any_method E F V A U (c, s) (c', s')"
| createUser_called: "createUser_method A c args s = (st, out, c', s') \<Longrightarrow>
    any_method E F V A U (c, s) (c', s')"
| changePassword_called: "changePassword_method A c args s = (st, out, c', s') \<Longrightarrow>
    any_method E F V A U (c, s) (c', s')"
| setPassword_called: "setPassword_method A c args s = (st, out, c', s') \<Longrightarrow>
    any_method E F V A U (c, s) (c', s')"
| grantRoles_called: "grantRoles_method A c args s = (st, out, c', s') \<Longrightarrow>
    any_method E F V A U (c, s) (c', s')"
| revokeRoles_called: "revokeRoles_method A c args s = (st, out, c', s') \<Longrightarrow>
    any_method E F V A U (c, s) (c', s')"
| queryUser_called: "queryUser_method A c args s = (st, out, c', s') \<Longrightarrow>
    any_method E F V A U (c, s) (c', s')"
| queryUsers_called: "queryUsers_method E A c args s = (st, out, c', s') \<Longrightarrow>
    any_method E F V A U (c, s) (c', s')"
| dropUser_called: "dropUser_method A c args s = (st, out, c', s') \<Longrightarrow>
    any_method E F V A U (c, s) (c', s')"
| scan_called: "scan_method zts_build E V c args s = Some (st, c', s') \<Longrightarrow>
    any_method E F V A U (c, s) (c', s')"
| scanApply_called: "scanApply_method zts_build E V c args s = (st, out, c', s') \<Longrightarrow>
    any_method E F V A U (c, s) (c', s')"
| apply_called: "apply_method E V c args s = Some (st, out, c', s') \<Longrightarrow>
    any_method E F V A U (c, s) (c', s')"
| queryApply_called: "queryApply_method F V c args s = (st, out, c', s') \<Longrightarrow>
    any_method E F V A U (c, s) (c', s')"
| aggregate_called: "aggregate_method zts_build F V c args s = (st, out, c', s') \<Longrightarrow>
    any_method E F V A U (c, s) (c', s')"
| jobInfo_called: "jobInfo_method E V c args s = (st, out, c', s') \<Longrightarrow>
    any_method E F V A U (c, s) (c', s')"
| scanInfo_called: "scanInfo_method E V c args s = (st, out, c', s') \<Longrightarrow>
    any_method E F V A U (c, s) (c', s')"
| getMany_called: "getMany_method E V c args s = (st, out, c', s') \<Longrightarrow>
    any_method E F V A U (c, s) (c', s')"
| existsMany_called: "existsMany_method E V c args s = (st, out, c', s') \<Longrightarrow>
    any_method E F V A U (c, s) (c', s')"
| info_called: "info_method U c args s = Some (st, out, c', s') \<Longrightarrow>
    any_method E F V A U (c, s) (c', s')"
| infoMany_called: "infoMany_method E U c args s = (z, c', s') \<Longrightarrow>
    any_method E F V A U (c, s) (c', s')"
| addIndex_called: "addIndex_method E U c args s = (st, c', s') \<Longrightarrow>
    any_method E F V A U (c, s) (c', s')"
| dropIndex_called: "dropIndex_method U c args s = (st, c', s') \<Longrightarrow>
    any_method E F V A U (c, s) (c', s')"
| truncate_called: "truncate_method E U c args s = (st, c', s') \<Longrightarrow>
    any_method E F V A U (c, s) (c', s')"
| getKeyDigest_called: "getKeyDigest_method E U c args = (r, c') \<Longrightarrow>
    any_method E F V A U (c, s) (c', s)"
| getNodes_called: "getNodes_method E U c s = (r, c') \<Longrightarrow>
    any_method E F V A U (c, s) (c', s)"
| register_called: "register_method U c args s fs = Some (st, c', s', fs') \<Longrightarrow>
    any_method E F V A U (c, s) (c', s')"
| getRegistered_called: "getRegistered_method U c args s = (st, out, c', s') \<Longrightarrow>
    any_method E F V A U (c, s) (c', s')"
| deregister_called: "deregister_method U c args s = (st, c', s') \<Longrightarrow>
    any_method E F V A U (c, s) (c', s')"
| listRegistered_called: "listRegistered_method E U c args s = (st, out, c', s') \<Longrightarrow>
    any_method E F V A U (c, s) (c', s')"
| setLogHandler_called: "setLogHandler_method zts_build c f G H = (st, c', G', H') \<Longrightarrow>
    any_method E F V A U (c, s) (c', s)"
| setLogLevel_called: "setLogLevel_method c l G = (st, c', G') \<Longrightarrow>
    any_method E F V A U (c, s) (c', s)"

inductive_cases any_methodE: "any_method E F V A U (c, s) (c', s')"

lemma more_result_cases:
  "same_object c (fst (snd (snd r))) \<Longrightarrow> r = (st, out, c', s') \<Longrightarrow> same_object c c'"
  "case p of (st, c') \<Rightarrow> P c' \<Longrightarrow> p = (st2, c') \<Longrightarrow> P c'"
  "case q of (st, c', G', H') \<Rightarrow> P c' \<Longrightarrow> q = (st3, c', G', H') \<Longrightarrow> P c'"
  "pred_option (\<lambda>(st, c', s', fs'). P c') t \<Longrightarrow> t = Some (st4, c', s'', fs') \<Longrightarrow> P c'"
  by simp_all

lemmas list_methods_keep_object =
  listAppend_keeps [THEN result_cases(2)]
  listMerge_keeps [THEN result_cases(2)]
  listInsert_keeps [THEN result_cases(2)]
  listInsertItems_keeps [THEN result_cases(2)]
  listSet_keeps [THEN result_cases(2)]
  listRemove_keeps [THEN result_cases(2)]
  listRemoveRange_keeps [THEN result_cases(2)]
  listTrim_keeps [THEN result_cases(2)]
  listClear_keeps [THEN result_cases(2)]
  listSize_keeps [THEN result_cases(2)]
  listPop_keeps [THEN result_cases(2)]
  listPopRange_keeps [THEN result_cases(2)]
  listGet_keeps [THEN result_cases(2)]
  listGetRange_keeps [THEN result_cases(2)]

lemmas admin_methods_keep_object =
  createRole_keeps [THEN more_result_cases(1)]
  queryRole_keeps [THEN more_result_cases(1)]
  queryRoles_keeps [THEN more_result_cases(1)]
  dropRole_keeps [THEN more_result_cases(1)]
  grantPrivileges_keeps [THEN more_result_cases(1)]
  revokePrivileges_keeps [THEN more_result_cases(1)]
  createUser_keeps [THEN more_result_cases(1)]
  changePassword_keeps [THEN more_result_cases(1)]
  setPassword_keeps [THEN more_result_cases(1)]
  grantRoles_keeps [THEN more_result_cases(1)]
  revokeRoles_keeps [THEN more_result_cases(1)]
  queryUser_keeps [THEN more_result_cases(1)]
  queryUsers_keeps [THEN more_result_cases(1)]
  dropUser_keeps [THEN more_result_cases(1)]

lemmas other_methods_keep_object =
  scan_keeps [THEN result_cases(1)]
  scanApply_keeps [THEN result_cases(4)]
  apply_keeps [THEN result_cases(2)]
  queryApply_keeps [THEN result_cases(4)]
  aggregate_keeps [THEN result_cases(4)]
  jobInfo_keeps [THEN result_cases(4)]
  scanInfo_keeps [THEN result_cases(4)]
  getMany_keeps [THEN result_cases(4)]
  existsMany_keeps [THEN result_cases(4)]
  info_keeps [THEN result_cases(2)]
  infoMany_keeps [THEN result_cases(3)]
  addIndex_keeps [THEN result_cases(3)]
  dropIndex_keeps [THEN result_cases(3)]
  truncate_keeps [THEN result_cases(3)]
  getKeyDigest_keeps [THEN more_result_cases(2)]
  getNodes_keeps [THEN more_result_cases(2)]
  register_keeps [THEN more_result_cases(4)]
  getRegistered_keeps [THEN result_cases(4)]
  deregister_keeps [THEN result_cases(3)]
  listRegistered_keeps [THEN result_cases(4)]
  setLogHandler_keeps [THEN more_result_cases(3)]
  setLogLevel_keeps [THEN result_cases(3)]

lemma any_method_same: "any_method E F V A U (c, s) (c', s') \<Longrightarrow> same_object c c'"
  by (erule any_methodE)
    (erule method_call_same list_methods_keep_object admin_methods_keep_object other_methods_keep_object)+

end
