(* ===== verification/Process.thy ===== *)
theory Process
  imports AllMethods Session ModuleIni Constants
begin

text \<open>
  The process as a whole: its objects with every method of the class, the session handler that
  shares their connections, and the beginning and the end of the module in \<open>aerospike.c\<close>.
\<close>

section \<open>The globals of the module\<close>

text \<open>
  \<open>PHP_GINIT\<close> allocates the table of shared connections of a thread; \<open>PHP_MINIT\<close> sets the ini entries
  to their defaults, initialises the table of the thread it runs in and declares the class and its
  constants (\<open>lib\<close> are those of the C client). The result of \<open>PHP_GSHUTDOWN\<close> is \<open>None\<close> when a table
  that was not initialised would be destroyed, or a structure that is gone be used.
\<close>

datatype host_table = Not_initialised | Hosts "(string \<times> persistent_host) list"

definition PHP_GINIT :: "module_globals \<Rightarrow> module_globals \<times> host_table" where
  "PHP_GINIT G =
     (G\<lparr>global_error := as_error_init,
        is_deserializer_registered := False, deserializer_info := None,
        is_serializer_registered := False, serializer_info := None,
        is_log_callback_registered := False, log_callback_info := None\<rparr>,
      Not_initialised)"

definition PHP_MINIT ::
  "(string option \<Rightarrow> 64 word) \<Rightarrow> (string \<Rightarrow> zlong) \<Rightarrow> memory \<Rightarrow> host_table \<Rightarrow>
     memory \<times> host_table \<times> class_constants option" where
  "PHP_MINIT address lib m t = (REGISTER_INI_ENTRIES address m, Hosts [], register_aerospike_class lib)"

definition PHP_GSHUTDOWN :: "('s, 'z) env_scheme \<Rightarrow> host_table \<Rightarrow> 's world \<Rightarrow> 's world option" where
  "PHP_GSHUTDOWN V t w =
     (case t of Not_initialised \<Rightarrow> None | Hosts hs \<Rightarrow> persistent_list_destroy V hs w)"

section \<open>Steps\<close>

text \<open>
  The state is the objects with the world of \<open>Persistent\<close>, and the session PHP holds for the
  module. Constructors run only where \<open>C\<close> allows it, which is given the object before, the status
  and the object after.
\<close>

type_synonym 's process = "'s sys \<times> session_data option"

definition put_object :: "nat \<Rightarrow> php_object \<Rightarrow> 's world \<Rightarrow> 's sys \<Rightarrow> 's sys" where
  "put_object j obj w S = \<lparr>objects = (objects S)(j \<mapsto> obj), sys_world = w\<rparr>"

inductive process_step ::
  "(php_object \<Rightarrow> as_status \<Rightarrow> php_object \<Rightarrow> bool) \<Rightarrow> 'l session_ext_scheme \<Rightarrow> 'e operate_ext_scheme \<Rightarrow>
     'f query_ext_scheme \<Rightarrow> ('s, 'z) batch_env_scheme \<Rightarrow> ('s, 'y) admin_env_scheme \<Rightarrow> ('s, 'x) udf_env_scheme \<Rightarrow>
     ('s, 'w) session_env_scheme \<Rightarrow> 's process \<Rightarrow> 's process \<Rightarrow> bool"
  for C L E F V A U W where
  create_object: "objects S j = None \<Longrightarrow>
    process_step C L E F V A U W (S, d) (put_object j aerospike_create_object (sys_world S) S, d)"
| construct_object: "objects S j = Some obj \<Longrightarrow>
    construct_method L V i args obj (sys_world S) = Some (st, t, obj', w) \<Longrightarrow> C obj st obj' \<Longrightarrow>
    process_step C L E F V A U W (S, d) (put_object j obj' w S, d)"
| call_method: "objects S j = Some obj \<Longrightarrow> client_view obj (sys_world S) = Some c \<Longrightarrow>
    any_method E F V A U (c, servers (sys_world S)) (c', s') \<Longrightarrow>
    after_method c' s' obj (sys_world S) = (obj', w) \<Longrightarrow>
    process_step C L E F V A U W (S, d) (put_object j obj' w S, d)"
| destruct_object: "objects S j = Some obj \<Longrightarrow>
    aerospike_object_destructor V obj (sys_world S) = Some w \<Longrightarrow>
    process_step C L E F V A U W (S, d) (S\<lparr>sys_world := w\<rparr>, d)"
| free_object: "objects S j = Some obj \<Longrightarrow>
    aerospike_object_free_storage V obj (sys_world S) = Some (obj', w) \<Longrightarrow>
    process_step C L E F V A U W (S, d) (\<lparr>objects = (objects S)(j := None), sys_world = w\<rparr>, d)"
| open_session: "ps_open L W i path (d, sys_world S) = Some (ok, d', w) \<Longrightarrow>
    process_step C L E F V A U W (S, d) (S\<lparr>sys_world := w\<rparr>, d')"
| close_session: "ps_close (d, sys_world S) = (ok, d', w) \<Longrightarrow>
    process_step C L E F V A U W (S, d) (S\<lparr>sys_world := w\<rparr>, d')"
| write_session: "ps_write L W d sid val maxlifetime (sys_world S) = Some (ok, w) \<Longrightarrow>
    process_step C L E F V A U W (S, d) (S\<lparr>sys_world := w\<rparr>, d)"
| destroy_session: "ps_destroy L W d sid (sys_world S) = Some (ok, w) \<Longrightarrow>
    process_step C L E F V A U W (S, d) (S\<lparr>sys_world := w\<rparr>, d)"
| read_session: "ps_read L W d sid (sys_world S) = Some (r, w) \<Longrightarrow>
    process_step C L E F V A U W (S, d) (S\<lparr>sys_world := w\<rparr>, d)"
| validate_session: "ps_validate_sid L W d sid (sys_world S) = Some (ok, w) \<Longrightarrow>
    process_step C L E F V A U W (S, d) (S\<lparr>sys_world := w\<rparr>, d)"
| create_session_id: "ps_create_sid L W d (sys_world S) = Some (new_sid, w) \<Longrightarrow>
    process_step C L E F V A U W (S, d) (S\<lparr>sys_world := w\<rparr>, d)"
| touch_session: "ps_update_timestamp L W d sid maxlifetime (sys_world S) = Some (ok, w) \<Longrightarrow>
    process_step C L E F V A U W (S, d) (S\<lparr>sys_world := w\<rparr>, d)"

inductive process_reachable ::
  "(php_object \<Rightarrow> as_status \<Rightarrow> php_object \<Rightarrow> bool) \<Rightarrow> 'l session_ext_scheme \<Rightarrow> 'e operate_ext_scheme \<Rightarrow>
     'f query_ext_scheme \<Rightarrow> ('s, 'z) batch_env_scheme \<Rightarrow> ('s, 'y) admin_env_scheme \<Rightarrow> ('s, 'x) udf_env_scheme \<Rightarrow>
     ('s, 'w) session_env_scheme \<Rightarrow> 's process \<Rightarrow> bool"
  for C L E F V A U W where
  start: "process_reachable C L E F V A U W (sys_init s, None)"
| step: "process_reachable C L E F V A U W P \<Longrightarrow> process_step C L E F V A U W P P' \<Longrightarrow>
    process_reachable C L E F V A U W P'"

text \<open>
  Constructors that lose no structure: the object has none yet, and a shared connection that is
  asked for is made.
\<close>

definition orderly :: "php_object \<Rightarrow> as_status \<Rightarrow> php_object \<Rightarrow> bool" where
  "orderly obj st obj' \<longleftrightarrow>
     obj_client obj = None \<and> (obj_client obj' = None \<or> \<not> obj_is_persistent obj' \<or> st = AEROSPIKE_OK)"

section \<open>The end\<close>

text \<open>PHP calls the destructors of all objects, then frees them, and then ends the module.\<close>

fun destruct_all :: "('s, 'z) env_scheme \<Rightarrow> nat list \<Rightarrow> 's sys \<Rightarrow> 's sys option" where
  "destruct_all V [] S = Some S"
| "destruct_all V (j # js) S =
     (case objects S j of
        None \<Rightarrow> destruct_all V js S
      | Some obj \<Rightarrow>
          (case aerospike_object_destructor V obj (sys_world S) of
             None \<Rightarrow> None
           | Some w \<Rightarrow> destruct_all V js (S\<lparr>sys_world := w\<rparr>)))"

fun free_all :: "('s, 'z) env_scheme \<Rightarrow> nat list \<Rightarrow> 's sys \<Rightarrow> 's sys option" where
  "free_all V [] S = Some S"
| "free_all V (j # js) S =
     (case objects S j of
        None \<Rightarrow> free_all V js S
      | Some obj \<Rightarrow>
          (case aerospike_object_free_storage V obj (sys_world S) of
             None \<Rightarrow> None
           | Some (obj', w) \<Rightarrow> free_all V js \<lparr>objects = (objects S)(j := None), sys_world = w\<rparr>))"

definition process_end :: "('s, 'z) env_scheme \<Rightarrow> nat list \<Rightarrow> 's sys \<Rightarrow> 's sys option" where
  "process_end V js S =
     (case destruct_all V js S of
        None \<Rightarrow> None
      | Some S \<Rightarrow>
          (case free_all V js S of
             None \<Rightarrow> None
           | Some S \<Rightarrow>
               map_option (\<lambda>w. S\<lparr>sys_world := w\<rparr>)
                 (PHP_GSHUTDOWN V (Hosts (plist (sys_world S))) (sys_world S))))"

end
