(* ===== verification/ProcessProps.thy ===== *)
theory ProcessProps
  imports Process SessionProps
begin

text \<open>
  What holds in every state a process can reach, with all its methods and its session handler: no
  use of a structure that is gone, and an end at which every object, every shared connection and
  every connection of its own is freed.
\<close>

section \<open>What a constructor does to the world\<close>

definition not_made :: "php_object \<Rightarrow> 's world \<Rightarrow> as_status \<Rightarrow> php_object \<Rightarrow> 's world \<Rightarrow> bool" where
  "not_made obj w st obj' w' \<longleftrightarrow> w' = w \<and> obj_client obj' \<in> {None, obj_client obj} \<and>
     obj_is_persistent obj' \<and> \<not> obj_is_valid obj' \<and> st \<noteq> AEROSPIKE_OK"

definition connecting ::
  "('s, 'z) env_scheme \<Rightarrow> 's world \<Rightarrow> bool \<Rightarrow> as_status \<Rightarrow> php_object \<Rightarrow> 's world \<Rightarrow> bool" where
  "connecting V w persistent st obj' w' \<longleftrightarrow>
     (\<exists>cfg ob ob'. obj_client ob = Some (next_addr w) \<and> obj_is_valid ob \<and>
        (if persistent then persistent_connect V (next_addr w) ob (snd (aerospike_new cfg w))
         else non_persistent_connect V (next_addr w) ob (snd (aerospike_new cfg w))) = Some (st, ob', w') \<and>
        obj_client obj' = obj_client ob' \<and> obj_is_valid obj' = obj_is_valid ob' \<and>
        obj_is_persistent obj' = obj_is_persistent ob')"

lemma construct_cases:
  assumes "construct_method L V i args obj w = Some (st, t, obj', w')"
  shows "not_made obj w st obj' w' \<or>
    (\<exists>z_config persistent z_options. args = Some (z_config, persistent, z_options) \<and>
       connecting V w persistent st obj' w')"
proof (cases args)
  case None
  with assms show ?thesis by (auto simp: construct_method_def not_made_def Let_def)
next
  case (Some x)
  obtain zc persistent zo where x: "x = (zc, persistent, zo)" by (cases x)
  show ?thesis
  proof (cases "construct_config L i zc zo")
    case (Inl m)
    with assms Some x show ?thesis by (auto simp: construct_method_def not_made_def Let_def)
  next
    case (Inr cs)
    obtain cfg ser where cs: "cs = (cfg, ser)" by (cases cs)
    obtain w1 where new: "aerospike_new cfg w = (next_addr w, w1)"
      by (simp add: aerospike_new_def)
    define ob where "ob = obj\<lparr>obj_is_connected := False, obj_error := as_error_init,
      obj_client := Some (next_addr w), obj_is_valid := True, obj_is_persistent := persistent\<rparr>"
    have ob: "obj_client ob = Some (next_addr w)" "obj_is_valid ob" by (simp_all add: ob_def)
    show ?thesis
    proof (cases "aerospike_new_ok L cfg")
      case False
      with assms Some x Inr cs show ?thesis by (auto simp: construct_method_def not_made_def Let_def)
    next
      case True
      let ?r = "if persistent then persistent_connect V (next_addr w) ob w1
        else non_persistent_connect V (next_addr w) ob w1"
      have "construct_method L V i args obj w =
          (case ?r of
             None \<Rightarrow> None
           | Some (st, obj, w) \<Rightarrow>
               if st \<noteq> AEROSPIKE_OK then Some (st, Thrown ''Failed to connect'', obj, w)
               else Some (AEROSPIKE_OK, Nothing_thrown, obj\<lparr>obj_is_connected := True\<rparr>, w))"
        by (simp add: construct_method_def Let_def Some x Inr cs True new ob_def)
      with assms obtain ob' where "?r = Some (st, ob', w')" "obj' = ob' \<or> obj' = ob'\<lparr>obj_is_connected := True\<rparr>"
        by (auto split: option.splits if_splits prod.splits)
      with ob new Some x show ?thesis
        unfolding connecting_def by (metis (no_types, lifting) php_object.select_convs php_object.update_convs(2)
          php_object.surjective snd_conv)
    qed
  qed
qed


definition alone :: "'s world \<Rightarrow> php_object \<Rightarrow> 's world \<Rightarrow> bool" where
  "alone w obj' w' \<longleftrightarrow> dom (heap w') = insert (next_addr w) (dom (heap w)) \<and> shared w' = shared w \<and>
     obj_client obj' = Some (next_addr w)"

definition made :: "'s world \<Rightarrow> bool \<Rightarrow> as_status \<Rightarrow> php_object \<Rightarrow> 's world \<Rightarrow> bool" where
  "made w persistent st obj' w' \<longleftrightarrow>
     obj_is_persistent obj' = persistent \<and> obj_is_valid obj' \<and> hosts_up w' \<and>
     (if persistent \<and> st = AEROSPIKE_OK then only_adds_shared w w' \<and> obj_client obj' \<in> Some ` shared w'
      else alone w obj' w')"

lemma persistent_connect_flags:
  "persistent_connect V a obj w = Some (st, obj', w') \<Longrightarrow> obj_is_persistent obj' \<and> obj_is_valid obj' = obj_is_valid obj"
  by (auto simp: persistent_connect_def Let_def split: option.splits if_splits prod.splits)

lemma non_persistent_connect_world:
  assumes "non_persistent_connect V a obj w = Some (st, obj', w')" "a \<in> dom (heap w)"
  shows "\<exists>s. w' = w\<lparr>servers := s\<rparr>" "\<not> obj_is_persistent obj'" "obj_is_valid obj' = obj_is_valid obj"
    "obj_client obj' = obj_client obj"
  using assms connect_at_cases [of a w V]
  by (auto simp: non_persistent_connect_def Let_def split: if_splits)

lemma connecting_makes:
  assumes ok: "world_ok w" "hosts_up w" and conn: "connecting V w persistent st obj' w'"
  shows "made w persistent st obj' w'"
proof -
  obtain cfg ob ob' where ob: "obj_client ob = Some (next_addr w)" "obj_is_valid ob"
    and c: "(if persistent then persistent_connect V (next_addr w) ob (snd (aerospike_new cfg w))
         else non_persistent_connect V (next_addr w) ob (snd (aerospike_new cfg w))) = Some (st, ob', w')"
    and same: "obj_client obj' = obj_client ob'" "obj_is_valid obj' = obj_is_valid ob'"
      "obj_is_persistent obj' = obj_is_persistent ob'"
    using conn unfolding connecting_def by blast
  define w1 where "w1 = snd (aerospike_new cfg w)"
  have n: "aerospike_new cfg w = (next_addr w, w1)" by (simp add: w1_def aerospike_new_def)
  note new = new_structure [OF ok n]
  have fresh: "next_addr w \<notin> dom (heap w)" using ok(1) by (auto simp: world_ok_def)
  have d: "dom (heap w1) = insert (next_addr w) (dom (heap w))"
    using aerospike_new_ok(6) [OF ok(1) n] .
  show ?thesis
  proof (cases persistent)
    case False
    with c have c: "non_persistent_connect V (next_addr w) ob w1 = Some (st, ob', w')" by (simp add: w1_def)
    have "next_addr w \<in> dom (heap w1)" using d by simp
    note np = non_persistent_connect_world [OF c this]
    then obtain s where "w' = w1\<lparr>servers := s\<rparr>" by blast
    with np(2-4) False ob same new d show ?thesis by (simp add: made_def alone_def)
  next
    case True
    with c have c: "persistent_connect V (next_addr w) ob w1 = Some (st, ob', w')" by (simp add: w1_def)
    note flags = persistent_connect_flags [OF c]
    show ?thesis
    proof (cases "st = AEROSPIKE_OK")
      case ok: True
      with persistent_connect_up [OF new(1-4) ob(1) c] flags True ob same new(5,6) fresh d show ?thesis
        by (auto simp: made_def only_adds_shared_def)
    next
      case False
      with persistent_connect_up [OF new(1-4) ob(1) c] obtain s where "obj_client ob' = Some (next_addr w)"
          "w' = w1\<lparr>servers := s\<rparr>" by auto
      with False flags True ob same new d show ?thesis by (simp add: made_def alone_def)
    qed
  qed
qed

section \<open>The invariant\<close>

definition process_inv :: "'s process \<Rightarrow> bool" where
  "process_inv P \<longleftrightarrow> process_ok (fst P) \<and> hosts_up (sys_world (fst P)) \<and>
     pred_option (\<lambda>d. session_well d (sys_world (fst P))) (snd P)"

lemma process_invD:
  assumes "process_inv (S, d)"
  shows "process_ok S" "world_ok (sys_world S)" "hosts_up (sys_world S)"
    "pred_option (\<lambda>d. session_well d (sys_world S)) d"
  using assms by (simp_all add: process_inv_def)

lemma session_well_mono:
  "shared w \<subseteq> shared w' \<Longrightarrow> pred_option (\<lambda>d. session_well d w) d \<Longrightarrow> pred_option (\<lambda>d. session_well d w') d"
  by (cases d) (auto simp: session_well_def)

lemma hosts_up_plist: "plist w' = plist w \<Longrightarrow> hosts_up w' = hosts_up w"
  by (simp add: hosts_up_def)

lemma shared_plist: "plist w' = plist w \<Longrightarrow> shared w' = shared w"
  by (simp add: shared_def)

text \<open>Steps that leave the list alone, and steps that leave the objects alone.\<close>

lemma process_inv_plist:
  assumes "process_inv (S, d)" "process_ok S'" "plist (sys_world S') = plist (sys_world S)"
  shows "process_inv (S', d)"
  using assms by (simp add: process_inv_def hosts_up_plist [OF assms(3)] session_well_def shared_plist [OF assms(3)])

lemma process_ok_adds:
  assumes "process_ok S" "world_ok w" "only_adds_shared (sys_world S) w"
  shows "process_ok (S\<lparr>sys_world := w\<rparr>)"
proof -
  have new: "sys_world (S\<lparr>sys_world := w\<rparr>) = w" "objects (S\<lparr>sys_world := w\<rparr>) = objects S" by simp_all
  from assms show ?thesis unfolding process_ok_def only_adds_shared_def new by blast
qed

lemma process_inv_adds:
  assumes "process_inv (S, d)" "world_ok w" "hosts_up w" "only_adds_shared (sys_world S) w"
    and "pred_option (\<lambda>d. session_well d w) d'"
  shows "process_inv (S\<lparr>sys_world := w\<rparr>, d')"
  using assms process_ok_adds [of S w] by (simp add: process_inv_def)

lemma process_inv_servers:
  assumes "process_inv (S, d)" shows "process_inv (S\<lparr>sys_world := sys_world S\<lparr>servers := s\<rparr>\<rparr>, d)"
  using assms by (intro process_inv_adds [OF assms])
    (auto simp: process_inv_def session_well_def intro: only_adds_shared_cong)

section \<open>The functions of the session handler\<close>

text \<open>
  An open session has a structure; each function then changes at most the servers.
\<close>

definition servers_only :: "('r \<times> 's world) option \<Rightarrow> 's world \<Rightarrow> bool" where
  "servers_only r w \<longleftrightarrow> (\<exists>x s. r = Some (x, w\<lparr>servers := s\<rparr>))"

lemma servers_onlyI [intro]: "servers_only (Some (x, w)) w" "servers_only (Some (x, w\<lparr>servers := s\<rparr>)) w"
  by (auto simp: servers_only_def intro: exI [of _ "servers w"])

lemma servers_only_Some: "servers_only r w \<Longrightarrow> r \<noteq> None"
  by (auto simp: servers_only_def)

lemma with_session_cases:
  assumes "pred_option (\<lambda>d. session_well d w) d" "world_ok w"
  shows "with_session E d sid w failure k = Some (failure, w) \<or>
    (\<exists>cfg key. with_session E d sid w failure k = k cfg key)"
proof (cases d)
  case (Some x)
  with assms(1) obtain a obj where "ses_client x = Some obj" "obj_client obj = Some a" "a \<in> shared w"
    by (auto simp: session_well_def)
  moreover from this assms(2) obtain cfg where "heap w a = Some cfg" by (auto dest: shared_allocated)
  ultimately show ?thesis using Some by (auto simp: with_session_def split: option.split)
qed (simp add: with_session_def)

lemma with_session_servers:
  assumes "pred_option (\<lambda>d. session_well d w) d" "world_ok w" "\<And>cfg key. servers_only (k cfg key) w"
  shows "servers_only (with_session E d sid w failure k) w"
  using with_session_cases [OF assms(1,2), of E sid failure k] assms(3) by auto

lemmas session_function_defs = ps_write_def ps_destroy_def ps_validate_sid_def aerospike_session_exists_def
  ps_update_timestamp_def

lemma session_functions_run:
  assumes d: "pred_option (\<lambda>d. session_well d w) d" "world_ok w"
  shows "servers_only (ps_write E V d sid val maxlifetime w) w"
    and "servers_only (ps_destroy E V d sid w) w"
    and "servers_only (ps_validate_sid E V d sid w) w"
    and "servers_only (aerospike_session_exists E V d sid w) w"
    and "servers_only (ps_update_timestamp E V d sid maxlifetime w) w"
  unfolding session_function_defs
  by (intro with_session_servers [OF d]; auto split: option.split prod.split)+

text \<open>Reading relies on the client, which gives the record it reports.\<close>

definition gives_records :: "('s, 'z) session_env_scheme \<Rightarrow> bool" where
  "gives_records V \<longleftrightarrow>
     (\<forall>cfg k s. code (fst (default_get V cfg k s)) = AEROSPIKE_OK \<longrightarrow> fst (snd (default_get V cfg k s)) \<noteq> None)"

lemma ps_read_outcome:
  assumes "pred_option (\<lambda>d. session_well d w) d" "world_ok w"
  shows "servers_only (ps_read E V d sid w) w \<or> ps_read E V d sid w = None \<and> \<not> gives_records V"
proof -
  let ?k = "\<lambda>cfg read_key. case default_get V cfg read_key (servers w) of (err, rec, s) \<Rightarrow>
     (let w = w\<lparr>servers := s\<rparr> in
      if code err = AEROSPIKE_ERR_RECORD_NOT_FOUND then Some ((True, Some []), w)
      else if code err \<noteq> AEROSPIKE_OK then Some ((False, None), w)
      else (case rec of None \<Rightarrow> None
            | Some r \<Rightarrow> (case record_get V r AEROSPIKE_SESSION_BIN of None \<Rightarrow> Some ((False, None), w)
                        | Some v \<Rightarrow> Some (session_value v, w))))"
  have "servers_only (?k cfg key) w \<or> ?k cfg key = None \<and> \<not> gives_records V" for cfg key
  proof (cases "default_get V cfg key (servers w)")
    case (fields err rec s)
    have "code err = AEROSPIKE_OK \<and> rec = None \<Longrightarrow> \<not> gives_records V"
      using fields unfolding gives_records_def by (metis fst_conv snd_conv)
    with fields show ?thesis by (cases rec) (auto simp: Let_def split: option.split)
  qed
  with with_session_cases [OF assms, of E sid "(False, None)" ?k] show ?thesis
    unfolding ps_read_def by (elim disjE exE) auto
qed

lemma create_sid_loop_runs:
  "pred_option (\<lambda>d. session_well d w) d \<Longrightarrow> world_ok w \<Longrightarrow> servers_only (create_sid_loop E V d n w) w"
proof (induction n arbitrary: w)
  case 0
  then show ?case by auto
next
  case (Suc n)
  have well: "pred_option (\<lambda>d. session_well d (w\<lparr>servers := s\<rparr>)) d" "world_ok (w\<lparr>servers := s\<rparr>)" for s
    using Suc.prems by (simp_all add: session_well_def)
  obtain new s where c: "session_create_id V (servers w) = (new, s)" by fastforce
  have again: "servers_only (create_sid_loop E V d n (w\<lparr>servers := t\<rparr>)) w" for t
    using Suc.IH [OF well, of t] by (auto simp: servers_only_def)
  show ?case
  proof (cases new)
    case None
    with c again show ?thesis by simp
  next
    case (Some sid)
    from session_functions_run(4) [OF well, of E V sid s] obtain used t where
      "aerospike_session_exists E V d sid (w\<lparr>servers := s\<rparr>) = Some (used, w\<lparr>servers := t\<rparr>)"
      by (auto simp: servers_only_def)
    with c Some again show ?thesis by (cases used) auto
  qed
qed

lemma ps_create_sid_runs:
  "pred_option (\<lambda>d. session_well d w) d \<Longrightarrow> world_ok w \<Longrightarrow> servers_only (ps_create_sid E V d w) w"
  using create_sid_loop_runs [of w d E V 5] by (auto simp: ps_create_sid_def)

section \<open>Every step keeps the invariant\<close>

lemma connecting_shared:
  "made w persistent st obj' w' \<Longrightarrow> shared w \<subseteq> shared w'"
  by (auto simp: made_def alone_def only_adds_shared_def split: if_splits)

lemma process_inv_construct:
  assumes inv: "process_inv (S, d)" and obj: "objects S j = Some obj"
    and c: "construct_method L V i args obj (sys_world S) = Some (st, t, obj', w)"
  shows "process_inv (put_object j obj' w S, d)"
proof -
  note D = process_invD [OF inv]
  have "process_ok (put_object j obj' w S)"
    using construct_ok [OF D(2), of L V i args obj] c process_ok_construct [OF D(1) obj]
    by (auto simp: put_object_def)
  moreover have "hosts_up w \<and> shared (sys_world S) \<subseteq> shared w"
    using construct_cases [OF c] D(3) connecting_makes [OF D(2,3)] connecting_shared
    by (fastforce simp: not_made_def made_def)
  ultimately show ?thesis
    using session_well_mono [OF _ D(4), of w] by (simp add: process_inv_def put_object_def)
qed

lemma after_method_plist: "after_method c s obj w = (obj', w') \<Longrightarrow> plist w' = plist w"
  by (auto simp: after_method_def split: option.splits)

lemma free_plist: "aerospike_object_free_storage V obj w = Some (obj', w') \<Longrightarrow> plist w' = plist w"
  by (auto simp: aerospike_object_free_storage_def close_at_def destroy_def split: option.splits if_splits)

lemma process_inv_ran:
  "process_inv (S, d) \<Longrightarrow> servers_only r (sys_world S) \<Longrightarrow> r = Some (x, w) \<Longrightarrow>
     process_inv (S\<lparr>sys_world := w\<rparr>, d)"
  by (auto simp: servers_only_def intro: process_inv_servers)

lemma process_inv_step:
  "process_step C L E F V A U W P P' \<Longrightarrow> process_inv P \<Longrightarrow> process_inv P'"
proof (induction rule: process_step.induct)
  case (create_object S j d)
  have "S\<lparr>objects := (objects S)(j \<mapsto> aerospike_create_object)\<rparr> = put_object j aerospike_create_object (sys_world S) S"
    by (simp add: put_object_def)
  with process_ok_create [OF process_invD(1) [OF create_object(2)] create_object(1)]
  show ?case by (intro process_inv_plist [OF create_object(2)]) (simp_all add: put_object_def)
next
  case (construct_object S j obj i args st t obj' w d)
  then show ?case by (intro process_inv_construct)
next
  case (call_method S j obj c c' s' obj' w d)
  have "process_ok (put_object j obj' w S)"
    unfolding put_object_def
    by (rule process_ok_same [OF process_invD(1) [OF call_method(5)] call_method(1,2)
          any_method_same [OF call_method(3)] call_method(4)])
  with process_inv_plist [OF call_method(5) this] after_method_plist [OF call_method(4)]
  show ?case by (simp add: put_object_def)
next
  case (destruct_object S j obj w d)
  from process_ok_destruct(1) [OF process_invD(1) [OF destruct_object(3)] destruct_object(1), of V]
  obtain s where "w = sys_world S\<lparr>servers := s\<rparr>" using destruct_object(2) by auto
  with process_inv_servers [OF destruct_object(3)] show ?case by simp
next
  case (free_object S j obj obj' w d)
  with process_inv_plist [OF free_object(3) process_ok_free(2) [OF process_invD(1) [OF free_object(3)] free_object(1,2)]]
  show ?case by (simp add: free_plist)
next
  case (open_session i path d S ok d' w)
  note D = process_invD [OF open_session(2)]
  from ps_open_outcome [OF D(2,3), of L W i path d] open_session(1)
  have w: "world_ok w" "hosts_up w" "only_adds_shared (sys_world S) w"
    and d': "if ok then \<exists>d. d' = Some d \<and> session_well d w else d' = d"
    by (auto split: if_splits)
  have "pred_option (\<lambda>d. session_well d w) d'"
    using d' session_well_mono [OF _ D(4), of w] w(3) by (auto simp: only_adds_shared_def split: if_splits)
  with process_inv_adds [OF open_session(2) w] show ?case .
next
  case (close_session d S ok d' w)
  then show ?case by (auto simp: ps_close_def process_inv_def)
next
  case (write_session d sid val maxlifetime S ok w)
  from process_inv_ran [OF write_session(2) session_functions_run(1) [OF process_invD(4,2) [OF write_session(2)]] write_session(1)]
  show ?case .
next
  case (destroy_session d sid S ok w)
  from process_inv_ran [OF destroy_session(2) session_functions_run(2) [OF process_invD(4,2) [OF destroy_session(2)]] destroy_session(1)]
  show ?case .
next
  case (read_session d sid S r w)
  have "servers_only (ps_read L W d sid (sys_world S)) (sys_world S)"
    using ps_read_outcome [OF process_invD(4,2) [OF read_session(2)], of L W sid] read_session(1) by simp
  from process_inv_ran [OF read_session(2) this read_session(1)] show ?case .
next
  case (validate_session d sid S ok w)
  from process_inv_ran [OF validate_session(2) session_functions_run(3) [OF process_invD(4,2) [OF validate_session(2)]] validate_session(1)]
  show ?case .
next
  case (create_session_id d S new_sid w)
  from process_inv_ran [OF create_session_id(2) ps_create_sid_runs [OF process_invD(4,2) [OF create_session_id(2)]] create_session_id(1)]
  show ?case .
next
  case (touch_session d sid maxlifetime S ok w)
  from process_inv_ran [OF touch_session(2) session_functions_run(5) [OF process_invD(4,2) [OF touch_session(2)]] touch_session(1)]
  show ?case .
qed

lemma process_reachable_inv: "process_reachable C L E F V A U W P \<Longrightarrow> process_inv P"
proof (induction rule: process_reachable.induct)
  case (start s)
  have "process_ok (sys_init s)" by (rule process_ok_init)
  then show ?case by (simp add: process_inv_def hosts_up_def sys_init_def)
next
  case (step P P')
  then show ?case by (blast intro: process_inv_step)
qed

section \<open>The operations in a reachable state\<close>

lemma object_operations_run:
  assumes ok: "process_ok S" and obj: "objects S j = Some obj"
  shows "construct_method L V i args obj (sys_world S) \<noteq> None \<and> client_view obj (sys_world S) \<noteq> None \<and>
    aerospike_object_destructor V obj (sys_world S) \<noteq> None \<and>
    aerospike_object_free_storage V obj (sys_world S) \<noteq> None \<and>
    (\<forall>a k ob. obj_client obj = Some a \<and> \<not> obj_is_persistent obj \<and> objects S k = Some ob \<and>
       obj_client ob = Some a \<longrightarrow> k = j)"
proof (intro conjI)
  show "construct_method L V i args obj (sys_world S) \<noteq> None"
    using construct_ok [OF process_ok_world [OF ok], of L V i args obj] by auto
  show "client_view obj (sys_world S) \<noteq> None"
    using process_okD(1) [OF ok obj] by (cases "obj_client obj") (auto simp: client_view_def Let_def)
  show "aerospike_object_destructor V obj (sys_world S) \<noteq> None"
    using process_ok_destruct(1) [OF ok obj, of V] by auto
  show "aerospike_object_free_storage V obj (sys_world S) \<noteq> None"
    using process_ok_free(1) [OF ok obj, of V] by auto
qed (use process_okD(3) [OF ok obj] in blast)

lemma session_operations_run:
  assumes inv: "process_inv (S, d)"
  shows "ps_open L W i path (d, sys_world S) \<noteq> None \<and>
    ps_write L W d sid val maxlifetime (sys_world S) \<noteq> None \<and>
    ps_destroy L W d sid (sys_world S) \<noteq> None \<and>
    ps_validate_sid L W d sid (sys_world S) \<noteq> None \<and>
    ps_create_sid L W d (sys_world S) \<noteq> None \<and>
    ps_update_timestamp L W d sid maxlifetime (sys_world S) \<noteq> None \<and>
    (gives_records W \<longrightarrow> ps_read L W d sid (sys_world S) \<noteq> None)"
proof -
  note D = process_invD [OF inv]
  have "gives_records W \<longrightarrow> ps_read L W d sid (sys_world S) \<noteq> None"
    using ps_read_outcome [OF D(4,2), of L W sid] servers_only_Some by blast
  moreover have "ps_open L W i path (d, sys_world S) \<noteq> None"
    using ps_open_outcome [OF D(2,3), of L W i path d] by auto
  ultimately show ?thesis
    by (simp add: session_functions_run [OF D(4,2), THEN servers_only_Some, simplified]
        ps_create_sid_runs [OF D(4,2), THEN servers_only_Some, simplified])
qed

section \<open>The end of a process\<close>

text \<open>The structures only their object has: it frees them.\<close>

definition owned_by :: "'s sys \<Rightarrow> nat set \<Rightarrow> nat set" where
  "owned_by S J = {a. \<exists>j \<in> J. \<exists>obj. objects S j = Some obj \<and> obj_client obj = Some a \<and>
     obj_is_valid obj \<and> \<not> obj_is_persistent obj}"

abbreviation owned :: "'s sys \<Rightarrow> nat set" where "owned S \<equiv> owned_by S UNIV"

lemma destruct_all_runs:
  "process_ok S \<Longrightarrow> \<exists>s. destruct_all V js S = Some (S\<lparr>sys_world := sys_world S\<lparr>servers := s\<rparr>\<rparr>)"
proof (induction js arbitrary: S)
  case Nil
  have "S\<lparr>sys_world := sys_world S\<lparr>servers := servers (sys_world S)\<rparr>\<rparr> = S" by simp
  then show ?case by (metis destruct_all.simps(1))
next
  case (Cons j js)
  show ?case
  proof (cases "objects S j")
    case None
    with Cons show ?thesis by simp
  next
    case (Some obj)
    from process_ok_destruct(1) [OF Cons.prems Some, of V] obtain s where
      s: "aerospike_object_destructor V obj (sys_world S) = Some (sys_world S\<lparr>servers := s\<rparr>)" by blast
    from Cons.IH [OF process_ok_destruct(2) [OF Cons.prems Some, of s]] s Some show ?thesis by auto
  qed
qed

lemma free_world:
  assumes ok: "process_ok S" and obj: "objects S j = Some obj"
    and free: "aerospike_object_free_storage V obj (sys_world S) = Some (obj', w)"
  shows "dom (heap w) = dom (heap (sys_world S)) - owned_by S {j}" and "plist w = plist (sys_world S)"
proof -
  let ?w = "sys_world S"
  show "plist w = plist ?w" using free by (rule free_plist)
  show "dom (heap w) = dom (heap ?w) - owned_by S {j}"
  proof (cases "\<exists>a. obj_client obj = Some a \<and> obj_is_valid obj \<and> \<not> obj_is_persistent obj")
    case False
    with free have "w = ?w" by (auto simp: aerospike_object_free_storage_def split: option.splits if_splits)
    with False obj show ?thesis by (auto simp: owned_by_def)
  next
    case True
    then obtain a where a: "obj_client obj = Some a" "obj_is_valid obj" "\<not> obj_is_persistent obj" by blast
    from close_at_cases [OF process_okD(1) [OF ok obj a(1)], of V] obtain s where
      "close_at V a ?w = Some (?w\<lparr>servers := s\<rparr>)" by blast
    with free a have "w = destroy a (?w\<lparr>servers := s\<rparr>)" by (simp add: aerospike_object_free_storage_def)
    moreover have "owned_by S {j} = {a}" using a obj by (simp add: owned_by_def)
    ultimately show ?thesis by simp
  qed
qed

lemma free_all_runs:
  "process_ok S \<Longrightarrow> \<exists>S'. free_all V js S = Some S' \<and> process_ok S' \<and> objects S' = (objects S) |` (- set js) \<and>
     plist (sys_world S') = plist (sys_world S) \<and>
     dom (heap (sys_world S')) = dom (heap (sys_world S)) - owned_by S (set js)"
proof (induction js arbitrary: S)
  case Nil
  then show ?case by (simp add: owned_by_def)
next
  case (Cons j js)
  show ?case
  proof (cases "objects S j")
    case None
    then have "owned_by S (set (j # js)) = owned_by S (set js)" by (auto simp: owned_by_def)
    moreover have "(objects S) |` (- set (j # js)) = (objects S) |` (- set js)"
      using None by (auto simp: restrict_map_def fun_eq_iff)
    ultimately show ?thesis using Cons None by simp
  next
    case (Some obj)
    obtain obj' w where f: "aerospike_object_free_storage V obj (sys_world S) = Some (obj', w)"
      using process_ok_free(1) [OF Cons.prems Some] by blast
    let ?S = "\<lparr>objects = (objects S)(j := None), sys_world = w\<rparr>"
    note w = free_world [OF Cons.prems Some f]
    have "owned_by S (set (j # js)) = owned_by S {j} \<union> owned_by ?S (set js)"
      by (auto simp: owned_by_def)
    moreover obtain S' where S': "free_all V js ?S = Some S'" "process_ok S'" "objects S' = objects ?S |` (- set js)"
      "plist (sys_world S') = plist (sys_world ?S)"
      "dom (heap (sys_world S')) = dom (heap (sys_world ?S)) - owned_by ?S (set js)"
      using Cons.IH [OF process_ok_free(2) [OF Cons.prems Some f]] by blast
    moreover have "objects S' = (objects S) |` (- set (j # js))"
      unfolding S'(3) by (auto simp: restrict_map_def fun_eq_iff)
    ultimately show ?thesis using Some f w by (simp add: Diff_Un Diff_eq Int_ac)
  qed
qed

lemma process_end_runs:
  assumes inv: "process_inv (S, d)" and js: "dom (objects S) \<subseteq> set js"
  shows "\<exists>S'. process_end V js S = Some S' \<and> objects S' = Map.empty \<and> plist (sys_world S') = [] \<and>
    dom (heap (sys_world S')) = dom (heap (sys_world S)) - shared (sys_world S) - owned S"
proof -
  note ok = process_invD(1) [OF inv]
  obtain s where 1: "destruct_all V js S = Some (S\<lparr>sys_world := sys_world S\<lparr>servers := s\<rparr>\<rparr>)"
    using destruct_all_runs [OF ok] by blast
  let ?S = "S\<lparr>sys_world := sys_world S\<lparr>servers := s\<rparr>\<rparr>"
  have ok': "process_ok ?S"
    using process_invD(1) [OF process_inv_servers [OF inv]] .
  obtain S2 where 2: "free_all V js ?S = Some S2" "process_ok S2" "objects S2 = objects ?S |` (- set js)"
    "plist (sys_world S2) = plist (sys_world ?S)"
    "dom (heap (sys_world S2)) = dom (heap (sys_world ?S)) - owned_by ?S (set js)"
    using free_all_runs [OF ok'] by blast
  have own: "owned_by ?S (set js) = owned S" using js by (auto simp: owned_by_def)
  have none: "objects S2 = Map.empty"
    unfolding 2(3) using js by (auto simp: restrict_map_def fun_eq_iff)
  let ?w = "sys_world S2"
  have "distinct (map (host_client \<circ> snd) (plist ?w))" "host_client ` snd ` set (plist ?w) \<subseteq> dom (heap ?w)"
    using process_ok_world [OF 2(2)] by (simp_all add: world_ok_def shared_def)
  from persistent_list_destroy_ok [OF this, of V] obtain w' where
    3: "persistent_list_destroy V (plist ?w) ?w = Some w'" "plist w' = []"
      "dom (heap w') = dom (heap ?w) - shared ?w" by (auto simp: shared_def)
  have "shared ?w = shared (sys_world S)" using 2(4) by (simp add: shared_def)
  with 1 2 3 own none show ?thesis
    by (auto simp: process_end_def PHP_GSHUTDOWN_def)
qed

lemma finite_objects: "process_reachable C L E F V A U W P \<Longrightarrow> finite (dom (objects (fst P)))"
proof (induction rule: process_reachable.induct)
  case (start s)
  then show ?case by (simp add: sys_init_def)
next
  case (step P P')
  from step(2,3) show ?case
    by (induction rule: process_step.induct) (simp_all add: put_object_def)
qed

section \<open>A process that loses no structure\<close>

text \<open>Every structure is shared or is freed by the object that has it.\<close>

definition accounted :: "'s sys \<Rightarrow> bool" where
  "accounted S \<longleftrightarrow> dom (heap (sys_world S)) \<subseteq> shared (sys_world S) \<union> owned S"

lemma accounted_world:
  "accounted (S\<lparr>sys_world := w\<rparr>) \<longleftrightarrow> dom (heap w) \<subseteq> shared w \<union> owned S"
  by (simp add: accounted_def owned_by_def)

lemma accounted_adds:
  "accounted S \<Longrightarrow> only_adds_shared (sys_world S) w \<Longrightarrow> accounted (S\<lparr>sys_world := w\<rparr>)"
  unfolding accounted_world unfolding accounted_def only_adds_shared_def by blast

lemma accounted_ran:
  "accounted S \<Longrightarrow> servers_only r (sys_world S) \<Longrightarrow> r = Some (x, w) \<Longrightarrow> accounted (S\<lparr>sys_world := w\<rparr>)"
  by (auto simp: servers_only_def intro!: accounted_adds only_adds_shared_cong(1))

lemma owned_put:
  "owned (put_object j obj w S) = owned_by S (- {j}) \<union>
     (if obj_is_valid obj \<and> \<not> obj_is_persistent obj then set_option (obj_client obj) else {})"
  by (auto simp: owned_by_def put_object_def)

lemma accounted_put:
  "accounted (put_object j obj w S) \<longleftrightarrow> dom (heap w) \<subseteq> shared w \<union> (owned_by S (- {j}) \<union>
     (if obj_is_valid obj \<and> \<not> obj_is_persistent obj then set_option (obj_client obj) else {}))"
  unfolding accounted_def owned_put by (simp add: put_object_def)

lemma owned_without: "owned S = owned_by S (- {j}) \<union> owned_by S {j}"
  by (auto simp: owned_by_def)

lemma accounted_construct:
  assumes inv: "process_inv (S, d)" and acc: "accounted S" and obj: "objects S j = Some obj"
    and c: "construct_method L V i args obj (sys_world S) = Some (st, t, obj', w)" and good: "orderly obj st obj'"
  shows "accounted (put_object j obj' w S)"
proof -
  let ?w = "sys_world S"
  have "owned_by S {j} = {}" using obj good by (simp add: owned_by_def orderly_def)
  with owned_without [of S j] acc have before: "dom (heap ?w) \<subseteq> shared ?w \<union> owned_by S (- {j})"
    by (simp add: accounted_def)
  from construct_cases [OF c] show ?thesis
  proof (elim disjE exE conjE)
    assume "not_made obj ?w st obj' w"
    then have "w = ?w" by (simp add: not_made_def)
    with before show ?thesis unfolding accounted_put by auto
  next
    fix z_config persistent z_options
    assume "connecting V ?w persistent st obj' w"
    note m = connecting_makes [OF process_invD(2,3) [OF inv] this]
    show ?thesis
    proof (cases "persistent \<and> st = AEROSPIKE_OK")
      case True
      with m have "only_adds_shared ?w w" by (simp add: made_def)
      with before have "dom (heap w) \<subseteq> shared w \<union> owned_by S (- {j})"
        unfolding only_adds_shared_def by blast
      then show ?thesis unfolding accounted_put by blast
    next
      case False
      with m have a: "alone ?w obj' w" "obj_is_valid obj'" "obj_is_persistent obj' = persistent"
        by (auto simp: made_def)
      with False good have "\<not> obj_is_persistent obj'" by (auto simp: orderly_def alone_def)
      with a before show ?thesis
        unfolding accounted_put alone_def by auto
    qed
  qed
qed

lemma accounted_step:
  "process_step orderly L E F V A U W P P' \<Longrightarrow> process_inv P \<Longrightarrow> accounted (fst P) \<Longrightarrow> accounted (fst P')"
proof (induction rule: process_step.induct)
  case (create_object S j d)
  have "owned_by S {j} = {}" using create_object by (simp add: owned_by_def)
  with create_object(3) owned_without [of S j] show ?case
    unfolding fst_conv accounted_put by (auto simp: accounted_def)
next
  case (construct_object S j obj i args st t obj' w d)
  then show ?case by (simp add: accounted_construct)
next
  case (call_method S j obj c c' s' obj' w d)
  note same = after_method_keeps [OF call_method(2) any_method_same [OF call_method(3)]
      process_invD(2) [OF call_method(5)] call_method(4)]
  have "obj_is_valid obj' = obj_is_valid obj" using call_method(4) by (auto simp: after_method_def)
  with same call_method(1) have "owned (put_object j obj' w S) = owned S"
    unfolding owned_put owned_without [of S j] by (auto simp: owned_by_def)
  with call_method(6) same show ?case by (simp add: accounted_def put_object_def)
next
  case (destruct_object S j obj w d)
  from process_ok_destruct(1) [OF process_invD(1) [OF destruct_object(3)] destruct_object(1), of V]
  obtain s where "w = sys_world S\<lparr>servers := s\<rparr>" using destruct_object(2) by auto
  with destruct_object(4) show ?case by (simp add: accounted_adds only_adds_shared_cong(1))
next
  case (free_object S j obj obj' w d)
  note w = free_world [OF process_invD(1) [OF free_object(3)] free_object(1,2)]
  have "owned \<lparr>objects = (objects S)(j := None), sys_world = w\<rparr> = owned_by S (- {j})"
    by (auto simp: owned_by_def)
  with w free_object(4) owned_without [of S j] shared_plist [OF w(2)] show ?case
    by (auto simp: accounted_def)
next
  case (open_session i path d S ok d' w)
  from ps_open_outcome [OF process_invD(2,3) [OF open_session(2)], of L W i path d] open_session(1,3)
  show ?case by (auto intro: accounted_adds)
next
  case (close_session d S ok d' w)
  then show ?case by (auto simp: ps_close_def accounted_world accounted_def)
next
  case (write_session d sid val maxlifetime S ok w)
  from accounted_ran [OF _ session_functions_run(1) [OF process_invD(4,2) [OF write_session(2)]] write_session(1)]
    write_session(3) show ?case by simp
next
  case (destroy_session d sid S ok w)
  from accounted_ran [OF _ session_functions_run(2) [OF process_invD(4,2) [OF destroy_session(2)]] destroy_session(1)]
    destroy_session(3) show ?case by simp
next
  case (read_session d sid S r w)
  have "servers_only (ps_read L W d sid (sys_world S)) (sys_world S)"
    using ps_read_outcome [OF process_invD(4,2) [OF read_session(2)], of L W sid] read_session(1) by simp
  from accounted_ran [OF _ this read_session(1)] read_session(3) show ?case by simp
next
  case (validate_session d sid S ok w)
  from accounted_ran [OF _ session_functions_run(3) [OF process_invD(4,2) [OF validate_session(2)]] validate_session(1)]
    validate_session(3) show ?case by simp
next
  case (create_session_id d S new_sid w)
  from accounted_ran [OF _ ps_create_sid_runs [OF process_invD(4,2) [OF create_session_id(2)]] create_session_id(1)]
    create_session_id(3) show ?case by simp
next
  case (touch_session d sid maxlifetime S ok w)
  from accounted_ran [OF _ session_functions_run(5) [OF process_invD(4,2) [OF touch_session(2)]] touch_session(1)]
    touch_session(3) show ?case by simp
qed

lemma reachable_accounted:
  "process_reachable orderly L E F V A U W P \<Longrightarrow> accounted (fst P)"
proof (induction rule: process_reachable.induct)
  case (start s)
  then show ?case by (simp add: accounted_def sys_init_def)
next
  case (step P P')
  then show ?case by (blast intro: accounted_step process_reachable_inv)
qed


end
