(* ===== verification/SharedStore.thy ===== *)
theory SharedStore
  imports KeyValueStore ProcessProps
begin

text \<open>
  The key-value methods of all the objects of a process together: whichever objects the calls go
  to, whether they share a connection or have their own, they are calls of one store.
\<close>

section \<open>Calls on the objects of a process\<close>


text \<open>An object whose structure is there and which is connected to servers that work.\<close>

definition ready ::
  "('s, 'z) env_scheme \<Rightarrow> ('s \<Rightarrow> as_key \<Rightarrow> (string \<times> as_val) list option) \<Rightarrow> 's sys \<Rightarrow> nat \<Rightarrow> bool" where
  "ready V recs S j \<longleftrightarrow>
     (\<exists>obj a cfg. objects S j = Some obj \<and> obj_client obj = Some a \<and> obj_is_valid obj \<and> obj_is_connected obj \<and>
        heap (sys_world S) a = Some cfg \<and> store_api V cfg recs)"





text \<open>The objects of a process become ready by their construction.\<close>

lemma construct_connects:
  "construct_method L V i args obj w = Some (AEROSPIKE_OK, t, obj', w') \<Longrightarrow> obj_is_connected obj'"
  by (auto simp: construct_method_def Let_def split: option.splits sum.splits prod.splits if_splits)

lemma constructed_object_ready:
  assumes "process_inv (S, d)" and "objects S j = Some obj" and "\<And>cfg. store_api V cfg recs"
    and "construct_method L V i args obj (sys_world S) = Some (AEROSPIKE_OK, t, obj', w)"
  shows "ready V recs (put_object j obj' w S) j"
proof -
  note D = process_invD [OF assms(1)]
  obtain persistent where "made (sys_world S) persistent AEROSPIKE_OK obj' w"
    using construct_cases [OF assms(4)] by (auto simp: not_made_def dest: connecting_makes [OF D(2,3)])
  then obtain a where "obj_client obj' = Some a" "obj_is_valid obj'"
    by (auto simp: made_def alone_def split: if_splits)
  moreover from this process_okD(1) [OF process_invD(1) [OF process_inv_construct [OF assms(1,2,4)]], of j obj' a]
  obtain cfg where "heap w a = Some cfg" by (auto simp: put_object_def)
  ultimately show ?thesis
    using construct_connects [OF assms(4)] assms(3) by (auto simp: ready_def put_object_def)
qed

section \<open>An application\<close>





end
