(* ===== verification/IdleMethods.thy ===== *)
theory IdleMethods
  imports AllMethods
begin

text \<open>
  A client that is closed, invalid or was never connected: which methods still reach the servers.
\<close>

section \<open>The methods that check\<close>

abbreviation idle :: "'s \<Rightarrow> (as_status \<times> zval option \<times> client \<times> 's) option \<Rightarrow> bool" where
  "idle s r \<equiv> pred_option (\<lambda>(st, out, c', s'). s' = s) r"

abbreviation idle_result :: "'s \<Rightarrow> as_status \<times> zval option \<times> client \<times> 's \<Rightarrow> bool" where
  "idle_result s r \<equiv> snd (snd (snd r)) = s"

lemma list_method_idle:
  "\<not> usable c \<Longrightarrow> idle s (list_method E V m out_bin out_setup body c args s)"
  by (auto simp: list_method_def VALIDATE_CLIENT_AND_CONNECTION_def usable_def Let_def split: option.split)

lemma admin_method_idle:
  "\<not> usable c \<Longrightarrow> idle_result s (admin_method late forget m body c args s)"
  by (simp add: admin_method_def admin_cleanup_def Let_def case_prod_unfold)

lemma operate_guards_idle:
  "\<not> usable c \<Longrightarrow> idle s (operate_guards E c z_key rv s k)"
  by (auto simp: operate_guards_def usable_def Let_def split: option.split)

lemma listAppend_idle: "\<not> usable c \<Longrightarrow> idle s (listAppend_method E V c args s)"
  unfolding listAppend_method_def by (rule list_method_idle)

lemma listMerge_idle: "\<not> usable c \<Longrightarrow> idle s (listMerge_method E V c args s)"
  unfolding listMerge_method_def by (rule list_method_idle)

lemma listInsert_idle: "\<not> usable c \<Longrightarrow> idle s (listInsert_method E V c args s)"
  unfolding listInsert_method_def by (rule list_method_idle)

lemma listInsertItems_idle: "\<not> usable c \<Longrightarrow> idle s (listInsertItems_method E V c args s)"
  unfolding listInsertItems_method_def by (rule list_method_idle)

lemma listSet_idle: "\<not> usable c \<Longrightarrow> idle s (listSet_method E V c args s)"
  unfolding listSet_method_def by (rule list_method_idle)

lemma listRemove_idle: "\<not> usable c \<Longrightarrow> idle s (listRemove_method E V c args s)"
  unfolding listRemove_method_def by (rule list_method_idle)

lemma listRemoveRange_idle: "\<not> usable c \<Longrightarrow> idle s (listRemoveRange_method E V c args s)"
  unfolding listRemoveRange_method_def by (rule list_method_idle)

lemma listTrim_idle: "\<not> usable c \<Longrightarrow> idle s (listTrim_method E V c args s)"
  unfolding listTrim_method_def by (rule list_method_idle)

lemma listClear_idle: "\<not> usable c \<Longrightarrow> idle s (listClear_method E V c args s)"
  unfolding listClear_method_def by (rule list_method_idle)

lemma listSize_idle: "\<not> usable c \<Longrightarrow> idle s (listSize_method E V c args s)"
  unfolding listSize_method_def by (rule list_method_idle)

lemma listPop_idle: "\<not> usable c \<Longrightarrow> idle s (listPop_method E V c args s)"
  unfolding listPop_method_def by (rule list_method_idle)

lemma listPopRange_idle: "\<not> usable c \<Longrightarrow> idle s (listPopRange_method E V c args s)"
  unfolding listPopRange_method_def by (rule list_method_idle)

lemma listGet_idle: "\<not> usable c \<Longrightarrow> idle s (listGet_method E V c args s)"
  unfolding listGet_method_def by (rule list_method_idle)

lemma listGetRange_idle: "\<not> usable c \<Longrightarrow> idle s (listGetRange_method E V c args s)"
  unfolding listGetRange_method_def by (rule list_method_idle)

lemma createRole_idle: "\<not> usable c \<Longrightarrow> idle_result s (createRole_method E V c args s)"
  unfolding createRole_method_def by (rule admin_method_idle)

lemma queryRole_idle: "\<not> usable c \<Longrightarrow> idle_result s (queryRole_method E V c args s)"
  unfolding queryRole_method_def by (rule admin_method_idle)

lemma queryRoles_idle: "\<not> usable c \<Longrightarrow> idle_result s (queryRoles_method E V c args s)"
  unfolding queryRoles_method_def by (rule admin_method_idle)

lemma dropRole_idle: "\<not> usable c \<Longrightarrow> idle_result s (dropRole_method V c args s)"
  unfolding dropRole_method_def by (rule admin_method_idle)

lemma grantPrivileges_idle: "\<not> usable c \<Longrightarrow> idle_result s (grantPrivileges_method E V c args s)"
  unfolding grantPrivileges_method_def by (rule admin_method_idle)

lemma revokePrivileges_idle: "\<not> usable c \<Longrightarrow> idle_result s (revokePrivileges_method E V c args s)"
  unfolding revokePrivileges_method_def by (rule admin_method_idle)

lemma createUser_idle: "\<not> usable c \<Longrightarrow> idle_result s (createUser_method V c args s)"
  unfolding createUser_method_def by (rule admin_method_idle)

lemma changePassword_idle: "\<not> usable c \<Longrightarrow> idle_result s (changePassword_method V c args s)"
  unfolding changePassword_method_def by (rule admin_method_idle)

lemma setPassword_idle: "\<not> usable c \<Longrightarrow> idle_result s (setPassword_method V c args s)"
  unfolding setPassword_method_def by (rule admin_method_idle)

lemma grantRoles_idle: "\<not> usable c \<Longrightarrow> idle_result s (grantRoles_method V c args s)"
  unfolding grantRoles_method_def by (rule admin_method_idle)

lemma revokeRoles_idle: "\<not> usable c \<Longrightarrow> idle_result s (revokeRoles_method V c args s)"
  unfolding revokeRoles_method_def by (rule admin_method_idle)

lemma queryUser_idle: "\<not> usable c \<Longrightarrow> idle_result s (queryUser_method V c args s)"
  unfolding queryUser_method_def by (rule admin_method_idle)

lemma queryUsers_idle: "\<not> usable c \<Longrightarrow> idle_result s (queryUsers_method E V c args s)"
  unfolding queryUsers_method_def by (rule admin_method_idle)

lemma dropUser_idle: "\<not> usable c \<Longrightarrow> idle_result s (dropUser_method V c args s)"
  unfolding dropUser_method_def by (rule admin_method_idle)

lemma scan_idle: "\<not> usable c \<Longrightarrow> pred_option (\<lambda>(st, c', s'). s' = s) (scan_method z E V c args s)"
  by (simp add: scan_method_def Let_def case_prod_unfold)

lemma scanApply_idle: "\<not> usable c \<Longrightarrow> idle_result s (scanApply_method z E V c args s)"
  by (simp add: scanApply_method_def Let_def case_prod_unfold)

lemma apply_idle: "\<not> usable c \<Longrightarrow> idle s (apply_method E V c args s)"
  by (simp add: apply_method_def Let_def case_prod_unfold)

lemma queryApply_idle: "\<not> usable c \<Longrightarrow> idle_result s (queryApply_method E V c args s)"
  by (simp add: queryApply_method_def Let_def case_prod_unfold)

lemma aggregate_idle: "\<not> usable c \<Longrightarrow> idle_result s (aggregate_method z E V c args s)"
  by (simp add: aggregate_method_def Let_def case_prod_unfold)

lemma jobInfo_idle: "\<not> usable c \<Longrightarrow> idle_result s (jobInfo_method E V c args s)"
  by (simp add: jobInfo_method_def Let_def case_prod_unfold)

lemma scanInfo_idle: "\<not> usable c \<Longrightarrow> idle_result s (scanInfo_method E V c args s)"
  by (simp add: scanInfo_method_def Let_def case_prod_unfold)

lemma getMany_idle: "\<not> usable c \<Longrightarrow> idle_result s (getMany_method E V c args s)"
  by (simp add: getMany_method_def Let_def case_prod_unfold)

lemma existsMany_idle: "\<not> usable c \<Longrightarrow> idle_result s (existsMany_method E V c args s)"
  by (simp add: existsMany_method_def Let_def case_prod_unfold)

lemma info_idle: "\<not> usable c \<Longrightarrow> idle s (info_method V c args s)"
  by (simp add: info_method_def Let_def case_prod_unfold)

lemma infoMany_idle: "\<not> usable c \<Longrightarrow> snd (snd (infoMany_method E V c args s)) = s"
  by (simp add: infoMany_method_def Let_def case_prod_unfold)

lemma addIndex_idle: "\<not> usable c \<Longrightarrow> snd (snd (addIndex_method E V c args s)) = s"
  by (simp add: addIndex_method_def Let_def case_prod_unfold)

lemma dropIndex_idle: "\<not> usable c \<Longrightarrow> snd (snd (dropIndex_method V c args s)) = s"
  by (simp add: dropIndex_method_def Let_def case_prod_unfold)

lemma truncate_idle: "\<not> usable c \<Longrightarrow> snd (snd (truncate_method E V c args s)) = s"
  by (simp add: truncate_method_def Let_def case_prod_unfold)

lemma register_idle: "\<not> usable c \<Longrightarrow> pred_option (\<lambda>(st, c', s', fs'). s' = s) (register_method V c args s fs)"
  by (simp add: register_method_def Let_def case_prod_unfold)

lemma getRegistered_idle: "\<not> usable c \<Longrightarrow> idle_result s (getRegistered_method V c args s)"
  by (simp add: getRegistered_method_def Let_def case_prod_unfold)

lemma deregister_idle: "\<not> usable c \<Longrightarrow> snd (snd (deregister_method V c args s)) = s"
  by (simp add: deregister_method_def Let_def case_prod_unfold)

lemma listRegistered_idle: "\<not> usable c \<Longrightarrow> idle_result s (listRegistered_method E V c args s)"
  by (simp add: listRegistered_method_def Let_def case_prod_unfold)

lemma put_idle: "\<not> usable c \<Longrightarrow> pred_option (\<lambda>(st, c', s'). s' = s) (put_method E V c args s)"
  by (simp add: put_method_def Let_def case_prod_unfold)

lemma exists_idle: "\<not> usable c \<Longrightarrow> idle_result s (exists_method E V c args s)"
  by (simp add: exists_method_def Let_def case_prod_unfold)

lemma remove_idle: "\<not> usable c \<Longrightarrow> pred_option (\<lambda>(st, c', s'). s' = s) (remove_method E V c args s)"
  by (simp add: remove_method_def Let_def case_prod_unfold)

lemma removeBin_idle: "\<not> usable c \<Longrightarrow> pred_option (\<lambda>(st, c', s'). s' = s) (removeBin_method E V c args s)"
  by (simp add: removeBin_method_def Let_def case_prod_unfold)

lemma touch_idle: "\<not> usable c \<Longrightarrow> snd (snd (touch_method E V c args s)) = s"
  by (auto simp: touch_method_def usable_def Let_def split: option.split)

lemma append_idle: "\<not> usable c \<Longrightarrow> snd (snd (append_method E V err c args s)) = s"
  by (simp add: append_method_def Let_def case_prod_unfold)

lemma prepend_idle: "\<not> usable c \<Longrightarrow> snd (snd (prepend_method E V c args s)) = s"
  by (auto simp: prepend_method_def usable_def Let_def split: option.split)

lemma increment_idle: "\<not> usable c \<Longrightarrow> snd (snd (increment_method E V err c args s)) = s"
  by (auto simp: increment_method_def usable_def Let_def split: option.split)

lemma query_idle: "\<not> usable c \<Longrightarrow> snd (snd (query_method F V c args s)) = s"
  by (simp add: query_method_def Let_def case_prod_unfold)

lemma operate_idle: "\<not> usable c \<Longrightarrow> idle s (operate_method E V c args s)"
  by (auto simp: operate_method_def Let_def intro!: operate_guards_idle split: option.split)

lemma operateOrdered_idle: "\<not> usable c \<Longrightarrow> idle s (operateOrdered_method E V c args s)"
  by (auto simp: operateOrdered_method_def Let_def intro!: operate_guards_idle split: option.split)

section \<open>All methods\<close>

lemma idle_cases:
  "idle s x \<Longrightarrow> x = Some (st, out, c', s') \<Longrightarrow> s' = s"
  "idle_result s y \<Longrightarrow> y = (st, out, c', s') \<Longrightarrow> s' = s"
  "snd (snd z) = s \<Longrightarrow> z = (st2, c', s') \<Longrightarrow> s' = s"
  "pred_option (\<lambda>(st, c', s', fs'). s' = s) u \<Longrightarrow> u = Some (st3, c', s', fs') \<Longrightarrow> s' = s"
  "pred_option (\<lambda>(st, c', s'). s' = s) v \<Longrightarrow> v = Some (st4, c', s') \<Longrightarrow> s' = s"
  by auto

lemmas methods_idle =
  listAppend_idle [THEN idle_cases(1)]
  listMerge_idle [THEN idle_cases(1)]
  listInsert_idle [THEN idle_cases(1)]
  listInsertItems_idle [THEN idle_cases(1)]
  listSet_idle [THEN idle_cases(1)]
  listRemove_idle [THEN idle_cases(1)]
  listRemoveRange_idle [THEN idle_cases(1)]
  listTrim_idle [THEN idle_cases(1)]
  listClear_idle [THEN idle_cases(1)]
  listSize_idle [THEN idle_cases(1)]
  listPop_idle [THEN idle_cases(1)]
  listPopRange_idle [THEN idle_cases(1)]
  listGet_idle [THEN idle_cases(1)]
  listGetRange_idle [THEN idle_cases(1)]
  createRole_idle [THEN idle_cases(2)]
  queryRole_idle [THEN idle_cases(2)]
  queryRoles_idle [THEN idle_cases(2)]
  dropRole_idle [THEN idle_cases(2)]
  grantPrivileges_idle [THEN idle_cases(2)]
  revokePrivileges_idle [THEN idle_cases(2)]
  createUser_idle [THEN idle_cases(2)]
  changePassword_idle [THEN idle_cases(2)]
  setPassword_idle [THEN idle_cases(2)]
  grantRoles_idle [THEN idle_cases(2)]
  revokeRoles_idle [THEN idle_cases(2)]
  queryUser_idle [THEN idle_cases(2)]
  queryUsers_idle [THEN idle_cases(2)]
  dropUser_idle [THEN idle_cases(2)]
  scan_idle [THEN idle_cases(5)]
  scanApply_idle [THEN idle_cases(2)]
  apply_idle [THEN idle_cases(1)]
  queryApply_idle [THEN idle_cases(2)]
  aggregate_idle [THEN idle_cases(2)]
  jobInfo_idle [THEN idle_cases(2)]
  scanInfo_idle [THEN idle_cases(2)]
  getMany_idle [THEN idle_cases(2)]
  existsMany_idle [THEN idle_cases(2)]
  info_idle [THEN idle_cases(1)]
  infoMany_idle [THEN idle_cases(3)]
  addIndex_idle [THEN idle_cases(3)]
  dropIndex_idle [THEN idle_cases(3)]
  truncate_idle [THEN idle_cases(3)]
  register_idle [THEN idle_cases(4)]
  getRegistered_idle [THEN idle_cases(2)]
  deregister_idle [THEN idle_cases(3)]
  listRegistered_idle [THEN idle_cases(2)]
  put_idle [THEN idle_cases(5)]
  exists_idle [THEN idle_cases(2)]
  remove_idle [THEN idle_cases(5)]
  removeBin_idle [THEN idle_cases(5)]
  touch_idle [THEN idle_cases(3)]
  append_idle [THEN idle_cases(3)]
  prepend_idle [THEN idle_cases(3)]
  increment_idle [THEN idle_cases(3)]
  query_idle [THEN idle_cases(3)]
  operate_idle [THEN idle_cases(1)]
  operateOrdered_idle [THEN idle_cases(1)]

text \<open>
  Which methods still reach the servers when the connection cannot be used: \<open>get\<close>, which goes on
  after its check, and those that change the connection.
\<close>

definition unchecked_call :: "'e conv_ext_scheme \<Rightarrow> ('s, 'z) env_scheme \<Rightarrow> client \<times> 's \<Rightarrow> client \<times> 's \<Rightarrow> bool" where
  "unchecked_call E V x y \<longleftrightarrow>
     (\<exists>args st out. get_method E V (fst x) args (snd x) = Some (st, out, y)) \<or>
     (\<exists>st. close_method V (fst x) (snd x) = (st, y)) \<or> (\<exists>st. reconnect_method V (fst x) (snd x) = (st, y))"

lemma unchecked_calls:
  "get_method E V c args s = Some (st, out, y) \<Longrightarrow> unchecked_call E V (c, s) y"
  "close_method V c s = (st2, y) \<Longrightarrow> unchecked_call E V (c, s) y"
  "reconnect_method V c s = (st3, y) \<Longrightarrow> unchecked_call E V (c, s) y"
  by (auto simp: unchecked_call_def)

lemma method_call_idle:
  "method_call E F V (c, s) (c', s') \<Longrightarrow> \<not> usable c \<Longrightarrow> s' = s \<or> unchecked_call E V (c, s) (c', s')"
  by (erule method_callE)
    (rule disjI2, erule unchecked_calls | rule disjI1, erule (1) methods_idle)+

lemma any_method_idle:
  "any_method E F V A U (c, s) (c', s') \<Longrightarrow> \<not> usable c \<Longrightarrow> s' = s \<or> unchecked_call E V (c, s) (c', s')"
  by (erule any_methodE)
    (erule (1) method_call_idle | rule disjI1, erule (1) methods_idle | simp)+

end
