(* ===== verification/ProcessRuns.thy ===== *)
theory ProcessRuns
  imports ProcessProps IdleMethods SampleCalls AdminProps UdfProps
begin

text \<open>
  The properties of a whole process, of which \<open>ProcessProps\<close> holds the invariants: no use of a
  structure that is gone, its end, and what it leaks; and a run with a shared connection that an
  object and a session use.
\<close>

section \<open>No use of a structure that is gone\<close>

text \<open>
  C3. In every state a process can reach - objects made, constructed, also again, with shared or own
  connections, every method of the class called on them, destroyed and freed in any order, and the
  session handler opened and used in between - none of the operations uses a structure that is
  gone: neither those of any object nor those of the session handler. A session is read unless the
  client reports a record it does not give. A connection of its own is reached from no other object.
\<close>

theorem process_no_use_after_free:
  assumes "process_reachable C L E F V A U W (S, d)"
  shows "(\<forall>j obj. objects S j = Some obj \<longrightarrow>
      construct_method L V i args obj (sys_world S) \<noteq> None \<and> client_view obj (sys_world S) \<noteq> None \<and>
      aerospike_object_destructor V obj (sys_world S) \<noteq> None \<and>
      aerospike_object_free_storage V obj (sys_world S) \<noteq> None \<and>
      (\<forall>a k ob. obj_client obj = Some a \<and> \<not> obj_is_persistent obj \<and> objects S k = Some ob \<and>
         obj_client ob = Some a \<longrightarrow> k = j)) \<and>
    ps_open L W i path (d, sys_world S) \<noteq> None \<and>
    ps_write L W d sid val maxlifetime (sys_world S) \<noteq> None \<and>
    ps_destroy L W d sid (sys_world S) \<noteq> None \<and>
    ps_validate_sid L W d sid (sys_world S) \<noteq> None \<and>
    ps_create_sid L W d (sys_world S) \<noteq> None \<and>
    ps_update_timestamp L W d sid maxlifetime (sys_world S) \<noteq> None \<and>
    (gives_records W \<longrightarrow> ps_read L W d sid (sys_world S) \<noteq> None)"
proof -
  note inv = process_reachable_inv [OF assms]
  show ?thesis
    by (rule conjI [OF _ session_operations_run [OF inv]], intro allI impI)
      (rule object_operations_run [OF process_invD(1) [OF inv]])
qed

section \<open>The end of a process\<close>

text \<open>
  C4. Every process can end, whatever it did: its objects are finitely many, the destructors, the
  freeing of the objects and the end of the module all run through, and after them no object and
  no shared connection is left; exactly the shared structures and those only their own object has
  were freed.
\<close>

theorem process_winds_down:
  assumes "process_reachable C L E F V A U W (S, d)"
  shows "finite (dom (objects S)) \<and> (dom (objects S) \<subseteq> set js \<longrightarrow>
    (\<exists>S'. process_end V js S = Some S' \<and> objects S' = Map.empty \<and> plist (sys_world S') = [] \<and>
      dom (heap (sys_world S')) = dom (heap (sys_world S)) - shared (sys_world S) - owned S))"
  using finite_objects [OF assms] process_end_runs [OF process_reachable_inv [OF assms]] by auto

text \<open>
  C14. A process in which no object is constructed twice and every shared connection that is asked for
  is made frees everything: at its end no structure of the C client is left, whether it was shared,
  its object's own, or the session handler's.
\<close>

theorem orderly_process_leaks_nothing:
  assumes "process_reachable orderly L E F V A U W (S, d)" and "dom (objects S) \<subseteq> set js"
  shows "\<exists>S'. process_end V js S = Some S' \<and> objects S' = Map.empty \<and> heap (sys_world S') = Map.empty"
proof -
  obtain S' where S': "process_end V js S = Some S'" "objects S' = Map.empty"
      "dom (heap (sys_world S')) = dom (heap (sys_world S)) - shared (sys_world S) - owned S"
    using process_end_runs [OF process_reachable_inv [OF assms(1)] assms(2), of V] by blast
  moreover have "dom (heap (sys_world S)) \<subseteq> shared (sys_world S) \<union> owned S"
    using reachable_accounted [OF assms(1)] by (simp add: accounted_def)
  ultimately have "dom (heap (sys_world S')) = {}" by blast
  with S' show ?thesis by auto
qed

text \<open>
  A constructor that asks for a shared connection and fails to make it leaves its structure behind:
  it is in no list, and its object, which counts as shared, does not free it.
\<close>

theorem failed_shared_connection_leaks:
  assumes "process_reachable C L E F V A U W (S, d)" and "objects S j = Some obj"
    and "construct_method L V i (Some (z_config, True, z_options)) obj (sys_world S) = Some (st, t, obj', w)"
    and "obj_is_valid obj'" and "st \<noteq> AEROSPIKE_OK" and "dom (objects S) \<subseteq> set js"
  shows "\<exists>S'. process_end V js (put_object j obj' w S) = Some S' \<and>
    next_addr (sys_world S) \<in> dom (heap (sys_world S'))"
proof -
  let ?S = "put_object j obj' w S" and ?w = "sys_world S"
  note inv = process_reachable_inv [OF assms(1)]
  note D = process_invD [OF inv]
  have "j \<in> set js" using assms(2,6) by auto
  then have "dom (objects ?S) \<subseteq> set js" using assms(6) by (auto simp: put_object_def)
  from process_end_runs [OF process_inv_construct [OF inv assms(2,3)] this, of V] obtain S' where
    S': "process_end V js ?S = Some S'"
      "dom (heap (sys_world S')) = dom (heap (sys_world ?S)) - shared (sys_world ?S) - owned ?S" by blast
  have "connecting V ?w True st obj' w"
    using construct_cases [OF assms(3)] assms(4) by (auto simp: not_made_def)
  from connecting_makes [OF D(2,3) this] assms(5) have a: "alone ?w obj' w" "obj_is_persistent obj'"
    by (simp_all add: made_def)
  have old: "next_addr ?w \<notin> dom (heap ?w)" using D(2) by (auto simp: world_ok_def)
  then have "next_addr ?w \<notin> shared ?w" using shared_allocated [OF D(2)] by blast
  moreover have "owned_by S (- {j}) \<subseteq> dom (heap ?w)"
    using process_okD(1) [OF D(1)] unfolding owned_by_def by blast
  ultimately have "next_addr ?w \<in> dom (heap w) - shared w - owned ?S"
    using a old unfolding owned_put alone_def by auto
  with S' show ?thesis by (simp add: put_object_def)
qed

section \<open>An object without a connection\<close>

text \<open>
  C17. Whatever method is called on an object that was closed, whose construction failed or that was
  never constructed, the servers are left as they are, and so is the pointer of the object; only
  \<open>get\<close>, which does not heed its check, and the two methods that change the connection itself can
  reach them.
\<close>

theorem unusable_object_reaches_no_server:
  assumes "any_method E F V A U (c, s) (c', s')" and "\<not> usable c"
  shows "(s' = s \<or> unchecked_call E V (c, s) (c', s')) \<and> same_object c c'"
  using any_method_idle [OF assms] any_method_same [OF assms(1)] by (rule conjI)

section \<open>Applications\<close>

definition sample_process_udf_env :: "store udf_env" where
  "sample_process_udf_env = maintenance_env.extend sample_maintenance_env \<lparr>
     lua_user_path = Some ''/lua'', AS_CONFIG_PATH_MAX_SIZE = 256,
     AEROSPIKE_ERR_UDF = AEROSPIKE_STATUS 100, AEROSPIKE_ERR_UDF_NOT_FOUND = AEROSPIKE_STATUS 1301,
     AEROSPIKE_ERR_LUA_FILE_NOT_FOUND = AEROSPIKE_STATUS 1302,
     udf_get = (\<lambda>cfg p name t s. (not_found, \<lparr>udf_name = name, udf_type = t, udf_content = []\<rparr>, s)),
     udf_put = (\<lambda>cfg p name t b s. (as_error_init, s)), udf_put_wait = (\<lambda>cfg p name s. (as_error_init, s)),
     udf_remove = (\<lambda>cfg p name s. (as_error_init, s)), udf_list = (\<lambda>cfg p s. (as_error_init, [], s))\<rparr>"

definition sample_process_session_env :: "store session_env" where
  "sample_process_session_env = list_env.extend sample_list_env \<lparr>
     default_get = (\<lambda>cfg k s. case store_get k s of (err, r, k, s) \<Rightarrow> (err, r, s)),
     default_exists = (\<lambda>cfg k s. case store_get k s of (err, r, k, s) \<Rightarrow> (err, s)),
     default_remove = (\<lambda>cfg k s. (as_error_init, s)),
     session_create_id = (\<lambda>s. (Some ''id'', s))\<rparr>"

abbreviation "sample_run C \<equiv> process_reachable C sample_session_ext sample_operate_ext sample_query_ext
  sample_batch_env sample_admin_env sample_process_udf_env sample_process_session_env"

definition sample_first :: "store sys" where
  "sample_first = put_object 7 aerospike_create_object (sys_world (sys_init [])) (sys_init [])"

definition sample_built :: "(as_status \<times> thrown \<times> php_object \<times> store world) option" where
  "sample_built = construct_method sample_session_ext sample_batch_env sample_ini
     (Some (sample_config_array ''right'', True, None)) aerospike_create_object (sys_world sample_first)"

lemma sample_built_shared:
  "\<exists>t obj w. sample_built = Some (AEROSPIKE_OK, t, obj, w) \<and> obj_client obj = Some 0 \<and> obj_is_persistent obj"
proof -
  have "case sample_built of Some (st, t, obj, w) \<Rightarrow> st = AEROSPIKE_OK \<and> obj_client obj = Some 0 \<and> obj_is_persistent obj
      | None \<Rightarrow> False"
    by code_simp
  then show ?thesis by (auto split: option.splits prod.splits)
qed


lemma sample_first_run: "sample_run C (sample_first, None)"
  unfolding sample_first_def
  by (rule process_reachable.step [OF process_reachable.start], rule process_step.create_object)
    (simp add: sys_init_def)

text \<open>One object with a shared connection, and a session opened on the same hosts.\<close>

definition sample_second :: "store sys" where
  "sample_second = (case sample_built of
     Some (st, t, obj, w) \<Rightarrow> put_object 7 obj w sample_first | None \<Rightarrow> sample_first)"

definition sample_opening :: "(bool \<times> session_data option \<times> store world) option" where
  "sample_opening = ps_open sample_session_ext sample_process_session_env sample_ini ''test|php|db:3000''
     (None, sys_world sample_second)"

definition sample_third :: "store process" where
  "sample_third = (case sample_opening of
     Some (ok, d, w) \<Rightarrow> (sample_second\<lparr>sys_world := w\<rparr>, d) | None \<Rightarrow> (sample_second, None))"

lemma sample_second_run: "sample_run orderly (sample_second, None)"
proof -
  obtain t obj w where b: "sample_built = Some (AEROSPIKE_OK, t, obj, w)" using sample_built_shared by blast
  have "objects sample_first 7 = Some aerospike_create_object"
    by (simp add: sample_first_def put_object_def)
  moreover have "orderly aerospike_create_object AEROSPIKE_OK obj"
    by (simp add: orderly_def aerospike_create_object_def)
  moreover note b [unfolded sample_built_def]
  ultimately have "process_step orderly sample_session_ext sample_operate_ext sample_query_ext sample_batch_env
      sample_admin_env sample_process_udf_env sample_process_session_env (sample_first, None)
      (put_object 7 obj w sample_first, None)"
    by (blast intro: process_step.construct_object)
  from process_reachable.step [OF sample_first_run this]
  show ?thesis unfolding sample_second_def b option.case prod.case .
qed

lemma sample_third_run: "sample_run orderly sample_third"
proof (cases sample_opening)
  case None
  then show ?thesis using sample_second_run by (simp add: sample_third_def)
next
  case (Some x)
  obtain ok d w where x: "x = (ok, d, w)" by (cases x)
  from process_reachable.step [OF sample_second_run process_step.open_session
      [OF Some [unfolded sample_opening_def x]]] show ?thesis
    by (simp add: sample_third_def Some x)
qed

lemma sample_third_pair: "sample_run orderly (fst sample_third, snd sample_third)"
  using sample_third_run by simp

lemma sample_third_objects: "dom (objects (fst sample_third)) = {7}"
  using sample_built_shared
  by (auto simp: sample_third_def sample_second_def sample_first_def put_object_def sys_init_def
      split: option.splits prod.splits)

theorem process_no_use_after_free_witness:
  "ps_open sample_session_ext sample_process_session_env sample_ini ''test|php|db:3000''
     (snd sample_third, sys_world (fst sample_third)) \<noteq> None \<and>
   ps_read sample_session_ext sample_process_session_env (snd sample_third) ''id'' (sys_world (fst sample_third)) \<noteq> None"
proof -
  have "gives_records sample_process_session_env"
    by (auto simp: gives_records_def sample_process_session_env_def list_env.defs store_get_def not_found_def
        split: option.splits)
  with process_no_use_after_free [OF sample_third_pair,
      where sid = "''id''" and i = sample_ini and path = "''test|php|db:3000''"]
  show ?thesis by simp
qed

theorem process_winds_down_witness:
  "\<exists>S'. process_end sample_batch_env [7] (fst sample_third) = Some S' \<and> plist (sys_world S') = []"
  using process_winds_down [OF sample_third_pair, of "[7]"]
    sample_third_objects by auto

theorem orderly_process_leaks_nothing_witness:
  "\<exists>S'. process_end sample_batch_env [7] (fst sample_third) = Some S' \<and> heap (sys_world S') = Map.empty"
  using orderly_process_leaks_nothing [OF sample_third_pair, of "[7]"]
    sample_third_objects by auto

theorem unusable_object_reaches_no_server_witness:
  "\<exists>st out c' s'. dropUser_method sample_admin_env (sample_client\<lparr>is_connected := False\<rparr>) (Some (''u'', None)) [] =
      (st, out, c', s') \<and>
    (s' = [] \<or> unchecked_call sample_operate_ext sample_batch_env (sample_client\<lparr>is_connected := False\<rparr>, []) (c', s'))"
proof -
  let ?c = "sample_client\<lparr>is_connected := False\<rparr>"
  obtain st out c' s' where r: "dropUser_method sample_admin_env ?c (Some (''u'', None)) [] = (st, out, c', s')"
    by (cases "dropUser_method sample_admin_env ?c (Some (''u'', None)) []")
  then have "any_method sample_operate_ext sample_query_ext sample_batch_env sample_admin_env sample_process_udf_env
      (?c, []) (c', s')" by (rule any_method.dropUser_called)
  moreover have "\<not> usable ?c" by (simp add: usable_def)
  ultimately have "s' = [] \<or> unchecked_call sample_operate_ext sample_batch_env (?c, []) (c', s')"
    by (rule unusable_object_reaches_no_server [THEN conjunct1])
  with r show ?thesis by (intro exI conjI)
qed

end
