(* ===== verification/Spec2Isabelle.thy ===== *)
theory Spec2Isabelle
  imports ConversionProps KeyProps PolicyProps PredicateProps OperateProps HandlerProps MethodErrors
    OperateCalls PersistentProps ListProps BatchProps ScanProps GlobalsProps
    ConstantsProps Arguments SessionProps AdminProps UdfProps ModuleIni SharedStore ProcessRuns
begin

text \<open>
  A development of the Aerospike extension for PHP: the C sources under \<open>src/src\<close>, which convert
  PHP values to the structures of the Aerospike C client, call it, and convert what comes back.
  Paths below are relative to \<open>src/src\<close>.

  \<^bold>\<open>The program and the theories.\<close> A theory without a suffix models code, in the order of the code;
  \<open>...Spec\<close> holds contracts and the lemmas behind them, \<open>...Props\<close> the properties, \<open>Sample...\<close>
  concrete instances of the code outside the repository for the applications of the properties.

  \<^item> \<open>Prelude\<close>, \<open>Zend\<close>, \<open>ClientApi\<close>: machine integers and C strings; PHP values (\<open>zval\<close>) and arrays
    (\<open>htab\<close>, an association list in the order of the array); the structures of the C client and
    its functions on them.
  \<^item> \<open>Types\<close> (\<open>include/php_aerospike_types.h\<close>): the enumerations of operation codes and options.
  \<^item> \<open>ToServer\<close>, \<open>FromServer\<close>, \<open>Records\<close> (\<open>conversions.c\<close>, \<open>serializers.c\<close>): values, bins, records, keys,
    privileges and roles in both directions. \<open>ToServerSpec\<close> and \<open>FromServerSpec\<close> state them as
    partial functions and prove that the code with its out parameters, error structures and
    callbacks computes these; \<open>RoundTrip\<close> composes the two.
  \<^item> \<open>Policies\<close> (\<open>policy_conversions.c\<close>): each policy from an array of options. \<open>PolicySpec\<close> has the two
    contracts (a setter reads only its options; a conversion starts from the configured policy) as
    locales, with an interpretation for every setter and conversion.
  \<^item> \<open>Predicates\<close>, \<open>Queries\<close> (\<open>client/predicate.c\<close>, \<open>client/query.c\<close>): predicate arrays and where
    clauses.
  \<^item> \<open>Operate\<close>, \<open>Updates\<close> (\<open>client/operate.c\<close>, \<open>append.c\<close>, \<open>prepend.c\<close>, \<open>increment.c\<close>, \<open>touch.c\<close>): the
    classification of operations, the reading of their arguments, the two loops over the
    operations; \<open>ListMethods\<close> (\<open>client/list_operations.c\<close>): the fourteen list methods.
  \<^item> \<open>Client\<close>, \<open>Configuration\<close>, \<open>Persistent\<close>, \<open>Lifecycle\<close> (\<open>client/aerospike_class.c\<close>,
    \<open>client/php_client_utils.c\<close>, \<open>tls_config.c\<close>, \<open>persistent_list.c\<close>): the client object and its error,
    the configuration from ini settings and arrays, the list of shared connections, and the
    life of objects: construct, connect, close, destruct, free.
  \<^item> \<open>KeyValue\<close>, \<open>Batch\<close>, \<open>Scans\<close> (\<open>put.c\<close>, \<open>get.c\<close>, \<open>exists.c\<close>, \<open>remove.c\<close>, \<open>remove_bin.c\<close>,
    \<open>get_many.c\<close>, \<open>exists_many.c\<close>, \<open>scan.c\<close>, \<open>scan_apply.c\<close>, \<open>apply.c\<close>, \<open>scan_info.c\<close>, \<open>job_info.c\<close>,
    \<open>user_callbacks.c\<close>): the methods on records and the callbacks of the walks over them.
  \<^item> \<open>Admin\<close>, \<open>Info\<close>, \<open>Maintenance\<close>, \<open>Udf\<close> (\<open>admin.c\<close>, \<open>info.c\<close>, \<open>secondary_index.c\<close>, \<open>truncate.c\<close>,
    \<open>get_key_digest.c\<close>, \<open>get_nodes.c\<close>, \<open>udf.c\<close>): the other methods.
  \<^item> \<open>Session\<close> (\<open>client/aerospike_session.c\<close>): PHP sessions as records.
  \<^item> \<open>Process\<close>: the process as a whole, over the theories above: any method of the class on any object
    (\<open>any_method\<close> in \<open>AllMethods\<close>), construction and freeing, the session handler, and the start and
    the end of the module (\<open>PHP_GINIT\<close>, \<open>PHP_MINIT\<close>, \<open>PHP_GSHUTDOWN\<close> of \<open>aerospike.c\<close>).
  \<^item> \<open>Globals\<close>, \<open>ModuleIni\<close>, \<open>Constants\<close>, \<open>Arguments\<close> (\<open>user_serializers.c\<close>, \<open>log_handlers.c\<close>,
    \<open>logging.c\<close>, \<open>aerospike.c\<close>, \<open>php_aerospike.h\<close>, \<open>register_constants.c\<close>,
    \<open>register_policy_constants.c\<close>, \<open>include/aerospike_class.h\<close>): the callables a request registers, the
    ini entries, the class constants, the argument tables and the formats the methods parse.

  \<^bold>\<open>State.\<close> The fields of the record \<open>client\<close> are those of \<open>AerospikeClient\<close>; its pointer to the C
  client's structure is the configuration inside that structure, where only one object matters,
  and an address in the heap of a \<open>world\<close> in \<open>Persistent\<close>, \<open>Lifecycle\<close>, \<open>Session\<close> and \<open>Process\<close>, where
  sharing and freeing matter; \<open>client_view\<close> and \<open>after_method\<close> lead from one to the other. A method takes the arguments PHP's parser delivers (\<open>None\<close> when it
  fails), the client and the state \<open>'s\<close> of the servers, and gives the returned status, the
  value left in an argument passed by reference, the client with its error, and the servers. A use of a
  null pointer or of freed memory is the result \<open>None\<close>. \<open>Globals\<close> counts the references of
  callables, \<open>ModuleIni\<close> has the module globals as bytes at their offsets, \<open>Udf\<close> the files of the
  machine.

  \<^bold>\<open>The code outside the repository.\<close> Functions of the C client, of PHP's API where they depend on
  its version or on classes of a script, and the servers are fields of records of parameters
  (\<open>conv_ext\<close>, \<open>env\<close> and their extensions, one for each group of files). No behaviour of them is
  built in; a theorem that needs one names it: \<open>list_api\<close>, \<open>map_api\<close>, \<open>bytes_api\<close>, \<open>record_api\<close>,
  \<open>key_api\<close> for the containers, \<open>policy_api\<close> for the policies' initializers, \<open>created_record_api\<close>,
  \<open>store_api\<close>, \<open>session_api\<close> for servers that work. All of them hold of the instances in the
  \<open>Sample...\<close> theories, on which each theorem with a hypothesis is applied. The functions of the
  C library the code relies on (\<open>strncmp\<close>, \<open>strtol\<close>, \<open>snprintf\<close>, \<open>fread\<close>, \<open>fwrite\<close>) are definitions.

  \<^bold>\<open>Interfaces.\<close> \<open>php_array\<close> (\<open>Zend\<close>), \<open>policy_setter\<close> and \<open>policy_conversion\<close> (\<open>PolicySpec\<close>),
  \<open>callable_slot\<close> (\<open>GlobalsProps\<close>; one for each setter of a callable) and \<open>simulation\<close>
  (\<open>Simulation\<close>): single calls of the code that agree with an abstract object agree for every
  sequence; it is interpreted by the key-value methods of one client (\<open>KeyValueStore\<close>), of all
  objects of a process (\<open>SharedStore\<close>) and by the session handler (\<open>SessionProps\<close>).

  \<^bold>\<open>What is shown.\<close>

  \<^item> Conversions (\<open>ConversionProps\<close>, \<open>KeyProps\<close>): both directions compute their specifications for every
    value, storable values, records and keys survive the way there and back, and what is refused.
  \<^item> Key-value methods (\<open>HandlerProps\<close>, \<open>MethodErrors\<close>, \<open>KeyValueStore\<close>, \<open>SharedStore\<close>): any sequence of \<open>put\<close>, \<open>get\<close>,
    \<open>exists\<close> and \<open>remove\<close> is an abstract store of records of PHP values, for one client and for the
    objects of a process together; an unusable client makes no
    call; \<open>errorno\<close> is the status of the last call, with the exceptions.
  \<^item> Operations (\<open>OperateProps\<close>, \<open>OperateCalls\<close>, \<open>ListProps\<close>): a list of operations is sent completely and
    in order or not at all, no switch reads a variable its checks have not set, and every list
    method does what \<open>operate\<close> with that one operation does.
  \<^item> Policies and predicates (\<open>PolicyProps\<close>, \<open>PredicateProps\<close>): which options each policy reads, what it
    defaults to, and which where clause a predicate array becomes.
  \<^item> Connections (\<open>LifecycleSpec\<close>, \<open>ProcessInv\<close>, \<open>PersistentProps\<close>): an invariant of the objects, the heap and the
    list of shared connections, what a shared connection drops; the size of the search string.
  \<^item> The process (\<open>MethodFrame\<close>, \<open>AllMethods\<close>, \<open>IdleMethods\<close>, \<open>ProcessProps\<close>, \<open>ProcessRuns\<close>): no method changes which
    structure its object points to, who shares it and whether it is valid, and which of them reach the
    servers without a usable connection; every step, those of an
    open session included, keeps the invariant, so no run uses a structure that is gone; every
    process can end, and one that loses no structure (\<open>orderly\<close>) frees all of them.
  \<^item> Batches and scans (\<open>BatchProps\<close>, \<open>ScanProps\<close>): results in the order of the keys, records in order to
    the script until it returns false.
  \<^item> Sessions (\<open>SessionProps\<close>): the functions on an open session refine a store of session data, opening a
    session is safe for the clients that share its connection, making an id ends.
  \<^item> The other methods (\<open>AdminProps\<close>, \<open>InfoProps\<close>, \<open>UdfProps\<close>): errors, round trips of roles and users, the
    filter of nodes, the frames of a file that reach the servers.
  \<^item> The module (\<open>GlobalsProps\<close>, \<open>ModuleIni\<close>, \<open>ConstantsProps\<close>, \<open>Arguments\<close>): reference counts over a
    request, the reach of ini settings in memory, the tables.

  \<^bold>\<open>Loops.\<close> No definition has fuel. Loops over arrays and lists are structural recursion, values are
  converted by recursion on their size (\<open>function\<close> with \<open>size\<close> as measure), the copy of a file on what is left
  to read, and the loop that makes a session id counts down from the five attempts of the code.

  \<^bold>\<open>Not modelled.\<close> Failures of \<open>malloc\<close> and \<open>emalloc\<close>, memory other than the structures of the C client
  that is not freed (some leaks are findings), the mutex around query callbacks in thread-safe builds and threads in general: calls
  of the servers happen one after the other, and what happens between them is in the state
  \<open>'s\<close>. The order in which PHP ends a process (destructors, freeing of
  objects, the end of the module) is \<open>process_end\<close>; \<open>PHP_MSHUTDOWN\<close>, \<open>PHP_MINFO\<close>, the module entry and
  the registration of the session functions only hand pointers to PHP. \<open>call_setup_function\<close> in \<open>client/aerospike_session.c\<close> is used nowhere, and \<open>include/bytes_class.h\<close>
  declares methods that are defined nowhere. The classes \<open>Bytes\<close> and \<open>GeoJSON\<close>, the examples and the tests are
  PHP code.
\<close>

end
